(* ===== verification/Prelude.thy ===== *)
theory Prelude
  imports Main "HOL-Library.Word" "HOL-Library.AList"
begin

unbundle bit_operations_syntax

text \<open>
  The vocabulary shared by every component of the development.

  \<^item> Machine integers are words of the source's width; a fixed-size byte array
    \<open>[u8; n]\<close> is a word of \<open>8 * n\<close> bits (\<open>XorName\<close>, hashes, rewards addresses, BLS public keys),
    so its length is part of its type, and \<open>be_bytes\<close> / \<open>le_bytes\<close> give its bytes.
  \<^item> \<open>result\<close> is Rust's \<open>Result\<close>; \<open>and_then\<close> is the \<open>?\<close> operator, \<open>try_for_each\<close> and
    \<open>try_map\<close> are loops whose body may leave with \<open>?\<close>.
  \<^item> \<open>HashMap\<close> is an association list with distinct keys, its order one iteration order of the
    map; \<open>BTreeMap\<close> is an association list whose keys are strictly increasing.
  \<^item> \<open>prefix_code\<close> is the contract of the byte encodings that are hashed or signed: the encoding
    of a value can be read back off the front of any byte string, so it is injective and
    encodings can be concatenated.
  \<^item> \<open>rust_map\<close> is the contract of the two maps, interpreted for both.
  \<^item> Times (\<open>SystemTime\<close>, \<open>Instant\<close>, \<open>Duration\<close>) count nanoseconds.
\<close>

section \<open>Definitions\<close>

subsection \<open>Types\<close>

type_synonym u8 = "8 word"
type_synonym u16 = "16 word"
type_synonym u32 = "32 word"
type_synonym u64 = "64 word"
type_synonym u256 = "256 word"
type_synonym bytes = "8 word list"
type_synonym hash32 = "256 word"
type_synonym instant = int

datatype ('a, 'e) result = Ok 'a | Err 'e

subsection \<open>Results\<close>

fun and_then :: "('a, 'e) result \<Rightarrow> ('a \<Rightarrow> ('b, 'e) result) \<Rightarrow> ('b, 'e) result" where
  "and_then (Ok a) f = f a"
| "and_then (Err e) f = Err e"

fun map_err :: "('e \<Rightarrow> 'f) \<Rightarrow> ('a, 'e) result \<Rightarrow> ('a, 'f) result" where
  "map_err f (Ok a) = Ok a"
| "map_err f (Err e) = Err (f e)"

fun ok_or :: "'a option \<Rightarrow> 'e \<Rightarrow> ('a, 'e) result" where
  "ok_or (Some a) e = Ok a"
| "ok_or None e = Err e"

fun result_ok :: "('a, 'e) result \<Rightarrow> 'a option" where
  "result_ok (Ok a) = Some a"
| "result_ok (Err e) = None"

definition is_ok :: "('a, 'e) result \<Rightarrow> bool" where
  "is_ok r = (case r of Ok _ \<Rightarrow> True | Err _ \<Rightarrow> False)"

fun try_for_each :: "('a \<Rightarrow> (unit, 'e) result) \<Rightarrow> 'a list \<Rightarrow> (unit, 'e) result" where
  "try_for_each f [] = Ok ()"
| "try_for_each f (x # xs) = and_then (f x) (\<lambda>_. try_for_each f xs)"

fun try_map :: "('a \<Rightarrow> ('b, 'e) result) \<Rightarrow> 'a list \<Rightarrow> ('b list, 'e) result" where
  "try_map f [] = Ok []"
| "try_map f (x # xs) = and_then (f x) (\<lambda>y. and_then (try_map f xs) (\<lambda>ys. Ok (y # ys)))"

fun filter_map :: "('a \<Rightarrow> 'b option) \<Rightarrow> 'a list \<Rightarrow> 'b list" where
  "filter_map f [] = []"
| "filter_map f (x # xs) = (case f x of None \<Rightarrow> filter_map f xs | Some y \<Rightarrow> y # filter_map f xs)"

subsection \<open>Bytes of machine words\<close>

definition le_bytes :: "nat \<Rightarrow> 'a::len word \<Rightarrow> bytes" where
  "le_bytes n w = map (\<lambda>i. ucast (drop_bit (8 * i) w)) [0..<n]"

definition be_bytes :: "nat \<Rightarrow> 'a::len word \<Rightarrow> bytes" where
  "be_bytes n w = rev (le_bytes n w)"

definition of_be_bytes :: "bytes \<Rightarrow> 'a::len word" where
  "of_be_bytes bs = word_rcat bs"

subsection \<open>Durations\<close>

definition div_ceil :: "nat \<Rightarrow> nat \<Rightarrow> nat" where
  "div_ceil a b = (a + b - 1) div b"

definition from_secs :: "nat \<Rightarrow> int" where
  "from_secs s = int s * 1000000000"

definition as_secs :: "int \<Rightarrow> nat" where
  "as_secs d = nat (d div 1000000000)"

subsection \<open>Maps\<close>

type_synonym ('k, 'v) hash_map = "('k \<times> 'v) list"
type_synonym ('k, 'v) btree_map = "('k \<times> 'v) list"

definition hm_invar :: "('k, 'v) hash_map \<Rightarrow> bool" where
  "hm_invar m = distinct (map fst m)"

definition bt_invar :: "('k::linorder, 'v) btree_map \<Rightarrow> bool" where
  "bt_invar m = sorted_wrt (<) (map fst m)"

fun bt_insert :: "'k::linorder \<Rightarrow> 'v \<Rightarrow> ('k, 'v) btree_map \<Rightarrow> ('k, 'v) btree_map" where
  "bt_insert k v [] = [(k, v)]"
| "bt_insert k v ((k', v') # m) =
     (if k < k' then (k, v) # (k', v') # m
      else if k = k' then (k, v) # m
      else (k', v') # bt_insert k v m)"

definition retain :: "('k \<Rightarrow> 'v \<Rightarrow> bool) \<Rightarrow> ('k \<times> 'v) list \<Rightarrow> ('k \<times> 'v) list" where
  "retain p m = filter (\<lambda>(k, v). p k v) m"

definition contains_key :: "('k \<times> 'v) list \<Rightarrow> 'k \<Rightarrow> bool" where
  "contains_key m k = (map_of m k \<noteq> None)"

section \<open>Results and loops\<close>

named_theorems result_simps

lemma and_then_eq_Ok [simp, result_simps]:
  "and_then r f = Ok b \<longleftrightarrow> (\<exists>a. r = Ok a \<and> f a = Ok b)"
  by (cases r) auto

lemma and_then_eq_Err [result_simps]:
  "and_then r f = Err e \<longleftrightarrow> r = Err e \<or> (\<exists>a. r = Ok a \<and> f a = Err e)"
  by (cases r) auto

lemma and_then_cong [fundef_cong]:
  "r = r' \<Longrightarrow> (\<And>a. r' = Ok a \<Longrightarrow> f a = g a) \<Longrightarrow> and_then r f = and_then r' g"
  by (cases r') auto

lemma map_err_eq_Ok [simp, result_simps]: "map_err f r = Ok a \<longleftrightarrow> r = Ok a"
  by (cases r) auto

lemma ok_or_eq_Ok [simp, result_simps]: "ok_or x e = Ok a \<longleftrightarrow> x = Some a"
  by (cases x) auto

lemma is_ok_simps [simp]: "is_ok (Ok a)" "\<not> is_ok (Err e)"
  by (simp_all add: is_ok_def)

lemma is_ok_iff: "is_ok r \<longleftrightarrow> (\<exists>a. r = Ok a)"
  by (cases r) simp_all

lemma try_for_each_eq_Ok [simp, result_simps]:
  "try_for_each f xs = Ok u \<longleftrightarrow> (\<forall>x \<in> set xs. f x = Ok ())"
  by (induction xs) auto

lemma try_for_each_Err: "try_for_each f xs = Err e \<Longrightarrow> \<exists>x \<in> set xs. f x = Err e"
  by (induction xs) (auto simp: and_then_eq_Err)

lemma try_map_eq_Ok [result_simps]:
  "try_map f xs = Ok ys \<longleftrightarrow> list_all2 (\<lambda>x y. f x = Ok y) xs ys"
  by (induction xs arbitrary: ys) (auto simp: list_all2_Cons1)

lemma try_map_Ok_length: "try_map f xs = Ok ys \<Longrightarrow> length ys = length xs"
  by (simp add: try_map_eq_Ok list_all2_lengthD)

lemma try_map_Ok_nth: "try_map f xs = Ok ys \<Longrightarrow> i < length xs \<Longrightarrow> f (xs ! i) = Ok (ys ! i)"
  by (simp add: try_map_eq_Ok list_all2_conv_all_nth)

lemma try_map_total: "(\<And>x. x \<in> set xs \<Longrightarrow> f x = Ok (g x)) \<Longrightarrow> try_map f xs = Ok (map g xs)"
  by (induction xs) auto

lemma set_filter_map [simp]: "set (filter_map f xs) = {y. \<exists>x \<in> set xs. f x = Some y}"
  by (induction xs) (auto split: option.splits)

lemma filter_map_total: "(\<And>x. x \<in> set xs \<Longrightarrow> f x = Some (g x)) \<Longrightarrow> filter_map f xs = map g xs"
  by (induction xs) auto

section \<open>Byte encodings\<close>

lemma div_ceil_positive: "0 < a \<Longrightarrow> 0 < b \<Longrightarrow> 0 < div_ceil a b"
  by (simp add: div_ceil_def div_greater_zero_iff)

lemma length_le_bytes [simp]: "length (le_bytes n w) = n"
  by (simp add: le_bytes_def)

lemma length_be_bytes [simp]: "length (be_bytes n w) = n"
  by (simp add: be_bytes_def)

lemma le_bytes_inj:
  fixes w w' :: "'a::len word"
  assumes "LENGTH('a) \<le> 8 * n" and "le_bytes n w = le_bytes n w'"
  shows "w = w'"
proof (rule bit_word_eqI)
  fix i assume i: "i < LENGTH('a)"
  define j where "j = i div 8"
  from i assms(1) have j: "j < n" by (simp add: j_def)
  have "le_bytes n w ! j = le_bytes n w' ! j" using assms(2) by simp
  then have "(ucast (drop_bit (8 * j) w) :: u8) = ucast (drop_bit (8 * j) w')"
    using j by (simp add: le_bytes_def)
  then have "bit (ucast (drop_bit (8 * j) w) :: u8) (i mod 8)
      = bit (ucast (drop_bit (8 * j) w') :: u8) (i mod 8)"
    by simp
  then show "bit w i = bit w' i"
    by (simp add: bit_ucast_iff bit_drop_bit_eq j_def)
qed

lemma le_bytes_eq_iff [simp]:
  "LENGTH('a::len) \<le> 8 * n \<Longrightarrow> le_bytes n (w :: 'a word) = le_bytes n w' \<longleftrightarrow> w = w'"
  using le_bytes_inj by blast

lemma be_bytes_eq_iff [simp]:
  "LENGTH('a::len) \<le> 8 * n \<Longrightarrow> be_bytes n (w :: 'a word) = be_bytes n w' \<longleftrightarrow> w = w'"
  by (simp add: be_bytes_def)

lemma bit_of_be_bytes:
  "bit (of_be_bytes bs :: 'a::len word) i \<longleftrightarrow>
     i < LENGTH('a) \<and> i div 8 < length bs \<and> bit (rev bs ! (i div 8)) (i mod 8)"
  using bit_horner_sum_uint_exp_iff [of "rev bs" i]
  by (simp add: of_be_bytes_def word_rcat_def bit_word_of_int_iff)

lemma nth_le_bytes: "i < n \<Longrightarrow> le_bytes n w ! i = ucast (drop_bit (8 * i) w)"
  by (simp add: le_bytes_def)

lemma of_be_bytes_be_bytes:
  assumes "LENGTH('a::len) = 8 * n"
  shows "of_be_bytes (be_bytes n w) = (w :: 'a word)"
proof (rule bit_word_eqI)
  fix i assume "i < LENGTH('a)"
  then have "i div 8 < n" using assms by simp
  then show "bit (of_be_bytes (be_bytes n w) :: 'a word) i = bit w i"
    using \<open>i < LENGTH('a)\<close>
    by (simp add: bit_of_be_bytes be_bytes_def nth_le_bytes bit_ucast_iff bit_drop_bit_eq)
qed

lemma be_bytes_of_be_bytes:
  assumes "LENGTH('a::len) = 8 * n" and "length bs = n"
  shows "be_bytes n (of_be_bytes bs :: 'a word) = bs"
proof -
  have "le_bytes n (of_be_bytes bs :: 'a word) = rev bs"
  proof (rule nth_equalityI)
    fix i assume "i < length (le_bytes n (of_be_bytes bs :: 'a word))"
    then have i: "i < n" by simp
    show "le_bytes n (of_be_bytes bs :: 'a word) ! i = rev bs ! i"
    proof (rule bit_word_eqI)
      fix j :: nat assume j: "j < LENGTH(8)"
      then have "(8 * i + j) div 8 = i" "(8 * i + j) mod 8 = j" "8 * i + j < LENGTH('a)"
        using i assms(1) by auto
      then show "bit (le_bytes n (of_be_bytes bs :: 'a word) ! i) j = bit (rev bs ! i) j"
        using i j assms by (simp add: nth_le_bytes bit_ucast_iff bit_drop_bit_eq bit_of_be_bytes)
    qed
  qed (simp add: assms)
  then show ?thesis by (simp add: be_bytes_def)
qed

locale prefix_code =
  fixes enc :: "'a \<Rightarrow> bytes" and wf :: "'a \<Rightarrow> bool"
  assumes enc_append: "wf x \<Longrightarrow> wf y \<Longrightarrow> enc x @ s = enc y @ t \<Longrightarrow> x = y \<and> s = t"
begin

lemma enc_inject: "wf x \<Longrightarrow> wf y \<Longrightarrow> enc x = enc y \<longleftrightarrow> x = y"
  using enc_append [of x y "[]" "[]"] by auto

lemma enc_append_iff: "wf x \<Longrightarrow> wf y \<Longrightarrow> enc x @ s = enc y @ t \<longleftrightarrow> x = y \<and> s = t"
  using enc_append by blast

text \<open>A list of code words is read back when what follows it starts no code word.\<close>

lemma concat_enc_append:
  assumes "list_all wf xs" and "list_all wf ys"
    and "\<And>x u. wf x \<Longrightarrow> enc x @ u \<noteq> s" and "\<And>x u. wf x \<Longrightarrow> enc x @ u \<noteq> t"
    and "concat (map enc xs) @ s = concat (map enc ys) @ t"
  shows "xs = ys \<and> s = t"
  using assms(1,2,5)
proof (induction xs arbitrary: ys)
  case Nil
  show ?case
  proof (cases ys)
    case Nil
    then show ?thesis using \<open>concat (map enc []) @ s = concat (map enc ys) @ t\<close> by simp
  next
    case (Cons y ys')
    with Nil assms(3) [of y "concat (map enc ys') @ t"] show ?thesis by simp
  qed
next
  case (Cons x xs)
  then obtain y ys' where "ys = y # ys'"
    using assms(4) by (cases ys) auto
  then have "x = y \<and> concat (map enc xs) @ s = concat (map enc ys') @ t"
    using Cons.prems enc_append [of x y "concat (map enc xs) @ s" "concat (map enc ys') @ t"] by simp
  moreover have "xs = ys' \<and> s = t"
    using Cons.IH [of ys'] Cons.prems calculation \<open>ys = y # ys'\<close> by simp
  ultimately show ?case using \<open>ys = y # ys'\<close> by simp
qed

end

lemma prefix_code_fixed:
  assumes "\<And>x. length (enc x) = n" and "\<And>x y. enc x = enc y \<Longrightarrow> x = y"
  shows "prefix_code enc (\<lambda>_. True)"
  using assms by unfold_locales (metis append_eq_append_conv)

interpretation le32: prefix_code "le_bytes 4 :: u32 \<Rightarrow> bytes" "\<lambda>_. True"
  by (rule prefix_code_fixed) simp_all

interpretation le64: prefix_code "le_bytes 8 :: u64 \<Rightarrow> bytes" "\<lambda>_. True"
  by (rule prefix_code_fixed) simp_all

interpretation be64: prefix_code "be_bytes 8 :: u64 \<Rightarrow> bytes" "\<lambda>_. True"
  by (rule prefix_code_fixed) simp_all

interpretation be256: prefix_code "be_bytes 32 :: u256 \<Rightarrow> bytes" "\<lambda>_. True"
  by (rule prefix_code_fixed) simp_all

section \<open>Maps\<close>

locale rust_map =
  fixes lookup :: "'m \<Rightarrow> 'k \<Rightarrow> 'v option" and insert :: "'k \<Rightarrow> 'v \<Rightarrow> 'm \<Rightarrow> 'm"
    and remove :: "'k \<Rightarrow> 'm \<Rightarrow> 'm" and len :: "'m \<Rightarrow> nat" and invar :: "'m \<Rightarrow> bool"
  assumes lookup_insert: "invar m \<Longrightarrow> lookup (insert k v m) = (lookup m)(k \<mapsto> v)"
    and lookup_remove: "invar m \<Longrightarrow> lookup (remove k m) = (lookup m)(k := None)"
    and len_card: "invar m \<Longrightarrow> len m = card (dom (lookup m))"
    and finite_lookup: "finite (dom (lookup m))"
    and invar_insert: "invar m \<Longrightarrow> invar (insert k v m)"
    and invar_remove: "invar m \<Longrightarrow> invar (remove k m)"
begin

lemma len_insert:
  "invar m \<Longrightarrow> len (insert k v m) = (if lookup m k = None then Suc (len m) else len m)"
  using finite_lookup [of m]
  by (auto simp: len_card invar_insert lookup_insert card_insert_if domIff)

lemma len_remove:
  "invar m \<Longrightarrow> len (remove k m) = (if lookup m k = None then len m else len m - 1)"
  using finite_lookup [of m]
  by (auto simp: len_card invar_remove lookup_remove card_Diff_singleton_if domIff)

lemma len_insert_le: "invar m \<Longrightarrow> len (insert k v m) \<le> Suc (len m)"
  by (simp add: len_insert)

end

lemma bt_invar_Nil [simp]: "bt_invar []"
  by (simp add: bt_invar_def)

lemma bt_invar_Cons [simp]:
  "bt_invar ((k, v) # m) \<longleftrightarrow> bt_invar m \<and> (\<forall>k' \<in> fst ` set m. k < k')"
  by (auto simp: bt_invar_def)

lemma bt_invar_distinct: "bt_invar m \<Longrightarrow> distinct (map fst m)"
  by (simp add: bt_invar_def strict_sorted_iff)

lemma keys_bt_insert [simp]: "fst ` set (bt_insert k v m) = insert k (fst ` set m)"
  by (induction k v m rule: bt_insert.induct) auto

lemma bt_invar_insert [simp]: "bt_invar m \<Longrightarrow> bt_invar (bt_insert k v m)"
proof (induction k v m rule: bt_insert.induct)
  case (2 k v k' v' m)
  then show ?case by (auto dest: less_trans)
qed simp

lemma map_of_bt_insert [simp]: "bt_invar m \<Longrightarrow> map_of (bt_insert k v m) = (map_of m)(k \<mapsto> v)"
proof (induction m)
  case (Cons a m)
  obtain k' v' where [simp]: "a = (k', v')" by (cases a)
  show ?case using Cons by (auto simp: fun_eq_iff)
qed simp

lemma keys_delete [simp]: "fst ` set (AList.delete k m) = fst ` set m - {k}"
  by (simp add: AList.delete_keys flip: set_map)

lemma bt_invar_filter: "bt_invar m \<Longrightarrow> bt_invar (filter p m)"
  by (induction m) (auto simp: bt_invar_def)

lemma bt_invar_delete [simp]: "bt_invar m \<Longrightarrow> bt_invar (AList.delete k m)"
  by (simp add: AList.delete_eq bt_invar_filter)

lemma length_distinct_card: "distinct (map fst m) \<Longrightarrow> length m = card (dom (map_of m))"
  by (metis dom_map_of_conv_image_fst distinct_card length_map set_map)

interpretation hm: rust_map map_of AList.update AList.delete length hm_invar
  by unfold_locales
    (simp_all add: hm_invar_def AList.update_conv' AList.delete_conv' length_distinct_card
      finite_dom_map_of distinct_update distinct_delete)

interpretation bt: rust_map map_of bt_insert AList.delete length bt_invar
  by unfold_locales
    (simp_all add: AList.delete_conv' length_distinct_card finite_dom_map_of bt_invar_distinct)

lemma hm_invar_Nil [simp]: "hm_invar []"
  by (simp add: hm_invar_def)

lemma hm_invar_retain [simp]: "hm_invar m \<Longrightarrow> hm_invar (retain p m)"
  by (simp add: hm_invar_def retain_def distinct_map_filter)

lemma map_of_retain:
  "hm_invar m \<Longrightarrow> map_of (retain p m) k =
     (case map_of m k of None \<Rightarrow> None | Some v \<Rightarrow> if p k v then Some v else None)"
proof (induction m)
  case (Cons a m)
  obtain k' v' where [simp]: "a = (k', v')" by (cases a)
  have "map_of m k' = None" if "k = k'"
    using Cons.prems by (simp add: hm_invar_def map_of_eq_None_iff)
  then show ?case using Cons by (auto simp: retain_def hm_invar_def split: option.splits)
qed (simp add: retain_def)

lemma set_retain [simp]: "set (retain p m) = {(k, v) \<in> set m. p k v}"
  by (auto simp: retain_def)

lemma length_retain_le [simp]: "length (retain p m) \<le> length m"
  by (simp add: retain_def)

lemma contains_key_iff: "contains_key m k \<longleftrightarrow> k \<in> fst ` set m"
  by (auto simp: contains_key_def map_of_eq_None_iff)

lemma set_update_cases: "x \<in> set (AList.update k v m) \<Longrightarrow> x = (k, v) \<or> x \<in> set m"
  by (induction m) (auto split: if_splits)

lemma length_update_le: "length (AList.update k v m) \<le> Suc (length m)"
  by (induction m) auto

lemma set_delete: "set (AList.delete k m) = {(k', v) \<in> set m. k' \<noteq> k}"
  by (auto simp: AList.delete_eq)

lemma set_hm_update:
  assumes "hm_invar m" shows "set (AList.update k v m) = insert (k, v) {(k', v') \<in> set m. k' \<noteq> k}"
proof -
  have "(k', v') \<in> set (AList.update k v m) \<longleftrightarrow> map_of (AList.update k v m) k' = Some v'" for k' v'
    using hm.invar_insert [OF assms, of k v] by (simp add: hm_invar_def)
  then show ?thesis
    using assms by (auto simp: update_conv' hm_invar_def split: if_splits)
qed

lemma set_bt_insert:
  assumes "bt_invar m" shows "set (bt_insert k v m) = insert (k, v) {(k', v') \<in> set m. k' \<noteq> k}"
proof -
  have "(k', v') \<in> set (bt_insert k v m) \<longleftrightarrow> map_of (bt_insert k v m) k' = Some v'" for k' v'
    using bt_invar_distinct [OF bt.invar_insert [OF assms, of k v]] by simp
  then show ?thesis
    using assms bt_invar_distinct [OF assms] by (auto simp: bt.lookup_insert split: if_splits)
qed

lemma last_sort_key_max:
  assumes "x \<in> set xs" shows "f x \<le> f (last (sort_key f xs))"
proof -
  define ys where "ys = sort_key f xs"
  have x: "x \<in> set ys" and sorted: "sorted (map f ys)" using assms by (simp_all add: ys_def)
  from x obtain zs y where ys: "ys = zs @ [y]" by (cases ys rule: rev_cases) auto
  with x sorted have "f x \<le> f y" by (auto simp: sorted_append)
  then show ?thesis using ys by (simp add: ys_def [symmetric])
qed

lemmas hm_simps = hm.lookup_insert hm.lookup_remove hm.len_insert hm.len_remove
  hm.invar_insert hm.invar_remove

lemmas bt_simps = bt.lookup_insert bt.lookup_remove bt.len_insert bt.len_remove
  bt.invar_insert bt.invar_remove

end
