(* ===== verification/Protocol.thy ===== *)
theory Protocol
  imports Prelude
begin

text \<open>
  The protocol crate (\<open>src/ant-protocol/src\<close>): the addresses of the network (\<open>lib.rs\<close>,
  \<open>storage/address\<close>) and the header every stored record starts with (\<open>storage/header.rs\<close>).

  Third-party code the components call is the record \<open>crates\<close>, an argument of every definition
  that uses it. Its fields are the operations the source calls: \<open>hex\<close>, \<open>xor_name\<close>,
  the Kademlia distance of \<open>libp2p\<close>, the BLS keys of \<open>blsttc\<close>, the libp2p identity keys,
  \<open>sha3_256\<close> of \<open>tiny_keccak\<close>, \<open>evmlib::cryptography::hash\<close> and the MessagePack framing
  \<open>rmp_serde\<close> puts around a record header. What a theorem needs of one of them is a named hypothesis of
  that theorem.
\<close>

section \<open>Definitions\<close>

subsection \<open>Identifiers\<close>

type_synonym public_key = "384 word"
type_synonym bls_signature = "768 word"
type_synonym record_key = bytes
type_synonym xor_name = hash32
type_synonym distance = u256

datatype secret_key = SecretKey bytes
datatype peer_id = PeerId bytes
datatype p2p_public_key = P2pPublicKey bytes

datatype chunk_address = ChunkAddr xor_name
datatype graph_entry_address = GraphEntryAddr public_key
datatype pointer_address = PointerAddr public_key
datatype scratchpad_address = ScratchpadAddr public_key

datatype pointer_target =
    PT_ChunkAddress chunk_address
  | PT_GraphEntryAddress graph_entry_address
  | PT_PointerAddress pointer_address
  | PT_ScratchpadAddress scratchpad_address

subsection \<open>Third-party operations\<close>

record crates =
  hex_encode :: "bytes \<Rightarrow> string"
  hex_decode :: "string \<Rightarrow> bytes option"
  from_content :: "bytes \<Rightarrow> xor_name"
  kad_distance :: "bytes \<Rightarrow> bytes \<Rightarrow> distance"
  bls_public_key :: "secret_key \<Rightarrow> public_key"
  bls_sign :: "secret_key \<Rightarrow> bytes \<Rightarrow> bls_signature"
  bls_verify :: "public_key \<Rightarrow> bls_signature \<Rightarrow> bytes \<Rightarrow> bool"
  bls_encrypt :: "public_key \<Rightarrow> nat \<Rightarrow> bytes \<Rightarrow> bytes"
  bls_ciphertext_from_bytes :: "bytes \<Rightarrow> bytes option"
  bls_decrypt :: "secret_key \<Rightarrow> bytes \<Rightarrow> bytes option"
  size_of_scratchpad :: nat
  size_of_graph_entry :: nat
  bls_from_hex :: "string \<Rightarrow> public_key option"
  peer_id_from_bytes :: "bytes \<Rightarrow> peer_id option"
  peer_id_to_bytes :: "peer_id \<Rightarrow> bytes"
  p2p_decode_protobuf :: "bytes \<Rightarrow> p2p_public_key option"
  p2p_to_peer_id :: "p2p_public_key \<Rightarrow> peer_id"
  p2p_verify :: "p2p_public_key \<Rightarrow> bytes \<Rightarrow> bytes \<Rightarrow> bool"
  sha3 :: "bytes \<Rightarrow> hash32"
  evm_hash :: "bytes \<Rightarrow> hash32"
  rmp_pointer_target :: "pointer_target \<Rightarrow> bytes option"
  rmp_header_to_vec :: "u32 \<Rightarrow> bytes option"
  rmp_header_from_slice :: "bytes \<Rightarrow> u32 option"

definition pk_to_bytes :: "public_key \<Rightarrow> bytes" where
  "pk_to_bytes pk = be_bytes 48 pk"

definition xor_to_vec :: "xor_name \<Rightarrow> bytes" where
  "xor_to_vec x = be_bytes 32 x"

definition str_bytes :: "string \<Rightarrow> bytes" where
  "str_bytes s = map (\<lambda>c. word_of_nat (of_char c)) s"

subsection \<open>Data addresses\<close>

datatype address_parse_error = Hex | PublicKeyError | InvalidLength

fun chunk_xorname :: "chunk_address \<Rightarrow> xor_name" where
  "chunk_xorname (ChunkAddr x) = x"

fun chunk_to_hex :: "crates \<Rightarrow> chunk_address \<Rightarrow> string" where
  "chunk_to_hex E (ChunkAddr x) = hex_encode E (xor_to_vec x)"

text \<open>\<open>bytes.try_into()\<close> to \<open>[u8; 32]\<close> succeeds for exactly 32 bytes.\<close>

definition xor_from_vec :: "bytes \<Rightarrow> xor_name option" where
  "xor_from_vec bs = (if length bs = 32 then Some (of_be_bytes bs) else None)"

definition chunk_from_hex :: "crates \<Rightarrow> string \<Rightarrow> (chunk_address, address_parse_error) result" where
  "chunk_from_hex E h =
     and_then (ok_or (hex_decode E h) Hex) (\<lambda>bs.
     and_then (ok_or (xor_from_vec bs) InvalidLength) (\<lambda>xor.
     Ok (ChunkAddr xor)))"

fun graph_owner :: "graph_entry_address \<Rightarrow> public_key" where
  "graph_owner (GraphEntryAddr pk) = pk"

definition graph_xorname :: "crates \<Rightarrow> graph_entry_address \<Rightarrow> xor_name" where
  "graph_xorname E a = from_content E (pk_to_bytes (graph_owner a))"

definition graph_to_hex :: "crates \<Rightarrow> graph_entry_address \<Rightarrow> string" where
  "graph_to_hex E a = hex_encode E (pk_to_bytes (graph_owner a))"

definition graph_from_hex ::
    "crates \<Rightarrow> string \<Rightarrow> (graph_entry_address, address_parse_error) result" where
  "graph_from_hex E h =
     and_then (ok_or (bls_from_hex E h) PublicKeyError) (\<lambda>pk. Ok (GraphEntryAddr pk))"

fun pointer_owner :: "pointer_address \<Rightarrow> public_key" where
  "pointer_owner (PointerAddr pk) = pk"

definition pointer_xorname :: "crates \<Rightarrow> pointer_address \<Rightarrow> xor_name" where
  "pointer_xorname E a = from_content E (pk_to_bytes (pointer_owner a))"

definition pointer_to_hex :: "crates \<Rightarrow> pointer_address \<Rightarrow> string" where
  "pointer_to_hex E a = hex_encode E (pk_to_bytes (pointer_owner a))"

definition pointer_from_hex ::
    "crates \<Rightarrow> string \<Rightarrow> (pointer_address, address_parse_error) result" where
  "pointer_from_hex E h =
     and_then (ok_or (bls_from_hex E h) PublicKeyError) (\<lambda>pk. Ok (PointerAddr pk))"

fun scratchpad_owner :: "scratchpad_address \<Rightarrow> public_key" where
  "scratchpad_owner (ScratchpadAddr pk) = pk"

definition scratchpad_xorname :: "crates \<Rightarrow> scratchpad_address \<Rightarrow> xor_name" where
  "scratchpad_xorname E a = from_content E (pk_to_bytes (scratchpad_owner a))"

definition scratchpad_to_hex :: "crates \<Rightarrow> scratchpad_address \<Rightarrow> string" where
  "scratchpad_to_hex E a = hex_encode E (pk_to_bytes (scratchpad_owner a))"

definition scratchpad_from_hex ::
    "crates \<Rightarrow> string \<Rightarrow> (scratchpad_address, address_parse_error) result" where
  "scratchpad_from_hex E h =
     and_then (ok_or (bls_from_hex E h) PublicKeyError) (\<lambda>pk. Ok (ScratchpadAddr pk))"

subsection \<open>Network addresses\<close>

datatype network_address =
    NA_PeerId bytes
  | NA_ChunkAddress chunk_address
  | NA_GraphEntryAddress graph_entry_address
  | NA_ScratchpadAddress scratchpad_address
  | NA_PointerAddress pointer_address
  | NA_RecordKey bytes

fun as_bytes :: "crates \<Rightarrow> network_address \<Rightarrow> bytes" where
  "as_bytes E (NA_PeerId bs) = bs"
| "as_bytes E (NA_RecordKey bs) = bs"
| "as_bytes E (NA_ChunkAddress a) = xor_to_vec (chunk_xorname a)"
| "as_bytes E (NA_GraphEntryAddress a) = xor_to_vec (graph_xorname E a)"
| "as_bytes E (NA_ScratchpadAddress a) = xor_to_vec (scratchpad_xorname E a)"
| "as_bytes E (NA_PointerAddress a) = xor_to_vec (pointer_xorname E a)"

fun na_xorname :: "crates \<Rightarrow> network_address \<Rightarrow> xor_name option" where
  "na_xorname E (NA_ChunkAddress a) = Some (chunk_xorname a)"
| "na_xorname E (NA_GraphEntryAddress a) = Some (graph_xorname E a)"
| "na_xorname E (NA_ScratchpadAddress a) = Some (scratchpad_xorname E a)"
| "na_xorname E (NA_PointerAddress a) = Some (pointer_xorname E a)"
| "na_xorname E (NA_PeerId _) = None"
| "na_xorname E (NA_RecordKey _) = None"

fun as_peer_id :: "crates \<Rightarrow> network_address \<Rightarrow> peer_id option" where
  "as_peer_id E (NA_PeerId bs) = peer_id_from_bytes E bs"
| "as_peer_id E _ = None"

fun to_record_key :: "crates \<Rightarrow> network_address \<Rightarrow> record_key" where
  "to_record_key E (NA_RecordKey bs) = bs"
| "to_record_key E (NA_ChunkAddress a) = xor_to_vec (chunk_xorname a)"
| "to_record_key E (NA_GraphEntryAddress a) = xor_to_vec (graph_xorname E a)"
| "to_record_key E (NA_PointerAddress a) = xor_to_vec (pointer_xorname E a)"
| "to_record_key E (NA_ScratchpadAddress a) = xor_to_vec (scratchpad_xorname E a)"
| "to_record_key E (NA_PeerId bs) = bs"

definition na_distance :: "crates \<Rightarrow> network_address \<Rightarrow> network_address \<Rightarrow> distance" where
  "na_distance E a b = kad_distance E (as_bytes E a) (as_bytes E b)"

definition na_from_peer :: "crates \<Rightarrow> peer_id \<Rightarrow> network_address" where
  "na_from_peer E p = NA_PeerId (peer_id_to_bytes E p)"

definition na_from_key :: "record_key \<Rightarrow> network_address" where
  "na_from_key k = NA_RecordKey k"

definition na_from_xorname :: "xor_name \<Rightarrow> network_address" where
  "na_from_xorname x = NA_ChunkAddress (ChunkAddr x)"

subsection \<open>Protocol errors\<close>

datatype protocol_error =
    ChunkDoesNotExist network_address
  | ScratchpadCipherTextFailed
  | ScratchpadCipherTextInvalid
  | GetStoreQuoteFailed
  | QuoteGenerationFailed
  | ReplicatedRecordNotFound network_address network_address
  | RecordHeaderParsingFailed
  | RecordParsingFailed
  | RecordExists record_key
  | PutRecordFailed string
  | PE_OutdatedRecordCounter u64 u64
  | GetMerkleCandidateQuoteFailed string
  | FailedToSignMerkleCandidate string
  | PE_MerklePaymentVerificationFailed string
  | PE_TopologyVerificationFailed network_address nat nat nat "peer_id list" "peer_id list"
  | UnknownError

subsection \<open>Record headers\<close>

datatype data_types = DT_Chunk | DT_GraphEntry | DT_Pointer | DT_Scratchpad

fun get_index :: "data_types \<Rightarrow> u32" where
  "get_index DT_Chunk = 0"
| "get_index DT_GraphEntry = 1"
| "get_index DT_Pointer = 2"
| "get_index DT_Scratchpad = 3"

definition from_index :: "u32 \<Rightarrow> data_types option" where
  "from_index i =
     (if i = 0 then Some DT_Chunk
      else if i = 1 then Some DT_GraphEntry
      else if i = 2 then Some DT_Pointer
      else if i = 3 then Some DT_Scratchpad
      else None)"

datatype validation_type = VT_Chunk | VT_NonChunk xor_name

datatype record_kind =
    DataOnly data_types
  | DataWithPayment data_types
  | DataWithMerklePayment data_types

definition RECORD_KIND_PAYMENT_STARTING_INDEX :: u32 where
  "RECORD_KIND_PAYMENT_STARTING_INDEX = 10"

definition RECORD_KIND_MERKLE_PAYMENT_STARTING_INDEX :: u32 where
  "RECORD_KIND_MERKLE_PAYMENT_STARTING_INDEX = 20"

fun record_kind_serialize :: "record_kind \<Rightarrow> u32" where
  "record_kind_serialize (DataOnly d) = get_index d"
| "record_kind_serialize (DataWithPayment d) = RECORD_KIND_PAYMENT_STARTING_INDEX + get_index d"
| "record_kind_serialize (DataWithMerklePayment d) =
     RECORD_KIND_MERKLE_PAYMENT_STARTING_INDEX + get_index d"

definition record_kind_deserialize :: "u32 \<Rightarrow> record_kind option" where
  "record_kind_deserialize num =
     (let (kind, data_type_index) =
        (if num < RECORD_KIND_PAYMENT_STARTING_INDEX then (DataOnly, num)
         else if num < RECORD_KIND_MERKLE_PAYMENT_STARTING_INDEX
         then (DataWithPayment, num - RECORD_KIND_PAYMENT_STARTING_INDEX)
         else (DataWithMerklePayment, num - RECORD_KIND_MERKLE_PAYMENT_STARTING_INDEX))
      in map_option kind (from_index data_type_index))"

definition HEADER_SIZE :: nat where
  "HEADER_SIZE = 2"

record record_header = kind :: record_kind

record kad_record =
  rkey :: record_key
  rvalue :: bytes
  publisher :: "peer_id option"
  expires :: "instant option"

definition header_try_serialize :: "crates \<Rightarrow> record_header \<Rightarrow> (bytes, protocol_error) result" where
  "header_try_serialize E h =
     ok_or (rmp_header_to_vec E (record_kind_serialize (kind h))) RecordHeaderParsingFailed"

definition header_try_deserialize :: "crates \<Rightarrow> bytes \<Rightarrow> (record_header, protocol_error) result" where
  "header_try_deserialize E bs =
     ok_or (map_option (\<lambda>k. \<lparr>kind = k\<rparr>)
       (Option.bind (rmp_header_from_slice E bs) record_kind_deserialize))
     RecordHeaderParsingFailed"

definition header_from_record :: "crates \<Rightarrow> kad_record \<Rightarrow> (record_header, protocol_error) result" where
  "header_from_record E r =
     (if length (rvalue r) < HEADER_SIZE + 1 then Err RecordHeaderParsingFailed
      else header_try_deserialize E (take (HEADER_SIZE + 1) (rvalue r)))"

definition is_record_of_type_chunk :: "crates \<Rightarrow> kad_record \<Rightarrow> (bool, protocol_error) result" where
  "is_record_of_type_chunk E r =
     and_then (header_from_record E r) (\<lambda>h. Ok (kind h = DataOnly DT_Chunk))"

fun kind_data_type :: "record_kind \<Rightarrow> data_types" where
  "kind_data_type (DataOnly d) = d"
| "kind_data_type (DataWithPayment d) = d"
| "kind_data_type (DataWithMerklePayment d) = d"

definition get_data_type :: "crates \<Rightarrow> kad_record \<Rightarrow> (data_types, protocol_error) result" where
  "get_data_type E r = and_then (header_from_record E r) (\<lambda>h. Ok (kind_data_type (kind h)))"

text \<open>The payload codec of \<open>rmp_serde\<close> at the type in question is an argument.\<close>

definition try_deserialize_record ::
    "(bytes \<Rightarrow> 'a option) \<Rightarrow> kad_record \<Rightarrow> ('a, protocol_error) result" where
  "try_deserialize_record from_slice r =
     (if length (rvalue r) > HEADER_SIZE
      then ok_or (from_slice (drop HEADER_SIZE (rvalue r))) RecordParsingFailed
      else Err RecordParsingFailed)"

definition try_serialize_record ::
    "crates \<Rightarrow> ('a \<Rightarrow> bytes option) \<Rightarrow> 'a \<Rightarrow> record_kind \<Rightarrow> (bytes, protocol_error) result" where
  "try_serialize_record E to_vec data k =
     and_then (header_try_serialize E \<lparr>kind = k\<rparr>) (\<lambda>buf.
     and_then (ok_or (to_vec data) RecordParsingFailed) (\<lambda>payload.
     Ok (buf @ payload)))"

section \<open>Documented behaviour of third-party operations\<close>

definition hex_laws :: "crates \<Rightarrow> bool" where
  "hex_laws E \<longleftrightarrow>
     (\<forall>bs. length (hex_encode E bs) = 2 * length bs) \<and>
     (\<forall>bs. hex_decode E (hex_encode E bs) = Some bs)"

text \<open>MessagePack writes a one-field struct holding a number below 128 as two bytes, and reads it
  back off the front of a longer slice.\<close>

definition rmp_header_laws :: "crates \<Rightarrow> bool" where
  "rmp_header_laws E \<longleftrightarrow>
     (\<forall>n. n < 128 \<longrightarrow> (\<exists>bs. rmp_header_to_vec E n = Some bs \<and> length bs = 2 \<and>
        (\<forall>rest. rmp_header_from_slice E (bs @ rest) = Some n)))"

text \<open>A BLS signature verifies under the public key of the key that made it, and a ciphertext made
  for that key, whatever the randomness, is read back and decrypted by it.\<close>

definition bls_laws :: "crates \<Rightarrow> bool" where
  "bls_laws E \<longleftrightarrow>
     (\<forall>sk msg. bls_verify E (bls_public_key E sk) (bls_sign E sk msg) msg) \<and>
     (\<forall>sk rnd msg. \<exists>ct. bls_ciphertext_from_bytes E (bls_encrypt E (bls_public_key E sk) rnd msg) = Some ct \<and>
        bls_decrypt E sk ct = Some msg)"

text \<open>A concrete choice of every operation, at which the witnesses evaluate the theorems. Its hash
  functions keep the low bits of their input, and a signature repeats the key and the message's
  front.\<close>

definition hex_digit :: "nat \<Rightarrow> char" where
  "hex_digit n = ''0123456789abcdef'' ! n"

definition hex_digit_val :: "char \<Rightarrow> nat option" where
  "hex_digit_val c = map_of (zip ''0123456789abcdef'' [0..<16]) c"

fun sample_hex_decode :: "string \<Rightarrow> bytes option" where
  "sample_hex_decode [] = Some []"
| "sample_hex_decode [c] = None"
| "sample_hex_decode (c # d # cs) =
     (case (hex_digit_val c, hex_digit_val d, sample_hex_decode cs) of
        (Some x, Some y, Some bs) \<Rightarrow> Some (word_of_nat (16 * x + y) # bs)
      | _ \<Rightarrow> None)"

definition sample_hex_encode :: "bytes \<Rightarrow> string" where
  "sample_hex_encode bs = concat (map (\<lambda>b. [hex_digit (unat b div 16), hex_digit (unat b mod 16)]) bs)"

definition sample_crates :: crates where
  "sample_crates = \<lparr>
     hex_encode = sample_hex_encode,
     hex_decode = sample_hex_decode,
     from_content = of_be_bytes,
     kad_distance = (\<lambda>a b. of_be_bytes a XOR of_be_bytes b),
     bls_public_key = (\<lambda>sk. case sk of SecretKey bs \<Rightarrow> of_be_bytes bs),
     bls_sign = (\<lambda>sk msg. of_be_bytes ((case sk of SecretKey bs \<Rightarrow> be_bytes 48 (of_be_bytes bs :: public_key)) @ take 48 msg)),
     bls_verify = (\<lambda>pk sig msg. sig = of_be_bytes (be_bytes 48 pk @ take 48 msg)),
     bls_encrypt = (\<lambda>pk rnd msg. msg),
     bls_ciphertext_from_bytes = Some,
     bls_decrypt = (\<lambda>sk ct. Some ct),
     size_of_scratchpad = 184,
     size_of_graph_entry = 272,
     bls_from_hex = (\<lambda>h. map_option of_be_bytes (sample_hex_decode h)),
     peer_id_from_bytes = (\<lambda>bs. Some (PeerId bs)),
     peer_id_to_bytes = (\<lambda>p. case p of PeerId bs \<Rightarrow> bs),
     p2p_decode_protobuf = (\<lambda>bs. Some (P2pPublicKey bs)),
     p2p_to_peer_id = (\<lambda>pk. case pk of P2pPublicKey bs \<Rightarrow> PeerId bs),
     p2p_verify = (\<lambda>pk msg sig. sig = []),
     sha3 = of_be_bytes,
     evm_hash = of_be_bytes,
     rmp_pointer_target = (\<lambda>t. Some (case t of
        PT_ChunkAddress (ChunkAddr x) \<Rightarrow> 0 # be_bytes 32 x
      | PT_GraphEntryAddress (GraphEntryAddr pk) \<Rightarrow> 1 # be_bytes 48 pk
      | PT_PointerAddress (PointerAddr pk) \<Rightarrow> 2 # be_bytes 48 pk
      | PT_ScratchpadAddress (ScratchpadAddr pk) \<Rightarrow> 3 # be_bytes 48 pk)),
     rmp_header_to_vec = (\<lambda>n. if n < 128 then Some [145, ucast n] else None),
     rmp_header_from_slice = (\<lambda>bs. case bs of a # b # _ \<Rightarrow> if a = 145 then Some (ucast b) else None | _ \<Rightarrow> None)\<rparr>"

section \<open>Lemmas\<close>

lemma hex_digit_val_hex_digit: "n < 16 \<Longrightarrow> hex_digit_val (hex_digit n) = Some n"
proof -
  have "list_all (\<lambda>n. hex_digit_val (hex_digit n) = Some n) [0..<16]" by code_simp
  then show "n < 16 \<Longrightarrow> hex_digit_val (hex_digit n) = Some n" by (simp add: list_all_iff)
qed

lemma sample_hex_decode_encode: "sample_hex_decode (sample_hex_encode bs) = Some bs"
proof (induction bs)
  case (Cons b bs)
  have "unat b < 256" using unsigned_less [of b] by simp
  then have "unat b div 16 < 16" by simp
  then show ?case
    using Cons by (simp add: sample_hex_encode_def hex_digit_val_hex_digit)
qed (simp add: sample_hex_encode_def)

lemma sample_hex_laws: "hex_laws sample_crates"
proof -
  have "length (sample_hex_encode bs) = 2 * length bs" for bs
    by (induction bs) (simp_all add: sample_hex_encode_def)
  then show ?thesis
    by (simp add: hex_laws_def sample_crates_def sample_hex_decode_encode)
qed

lemma sample_rmp_header_laws: "rmp_header_laws sample_crates"
proof -
  have "ucast (ucast n :: u8) = n" if "n < 128" for n :: u32
  proof -
    from that have "unat n < 128" by (simp add: word_less_nat_alt)
    then show ?thesis by (simp add: word_unat_eq_iff unsigned_ucast_eq take_bit_eq_mod unat_mod)
  qed
  then show ?thesis by (simp add: rmp_header_laws_def sample_crates_def)
qed

lemma sample_bls_laws: "bls_laws sample_crates"
  by (simp add: bls_laws_def sample_crates_def split: secret_key.splits)

lemma length_pk_to_bytes [simp]: "length (pk_to_bytes pk) = 48"
  by (simp add: pk_to_bytes_def)

lemma pk_to_bytes_eq_iff [simp]: "pk_to_bytes a = pk_to_bytes b \<longleftrightarrow> a = b"
  by (simp add: pk_to_bytes_def)

lemma length_xor_to_vec [simp]: "length (xor_to_vec x) = 32"
  by (simp add: xor_to_vec_def)

lemma xor_to_vec_eq_iff [simp]: "xor_to_vec a = xor_to_vec b \<longleftrightarrow> a = b"
  by (simp add: xor_to_vec_def)

lemma xor_from_vec_to_vec [simp]: "xor_from_vec (xor_to_vec x) = Some x"
  by (simp add: xor_from_vec_def xor_to_vec_def of_be_bytes_be_bytes)

lemma xor_from_vec_eq_Some: "xor_from_vec bs = Some x \<longleftrightarrow> bs = xor_to_vec x"
  by (auto simp: xor_from_vec_def xor_to_vec_def be_bytes_of_be_bytes of_be_bytes_be_bytes)

lemma length_str_bytes [simp]: "length (str_bytes s) = length s"
  by (simp add: str_bytes_def)

lemma str_bytes_eq_iff [simp]: "str_bytes a = str_bytes b \<longleftrightarrow> a = b"
proof -
  have "inj (\<lambda>c. word_of_nat (of_char c) :: u8)"
  proof (rule injI)
    fix c d :: char
    assume "(word_of_nat (of_char c) :: u8) = word_of_nat (of_char d)"
    then have "(of_char c :: nat) mod 256 = of_char d mod 256"
      by (simp add: word_of_nat_eq_iff take_bit_eq_mod)
    then show "c = d"
      by (metis char_of_def char_of_char of_char_mod_256)
  qed
  then show ?thesis by (simp add: str_bytes_def inj_map_eq_map)
qed

lemma hex_encode_eq_iff: "hex_laws E \<Longrightarrow> hex_encode E a = hex_encode E b \<longleftrightarrow> a = b"
  by (metis hex_laws_def option.inject)

lemma as_bytes_to_record_key: "as_bytes E a = to_record_key E a"
  by (cases a) simp_all

lemma to_record_key_from_key [simp]: "to_record_key E (na_from_key k) = k"
  by (simp add: na_from_key_def)

lemma na_distance_from_record_key:
  "na_distance E l (na_from_key (to_record_key E a)) = na_distance E l a"
  by (simp add: na_distance_def na_from_key_def as_bytes_to_record_key)

lemma from_index_get_index [simp]: "from_index (get_index d) = Some d"
  by (cases d) (simp_all add: from_index_def)

lemma get_index_from_index: "from_index i = Some d \<Longrightarrow> get_index d = i"
  by (auto simp: from_index_def split: if_splits)

lemma get_index_less: "get_index d < 4"
  by (cases d) simp_all

lemmas kind_index_defs = RECORD_KIND_PAYMENT_STARTING_INDEX_def
  RECORD_KIND_MERKLE_PAYMENT_STARTING_INDEX_def

lemma record_kind_deserialize_serialize: "record_kind_deserialize (record_kind_serialize k) = Some k"
proof (cases k)
  case (DataOnly d)
  then show ?thesis
    by (cases d) (simp_all add: record_kind_deserialize_def kind_index_defs from_index_def)
next
  case (DataWithPayment d)
  then show ?thesis
    by (cases d) (simp_all add: record_kind_deserialize_def kind_index_defs from_index_def)
next
  case (DataWithMerklePayment d)
  then show ?thesis
    by (cases d) (simp_all add: record_kind_deserialize_def kind_index_defs from_index_def)
qed

lemma record_kind_serialize_deserialize:
  "record_kind_deserialize n = Some k \<Longrightarrow> record_kind_serialize k = n"
  by (auto simp: record_kind_deserialize_def kind_index_defs dest!: get_index_from_index
      split: if_splits)

lemma record_kind_serialize_less: "record_kind_serialize k < 128"
proof (cases k)
  case (DataOnly d)
  then show ?thesis by (cases d) simp_all
next
  case (DataWithPayment d)
  then show ?thesis by (cases d) (simp_all add: kind_index_defs)
next
  case (DataWithMerklePayment d)
  then show ?thesis by (cases d) (simp_all add: kind_index_defs)
qed

end
