(* ===== verification/Storage_Types.thy ===== *)
theory Storage_Types
  imports Protocol "HOL-Library.List_Lexorder" "HOL-Library.Product_Lexorder"
begin

text \<open>
  The four kinds of data a node stores, from \<^verbatim>\<open>ant-protocol/src/storage/\<close>: chunks
  (\<^verbatim>\<open>chunks.rs\<close>), scratchpads (\<^verbatim>\<open>scratchpad.rs\<close>), pointers (\<^verbatim>\<open>pointer.rs\<close>) and graph entries
  (\<^verbatim>\<open>graph.rs\<close>). BLS keys, signatures and encryption are operations of \<^typ>\<open>crates\<close>; encryption is
  randomised in the library, so the operations that encrypt take the randomness as an argument.
  The lemmas show which fields a signature fixes and that the constructors build data that verifies.
\<close>

section \<open>Chunks\<close>

record chunk =
  ch_address :: chunk_address
  ch_value :: bytes

definition BROTLI_MAX_OVERHEAD_BYTES :: nat where "BROTLI_MAX_OVERHEAD_BYTES = 16"
definition PKCS7_MAX_PADDING_BYTES :: nat where "PKCS7_MAX_PADDING_BYTES = 16"
definition CHUNK_MAX_RAW_SIZE :: nat where "CHUNK_MAX_RAW_SIZE = 4 * 1024 * 1024"
definition CHUNK_MAX_SIZE :: nat where
  "CHUNK_MAX_SIZE = CHUNK_MAX_RAW_SIZE + BROTLI_MAX_OVERHEAD_BYTES + PKCS7_MAX_PADDING_BYTES"

definition chunk_new :: "crates \<Rightarrow> bytes \<Rightarrow> chunk" where
  "chunk_new E v = \<lparr>ch_address = ChunkAddr (from_content E v), ch_value = v\<rparr>"

definition chunk_network_address :: "chunk \<Rightarrow> network_address" where
  "chunk_network_address c = NA_ChunkAddress (ch_address c)"

definition chunk_name :: "chunk \<Rightarrow> xor_name" where
  "chunk_name c = chunk_xorname (ch_address c)"

definition chunk_size :: "chunk \<Rightarrow> nat" where
  "chunk_size c = length (ch_value c)"

definition chunk_is_too_big :: "chunk \<Rightarrow> bool" where
  "chunk_is_too_big c \<longleftrightarrow> chunk_size c > CHUNK_MAX_SIZE"

text \<open>The serde implementations send the value alone, through the byte-string codec of the
  serialiser (arguments \<open>ser\<close> and \<open>de\<close>).\<close>

definition chunk_serialize :: "(bytes \<Rightarrow> bytes) \<Rightarrow> chunk \<Rightarrow> bytes" where
  "chunk_serialize ser c = ser (ch_value c)"

definition chunk_deserialize :: "crates \<Rightarrow> (bytes \<Rightarrow> bytes option) \<Rightarrow> bytes \<Rightarrow> chunk option" where
  "chunk_deserialize E de bs = (case de bs of None \<Rightarrow> None | Some v \<Rightarrow> Some (chunk_new E v))"

section \<open>Scratchpads\<close>

record scratchpad =
  sp_address :: scratchpad_address
  sp_data_encoding :: u64
  sp_encrypted_data :: bytes
  sp_counter :: u64
  sp_signature :: bls_signature

definition SCRATCHPAD_MAX_SIZE :: nat where "SCRATCHPAD_MAX_SIZE = 4 * 1024 * 1024"

definition sp_bytes_for_signature :: "crates \<Rightarrow> scratchpad_address \<Rightarrow> u64 \<Rightarrow> bytes \<Rightarrow> u64 \<Rightarrow> bytes" where
  "sp_bytes_for_signature E addr enc dat c =
     be_bytes 8 enc @ str_bytes (scratchpad_to_hex E addr) @ be_bytes 8 c @ dat"

definition sp_new :: "crates \<Rightarrow> nat \<Rightarrow> secret_key \<Rightarrow> u64 \<Rightarrow> bytes \<Rightarrow> u64 \<Rightarrow> scratchpad" where
  "sp_new E rnd owner enc unencrypted c =
    (let pk = bls_public_key E owner;
         encrypted = bls_encrypt E pk rnd unencrypted;
         addr = ScratchpadAddr pk;
         sig = bls_sign E owner (sp_bytes_for_signature E addr enc encrypted c)
     in \<lparr>sp_address = addr, sp_data_encoding = enc, sp_encrypted_data = encrypted,
         sp_counter = c, sp_signature = sig\<rparr>)"

definition sp_new_with_signature :: "public_key \<Rightarrow> u64 \<Rightarrow> bytes \<Rightarrow> u64 \<Rightarrow> bls_signature \<Rightarrow> scratchpad" where
  "sp_new_with_signature owner enc encrypted c sig =
     \<lparr>sp_address = ScratchpadAddr owner, sp_data_encoding = enc, sp_encrypted_data = encrypted,
      sp_counter = c, sp_signature = sig\<rparr>"

definition sp_owner :: "scratchpad \<Rightarrow> public_key" where
  "sp_owner s = scratchpad_owner (sp_address s)"

text \<open>The counter is a \<^verbatim>\<open>u64\<close>: at its largest value the increment wraps in a release build.\<close>

definition sp_update :: "crates \<Rightarrow> nat \<Rightarrow> bytes \<Rightarrow> secret_key \<Rightarrow> scratchpad \<Rightarrow> scratchpad" where
  "sp_update E rnd unencrypted sk s =
    (let s1 = s\<lparr>sp_counter := sp_counter s + 1\<rparr>;
         pk = sp_owner s1;
         addr = ScratchpadAddr pk;
         s2 = s1\<lparr>sp_encrypted_data := bls_encrypt E pk rnd unencrypted\<rparr>;
         to_sign = sp_bytes_for_signature E addr (sp_data_encoding s2) (sp_encrypted_data s2) (sp_counter s2)
     in s2\<lparr>sp_signature := bls_sign E sk to_sign\<rparr>)"

definition sp_verify_signature :: "crates \<Rightarrow> scratchpad \<Rightarrow> bool" where
  "sp_verify_signature E s =
     bls_verify E (sp_owner s) (sp_signature s)
       (sp_bytes_for_signature E (sp_address s) (sp_data_encoding s) (sp_encrypted_data s) (sp_counter s))"

definition sp_decrypt_data :: "crates \<Rightarrow> secret_key \<Rightarrow> scratchpad \<Rightarrow> (bytes, protocol_error) result" where
  "sp_decrypt_data E sk s =
     and_then (ok_or (bls_ciphertext_from_bytes E (sp_encrypted_data s)) ScratchpadCipherTextFailed) (\<lambda>cipher.
     and_then (ok_or (bls_decrypt E sk cipher) ScratchpadCipherTextInvalid) (\<lambda>bs. Ok bs))"

definition sp_encrypted_data_hash :: "crates \<Rightarrow> scratchpad \<Rightarrow> xor_name" where
  "sp_encrypted_data_hash E s = from_content E (sp_encrypted_data s)"

definition sp_network_address :: "scratchpad \<Rightarrow> network_address" where
  "sp_network_address s = NA_ScratchpadAddress (sp_address s)"

definition sp_xorname :: "crates \<Rightarrow> scratchpad \<Rightarrow> xor_name" where
  "sp_xorname E s = scratchpad_xorname E (sp_address s)"

definition sp_payload_size :: "scratchpad \<Rightarrow> nat" where
  "sp_payload_size s = length (sp_encrypted_data s)"

definition sp_size :: "crates \<Rightarrow> scratchpad \<Rightarrow> nat" where
  "sp_size E s = size_of_scratchpad E + sp_payload_size s"

definition sp_is_too_big :: "crates \<Rightarrow> scratchpad \<Rightarrow> bool" where
  "sp_is_too_big E s \<longleftrightarrow> sp_size E s > SCRATCHPAD_MAX_SIZE"

definition sp_scratchpad_hash :: "crates \<Rightarrow> scratchpad \<Rightarrow> xor_name" where
  "sp_scratchpad_hash E s = from_content E
     (str_bytes (scratchpad_to_hex E (sp_address s)) @ be_bytes 8 (sp_data_encoding s) @
      sp_encrypted_data s @ be_bytes 8 (sp_counter s) @ be_bytes 96 (sp_signature s))"

section \<open>Pointers\<close>

record pointer =
  pt_owner :: public_key
  pt_counter :: u64
  pt_target :: pointer_target
  pt_signature :: bls_signature

fun pt_target_xorname :: "crates \<Rightarrow> pointer_target \<Rightarrow> xor_name" where
  "pt_target_xorname E (PT_ChunkAddress a) = chunk_xorname a"
| "pt_target_xorname E (PT_GraphEntryAddress a) = graph_xorname E a"
| "pt_target_xorname E (PT_PointerAddress a) = pointer_xorname E a"
| "pt_target_xorname E (PT_ScratchpadAddress a) = scratchpad_xorname E a"

fun pt_target_to_hex :: "crates \<Rightarrow> pointer_target \<Rightarrow> string" where
  "pt_target_to_hex E (PT_ChunkAddress a) = chunk_to_hex E a"
| "pt_target_to_hex E (PT_GraphEntryAddress a) = graph_to_hex E a"
| "pt_target_to_hex E (PT_PointerAddress a) = pointer_to_hex E a"
| "pt_target_to_hex E (PT_ScratchpadAddress a) = scratchpad_to_hex E a"

definition pt_bytes_to_sign :: "crates \<Rightarrow> public_key \<Rightarrow> u64 \<Rightarrow> pointer_target \<Rightarrow> bytes" where
  "pt_bytes_to_sign E owner c t =
    (let counter_bytes = if c > 0xFFFFFFFF then le_bytes 8 c else le_bytes 4 (ucast c :: u32)
     in pk_to_bytes owner @ counter_bytes @
        (case rmp_pointer_target E t of Some bs \<Rightarrow> bs | None \<Rightarrow> []))"

definition pt_new :: "crates \<Rightarrow> secret_key \<Rightarrow> u64 \<Rightarrow> pointer_target \<Rightarrow> pointer" where
  "pt_new E owner c t =
    (let pubkey = bls_public_key E owner
     in \<lparr>pt_owner = pubkey, pt_counter = c, pt_target = t,
         pt_signature = bls_sign E owner (pt_bytes_to_sign E pubkey c t)\<rparr>)"

definition pt_new_with_signature :: "public_key \<Rightarrow> u64 \<Rightarrow> pointer_target \<Rightarrow> bls_signature \<Rightarrow> pointer" where
  "pt_new_with_signature owner c t sig =
     \<lparr>pt_owner = owner, pt_counter = c, pt_target = t, pt_signature = sig\<rparr>"

definition pt_address :: "pointer \<Rightarrow> pointer_address" where
  "pt_address p = PointerAddr (pt_owner p)"

definition pt_bytes_for_signature :: "crates \<Rightarrow> pointer \<Rightarrow> bytes" where
  "pt_bytes_for_signature E p = pt_bytes_to_sign E (pt_owner p) (pt_counter p) (pt_target p)"

definition pt_xorname :: "crates \<Rightarrow> pointer \<Rightarrow> xor_name" where
  "pt_xorname E p = pointer_xorname E (pt_address p)"

definition pt_verify_signature :: "crates \<Rightarrow> pointer \<Rightarrow> bool" where
  "pt_verify_signature E p =
     bls_verify E (pt_owner p) (pt_signature p) (pt_bytes_for_signature E p)"

section \<open>Graph entries\<close>

datatype graph_entry = GraphEntry
  (ge_owner: public_key) (ge_parents: "public_key list") (ge_content: hash32)
  (ge_descendants: "(public_key \<times> hash32) list") (ge_signature: bls_signature)

definition GRAPH_ENTRY_MAX_SIZE :: nat where "GRAPH_ENTRY_MAX_SIZE = 100 * 1024"

definition ge_bytes_to_sign ::
  "public_key \<Rightarrow> public_key list \<Rightarrow> hash32 \<Rightarrow> (public_key \<times> hash32) list \<Rightarrow> bytes" where
  "ge_bytes_to_sign owner parents content descendants =
     pk_to_bytes owner @ str_bytes ''parent'' @ concat (map pk_to_bytes parents) @
     str_bytes ''content'' @ xor_to_vec content @ str_bytes ''descendants'' @
     concat (map (\<lambda>(p, c). pk_to_bytes p @ xor_to_vec c) descendants)"

definition ge_new ::
  "crates \<Rightarrow> secret_key \<Rightarrow> public_key list \<Rightarrow> hash32 \<Rightarrow> (public_key \<times> hash32) list \<Rightarrow> graph_entry" where
  "ge_new E key parents content descendants =
    (let owner = bls_public_key E key
     in GraphEntry owner parents content descendants
          (bls_sign E key (ge_bytes_to_sign owner parents content descendants)))"

definition ge_address :: "graph_entry \<Rightarrow> graph_entry_address" where
  "ge_address g = GraphEntryAddr (ge_owner g)"

definition ge_bytes_for_signature :: "graph_entry \<Rightarrow> bytes" where
  "ge_bytes_for_signature g =
     ge_bytes_to_sign (ge_owner g) (ge_parents g) (ge_content g) (ge_descendants g)"

definition ge_verify_signature :: "crates \<Rightarrow> graph_entry \<Rightarrow> bool" where
  "ge_verify_signature E g =
     bls_verify E (ge_owner g) (ge_signature g) (ge_bytes_for_signature g)"

definition ge_size :: "crates \<Rightarrow> graph_entry \<Rightarrow> nat" where
  "ge_size E g = size_of_graph_entry E +
     sum_list (map (\<lambda>(p, c). length (pk_to_bytes p) + length (xor_to_vec c)) (ge_descendants g)) +
     sum_list (map (\<lambda>p. length (pk_to_bytes p)) (ge_parents g))"

definition ge_is_too_big :: "crates \<Rightarrow> graph_entry \<Rightarrow> bool" where
  "ge_is_too_big E g \<longleftrightarrow> ge_size E g > GRAPH_ENTRY_MAX_SIZE"

text \<open>
  The derived order of \<^verbatim>\<open>GraphEntry\<close> compares the fields in the order of their declaration; it is
  what sorts a \<^verbatim>\<open>BTreeSet\<close> of entries. Keys and signatures belong to a third-party crate and are
  compared by their bytes here. No theorem depends on that choice.
\<close>

definition ge_fields :: "graph_entry \<Rightarrow> public_key \<times> public_key list \<times> hash32 \<times> (public_key \<times> hash32) list \<times> bls_signature" where
  "ge_fields g = (ge_owner g, ge_parents g, ge_content g, ge_descendants g, ge_signature g)"

lemma ge_fields_inject: "ge_fields g = ge_fields h \<Longrightarrow> g = h"
  by (simp add: ge_fields_def graph_entry.expand)

instantiation graph_entry :: linorder
begin

definition less_eq_graph_entry :: "graph_entry \<Rightarrow> graph_entry \<Rightarrow> bool" where
  "less_eq_graph_entry g h \<longleftrightarrow> ge_fields g \<le> ge_fields h"

definition less_graph_entry :: "graph_entry \<Rightarrow> graph_entry \<Rightarrow> bool" where
  "less_graph_entry g h \<longleftrightarrow> ge_fields g < ge_fields h"

instance
  by standard
    (auto simp: less_eq_graph_entry_def less_graph_entry_def simp del: less_eq_prod_simp less_prod_simp
      intro: ge_fields_inject)

end

section \<open>Lemmas\<close>

lemma chunk_new_simps [simp]:
  "ch_value (chunk_new E v) = v" "chunk_name (chunk_new E v) = from_content E v"
  by (simp_all add: chunk_new_def chunk_name_def)

lemma sp_update_simps [simp]:
  "sp_address (sp_update E rnd m sk s) = sp_address s"
  "sp_data_encoding (sp_update E rnd m sk s) = sp_data_encoding s"
  "sp_counter (sp_update E rnd m sk s) = sp_counter s + 1"
  "sp_encrypted_data (sp_update E rnd m sk s) = bls_encrypt E (sp_owner s) rnd m"
  by (simp_all add: sp_update_def sp_owner_def Let_def)

lemma ScratchpadAddr_owner [simp]: "ScratchpadAddr (scratchpad_owner a) = a"
  by (cases a) simp

lemma bls_decrypt_encrypt:
  assumes "bls_laws E" and "sp_encrypted_data s = bls_encrypt E (bls_public_key E sk) rnd m"
  shows "sp_decrypt_data E sk s = Ok m"
proof -
  obtain ct where "bls_ciphertext_from_bytes E (sp_encrypted_data s) = Some ct" "bls_decrypt E sk ct = Some m"
    using assms unfolding bls_laws_def by metis
  then show ?thesis by (simp add: sp_decrypt_data_def)
qed

lemma sp_bytes_for_signature_eq_iff:
  assumes "hex_laws E"
  shows "sp_bytes_for_signature E a e d c = sp_bytes_for_signature E a' e' d' c' \<longleftrightarrow>
     a = a' \<and> e = e' \<and> d = d' \<and> c = c'"
proof -
  have len: "length (scratchpad_to_hex E x) = 96" for x
    using assms by (cases x) (simp add: hex_laws_def scratchpad_to_hex_def)
  have inj: "scratchpad_to_hex E x = scratchpad_to_hex E y \<longleftrightarrow> x = y" for x y
    by (cases x; cases y) (simp add: hex_encode_eq_iff [OF assms] scratchpad_to_hex_def)
  show ?thesis
    by (auto simp: sp_bytes_for_signature_def len inj)
qed

text \<open>Pointer counters are written on four or on eight bytes; the two forms have different lengths.\<close>

lemma ucast_u32_inject:
  "c \<le> 0xFFFFFFFF \<Longrightarrow> d \<le> 0xFFFFFFFF \<Longrightarrow> (ucast (c :: u64) :: u32) = ucast d \<longleftrightarrow> c = d"
  by (auto simp: word_unat_eq_iff unsigned_ucast_eq take_bit_eq_mod word_le_nat_alt unat_mod)

text \<open>A compressed BLS12-381 point has the top bit of its first byte set (the compression flag).\<close>

definition compressed_point :: "public_key \<Rightarrow> bool" where
  "compressed_point pk \<longleftrightarrow> bit pk 383"

lemma hd_pk_to_bytes: "compressed_point pk \<Longrightarrow> bit (hd (pk_to_bytes pk)) 7"
  by (simp add: compressed_point_def pk_to_bytes_def be_bytes_def le_bytes_def hd_rev last_map
      bit_ucast_iff bit_drop_bit_eq)

interpretation pk_code: prefix_code pk_to_bytes compressed_point
  by unfold_locales (auto simp: append_eq_append_conv)

interpretation descendant_code: prefix_code "\<lambda>(p, c). pk_to_bytes p @ xor_to_vec c" "\<lambda>_. True"
  by unfold_locales (auto simp: append_eq_append_conv)

lemma pk_to_bytes_not_content: "compressed_point pk \<Longrightarrow> pk_to_bytes pk @ u \<noteq> str_bytes ''content'' @ v"
proof
  assume pk: "compressed_point pk" and eq: "pk_to_bytes pk @ u = str_bytes ''content'' @ v"
  have "pk_to_bytes pk \<noteq> []" using length_pk_to_bytes [of pk] by fastforce
  then have "hd (pk_to_bytes pk) = hd (str_bytes ''content'')"
    using arg_cong [OF eq, of hd] by (simp add: str_bytes_def)
  moreover have "\<not> bit (hd (str_bytes ''content'')) 7" by (simp add: str_bytes_def)
  ultimately show False using hd_pk_to_bytes [OF pk] by simp
qed

lemma ge_bytes_to_sign_eq_iff:
  assumes "list_all compressed_point ps" and "list_all compressed_point ps'"
  shows "ge_bytes_to_sign pk ps c ds = ge_bytes_to_sign pk' ps' c' ds' \<longleftrightarrow>
     pk = pk' \<and> ps = ps' \<and> c = c' \<and> ds = ds'"
proof
  let ?tail = "\<lambda>c ds. str_bytes ''content'' @ xor_to_vec c @ str_bytes ''descendants'' @
     concat (map (\<lambda>(p, c). pk_to_bytes p @ xor_to_vec c) ds)"
  assume "ge_bytes_to_sign pk ps c ds = ge_bytes_to_sign pk' ps' c' ds'"
  then have "pk = pk'" and
    *: "concat (map pk_to_bytes ps) @ ?tail c ds = concat (map pk_to_bytes ps') @ ?tail c' ds'"
    by (simp_all add: ge_bytes_to_sign_def append_eq_append_conv)
  from pk_code.concat_enc_append [OF assms pk_to_bytes_not_content pk_to_bytes_not_content *]
  have "ps = ps'" and "?tail c ds = ?tail c' ds'" by auto
  then have "c = c'" and **: "concat (map (\<lambda>(p, c). pk_to_bytes p @ xor_to_vec c) ds) @ [] =
      concat (map (\<lambda>(p, c). pk_to_bytes p @ xor_to_vec c) ds') @ []"
    by (simp_all add: append_eq_append_conv)
  have nonempty: "(\<lambda>(p, c). pk_to_bytes p @ xor_to_vec c) d @ u \<noteq> []" for d u
    by (auto split: prod.splits dest: arg_cong [of _ _ length])
  have "ds = ds'"
    using descendant_code.concat_enc_append [OF _ _ nonempty nonempty **] by (simp add: list_all_iff)
  with \<open>pk = pk'\<close> \<open>ps = ps'\<close> \<open>c = c'\<close> show "pk = pk' \<and> ps = ps' \<and> c = c' \<and> ds = ds'" by simp
qed simp

section \<open>Properties\<close>

text \<open>C32: The bytes a scratchpad's signature covers fix every field: two scratchpads are signed over
  the same bytes only when address, data encoding, encrypted data and counter all agree.\<close>

theorem scratchpad_signature_binds:
  assumes "hex_laws E"
  shows "sp_bytes_for_signature E a e d c = sp_bytes_for_signature E a' e' d' c' \<longleftrightarrow>
     a = a' \<and> e = e' \<and> d = d' \<and> c = c'"
  by (rule sp_bytes_for_signature_eq_iff [OF assms])

lemma scratchpad_signature_binds_witness:
  "sp_bytes_for_signature sample_crates (ScratchpadAddr 1) 2 [3] 4 \<noteq>
   sp_bytes_for_signature sample_crates (ScratchpadAddr 1) 2 [3] 5"
  using scratchpad_signature_binds [OF sample_hex_laws, of "ScratchpadAddr 1" 2 "[3]" 4 "ScratchpadAddr 1" 2 "[3]" 5]
  by simp

text \<open>C31: A scratchpad made by its owner and then updated any number of times by that owner verifies,
  keeps its address and data encoding, decrypts to the data of the last update, and its counter is the
  starting counter plus the number of updates (on 64 bits).\<close>

theorem scratchpad_updates:
  fixes rnd\<^sub>0 :: nat and sk :: secret_key and enc c :: u64 and m\<^sub>0 :: bytes
  assumes "bls_laws E" and "updates \<noteq> []"
  defines "s \<equiv> fold (\<lambda>(rnd, m). sp_update E rnd m sk) updates (sp_new E rnd\<^sub>0 sk enc m\<^sub>0 c)"
  shows "sp_verify_signature E s \<and> sp_address s = ScratchpadAddr (bls_public_key E sk) \<and>
    sp_data_encoding s = enc \<and> sp_decrypt_data E sk s = Ok (snd (last updates)) \<and>
    sp_counter s = c + word_of_nat (length updates)"
  using assms(2) unfolding s_def
proof (induction updates rule: rev_induct)
  case (snoc u us)
  obtain rnd m where u: "u = (rnd, m)" by (cases u)
  define s' where "s' = fold (\<lambda>(rnd, m). sp_update E rnd m sk) us (sp_new E rnd\<^sub>0 sk enc m\<^sub>0 c)"
  have *: "sp_address s' = ScratchpadAddr (bls_public_key E sk) \<and> sp_data_encoding s' = enc \<and>
      sp_counter s' = c + word_of_nat (length us)"
    using snoc.IH unfolding s'_def by (cases "us = []") (simp_all add: sp_new_def Let_def)
  then have owner: "sp_owner s' = bls_public_key E sk" by (simp add: sp_owner_def)
  have "sp_verify_signature E (sp_update E rnd m sk s')"
    using assms(1) owner by (simp add: sp_verify_signature_def bls_laws_def sp_update_def Let_def sp_owner_def)
  moreover have "sp_decrypt_data E sk (sp_update E rnd m sk s') = Ok m"
    using owner by (simp add: bls_decrypt_encrypt [OF assms(1)])
  ultimately show ?case
    using * by (simp add: u s'_def [symmetric])
qed simp

lemma scratchpad_updates_witness:
  "sp_counter (sp_update sample_crates 0 [9] (SecretKey [1]) (sp_new sample_crates 0 (SecretKey [1]) 5 [8] 7)) = 8"
  using scratchpad_updates [OF sample_bls_laws, of "[(0, [9])]" "SecretKey [1]" 0 5 "[8]" 7] by simp

text \<open>C30: A graph entry's signature covers every field: as every public key is written as a compressed
  curve point, whose first byte can never be the start of the next marker, two entries are signed over
  the same bytes only when owner, parents, content and descendants agree, even though no lengths are
  written.\<close>

theorem graph_entry_signature_binds:
  assumes "list_all compressed_point (ge_parents g)" and "list_all compressed_point (ge_parents h)"
    and "ge_bytes_for_signature g = ge_bytes_for_signature h" and "ge_signature g = ge_signature h"
  shows "g = h"
  using ge_bytes_to_sign_eq_iff [OF assms(1,2)] assms(3,4)
  by (auto simp: ge_bytes_for_signature_def intro: graph_entry.expand)

lemma graph_entry_signature_binds_witness:
  "ge_bytes_for_signature (GraphEntry 1 [2 ^ 383] 3 [] 0) \<noteq> ge_bytes_for_signature (GraphEntry 1 [2 ^ 383] 3 [(4, 5)] 0)"
proof
  assume "ge_bytes_for_signature (GraphEntry 1 [2 ^ 383] 3 [] 0) = ge_bytes_for_signature (GraphEntry 1 [2 ^ 383] 3 [(4, 5)] 0)"
  moreover have "compressed_point (2 ^ 383)" by (simp add: compressed_point_def bit_exp_iff)
  ultimately show False
    using graph_entry_signature_binds [of "GraphEntry 1 [2 ^ 383] 3 [] 0" "GraphEntry 1 [2 ^ 383] 3 [(4, 5)] 0"]
    by simp
qed

text \<open>A pointer made by its owner verifies, and among counters written on the same number of bytes
  the signed bytes fix owner, counter and target.\<close>

theorem pointer_signature_binds:
  assumes "bls_laws E" and "inj (rmp_pointer_target E)" and "\<And>t. rmp_pointer_target E t \<noteq> None"
  shows "pt_verify_signature E (pt_new E sk c t) \<and>
    ((c > 0xFFFFFFFF \<longleftrightarrow> c' > 0xFFFFFFFF) \<longrightarrow>
       pt_bytes_to_sign E pk c t = pt_bytes_to_sign E pk' c' t' \<longleftrightarrow> pk = pk' \<and> c = c' \<and> t = t')"
proof -
  define enc where "enc t = the (rmp_pointer_target E t)" for t
  have enc: "rmp_pointer_target E t = Some (enc t)" for t
    using assms(3) [of t] by (simp add: enc_def)
  have "enc t = enc t' \<longleftrightarrow> t = t'" for t t'
    using inj_eq [OF assms(2), of t t'] by (simp add: enc)
  then show ?thesis
    using assms(1)
    by (auto simp: pt_verify_signature_def pt_new_def pt_bytes_for_signature_def bls_laws_def Let_def
        pt_bytes_to_sign_def enc append_eq_append_conv ucast_u32_inject not_less)
qed

lemma sample_rmp_pointer_target:
  "inj (rmp_pointer_target sample_crates)" "rmp_pointer_target sample_crates t \<noteq> None"
  by (auto simp: sample_crates_def inj_def split: pointer_target.splits chunk_address.splits
      graph_entry_address.splits pointer_address.splits scratchpad_address.splits)

lemma pointer_signature_binds_witness:
  "pt_bytes_to_sign sample_crates 7 1 (PT_ChunkAddress (ChunkAddr 2)) \<noteq>
   pt_bytes_to_sign sample_crates 7 2 (PT_ChunkAddress (ChunkAddr 2))"
  using pointer_signature_binds [OF sample_bls_laws sample_rmp_pointer_target, of "SecretKey []" 1
      "PT_ChunkAddress (ChunkAddr 2)" 2 7 7 "PT_ChunkAddress (ChunkAddr 2)"]
  by simp

end
