(* ===== verification/Quoting.thy ===== *)
theory Quoting
  imports Protocol
begin

text \<open>
  Quoting metrics (\<^verbatim>\<open>evmlib/src/quoting_metrics.rs\<close>): what a node reports about itself in a quote,
  and the deterministic bytes that are hashed and signed for it. A \<^verbatim>\<open>usize\<close> field is kept at the
  64 bits it is serialised with. The bytes are shown to be a prefix code: they can be followed by
  anything and still be read back in one way only.
\<close>

record quoting_metrics =
  qm_data_type :: u32
  qm_data_size :: u64
  qm_close_records_stored :: u64
  qm_records_per_type :: "(u32 \<times> u32) list"
  qm_max_records :: u64
  qm_received_payment_count :: u64
  qm_live_time :: u64
  qm_network_density :: "u256 option"
  qm_network_size :: "u64 option"

definition qm_to_bytes :: "quoting_metrics \<Rightarrow> bytes" where
  "qm_to_bytes q =
     le_bytes 4 (qm_data_type q) @ le_bytes 8 (qm_data_size q) @ le_bytes 8 (qm_close_records_stored q) @
     le_bytes 4 (word_of_nat (length (qm_records_per_type q)) :: u32) @
     concat (map (\<lambda>(dtype, count). le_bytes 4 dtype @ le_bytes 4 count) (qm_records_per_type q)) @
     le_bytes 8 (qm_max_records q) @ le_bytes 8 (qm_received_payment_count q) @ le_bytes 8 (qm_live_time q) @
     (case qm_network_density q of Some d \<Rightarrow> 1 # be_bytes 32 d | None \<Rightarrow> [0]) @
     (case qm_network_size q of Some n \<Rightarrow> 1 # le_bytes 8 n | None \<Rightarrow> [0])"

section \<open>Lemmas\<close>

text \<open>The counts are written on 32 bits, so a list is read back when it is shorter than \<open>2 ^ 32\<close>.\<close>

definition qm_wf :: "quoting_metrics \<Rightarrow> bool" where
  "qm_wf q \<longleftrightarrow> length (qm_records_per_type q) < 2 ^ 32"

interpretation type_count_code: prefix_code "\<lambda>(a, b). le_bytes 4 (a :: u32) @ le_bytes 4 (b :: u32)" "\<lambda>_. True"
  by unfold_locales auto

lemma word_of_nat_inject_u32: "m < 2 ^ 32 \<Longrightarrow> n < 2 ^ 32 \<Longrightarrow> (word_of_nat m :: u32) = word_of_nat n \<longleftrightarrow> m = n"
  by (simp add: word_of_nat_eq_iff take_bit_eq_mod)

lemma length_type_counts:
  "length (concat (map (\<lambda>(a, b). le_bytes 4 (a :: u32) @ le_bytes 4 (b :: u32)) xs)) = 8 * length xs"
  by (induction xs) auto

lemma concat_type_counts_inject:
  "concat (map (\<lambda>(a, b). le_bytes 4 (a :: u32) @ le_bytes 4 (b :: u32)) xs) =
   concat (map (\<lambda>(a, b). le_bytes 4 a @ le_bytes 4 b) ys) \<Longrightarrow> xs = ys"
proof -
  have "(\<lambda>(a, b). le_bytes 4 (a :: u32) @ le_bytes 4 (b :: u32)) p @ u \<noteq> []" for p u
    by (auto split: prod.splits dest: arg_cong [of _ _ length])
  then show "concat (map (\<lambda>(a, b). le_bytes 4 (a :: u32) @ le_bytes 4 (b :: u32)) xs) =
      concat (map (\<lambda>(a, b). le_bytes 4 a @ le_bytes 4 b) ys) \<Longrightarrow> xs = ys"
    using type_count_code.concat_enc_append [of xs ys "[]" "[]"] by (simp add: list_all_iff)
qed

lemma option_marker_append:
  assumes "\<And>x. length (f x) = n" and "\<And>x y. f x = f y \<Longrightarrow> x = y"
  shows "(case a of Some x \<Rightarrow> (1 :: u8) # f x | None \<Rightarrow> [0]) @ s = (case b of Some x \<Rightarrow> 1 # f x | None \<Rightarrow> [0]) @ t \<longleftrightarrow>
    a = b \<and> s = t"
  using assms by (auto simp: append_eq_append_conv split: option.splits)

lemma density_append:
  "(case a of Some d \<Rightarrow> (1 :: u8) # be_bytes 32 (d :: u256) | None \<Rightarrow> [0]) @ s =
   (case b of Some d \<Rightarrow> 1 # be_bytes 32 d | None \<Rightarrow> [0]) @ t \<longleftrightarrow> a = b \<and> s = t"
  by (rule option_marker_append) simp_all

lemma network_size_append:
  "(case a of Some n \<Rightarrow> (1 :: u8) # le_bytes 8 (n :: u64) | None \<Rightarrow> [0]) @ s =
   (case b of Some n \<Rightarrow> 1 # le_bytes 8 n | None \<Rightarrow> [0]) @ t \<longleftrightarrow> a = b \<and> s = t"
  by (rule option_marker_append) simp_all

lemma qm_to_bytes_append:
  assumes "qm_wf q" and "qm_wf r" and "qm_to_bytes q @ s = qm_to_bytes r @ t"
  shows "q = r \<and> s = t"
proof -
  have len: "length (qm_records_per_type q) = length (qm_records_per_type r)"
    using assms by (simp add: qm_to_bytes_def qm_wf_def word_of_nat_inject_u32)
  then have "length (concat (map (\<lambda>(a, b). le_bytes 4 a @ le_bytes 4 b) (qm_records_per_type q))) =
      length (concat (map (\<lambda>(a, b). le_bytes 4 a @ le_bytes 4 b) (qm_records_per_type r)))"
    by (simp only: length_type_counts)
  with assms(3) len show ?thesis
    by (auto simp: qm_to_bytes_def density_append network_size_append intro!: quoting_metrics.equality
        dest: concat_type_counts_inject)
qed

interpretation qm_code: prefix_code qm_to_bytes qm_wf
  by unfold_locales (rule qm_to_bytes_append)

section \<open>Properties\<close>

text \<open>C33: The bytes of quoting metrics determine every field, also when further bytes follow them, so a
  signature or a hash over metrics and what comes after them covers each value.\<close>

theorem quoting_metrics_bytes_prefix_code:
  assumes "length (qm_records_per_type q) < 2 ^ 32" and "length (qm_records_per_type r) < 2 ^ 32"
  shows "qm_to_bytes q @ s = qm_to_bytes r @ t \<longleftrightarrow> q = r \<and> s = t"
  using qm_code.enc_append_iff [of q r s t] assms by (simp add: qm_wf_def)

definition sample_metrics :: quoting_metrics where
  "sample_metrics = \<lparr>qm_data_type = 0, qm_data_size = 1024, qm_close_records_stored = 3,
     qm_records_per_type = [(0, 2), (3, 1)], qm_max_records = 16384, qm_received_payment_count = 1,
     qm_live_time = 7, qm_network_density = Some 255, qm_network_size = None\<rparr>"

lemma quoting_metrics_bytes_prefix_code_witness:
  "qm_to_bytes sample_metrics @ [1] \<noteq> qm_to_bytes (sample_metrics\<lparr>qm_live_time := 8\<rparr>) @ [1]"
  using quoting_metrics_bytes_prefix_code [of sample_metrics "sample_metrics\<lparr>qm_live_time := 8\<rparr>" "[1]" "[1]"]
  by (simp add: sample_metrics_def)

end
