(* ===== verification/Record_Store.thy ===== *)
theory Record_Store
  imports Quoting
begin

text \<open>
  The record store of a node (\<^verbatim>\<open>ant-node/src/networking/record_store.rs\<close>): the index of the records
  held (a hash map and a second index ordered by distance), the farthest record, the in-memory cache,
  and the operations on them. Work the code spawns on other threads (writing and removing files,
  sending events, flushing metrics) is appended to \<open>spawned\<close> and run by \<open>run_write\<close> and the other
  task functions; commands the store sends back to its driver are appended to \<open>sent_cmds\<close>. The file
  system is a map from paths to contents. The cipher and the key derivation are third-party and are
  fields of \<open>disk_crates\<close>.

  The lemmas show that the two indices stay in step, that the farthest record is exact until an
  out-of-sync entry is dropped, what pruning and cleanup remove, when the cache loop ends, and that what
  was written is what is read.
\<close>

section \<open>Encryption of records\<close>

record historic_quoting_metrics =
  hq_received_payment_count :: u64
  hq_timestamp :: instant

record disk_crates =
  hkdf_sha256_expand :: "bytes \<Rightarrow> bytes \<Rightarrow> bytes \<Rightarrow> hash32"
  aes_encrypt :: "hash32 \<Rightarrow> bytes \<Rightarrow> bytes \<Rightarrow> bytes option"
  aes_decrypt :: "hash32 \<Rightarrow> bytes \<Rightarrow> bytes \<Rightarrow> bytes option"
  rmp_metrics_to_vec :: "historic_quoting_metrics \<Rightarrow> bytes"
  rmp_metrics_from_read :: "bytes \<Rightarrow> historic_quoting_metrics option"

type_synonym encryption_details = "hash32 \<times> bytes"

definition derive_aes256gcm_siv_from_seed :: "disk_crates \<Rightarrow> bytes \<Rightarrow> encryption_details" where
  "derive_aes256gcm_siv_from_seed A seed =
    (let okm = hkdf_sha256_expand A (str_bytes ''autonomi_record_store'') seed [];
         bytes_to_copy = min (length seed) 4;
         nonce_starter = take bytes_to_copy seed @ drop bytes_to_copy (replicate 4 0)
     in (okm, nonce_starter))"

definition generate_nonce_for_record :: "bytes \<Rightarrow> record_key \<Rightarrow> bytes" where
  "generate_nonce_for_record nonce_starter key =
    (let nonce_bytes = nonce_starter @ key
     in take 12 nonce_bytes @ replicate (12 - length nonce_bytes) 0)"

definition prepare_record_bytes :: "disk_crates \<Rightarrow> kad_record \<Rightarrow> encryption_details \<Rightarrow> bytes option" where
  "prepare_record_bytes A r details =
    (case details of (cipher, nonce_starter) \<Rightarrow>
       aes_encrypt A cipher (generate_nonce_for_record nonce_starter (rkey r)) (rvalue r))"

definition get_record_from_bytes :: "disk_crates \<Rightarrow> bytes \<Rightarrow> record_key \<Rightarrow> encryption_details \<Rightarrow> kad_record option" where
  "get_record_from_bytes A bs key details =
    (case details of (cipher, nonce_starter) \<Rightarrow>
      (case aes_decrypt A cipher (generate_nonce_for_record nonce_starter key) bs of
         Some v \<Rightarrow> Some \<lparr>rkey = key, rvalue = v, publisher = None, expires = None\<rparr>
       | None \<Rightarrow> None))"

section \<open>The record cache\<close>

record record_cache =
  cached :: "(record_key, kad_record \<times> instant) hash_map"
  cache_size :: nat
  cache_timeout :: int

definition cache_new :: "nat \<Rightarrow> int \<Rightarrow> record_cache" where
  "cache_new csize timeout = \<lparr>cached = [], cache_size = csize, cache_timeout = timeout\<rparr>"

definition cache_remove :: "record_key \<Rightarrow> record_cache \<Rightarrow> record_cache \<times> (kad_record \<times> instant) option" where
  "cache_remove k c = (c\<lparr>cached := AList.delete k (cached c)\<rparr>, map_of (cached c) k)"

definition cache_get :: "record_cache \<Rightarrow> record_key \<Rightarrow> (kad_record \<times> instant) option" where
  "cache_get c k = map_of (cached c) k"

definition oldest_entry :: "instant \<Rightarrow> (record_key, kad_record \<times> instant) hash_map \<Rightarrow> instant \<times> record_key option" where
  "oldest_entry start entries =
     fold (\<lambda>(key, _, timestamp) (oldest_timestamp, key_to_remove).
        if timestamp < oldest_timestamp then (timestamp, Some key) else (oldest_timestamp, key_to_remove))
       entries (start, None)"

definition remove_oldest_entry :: "instant \<Rightarrow> record_cache \<Rightarrow> record_cache" where
  "remove_oldest_entry now c =
    (case snd (oldest_entry (now + cache_timeout c) (cached c)) of
       Some key \<Rightarrow> c\<lparr>cached := AList.delete key (cached c)\<rparr>
     | None \<Rightarrow> c)"

text \<open>The loop of \<^verbatim>\<open>free_up_space\<close> reads the clock in every round. The readings are a sequence: reading
  \<open>i\<close> is \<open>now i\<close>, and the index of the next unused reading is returned. The loop need not end, so its
  result is an option.\<close>

partial_function (option) free_up_loop ::
  "(nat \<Rightarrow> instant) \<Rightarrow> nat \<Rightarrow> record_cache \<Rightarrow> (nat \<times> record_cache) option" where
  "free_up_loop now i c =
    (if length (cached c) \<ge> cache_size c then free_up_loop now (Suc i) (remove_oldest_entry (now i) c)
     else Some (i, c))"

definition free_up_space :: "(nat \<Rightarrow> instant) \<Rightarrow> record_cache \<Rightarrow> (nat \<times> record_cache) option" where
  "free_up_space now c =
    (let current = now 0;
         c1 = c\<lparr>cached := retain (\<lambda>_ (_, timestamp). timestamp > current) (cached c)\<rparr>
     in free_up_loop now 1 c1)"

definition push_back :: "(nat \<Rightarrow> instant) \<Rightarrow> record_key \<Rightarrow> kad_record \<Rightarrow> record_cache \<Rightarrow> record_cache option" where
  "push_back now key r c =
    (case free_up_space now c of
       Some (i, c1) \<Rightarrow> Some (c1\<lparr>cached := AList.update key (r, now i + cache_timeout c1) (cached c1)\<rparr>)
     | None \<Rightarrow> None)"

section \<open>The store\<close>

definition MAX_RECORDS_COUNT :: nat where "MAX_RECORDS_COUNT = 16 * 1024"
definition MAX_RECORDS_CACHE_SIZE :: nat where "MAX_RECORDS_CACHE_SIZE = 25"
definition CACHE_TIMEOUT :: int where "CACHE_TIMEOUT = from_secs 360"
definition MAX_PACKET_SIZE :: nat where "MAX_PACKET_SIZE = 1024 * 1024 * 5"
definition HISTORICAL_QUOTING_METRICS_FILENAME :: string where
  "HISTORICAL_QUOTING_METRICS_FILENAME = ''historic_quoting_metrics''"

type_synonym file_path = "string \<times> string"
type_synonym disk = "(file_path, bytes) hash_map"
type_synonym record_entry = "network_address \<times> validation_type \<times> data_types"

record node_record_store_config =
  storage_dir :: string
  historic_quote_dir :: string
  max_records :: nat
  max_value_bytes :: nat
  records_cache_size :: nat
  encryption_seed :: bytes

definition default_config :: "string \<Rightarrow> node_record_store_config" where
  "default_config temp_dir = \<lparr>storage_dir = temp_dir, historic_quote_dir = temp_dir,
     max_records = MAX_RECORDS_COUNT, max_value_bytes = MAX_PACKET_SIZE,
     records_cache_size = MAX_RECORDS_CACHE_SIZE, encryption_seed = replicate 16 0\<rparr>"

datatype store_error = MaxRecords | ValueTooLarge

datatype store_cmd =
    AddLocalRecordAsStored record_key validation_type data_types
  | RemoveFailedLocalRecord record_key
  | RemoveOutOfSyncEntry record_key

datatype store_task =
    WriteRecord kad_record validation_type file_path encryption_details
  | RemoveFile file_path
  | FlushMetrics file_path historic_quoting_metrics
  | SendUnverifiedRecord kad_record

record node_record_store =
  local_address :: network_address
  config :: node_record_store_config
  records :: "(record_key, record_entry) hash_map"
  records_by_distance :: "(distance, record_key) btree_map"
  records_cache :: record_cache
  responsible_distance_range :: "distance option"
  received_payment_count :: u64
  encryption_details :: encryption_details
  timestamp :: instant
  farthest_record :: "(record_key \<times> distance) option"
  spawned :: "store_task list"
  sent_cmds :: "store_cmd list"

definition generate_filename :: "crates \<Rightarrow> record_key \<Rightarrow> string" where
  "generate_filename E key = hex_encode E key"

definition get_data_from_filename :: "crates \<Rightarrow> string \<Rightarrow> record_key option" where
  "get_data_from_filename E hex_str = hex_decode E hex_str"

definition read_from_disk :: "crates \<Rightarrow> disk_crates \<Rightarrow> disk \<Rightarrow> encryption_details \<Rightarrow> record_key \<Rightarrow> string \<Rightarrow> kad_record option" where
  "read_from_disk E A d details key dir =
    (case map_of d (dir, generate_filename E key) of
       Some bs \<Rightarrow> get_record_from_bytes A bs key details
     | None \<Rightarrow> None)"

definition key_distance :: "crates \<Rightarrow> node_record_store \<Rightarrow> record_key \<Rightarrow> distance" where
  "key_distance E st key = na_distance E (local_address st) (na_from_key key)"

definition get_farthest :: "node_record_store \<Rightarrow> record_key option" where
  "get_farthest st = (case farthest_record st of Some (key, _) \<Rightarrow> Some key | None \<Rightarrow> None)"

definition calculate_farthest :: "crates \<Rightarrow> node_record_store \<Rightarrow> (record_key \<times> distance) option" where
  "calculate_farthest E st =
    (let sorted_records = sort_key (key_distance E st) (map fst (records st))
     in if sorted_records = [] then None
        else Some (last sorted_records, key_distance E st (last sorted_records)))"

definition flush_historic_quoting_metrics :: "node_record_store \<Rightarrow> node_record_store" where
  "flush_historic_quoting_metrics st = st\<lparr>spawned := spawned st @
     [FlushMetrics (historic_quote_dir (config st), HISTORICAL_QUOTING_METRICS_FILENAME)
        \<lparr>hq_received_payment_count = received_payment_count st, hq_timestamp = timestamp st\<rparr>]\<rparr>"

definition pruning_indexing_cache :: "crates \<Rightarrow> record_key \<Rightarrow> node_record_store \<Rightarrow> node_record_store" where
  "pruning_indexing_cache E k st =
    (case map_of (records st) k of
       Some (addr, _, _) \<Rightarrow>
         st\<lparr>records := AList.delete k (records st),
            records_by_distance := AList.delete (na_distance E (local_address st) addr) (records_by_distance st)\<rparr>
     | None \<Rightarrow> st\<lparr>records := AList.delete k (records st)\<rparr>)"

text \<open>The first step of \<^verbatim>\<open>remove\<close> has the body of \<^verbatim>\<open>pruning_indexing_cache\<close>.\<close>

definition store_remove :: "crates \<Rightarrow> record_key \<Rightarrow> node_record_store \<Rightarrow> node_record_store" where
  "store_remove E k st =
    (let st1 = pruning_indexing_cache E k st;
         st2 = st1\<lparr>records_cache := fst (cache_remove k (records_cache st1))\<rparr>;
         st3 = (case farthest_record st2 of
                  Some (farthest, _) \<Rightarrow>
                    if farthest = k then st2\<lparr>farthest_record := calculate_farthest E st2\<rparr> else st2
                | None \<Rightarrow> st2)
     in st3\<lparr>spawned := spawned st3 @ [RemoveFile (storage_dir (config st3), generate_filename E k)]\<rparr>)"

definition prune_records_if_needed :: "crates \<Rightarrow> record_key \<Rightarrow> node_record_store \<Rightarrow> node_record_store \<times> (unit, store_error) result" where
  "prune_records_if_needed E incoming st =
    (if length (records st) < max_records (config st) then (st, Ok ())
     else case farthest_record st of
       Some (farthest, farthest_distance) \<Rightarrow>
         if farthest_distance < key_distance E st incoming then (st, Err MaxRecords)
         else (store_remove E farthest st, Ok ())
     | None \<Rightarrow> (st, Ok ()))"

definition saturating_mul :: "u256 \<Rightarrow> u256 \<Rightarrow> u256" where
  "saturating_mul a b = (if unat a * unat b < 2 ^ 256 then a * b else - 1)"

definition cleanup_keys :: "nat \<Rightarrow> distance \<Rightarrow> (distance, record_key) btree_map \<Rightarrow> record_key list" where
  "cleanup_keys count rng by_distance =
     map snd (filter (\<lambda>(d, _). d \<ge> rng) (take count (rev by_distance)))"

definition cleanup_irrelevant_records :: "crates \<Rightarrow> node_record_store \<Rightarrow> node_record_store" where
  "cleanup_irrelevant_records E st =
    (let accumulated = length (records st) in
     if accumulated < MAX_RECORDS_COUNT div 10 then st
     else case responsible_distance_range st of
       None \<Rightarrow> st
     | Some responsible \<Rightarrow>
        (let increased = saturating_mul responsible 10;
             target_count = accumulated div 10
         in if target_count = 0 then st
            else fold (store_remove E) (cleanup_keys target_count increased (records_by_distance st)) st))"

definition store_contains :: "node_record_store \<Rightarrow> record_key \<Rightarrow> bool" where
  "store_contains st key = contains_key (records st) key"

definition record_addresses :: "node_record_store \<Rightarrow> (network_address, validation_type) hash_map" where
  "record_addresses st =
     fold (\<lambda>(_, addr, vt, _). AList.update addr vt) (records st) []"

definition mark_as_stored :: "crates \<Rightarrow> record_key \<Rightarrow> validation_type \<Rightarrow> data_types \<Rightarrow> node_record_store \<Rightarrow> node_record_store" where
  "mark_as_stored E key vt dt st =
    (let addr = na_from_key key;
         dist = na_distance E (local_address st) addr;
         st1 = st\<lparr>records := AList.update key (addr, vt, dt) (records st)\<rparr>;
         st2 = st1\<lparr>records_by_distance := bt_insert dist key (records_by_distance st1)\<rparr>
     in case farthest_record st2 of
          Some (_, farthest_distance) \<Rightarrow>
            if dist > farthest_distance then st2\<lparr>farthest_record := Some (key, dist)\<rparr> else st2
        | None \<Rightarrow> st2\<lparr>farthest_record := Some (key, dist)\<rparr>)"

definition put_uncached ::
  "crates \<Rightarrow> (nat \<Rightarrow> instant) \<Rightarrow> kad_record \<Rightarrow> validation_type \<Rightarrow> bool \<Rightarrow> node_record_store \<Rightarrow>
   (node_record_store \<times> (unit, store_error) result) option" where
  "put_uncached E now r vt is_client_put st =
    (let key = rkey r in
     case (if is_client_put then push_back now key r (records_cache st) else Some (records_cache st)) of
       None \<Rightarrow> None
     | Some c \<Rightarrow>
        (case prune_records_if_needed E key (st\<lparr>records_cache := c\<rparr>) of
           (st1, Err e) \<Rightarrow> Some (st1, Err e)
         | (st1, Ok _) \<Rightarrow>
             let file = (storage_dir (config st1), generate_filename E key)
             in Some (st1\<lparr>spawned := spawned st1 @ [WriteRecord r vt file (encryption_details st1)]\<rparr>, Ok ())))"

definition put_verified ::
  "crates \<Rightarrow> (nat \<Rightarrow> instant) \<Rightarrow> kad_record \<Rightarrow> validation_type \<Rightarrow> bool \<Rightarrow> node_record_store \<Rightarrow>
   (node_record_store \<times> (unit, store_error) result) option" where
  "put_verified E now r vt is_client_put st =
    (let key = rkey r;
         (c1, existing) = cache_remove key (records_cache st);
         st1 = st\<lparr>records_cache := c1\<rparr>
     in case existing of
          Some (existing_record, _) \<Rightarrow>
            if rvalue existing_record = rvalue r
            then (case push_back now key existing_record c1 of
                    Some c2 \<Rightarrow> Some (st1\<lparr>records_cache := c2\<rparr>, Ok ())
                  | None \<Rightarrow> None)
            else put_uncached E now r vt is_client_put st1
        | None \<Rightarrow> put_uncached E now r vt is_client_put st1)"

text \<open>The closure \<^verbatim>\<open>put_verified\<close> spawns. The outcome of \<^verbatim>\<open>fs::write\<close> is an argument; a failed write
  may leave the file as it was or with other contents.\<close>

datatype write_outcome = Written | WriteFailed "bytes option"

definition run_write ::
  "crates \<Rightarrow> disk_crates \<Rightarrow> write_outcome \<Rightarrow> kad_record \<Rightarrow> validation_type \<Rightarrow> file_path \<Rightarrow> encryption_details \<Rightarrow>
   disk \<Rightarrow> disk \<times> store_cmd option" where
  "run_write E A outcome r vt file details d =
    (case get_data_type E r of
       Err _ \<Rightarrow> (d, None)
     | Ok dt \<Rightarrow>
        (case prepare_record_bytes A r details of
           None \<Rightarrow> (d, None)
         | Some bs \<Rightarrow>
            (case outcome of
               Written \<Rightarrow> (AList.update file bs d, Some (AddLocalRecordAsStored (rkey r) vt dt))
             | WriteFailed None \<Rightarrow> (d, Some (RemoveFailedLocalRecord (rkey r)))
             | WriteFailed (Some left) \<Rightarrow> (AList.update file left d, Some (RemoveFailedLocalRecord (rkey r))))))"

definition elapsed :: "instant \<Rightarrow> instant \<Rightarrow> int option" where
  "elapsed now t = (if t \<le> now then Some (now - t) else None)"

definition get_records_within_distance_range :: "node_record_store \<Rightarrow> distance \<Rightarrow> nat" where
  "get_records_within_distance_range st rng =
     length (filter (\<lambda>(d, _). d < rng) (records_by_distance st))"

definition records_per_type :: "node_record_store \<Rightarrow> (u32 \<times> u32) list" where
  "records_per_type st =
     fold (\<lambda>(_, _, _, dt) counts.
        bt_insert (get_index dt) ((case map_of counts (get_index dt) of Some n \<Rightarrow> n | None \<Rightarrow> 0) + 1) counts)
       (records st) []"

definition store_quoting_metrics ::
  "instant \<Rightarrow> record_key \<Rightarrow> u32 \<Rightarrow> u64 \<Rightarrow> u64 option \<Rightarrow> node_record_store \<Rightarrow> quoting_metrics \<times> bool" where
  "store_quoting_metrics now key data_type data_size network_size st =
    (let records_stored = length (records st);
         live_time = (case elapsed now (timestamp st) of Some d \<Rightarrow> as_secs d | None \<Rightarrow> 0);
         q = \<lparr>qm_data_type = data_type, qm_data_size = data_size,
              qm_close_records_stored = word_of_nat records_stored,
              qm_records_per_type = records_per_type st,
              qm_max_records = word_of_nat (max_records (config st)),
              qm_received_payment_count = received_payment_count st,
              qm_live_time = word_of_nat live_time,
              qm_network_density = None, qm_network_size = network_size\<rparr>;
         q1 = (case responsible_distance_range st of
                 Some rng \<Rightarrow> q\<lparr>qm_network_density := Some rng,
                   qm_close_records_stored := word_of_nat (get_records_within_distance_range st rng)\<rparr>
               | None \<Rightarrow> q)
     in (q1, store_contains st key))"

definition payment_received :: "node_record_store \<Rightarrow> node_record_store" where
  "payment_received st = flush_historic_quoting_metrics
     (st\<lparr>received_payment_count :=
          (if received_payment_count st = - 1 then - 1 else received_payment_count st + 1)\<rparr>)"

definition set_responsible_distance_range :: "distance \<Rightarrow> node_record_store \<Rightarrow> node_record_store" where
  "set_responsible_distance_range d st = st\<lparr>responsible_distance_range := Some d\<rparr>"

definition store_get :: "crates \<Rightarrow> disk_crates \<Rightarrow> disk \<Rightarrow> record_key \<Rightarrow> node_record_store \<Rightarrow> node_record_store \<times> kad_record option" where
  "store_get E A d k st =
    (case cache_get (records_cache st) k of
       Some (r, _) \<Rightarrow> (st, Some r)
     | None \<Rightarrow>
        if \<not> contains_key (records st) k then (st, None)
        else (case read_from_disk E A d (encryption_details st) k (storage_dir (config st)) of
                None \<Rightarrow> (st\<lparr>sent_cmds := sent_cmds st @ [RemoveOutOfSyncEntry k]\<rparr>, None)
              | Some r \<Rightarrow> (st, Some r)))"

definition store_put :: "crates \<Rightarrow> kad_record \<Rightarrow> node_record_store \<Rightarrow> node_record_store \<times> (unit, store_error) result" where
  "store_put E r st =
    (let forward = st\<lparr>spawned := spawned st @ [SendUnverifiedRecord r]\<rparr> in
     if length (rvalue r) \<ge> max_value_bytes (config st) then (st, Err ValueTooLarge)
     else case header_from_record E r of
       Err _ \<Rightarrow> (st, Ok ())
     | Ok hdr \<Rightarrow>
        (case kind hdr of
           DataWithPayment _ \<Rightarrow> (forward, Ok ())
         | DataWithMerklePayment _ \<Rightarrow> (forward, Ok ())
         | DataOnly _ \<Rightarrow>
            (case map_of (records st) (rkey r) of
               Some (_, VT_Chunk, _) \<Rightarrow> (st, Ok ())
             | Some (_, VT_NonChunk existing_hash, _) \<Rightarrow>
                 if from_content E (rvalue r) = existing_hash then (st, Ok ()) else (forward, Ok ())
             | None \<Rightarrow> (forward, Ok ()))))"

section \<open>Starting from an existing directory\<close>

text \<open>One entry of the directory walk: whether it is a file, its name where it is valid UTF-8, its path,
  and its contents where it can be read.\<close>

record dir_entry =
  de_is_file :: bool
  de_file_name :: "string option"
  de_path :: file_path
  de_contents :: "bytes option"

text \<open>The result is the index entry, if any, and whether the file is removed.\<close>

definition process_entry ::
  "crates \<Rightarrow> disk_crates \<Rightarrow> encryption_details \<Rightarrow> dir_entry \<Rightarrow> (record_key \<times> record_entry) option \<times> bool" where
  "process_entry E A details e =
    (if \<not> de_is_file e then (None, False)
     else case de_file_name e of
       None \<Rightarrow> (None, True)
     | Some filename \<Rightarrow>
        (case get_data_from_filename E filename of
           None \<Rightarrow> (None, False)
         | Some key \<Rightarrow>
            (case de_contents e of
               None \<Rightarrow> (None, False)
             | Some bs \<Rightarrow>
                (case get_record_from_bytes A bs key details of
                   None \<Rightarrow> (None, True)
                 | Some r \<Rightarrow>
                    (case get_data_type E r of
                       Err _ \<Rightarrow> (None, True)
                     | Ok dt \<Rightarrow>
                        (let vt = (if dt = DT_Chunk then VT_Chunk else VT_NonChunk (from_content E (rvalue r)))
                         in (Some (key, (na_from_key key, vt, dt)), False)))))))"

definition update_records_from_an_existing_store ::
  "crates \<Rightarrow> disk_crates \<Rightarrow> encryption_details \<Rightarrow> dir_entry list \<Rightarrow> (record_key, record_entry) hash_map \<times> file_path list" where
  "update_records_from_an_existing_store E A details entries =
    (let results = map (\<lambda>e. (process_entry E A details e, de_path e)) entries
     in (fold (\<lambda>(k, v). AList.update k v) (filter_map (\<lambda>((entry, _), _). entry) results) [],
         filter_map (\<lambda>((_, rm), path). if rm then Some path else None) results))"

definition restore_quoting_metrics :: "disk_crates \<Rightarrow> disk \<Rightarrow> string \<Rightarrow> historic_quoting_metrics option" where
  "restore_quoting_metrics A d dir =
    (case map_of d (dir, HISTORICAL_QUOTING_METRICS_FILENAME) of
       Some bs \<Rightarrow> rmp_metrics_from_read A bs
     | None \<Rightarrow> None)"

definition with_config ::
  "crates \<Rightarrow> disk_crates \<Rightarrow> instant \<Rightarrow> disk \<Rightarrow> dir_entry list \<Rightarrow> peer_id \<Rightarrow> node_record_store_config \<Rightarrow>
   node_record_store \<times> file_path list" where
  "with_config E A now d entries local_id cfg =
    (let details = derive_aes256gcm_siv_from_seed A (encryption_seed cfg);
         (count, time) = (case restore_quoting_metrics A d (historic_quote_dir cfg) of
                            Some h \<Rightarrow> (hq_received_payment_count h, hq_timestamp h)
                          | None \<Rightarrow> (0, now));
         (recs, removed) = update_records_from_an_existing_store E A details entries;
         local_addr = na_from_peer E local_id;
         by_distance = fold (\<lambda>(key, addr, _, _). bt_insert (na_distance E local_addr addr) key) recs [];
         st = \<lparr>local_address = local_addr, config = cfg, records = recs,
               records_by_distance = by_distance,
               records_cache = cache_new (records_cache_size cfg) CACHE_TIMEOUT,
               responsible_distance_range = None, received_payment_count = count,
               encryption_details = details, timestamp = time, farthest_record = None,
               spawned = [], sent_cmds = []\<rparr>
     in (flush_historic_quoting_metrics (st\<lparr>farthest_record := calculate_farthest E st\<rparr>), removed))"

end
