(* ===== verification/Record_Store_Props.thy ===== *)
theory Record_Store_Props
  imports Record_Store
begin

text \<open>
  What holds of the record store: the invariant that ties its two indices together, the bound the
  farthest record gives, the operations of the store as one step relation with the runs they make, and
  the lemmas and properties about pruning, cleanup, the cache, start-up and the files on disk.
\<close>

section \<open>Invariants and runs\<close>

definition store_keys :: "node_record_store \<Rightarrow> record_key set" where
  "store_keys st = fst ` set (records st)"

definition index_invar :: "crates \<Rightarrow> record_key set \<Rightarrow> node_record_store \<Rightarrow> bool" where
  "index_invar E K st \<longleftrightarrow> hm_invar (records st) \<and> bt_invar (records_by_distance st) \<and>
     store_keys st \<subseteq> K \<and>
     (\<forall>(k, addr, _) \<in> set (records st). addr = na_from_key k) \<and>
     set (records_by_distance st) = (\<lambda>k. (key_distance E st k, k)) ` store_keys st"

definition farthest_bound :: "crates \<Rightarrow> node_record_store \<Rightarrow> bool" where
  "farthest_bound E st \<longleftrightarrow>
     (case farthest_record st of
        None \<Rightarrow> store_keys st = {}
      | Some (k, d) \<Rightarrow> d = key_distance E st k \<and> (\<forall>k' \<in> store_keys st. key_distance E st k' \<le> d))"

definition farthest_exact :: "crates \<Rightarrow> node_record_store \<Rightarrow> bool" where
  "farthest_exact E st \<longleftrightarrow> farthest_bound E st \<and>
     (\<forall>k d. farthest_record st = Some (k, d) \<longrightarrow> k \<in> store_keys st)"

text \<open>Distances of the keys in play do not collide; \<open>K\<close> is the set of these keys.\<close>

definition distances_distinct :: "crates \<Rightarrow> network_address \<Rightarrow> record_key set \<Rightarrow> bool" where
  "distances_distinct E l K \<longleftrightarrow> inj_on (\<lambda>k. na_distance E l (na_from_key k)) K"

definition irrelevant_keys :: "node_record_store \<Rightarrow> record_key list" where
  "irrelevant_keys st =
    (case responsible_distance_range st of
       Some rng \<Rightarrow> if length (records st) < MAX_RECORDS_COUNT div 10 then []
          else cleanup_keys (length (records st) div 10) (saturating_mul rng 10) (records_by_distance st)
     | None \<Rightarrow> [])"

definition entry_keys :: "crates \<Rightarrow> dir_entry list \<Rightarrow> record_key set" where
  "entry_keys E entries = set (filter_map (\<lambda>e. Option.bind (de_file_name e) (get_data_from_filename E)) entries)"

text \<open>One operation of the driver on the store. The keys it brings in come from \<open>K\<close>. The last rule lets
  tasks be run and commands be taken in any order, which changes no index.\<close>

inductive store_op :: "crates \<Rightarrow> disk_crates \<Rightarrow> record_key set \<Rightarrow> node_record_store \<Rightarrow> node_record_store \<Rightarrow> bool"
  for E A K where
  op_put_verified: "put_verified E now r vt cl st = Some (st', res) \<Longrightarrow> rkey r \<in> K \<Longrightarrow> store_op E A K st st'"
| op_mark_as_stored: "k \<in> K \<Longrightarrow> store_op E A K st (mark_as_stored E k vt dt st)"
| op_remove: "store_op E A K st (store_remove E k st)"
| op_cleanup: "store_op E A K st (cleanup_irrelevant_records E st)"
| op_get: "store_get E A d k st = (st', r') \<Longrightarrow> store_op E A K st st'"
| op_put: "store_put E r st = (st', res) \<Longrightarrow> store_op E A K st st'"
| op_payment_received: "store_op E A K st (payment_received st)"
| op_set_range: "store_op E A K st (set_responsible_distance_range d st)"
| op_tasks: "store_op E A K st (st\<lparr>spawned := sp, sent_cmds := cs\<rparr>)"

text \<open>A run from a starting state; the flag is lost when an out-of-sync entry is dropped.\<close>

inductive store_run :: "crates \<Rightarrow> disk_crates \<Rightarrow> record_key set \<Rightarrow> node_record_store \<Rightarrow> bool \<Rightarrow> node_record_store \<Rightarrow> bool"
  for E A K st\<^sub>0 where
  run_start: "store_run E A K st\<^sub>0 True st\<^sub>0"
| run_op: "store_run E A K st\<^sub>0 b st \<Longrightarrow> store_op E A K st st' \<Longrightarrow> store_run E A K st\<^sub>0 b st'"
| run_out_of_sync: "store_run E A K st\<^sub>0 b st \<Longrightarrow> store_run E A K st\<^sub>0 False (pruning_indexing_cache E k st)"

definition aes_laws :: "disk_crates \<Rightarrow> bool" where
  "aes_laws A \<longleftrightarrow> (\<forall>key nonce m ct. aes_encrypt A key nonce m = Some ct \<longrightarrow> aes_decrypt A key nonce ct = Some m)"

definition sample_disk_crates :: disk_crates where
  "sample_disk_crates = \<lparr>hkdf_sha256_expand = (\<lambda>salt ikm info. of_be_bytes ikm),
     aes_encrypt = (\<lambda>key nonce m. Some m),
     aes_decrypt = (\<lambda>key nonce ct. Some ct),
     rmp_metrics_to_vec = (\<lambda>h. be_bytes 8 (hq_received_payment_count h)),
     rmp_metrics_from_read = (\<lambda>bs. Some \<lparr>hq_received_payment_count = of_be_bytes bs, hq_timestamp = 0\<rparr>)\<rparr>"

definition sample_store :: "nat \<Rightarrow> (record_key, record_entry) hash_map \<Rightarrow> (record_key \<times> distance) option \<Rightarrow> node_record_store" where
  "sample_store n recs far = \<lparr>local_address = NA_PeerId [0], config = (default_config ''d'')\<lparr>max_records := n\<rparr>,
     records = recs,
     records_by_distance = map (\<lambda>(k, _). (of_be_bytes k, k)) recs,
     records_cache = cache_new 2 CACHE_TIMEOUT, responsible_distance_range = None,
     received_payment_count = 0, encryption_details = (0, [0, 0, 0, 0]), timestamp = 0,
     farthest_record = far, spawned = [], sent_cmds = []\<rparr>"

definition sample_entry :: "record_key \<Rightarrow> record_key \<times> record_entry" where
  "sample_entry k = (k, na_from_key k, VT_Chunk, DT_Chunk)"

definition sample_start :: node_record_store where
  "sample_start = fst (with_config sample_crates sample_disk_crates 0 [] [] (PeerId [0]) (default_config ''d''))"

definition sample_record :: "record_key \<Rightarrow> kad_record" where
  "sample_record k = \<lparr>rkey = k, rvalue = [145, 0, 7], publisher = None, expires = None\<rparr>"

section \<open>Lemmas\<close>

subsection \<open>The cache\<close>

lemma oldest_entry_None:
  "snd (fold (\<lambda>(key, _, timestamp) (oldest_timestamp, key_to_remove).
      if timestamp < oldest_timestamp then (timestamp, Some key) else (oldest_timestamp, key_to_remove))
     (entries :: (record_key, kad_record \<times> instant) hash_map) acc) = None \<longleftrightarrow> snd acc = None \<and> (\<forall>(k, r, t) \<in> set entries. fst acc \<le> t)"
  by (induction entries arbitrary: acc) (auto split: if_splits prod.splits)

lemma oldest_entry_Some:
  "snd (fold (\<lambda>(key, _, timestamp) (oldest_timestamp, key_to_remove).
      if timestamp < oldest_timestamp then (timestamp, Some key) else (oldest_timestamp, key_to_remove))
     entries acc) = Some k \<Longrightarrow> snd acc = Some k \<or> k \<in> fst ` set entries"
proof (induction entries arbitrary: acc)
  case (Cons e es)
  obtain k' r t where e: "e = (k', r, t)" by (cases e)
  obtain ot kr where acc: "acc = (ot, kr)" by (cases acc)
  show ?case using Cons.IH [of "if t < ot then (t, Some k') else (ot, kr)"] Cons.prems by (auto simp: e acc split: if_splits)
qed simp

lemma remove_oldest_entry_simps [simp]:
  "cache_size (remove_oldest_entry now c) = cache_size c"
  "cache_timeout (remove_oldest_entry now c) = cache_timeout c"
  by (simp_all add: remove_oldest_entry_def split: option.splits)

lemma remove_oldest_entry_invar: "hm_invar (cached c) \<Longrightarrow> hm_invar (cached (remove_oldest_entry now c))"
  by (simp add: remove_oldest_entry_def hm_simps split: option.splits)

lemma set_remove_oldest_entry: "set (cached (remove_oldest_entry now c)) \<subseteq> set (cached c)"
  by (auto simp: remove_oldest_entry_def AList.delete_eq split: option.splits)

lemma length_remove_oldest_entry_le: "length (cached (remove_oldest_entry now c)) \<le> length (cached c)"
  by (auto simp: remove_oldest_entry_def length_delete_le split: option.splits)

lemma length_remove_oldest_entry:
  assumes "(k, r, t) \<in> set (cached c)" and "t < now + cache_timeout c"
  shows "length (cached (remove_oldest_entry now c)) < length (cached c)"
proof -
  obtain key where key: "snd (oldest_entry (now + cache_timeout c) (cached c)) = Some key"
    using assms oldest_entry_None [of "cached c" "(now + cache_timeout c, None)"]
    by (fastforce simp: oldest_entry_def)
  moreover have "key \<in> fst ` set (cached c)"
    using key oldest_entry_Some [of "cached c" "(now + cache_timeout c, None)" key]
    by (simp add: oldest_entry_def)
  then have "length (AList.delete key (cached c)) < length (cached c)"
    by (auto simp: AList.delete_eq intro!: length_filter_less)
  ultimately show ?thesis by (simp add: remove_oldest_entry_def)
qed

text \<open>The loop ends as soon as the clock has passed the moment every entry was made, if there is room for
  an entry at all.\<close>

lemma free_up_loop_ends_late:
  assumes "0 < cache_size c" and "mono now"
    and "\<forall>(k, r, t) \<in> set (cached c). t < now i + cache_timeout c"
  shows "\<exists>j c'. i \<le> j \<and> free_up_loop now i c = Some (j, c') \<and> length (cached c') < cache_size c \<and>
    set (cached c') \<subseteq> set (cached c) \<and> cache_size c' = cache_size c \<and> cache_timeout c' = cache_timeout c"
  using assms
proof (induction "length (cached c)" arbitrary: i c rule: less_induct)
  case less
  show ?case
  proof (cases "length (cached c) \<ge> cache_size c")
    case False
    then show ?thesis by (auto simp: free_up_loop.simps)
  next
    case True
    define c1 where "c1 = remove_oldest_entry (now i) c"
    from True less.prems(1) obtain k r t where e: "(k, r, t) \<in> set (cached c)"
      by (cases "cached c") auto
    then have "length (cached c1) < length (cached c)"
      using less.prems(3) length_remove_oldest_entry [of k r t c "now i"] by (auto simp: c1_def)
    moreover have "now i \<le> now (Suc i)" using less.prems(2) by (simp add: mono_def)
    then have "\<forall>(k, r, t) \<in> set (cached c1). t < now (Suc i) + cache_timeout c1"
      using less.prems(3) set_remove_oldest_entry [of "now i" c] by (fastforce simp: c1_def)
    ultimately obtain j c' where "Suc i \<le> j" "free_up_loop now (Suc i) c1 = Some (j, c')"
      "length (cached c') < cache_size c1" "set (cached c') \<subseteq> set (cached c1)"
      "cache_size c' = cache_size c1" "cache_timeout c' = cache_timeout c1"
      using less.hyps [of c1 "Suc i"] less.prems by (auto simp: c1_def)
    then show ?thesis
      using True set_remove_oldest_entry [of "now i" c]
      by (auto simp: free_up_loop.simps [of now i] c1_def intro!: exI [of _ j] exI [of _ c'])
  qed
qed

lemma free_up_loop_ends:
  assumes "0 < cache_size c" and "mono now" and "\<And>t. \<exists>n. t < now n"
  shows "\<exists>j c'. free_up_loop now i c = Some (j, c') \<and> length (cached c') < cache_size c \<and>
    set (cached c') \<subseteq> set (cached c) \<and> cache_size c' = cache_size c \<and> cache_timeout c' = cache_timeout c"
proof -
  define latest where "latest = Max (insert 0 ((\<lambda>(k, r, t). t) ` set (cached c)))"
  obtain n where n: "latest - cache_timeout c < now n" using assms(3) by blast
  have old: "\<forall>(k, r, t) \<in> set (cached c). t < now i + cache_timeout c" if "n \<le> i" for i
  proof clarify
    fix k r t assume "(k, r, t) \<in> set (cached c)"
    then have "t \<le> latest" unfolding latest_def by (force intro!: Max_ge)
    moreover have "now n \<le> now i" using assms(2) that by (simp add: mono_def)
    ultimately show "t < now i + cache_timeout c" using n by linarith
  qed
  show ?thesis
    using assms(1) old
  proof (induction "n - i" arbitrary: i c)
    case 0
    then show ?case using free_up_loop_ends_late [of c now i] assms(2) by fastforce
  next
    case (Suc m)
    define c1 where "c1 = remove_oldest_entry (now i) c"
    have sub: "set (cached c1) \<subseteq> set (cached c)"
      using set_remove_oldest_entry [of "now i" c] by (simp add: c1_def)
    obtain j c' where "free_up_loop now (Suc i) c1 = Some (j, c')" "length (cached c') < cache_size c1"
      "set (cached c') \<subseteq> set (cached c1)" "cache_size c' = cache_size c1" "cache_timeout c' = cache_timeout c1"
      using Suc.hyps(1) [of "Suc i" c1] Suc.hyps(2) Suc.prems sub by (fastforce simp: c1_def)
    then show ?case
      using sub by (cases "length (cached c) \<ge> cache_size c")
        (auto simp: free_up_loop.simps [of now i] c1_def)
  qed
qed

lemma free_up_loop_result:
  assumes "free_up_loop now i c = Some (j, c')"
  shows "length (cached c') < cache_size c' \<and> cache_size c' = cache_size c \<and>
    set (cached c') \<subseteq> set (cached c) \<and> (hm_invar (cached c) \<longrightarrow> hm_invar (cached c')) \<and> cache_timeout c' = cache_timeout c"
proof -
  have "r = (j, c') \<longrightarrow> length (cached c') < cache_size c' \<and> cache_size c' = cache_size c \<and>
      set (cached c') \<subseteq> set (cached c) \<and> (hm_invar (cached c) \<longrightarrow> hm_invar (cached c')) \<and> cache_timeout c' = cache_timeout c"
    if "free_up_loop now i c = Some r" for r
  proof (rule free_up_loop.raw_induct [OF _ that], goal_cases)
    case (1 loop now i c r)
    show ?case
    proof (cases "length (cached c) \<ge> cache_size c")
      case True
      with 1(1) [of now "Suc i" "remove_oldest_entry (now i) c" r] 1(2)
      show ?thesis
        using set_remove_oldest_entry [of "now i" c] remove_oldest_entry_invar [of c "now i"] by auto
    next
      case False
      with 1(2) show ?thesis by auto
    qed
  qed
  with assms show ?thesis by blast
qed

text \<open>With room for no entry the loop never ends: the length is never below zero.\<close>

lemma free_up_loop_no_room: "cache_size c = 0 \<Longrightarrow> free_up_loop now i c = None"
  using free_up_loop_result [of now i c] by (cases "free_up_loop now i c") force+

lemma push_back_result:
  assumes "push_back now k r c = Some c'"
  shows "map_of (cached c') k \<noteq> None \<and> fst (the (map_of (cached c') k)) = r \<and> length (cached c') \<le> cache_size c \<and>
    cache_size c' = cache_size c \<and> cache_timeout c' = cache_timeout c \<and>
    (hm_invar (cached c) \<longrightarrow> hm_invar (cached c')) \<and>
    (\<forall>k' r' t. k' \<noteq> k \<longrightarrow> (k', r', t) \<in> set (cached c') \<longrightarrow> (k', r', t) \<in> set (cached c))"
proof -
  obtain i c1 where c1: "free_up_space now c = Some (i, c1)"
    and c': "c' = c1\<lparr>cached := AList.update k (r, now i + cache_timeout c1) (cached c1)\<rparr>"
    using assms by (auto simp: push_back_def split: option.splits)
  define c0 where "c0 = c\<lparr>cached := retain (\<lambda>_ (_, timestamp). timestamp > now 0) (cached c)\<rparr>"
  have "free_up_loop now 1 c0 = Some (i, c1)" using c1 by (simp add: free_up_space_def c0_def)
  note res = free_up_loop_result [OF this]
  show ?thesis
    using res length_update_le [of k "(r, now i + cache_timeout c1)" "cached c1"]
    by (auto simp: c' c0_def update_conv' hm_simps dest!: set_update_cases)
qed

subsection \<open>The two indices\<close>

lemma key_distance_cong: "local_address st = local_address st' \<Longrightarrow> key_distance E st = key_distance E st'"
  by (rule ext) (simp add: key_distance_def)

lemma index_invar_cong:
  assumes "local_address st = local_address st'" and "records st = records st'"
    and "records_by_distance st = records_by_distance st'"
  shows "index_invar E K st = index_invar E K st'"
  by (simp add: index_invar_def key_distance_cong [OF assms(1)] store_keys_def assms)

lemma pruning_indexing_cache_simps [simp]:
  "local_address (pruning_indexing_cache E k st) = local_address st"
  "config (pruning_indexing_cache E k st) = config st"
  "records (pruning_indexing_cache E k st) = AList.delete k (records st)"
  "farthest_record (pruning_indexing_cache E k st) = farthest_record st"
  "records_cache (pruning_indexing_cache E k st) = records_cache st"
  "spawned (pruning_indexing_cache E k st) = spawned st"
  "sent_cmds (pruning_indexing_cache E k st) = sent_cmds st"
  "encryption_details (pruning_indexing_cache E k st) = encryption_details st"
  by (simp_all add: pruning_indexing_cache_def split: option.splits)

lemma store_keys_delete: "records st' = AList.delete k (records st) \<Longrightarrow> store_keys st' = store_keys st - {k}"
  by (force simp: store_keys_def set_delete)

lemma store_keys_pruning_indexing_cache [simp]: "store_keys (pruning_indexing_cache E k st) = store_keys st - {k}"
  by (simp add: store_keys_delete)

lemma pruning_indexing_cache_index:
  assumes "distances_distinct E (local_address st) K" and "index_invar E K st"
  shows "index_invar E K (pruning_indexing_cache E k st)"
proof (cases "map_of (records st) k")
  case None
  then have "pruning_indexing_cache E k st = st"
    by (simp add: pruning_indexing_cache_def delete_idem map_of_eq_None_iff [symmetric])
  with assms(2) show ?thesis by simp
next
  case (Some e)
  then obtain addr vt dt where e: "map_of (records st) k = Some (addr, vt, dt)" by (cases e) auto
  then have k: "(k, addr, vt, dt) \<in> set (records st)" by (rule map_of_SomeD)
  with assms(2) have addr: "addr = na_from_key k" and "k \<in> K" by (force simp: index_invar_def store_keys_def)+
  define st' where "st' = pruning_indexing_cache E k st"
  have kd: "key_distance E st' = key_distance E st" by (rule key_distance_cong) (simp add: st'_def)
  have uniq: "k' = k" if "k' \<in> store_keys st" "key_distance E st k' = key_distance E st k" for k'
    using that assms \<open>k \<in> K\<close> by (auto simp: distances_distinct_def index_invar_def key_distance_def dest: inj_onD)
  have bd: "records_by_distance st' = AList.delete (key_distance E st k) (records_by_distance st)"
    by (simp add: st'_def pruning_indexing_cache_def e addr key_distance_def)
  have "set (records_by_distance st') = (\<lambda>k. (key_distance E st k, k)) ` (store_keys st - {k})"
    using assms(2) uniq by (auto simp: bd set_delete index_invar_def)
  moreover have "store_keys st' = store_keys st - {k}" "records st' = AList.delete k (records st)"
    by (simp_all add: st'_def)
  ultimately have "index_invar E K st'"
    using assms(2) by (auto simp: index_invar_def kd bd set_delete hm.invar_remove bt.invar_remove)
  then show ?thesis by (simp add: st'_def)
qed

lemma mark_as_stored_simps [simp]:
  "local_address (mark_as_stored E k vt dt st) = local_address st"
  "config (mark_as_stored E k vt dt st) = config st"
  "records (mark_as_stored E k vt dt st) = AList.update k (na_from_key k, vt, dt) (records st)"
  "records_by_distance (mark_as_stored E k vt dt st) = bt_insert (key_distance E st k) k (records_by_distance st)"
  "records_cache (mark_as_stored E k vt dt st) = records_cache st"
  "spawned (mark_as_stored E k vt dt st) = spawned st"
  "sent_cmds (mark_as_stored E k vt dt st) = sent_cmds st"
  "encryption_details (mark_as_stored E k vt dt st) = encryption_details st"
  by (simp_all add: mark_as_stored_def Let_def key_distance_def split: option.splits)

lemma store_keys_mark_as_stored [simp]: "store_keys (mark_as_stored E k vt dt st) = insert k (store_keys st)"
  by (simp add: store_keys_def AList.dom_update)

lemma mark_as_stored_index:
  assumes "distances_distinct E (local_address st) K" and "index_invar E K st" and "k \<in> K"
  shows "index_invar E K (mark_as_stored E k vt dt st)"
proof -
  define st' where "st' = mark_as_stored E k vt dt st"
  have kd: "key_distance E st' = key_distance E st" by (rule key_distance_cong) (simp add: st'_def)
  from assms(2) have hm: "hm_invar (records st)" and bt: "bt_invar (records_by_distance st)"
    by (simp_all add: index_invar_def)
  have uniq: "k' = k" if "k' \<in> store_keys st" "key_distance E st k' = key_distance E st k" for k'
    using that assms by (auto simp: distances_distinct_def index_invar_def key_distance_def dest: inj_onD)
  have "set (records_by_distance st') = (\<lambda>k. (key_distance E st k, k)) ` insert k (store_keys st)"
    using assms(2) uniq by (auto simp: st'_def set_bt_insert [OF bt] index_invar_def)
  moreover have "store_keys st' = insert k (store_keys st)"
    "records st' = AList.update k (na_from_key k, vt, dt) (records st)" "bt_invar (records_by_distance st')"
    by (simp_all add: st'_def bt.invar_insert bt)
  ultimately have "index_invar E K st'"
    using assms(2,3) by (auto simp: index_invar_def kd hm.invar_insert set_hm_update [OF hm])
  then show ?thesis by (simp add: st'_def)
qed

lemma store_remove_index_fields [simp]:
  "local_address (store_remove E k st) = local_address st"
  "config (store_remove E k st) = config st"
  "records (store_remove E k st) = AList.delete k (records st)"
  "records_by_distance (store_remove E k st) = records_by_distance (pruning_indexing_cache E k st)"
  "cached (records_cache (store_remove E k st)) = AList.delete k (cached (records_cache st))"
  "cache_size (records_cache (store_remove E k st)) = cache_size (records_cache st)"
  "cache_timeout (records_cache (store_remove E k st)) = cache_timeout (records_cache st)"
  "spawned (store_remove E k st) = spawned st @ [RemoveFile (storage_dir (config st), generate_filename E k)]"
  "sent_cmds (store_remove E k st) = sent_cmds st"
  "encryption_details (store_remove E k st) = encryption_details st"
  by (simp_all add: store_remove_def Let_def cache_remove_def split: option.splits)

lemma store_keys_store_remove [simp]: "store_keys (store_remove E k st) = store_keys st - {k}"
  by (simp add: store_keys_delete)

lemma store_remove_index:
  assumes "distances_distinct E (local_address st) K" and "index_invar E K st"
  shows "index_invar E K (store_remove E k st)"
  using pruning_indexing_cache_index [OF assms, of k]
  by (simp add: index_invar_cong [of "store_remove E k st" "pruning_indexing_cache E k st"])

subsection \<open>The farthest record\<close>

lemma calculate_farthest_exact: "farthest_exact E (st\<lparr>farthest_record := calculate_farthest E st\<rparr>)"
proof -
  define s where "s = sort_key (key_distance E st) (map fst (records st))"
  define st' where "st' = st\<lparr>farthest_record := calculate_farthest E st\<rparr>"
  have set_s: "set s = store_keys st" by (simp add: s_def store_keys_def)
  have *: "store_keys st' = store_keys st" "key_distance E st' = key_distance E st"
    by (simp add: st'_def store_keys_def) (rule key_distance_cong, simp add: st'_def)
  have "calculate_farthest E st = (if s = [] then None else Some (last s, key_distance E st (last s)))"
    by (simp add: calculate_farthest_def s_def Let_def)
  then have "farthest_record st' = (if s = [] then None else Some (last s, key_distance E st (last s)))"
    by (simp add: st'_def)
  moreover have "key_distance E st k \<le> key_distance E st (last s)" if "k \<in> store_keys st" for k
    using that last_sort_key_max [of k "map fst (records st)" "key_distance E st"] by (simp add: s_def store_keys_def)
  moreover have "s \<noteq> [] \<Longrightarrow> last s \<in> store_keys st" "s = [] \<Longrightarrow> store_keys st = {}"
    using last_in_set [of s] set_s by auto
  ultimately show ?thesis
    unfolding st'_def [symmetric] by (simp add: farthest_exact_def farthest_bound_def *)
qed

lemma farthest_cong:
  assumes "local_address st = local_address st'" and "records st = records st'"
    and "farthest_record st = farthest_record st'"
  shows "farthest_bound E st = farthest_bound E st'" "farthest_exact E st = farthest_exact E st'"
  by (simp_all only: farthest_bound_def farthest_exact_def key_distance_cong [OF assms(1)] store_keys_def assms)

lemma farthest_record_store_remove:
  "farthest_record (store_remove E k st) =
    (case farthest_record st of
       Some (f, _) \<Rightarrow> if f = k then calculate_farthest E (store_remove E k st) else farthest_record st
     | None \<Rightarrow> None)"
  by (auto simp: store_remove_def Let_def cache_remove_def calculate_farthest_def key_distance_def [abs_def] split: option.splits)

lemma store_remove_farthest:
  shows "farthest_bound E st \<Longrightarrow> farthest_bound E (store_remove E k st)"
    and "farthest_exact E st \<Longrightarrow> farthest_exact E (store_remove E k st)"
proof -
  have recompute: "farthest_exact E (store_remove E k st)" if "farthest_record st = Some (k, d)" for d
    using calculate_farthest_exact [of E "store_remove E k st"] that
      farthest_cong(2) [of "store_remove E k st" "(store_remove E k st)\<lparr>farthest_record := calculate_farthest E (store_remove E k st)\<rparr>"]
    by (simp add: farthest_record_store_remove)
  have keep: "farthest_record (store_remove E k st) = farthest_record st" if "\<And>d. farthest_record st \<noteq> Some (k, d)"
    using that by (auto simp: farthest_record_store_remove split: option.splits)
  have kd: "key_distance E (store_remove E k st) = key_distance E st"
    by (rule key_distance_cong) simp
  show "farthest_bound E st \<Longrightarrow> farthest_bound E (store_remove E k st)"
    using recompute keep
    by (cases "\<exists>d. farthest_record st = Some (k, d)")
      (auto simp: farthest_exact_def farthest_bound_def kd split: option.splits)
  show "farthest_exact E st \<Longrightarrow> farthest_exact E (store_remove E k st)"
    using recompute keep
    by (cases "\<exists>d. farthest_record st = Some (k, d)")
      (auto simp: farthest_exact_def farthest_bound_def kd split: option.splits)
qed

lemma pruning_indexing_cache_farthest: "farthest_bound E st \<Longrightarrow> farthest_bound E (pruning_indexing_cache E k st)"
  using key_distance_cong [of "pruning_indexing_cache E k st" st E]
  by (auto simp: farthest_bound_def split: option.splits)

lemma mark_as_stored_farthest:
  shows "farthest_bound E st \<Longrightarrow> farthest_bound E (mark_as_stored E k vt dt st)"
    and "farthest_exact E st \<Longrightarrow> farthest_exact E (mark_as_stored E k vt dt st)"
proof -
  have kd: "key_distance E (mark_as_stored E k vt dt st) = key_distance E st"
    by (rule key_distance_cong) simp
  have far: "farthest_record (mark_as_stored E k vt dt st) =
      (case farthest_record st of
         Some (_, d) \<Rightarrow> if key_distance E st k > d then Some (k, key_distance E st k) else farthest_record st
       | None \<Rightarrow> Some (k, key_distance E st k))"
    by (simp add: mark_as_stored_def Let_def key_distance_def split: option.splits)
  show "farthest_bound E st \<Longrightarrow> farthest_bound E (mark_as_stored E k vt dt st)"
    by (auto simp: farthest_bound_def kd far split: option.splits if_splits)
  then show "farthest_exact E st \<Longrightarrow> farthest_exact E (mark_as_stored E k vt dt st)"
    by (auto simp: farthest_exact_def far split: option.splits if_splits)
qed

subsection \<open>Pruning\<close>

lemma prune_cases:
  obtains (room) "length (records st) < max_records (config st)" "prune_records_if_needed E k st = (st, Ok ())"
  | (empty) "max_records (config st) \<le> length (records st)" "farthest_record st = None"
      "prune_records_if_needed E k st = (st, Ok ())"
  | (refused) f d where "max_records (config st) \<le> length (records st)" "farthest_record st = Some (f, d)"
      "d < key_distance E st k" "prune_records_if_needed E k st = (st, Err MaxRecords)"
  | (pruned) f d where "max_records (config st) \<le> length (records st)" "farthest_record st = Some (f, d)"
      "key_distance E st k \<le> d" "prune_records_if_needed E k st = (store_remove E f st, Ok ())"
proof (cases "length (records st) < max_records (config st)")
  case False
  then show thesis
    using that(2-4) by (cases "farthest_record st") (fastforce simp: prune_records_if_needed_def not_less)+
qed (simp add: that(1) prune_records_if_needed_def)

lemma length_delete_present:
  assumes "hm_invar m" and "k \<in> fst ` set m" shows "Suc (length (AList.delete k m)) = length m"
proof -
  from assms(2) have "map_of m k \<noteq> None" "m \<noteq> []" by (auto simp: map_of_eq_None_iff)
  then show ?thesis using hm.len_remove [OF assms(1), of k] by (cases m) auto
qed

lemma prune_index:
  assumes "distances_distinct E (local_address st) K" and "index_invar E K st"
    and "prune_records_if_needed E k st = (st', res)"
  shows "index_invar E K st'"
  using assms store_remove_index [OF assms(1,2)]
  by (cases rule: prune_cases [of st E k]) auto

lemma prune_farthest:
  assumes "prune_records_if_needed E k st = (st', res)"
  shows "farthest_bound E st \<Longrightarrow> farthest_bound E st'" and "farthest_exact E st \<Longrightarrow> farthest_exact E st'"
  using assms store_remove_farthest by (cases rule: prune_cases [of st E k]; auto)+

lemma prune_local_address:
  "prune_records_if_needed E k st = (st', res) \<Longrightarrow> local_address st' = local_address st"
  by (cases rule: prune_cases [of st E k]) auto

subsection \<open>Storing\<close>

lemma put_uncached_cases:
  assumes "put_uncached E now r vt cl st = Some (st', res)"
  obtains c st1 where "prune_records_if_needed E (rkey r) (st\<lparr>records_cache := c\<rparr>) = (st1, res)"
    and "cl \<Longrightarrow> push_back now (rkey r) r (records_cache st) = Some c" and "\<not> cl \<Longrightarrow> c = records_cache st"
    and "st' = (case res of Err _ \<Rightarrow> st1
           | Ok _ \<Rightarrow> st1\<lparr>spawned := spawned st1 @ [WriteRecord r vt (storage_dir (config st1), generate_filename E (rkey r)) (encryption_details st1)]\<rparr>)"
proof -
  obtain c where c: "(if cl then push_back now (rkey r) r (records_cache st) else Some (records_cache st)) = Some c"
    using assms by (auto simp: put_uncached_def Let_def split: option.splits)
  obtain st1 res1 where p: "prune_records_if_needed E (rkey r) (st\<lparr>records_cache := c\<rparr>) = (st1, res1)"
    by (cases "prune_records_if_needed E (rkey r) (st\<lparr>records_cache := c\<rparr>)")
  from assms have res: "res1 = res"
    unfolding put_uncached_def Let_def c option.case p by (cases res1) auto
  from assms have st': "st' = (case res1 of Err _ \<Rightarrow> st1
      | Ok _ \<Rightarrow> st1\<lparr>spawned := spawned st1 @ [WriteRecord r vt (storage_dir (config st1), generate_filename E (rkey r)) (encryption_details st1)]\<rparr>)"
    unfolding put_uncached_def Let_def c option.case p by (cases res1) auto
  show thesis
    by (rule that [OF p [unfolded res] _ _ st' [unfolded res]]) (use c in simp_all)
qed

lemma put_verified_cases:
  assumes "put_verified E now r vt cl st = Some (st', res)"
  obtains (hit) c existing t where "map_of (cached (records_cache st)) (rkey r) = Some (existing, t)"
      "rvalue existing = rvalue r" "st' = st\<lparr>records_cache := c\<rparr>" "res = Ok ()"
      "push_back now (rkey r) existing (fst (cache_remove (rkey r) (records_cache st))) = Some c"
  | (miss) "put_uncached E now r vt cl (st\<lparr>records_cache := fst (cache_remove (rkey r) (records_cache st))\<rparr>) = Some (st', res)"
      "\<nexists>existing t. map_of (cached (records_cache st)) (rkey r) = Some (existing, t) \<and> rvalue existing = rvalue r"
proof (cases "map_of (cached (records_cache st)) (rkey r)")
  case None
  then show thesis using assms miss by (simp add: put_verified_def cache_remove_def)
next
  case (Some e)
  obtain existing t where e: "map_of (cached (records_cache st)) (rkey r) = Some (existing, t)"
    using Some by (cases e) simp
  show thesis
  proof (cases "rvalue existing = rvalue r")
    case True
    with e assms obtain c where "push_back now (rkey r) existing (fst (cache_remove (rkey r) (records_cache st))) = Some c"
      "st' = st\<lparr>records_cache := c\<rparr>" "res = Ok ()"
      by (auto simp: put_verified_def cache_remove_def Let_def split: option.splits)
    with e True show thesis using hit by blast
  next
    case False
    with e assms show thesis using miss by (simp add: put_verified_def cache_remove_def)
  qed
qed

lemma put_verified_shape:
  assumes "put_verified E now r vt cl st = Some (st', res)"
  obtains c st1 sp where "st1 = st\<lparr>records_cache := c\<rparr> \<or> prune_records_if_needed E (rkey r) (st\<lparr>records_cache := c\<rparr>) = (st1, res)"
    and "st' = st1\<lparr>spawned := sp\<rparr>"
  using assms
proof (cases rule: put_verified_cases)
  case (hit c existing t)
  then show thesis using that [of "st\<lparr>records_cache := c\<rparr>" c "spawned st"] by simp
next
  case miss
  then show thesis
  proof (cases rule: put_uncached_cases)
    case (1 c st1)
    then show thesis using that [of st1 c "spawned st'"] by (cases res) auto
  qed
qed

lemma put_verified_index:
  assumes "distances_distinct E (local_address st) K" and "index_invar E K st"
    and "put_verified E now r vt cl st = Some (st', res)"
  shows "index_invar E K st'"
proof -
  obtain c st1 sp where st1: "st1 = st\<lparr>records_cache := c\<rparr> \<or> prune_records_if_needed E (rkey r) (st\<lparr>records_cache := c\<rparr>) = (st1, res)"
    and st': "st' = st1\<lparr>spawned := sp\<rparr>"
    using assms(3) by (rule put_verified_shape)
  have "index_invar E K (st\<lparr>records_cache := c\<rparr>)"
    using assms(2) index_invar_cong [of "st\<lparr>records_cache := c\<rparr>" st E K] by simp
  with st1 assms(1) have "index_invar E K st1" using prune_index [of E "st\<lparr>records_cache := c\<rparr>" K] by auto
  then show ?thesis
    using index_invar_cong [of "st1\<lparr>spawned := sp\<rparr>" st1 E K] st' by simp
qed

lemma put_verified_farthest:
  assumes "put_verified E now r vt cl st = Some (st', res)"
  shows "local_address st' = local_address st"
    and "farthest_bound E st \<Longrightarrow> farthest_bound E st'" and "farthest_exact E st \<Longrightarrow> farthest_exact E st'"
proof -
  obtain c st1 sp where st1: "st1 = st\<lparr>records_cache := c\<rparr> \<or> prune_records_if_needed E (rkey r) (st\<lparr>records_cache := c\<rparr>) = (st1, res)"
    and st': "st' = st1\<lparr>spawned := sp\<rparr>"
    using assms by (rule put_verified_shape)
  define st0 where "st0 = st\<lparr>records_cache := c\<rparr>"
  have cong0: "farthest_bound E st0 = farthest_bound E st" "farthest_exact E st0 = farthest_exact E st"
    by (rule farthest_cong; simp add: st0_def)+
  have cong1: "farthest_bound E st' = farthest_bound E st1" "farthest_exact E st' = farthest_exact E st1"
    by (rule farthest_cong; simp add: st')+
  have "local_address st1 = local_address st"
    using st1 prune_local_address [of E "rkey r" st0 st1 res] by (auto simp: st0_def)
  then show "local_address st' = local_address st" by (simp add: st')
  show "farthest_bound E st \<Longrightarrow> farthest_bound E st'" "farthest_exact E st \<Longrightarrow> farthest_exact E st'"
    using st1 prune_farthest [of E "rkey r" st0 st1 res] cong0 unfolding cong1 st0_def [symmetric] by auto
qed

subsection \<open>Cleanup\<close>

lemma fold_store_remove_index:
  assumes "distances_distinct E (local_address st) K" and "index_invar E K st"
  shows "index_invar E K (fold (store_remove E) ks st) \<and> local_address (fold (store_remove E) ks st) = local_address st"
  using assms
proof (induction ks arbitrary: st)
  case (Cons k ks)
  then show ?case
    using Cons.IH [of "store_remove E k st"] store_remove_index [of E st K k] by simp
qed simp

lemma fold_store_remove_farthest:
  "(farthest_bound E st \<longrightarrow> farthest_bound E (fold (store_remove E) ks st)) \<and>
   (farthest_exact E st \<longrightarrow> farthest_exact E (fold (store_remove E) ks st))"
proof (induction ks arbitrary: st)
  case (Cons k ks)
  then show ?case using Cons.IH [of "store_remove E k st"] store_remove_farthest [of E st k] by simp
qed simp

lemma store_keys_fold_store_remove: "store_keys (fold (store_remove E) ks st) = store_keys st - set ks"
  by (induction ks arbitrary: st) auto

lemma cleanup_fold: "cleanup_irrelevant_records E st = fold (store_remove E) (irrelevant_keys st) st"
  by (simp add: cleanup_irrelevant_records_def irrelevant_keys_def Let_def cleanup_keys_def split: option.splits)

text \<open>The farthest entries of a strictly ordered index: nothing outside them is farther than any of them.\<close>

lemma cleanup_keys_farthest:
  assumes "bt_invar m" and "(d, k) \<in> set (filter (\<lambda>(d, _). d \<ge> rng) (take n (rev m)))"
    and "(d', k') \<in> set m" and "(d', k') \<notin> set (filter (\<lambda>(d, _). d \<ge> rng) (take n (rev m)))"
  shows "d' < d"
proof -
  have split: "rev m = take n (rev m) @ drop n (rev m)" by simp
  then have m: "m = rev (drop n (rev m)) @ rev (take n (rev m))" by (metis rev_append rev_rev_ident)
  have sorted: "sorted_wrt (<) (map fst (rev (drop n (rev m))) @ map fst (rev (take n (rev m))))"
    using assms(1) m by (metis bt_invar_def map_append)
  from assms(2) have d: "(d, k) \<in> set (take n (rev m))" "rng \<le> d" by auto
  show ?thesis
  proof (cases "(d', k') \<in> set (take n (rev m))")
    case True
    with assms(4) have "d' < rng" by auto
    with d show ?thesis by simp
  next
    case False
    with assms(3) split have "(d', k') \<in> set (drop n (rev m))"
      by (metis Un_iff set_append set_rev)
    with d(1) sorted show ?thesis by (force simp: sorted_wrt_append)
  qed
qed

lemma records_by_distance_key:
  assumes "index_invar E K st" shows "(d, k) \<in> set (records_by_distance st) \<longleftrightarrow> k \<in> store_keys st \<and> d = key_distance E st k"
  using assms by (auto simp: index_invar_def)

lemma cleanup_keys_spec:
  assumes "index_invar E K st" and "k \<in> set (cleanup_keys n rng (records_by_distance st))"
  shows "k \<in> store_keys st \<and> rng \<le> key_distance E st k \<and>
    (\<forall>k' \<in> store_keys st. k' \<notin> set (cleanup_keys n rng (records_by_distance st)) \<longrightarrow>
        key_distance E st k' < key_distance E st k)"
proof -
  define F where "F = filter (\<lambda>(d, _). d \<ge> rng) (take n (rev (records_by_distance st)))"
  have ck: "set (cleanup_keys n rng (records_by_distance st)) = snd ` set F"
    by (simp add: cleanup_keys_def F_def)
  have sub: "set F \<subseteq> set (records_by_distance st)"
    using set_take_subset [of n "rev (records_by_distance st)"] by (auto simp: F_def)
  from assms(2) obtain d where dk: "(d, k) \<in> set F" unfolding ck by force
  with sub have k: "k \<in> store_keys st" "d = key_distance E st k"
    using records_by_distance_key [OF assms(1)] by auto
  have "rng \<le> d" using dk by (auto simp: F_def)
  moreover have "key_distance E st k' < d" if "k' \<in> store_keys st" "k' \<notin> snd ` set F" for k'
  proof -
    have "(key_distance E st k', k') \<in> set (records_by_distance st)"
      using that(1) records_by_distance_key [OF assms(1)] by simp
    moreover have "(key_distance E st k', k') \<notin> set F" using that(2) by force
    moreover have "bt_invar (records_by_distance st)" using assms(1) by (simp add: index_invar_def)
    ultimately show ?thesis
      by (intro cleanup_keys_farthest [OF _ dk [unfolded F_def], of "key_distance E st k'" k']) (simp_all only: F_def not_False_eq_True)
  qed
  ultimately show ?thesis using k unfolding ck by auto
qed

lemma length_cleanup_keys: "length (cleanup_keys n rng m) \<le> n"
proof -
  have "length (filter P (take n xs)) \<le> n" for P and xs :: "(distance \<times> record_key) list"
    by (rule order_trans [OF length_filter_le]) simp
  then show ?thesis by (simp add: cleanup_keys_def)
qed

subsection \<open>Start-up\<close>

lemma fold_update_hm:
  "hm_invar m \<Longrightarrow> hm_invar (fold (\<lambda>(k, v). AList.update k v) xs m) \<and>
     fst ` set (fold (\<lambda>(k, v). AList.update k v) xs m) = fst ` set m \<union> fst ` set xs \<and>
     set (fold (\<lambda>(k, v). AList.update k v) xs m) \<subseteq> set m \<union> set xs"
proof (induction xs arbitrary: m)
  case (Cons x xs)
  obtain k v where x: "x = (k, v)" by (cases x)
  have inv: "hm_invar (AList.update k v m)" using Cons.prems by (rule hm.invar_insert)
  have "fst ` set (AList.update k v m) = insert k (fst ` set m)" by (simp add: AList.dom_update)
  moreover have "set (AList.update k v m) \<subseteq> insert (k, v) (set m)" using set_update_cases by fast
  ultimately show ?case using Cons.IH [OF inv] unfolding x by (simp add: Un_assoc) blast
qed simp

lemma fold_bt_insert_index:
  assumes "bt_invar m" and "set m = (\<lambda>k. (D k, k)) ` S" and "inj_on D (S \<union> fst ` set xs)"
    and "\<And>k a b. (k, a, b) \<in> set xs \<Longrightarrow> dist a = D k"
  shows "bt_invar (fold (\<lambda>(k, a, _). bt_insert (dist a) k) xs m) \<and>
    set (fold (\<lambda>(k, a, _). bt_insert (dist a) k) xs m) = (\<lambda>k. (D k, k)) ` (S \<union> fst ` set xs)"
  using assms
proof (induction xs arbitrary: m S)
  case (Cons x xs)
  obtain k a b where x: "x = (k, a, b)" by (cases x)
  have D: "dist a = D k" using Cons.prems(4) [of k a b] by (simp add: x)
  have uniq: "k' = k" if "k' \<in> S" "D k' = D k" for k'
    using that Cons.prems(3) by (auto simp: x inj_on_def)
  have "set (bt_insert (dist a) k m) = (\<lambda>k. (D k, k)) ` (insert k S)"
    using Cons.prems(2) uniq by (auto simp: set_bt_insert [OF Cons.prems(1)] D)
  moreover have "dist a' = D k'" if "(k', a', b') \<in> set xs" for k' a' b'
    using that Cons.prems(4) [of k' a' b'] by simp
  ultimately show ?case
    using Cons.IH [of "bt_insert (dist a) k m" "insert k S"] Cons.prems(3) bt.invar_insert [OF Cons.prems(1), of "dist a" k]
    by (simp add: x)
qed simp

lemma process_entry_address:
  "process_entry E A details e = (Some (k, addr, vt, dt), rm) \<Longrightarrow> addr = na_from_key k"
  by (auto simp: process_entry_def Let_def split: if_splits option.splits result.splits)

lemma update_records_from_an_existing_store_index:
  assumes "update_records_from_an_existing_store E A details entries = (recs, removed)"
  shows "hm_invar recs \<and> (\<forall>(k, addr, _) \<in> set recs. addr = na_from_key k \<and> k \<in> entry_keys E entries)"
proof -
  define xs where "xs = filter_map (\<lambda>((entry, _), _). entry) (map (\<lambda>e. (process_entry E A details e, de_path e)) entries)"
  have recs: "recs = fold (\<lambda>(k, v). AList.update k v) xs []"
    using assms by (simp add: update_records_from_an_existing_store_def xs_def Let_def)
  have "addr = na_from_key k \<and> k \<in> entry_keys E entries" if "(k, addr, rest) \<in> set xs" for k addr rest
  proof -
    from that obtain e where "e \<in> set entries" "fst (process_entry E A details e) = Some (k, addr, rest)"
      by (auto simp: xs_def case_prod_beta)
    then obtain rm where e: "e \<in> set entries" "process_entry E A details e = (Some (k, addr, rest), rm)"
      by (cases "process_entry E A details e") auto
    then have "Option.bind (de_file_name e) (get_data_from_filename E) = Some k"
      by (auto simp: process_entry_def Let_def split: if_splits option.splits result.splits)
    with e show ?thesis
      using process_entry_address [of E A details e k addr "fst rest" "snd rest" rm] by (auto simp: entry_keys_def)
  qed
  then show ?thesis
    using fold_update_hm [of "[]" xs] by (auto simp: recs hm_invar_Nil)
qed

lemma with_config_established:
  assumes "with_config E A now d entries local_id cfg = (st, removed)"
    and "entry_keys E entries \<subseteq> K" and "distances_distinct E (na_from_peer E local_id) K"
  shows "index_invar E K st \<and> farthest_exact E st \<and> local_address st = na_from_peer E local_id"
proof -
  define details where "details = derive_aes256gcm_siv_from_seed A (encryption_seed cfg)"
  obtain recs rm where recs: "update_records_from_an_existing_store E A details entries = (recs, rm)"
    by (cases "update_records_from_an_existing_store E A details entries")
  define l where "l = na_from_peer E local_id"
  define D where "D k = na_distance E l (na_from_key k)" for k
  define by_distance where "by_distance = fold (\<lambda>(key, addr, _, _). bt_insert (na_distance E l addr) key) recs []"
  note ok = update_records_from_an_existing_store_index [OF recs]
  have keys: "fst ` set recs \<subseteq> K" using ok assms(2) by fastforce
  have by_distance': "by_distance = fold (\<lambda>(key, addr, _). bt_insert (na_distance E l addr) key) recs []"
    unfolding by_distance_def by (rule fold_cong) auto
  have by_distance_ok: "bt_invar by_distance \<and> set by_distance = (\<lambda>k. (D k, k)) ` ({} \<union> fst ` set recs)"
    unfolding by_distance'
  proof (rule fold_bt_insert_index)
    show "inj_on D ({} \<union> fst ` set recs)"
      using assms(3) keys inj_on_subset [of D K] by (simp add: distances_distinct_def D_def [abs_def] l_def)
    show "na_distance E l a = D k" if "(k, a, b) \<in> set recs" for k a b
      using ok that by (auto simp: D_def)
  qed (simp_all add: bt_invar_Nil)
  obtain count time where ct: "(case restore_quoting_metrics A d (historic_quote_dir cfg) of
      Some h \<Rightarrow> (hq_received_payment_count h, hq_timestamp h) | None \<Rightarrow> (0, now)) = (count, time)"
    by fastforce
  define st0 where "st0 = \<lparr>local_address = l, config = cfg, records = recs,
      records_by_distance = by_distance, records_cache = cache_new (records_cache_size cfg) CACHE_TIMEOUT,
      responsible_distance_range = None, received_payment_count = count, encryption_details = details,
      timestamp = time, farthest_record = None, spawned = [], sent_cmds = []\<rparr>"
  have st: "st = flush_historic_quoting_metrics (st0\<lparr>farthest_record := calculate_farthest E st0\<rparr>)"
    using assms(1) unfolding with_config_def details_def [symmetric] recs ct Let_def prod.case
    by (simp add: st0_def by_distance_def l_def)
  have st0: "local_address st0 = l" "records st0 = recs" "records_by_distance st0 = by_distance"
    by (simp_all add: st0_def)
  have "index_invar E K st0"
    using ok keys by_distance_ok by (auto simp: index_invar_def store_keys_def key_distance_def D_def st0)
  moreover have "index_invar E K st = index_invar E K st0"
    by (rule index_invar_cong) (simp_all add: st flush_historic_quoting_metrics_def)
  moreover have "farthest_exact E st"
    using calculate_farthest_exact [of E st0]
      farthest_cong(2) [of st "st0\<lparr>farthest_record := calculate_farthest E st0\<rparr>" E]
    by (simp add: st flush_historic_quoting_metrics_def)
  ultimately show ?thesis by (simp add: st st0 flush_historic_quoting_metrics_def l_def)
qed

subsection \<open>Runs of the store\<close>

lemma index_frame:
  assumes "local_address st' = local_address st" "records st' = records st"
    "records_by_distance st' = records_by_distance st" "farthest_record st' = farthest_record st"
  shows "index_invar E K st \<Longrightarrow> index_invar E K st'" "farthest_bound E st \<Longrightarrow> farthest_bound E st'"
    "farthest_exact E st \<Longrightarrow> farthest_exact E st'"
  using index_invar_cong [OF assms(1-3)] farthest_cong [OF assms(1,2,4)] by simp_all

lemma store_get_frame:
  "store_get E A d k st = (st', r') \<Longrightarrow> st' = st \<or> st' = st\<lparr>sent_cmds := sent_cmds st @ [RemoveOutOfSyncEntry k]\<rparr>"
  by (auto simp: store_get_def split: option.splits if_splits)

lemma store_put_frame:
  "store_put E r st = (st', res) \<Longrightarrow> st' = st \<or> st' = st\<lparr>spawned := spawned st @ [SendUnverifiedRecord r]\<rparr>"
  by (auto simp: store_put_def Let_def
      split: if_splits result.splits record_kind.splits option.splits validation_type.splits)

lemma store_op_invariant:
  assumes "store_op E A K st st'" and "distances_distinct E (local_address st) K"
    and "index_invar E K st" and "farthest_bound E st"
  shows "local_address st' = local_address st \<and> index_invar E K st' \<and> farthest_bound E st' \<and>
    (farthest_exact E st \<longrightarrow> farthest_exact E st')"
  using assms
proof (cases rule: store_op.cases)
  case (op_put_verified now r vt cl res)
  note put = op_put_verified(1)
  show ?thesis using put_verified_index [OF assms(2,3) put] put_verified_farthest [OF put] assms(4) by simp
next
  case (op_mark_as_stored k vt dt)
  then show ?thesis using mark_as_stored_index [OF assms(2,3)] mark_as_stored_farthest assms(4) by simp
next
  case (op_remove k)
  then show ?thesis using store_remove_index [OF assms(2,3)] store_remove_farthest assms(4) by simp
next
  case op_cleanup
  then show ?thesis
    using fold_store_remove_index [OF assms(2,3)] fold_store_remove_farthest assms(4) by (simp add: cleanup_fold)
next
  case (op_get d k r')
  then show ?thesis using store_get_frame [of E A d k st st' r'] index_frame [of st' st] assms by auto
next
  case (op_put r res)
  then show ?thesis using store_put_frame [of E r st st' res] index_frame [of st' st] assms by auto
next
  case op_payment_received
  then show ?thesis
    using index_frame [of st' st] assms by (simp add: payment_received_def flush_historic_quoting_metrics_def)
next
  case (op_set_range d)
  then show ?thesis using index_frame [of st' st] assms by (simp add: set_responsible_distance_range_def)
next
  case (op_tasks sp cs)
  then show ?thesis using index_frame [of st' st] assms by simp
qed

lemma store_run_invariant:
  assumes "store_run E A K st\<^sub>0 b st" and "distances_distinct E (local_address st\<^sub>0) K"
    and "index_invar E K st\<^sub>0" and "farthest_exact E st\<^sub>0"
  shows "local_address st = local_address st\<^sub>0 \<and> index_invar E K st \<and> farthest_bound E st \<and> (b \<longrightarrow> farthest_exact E st)"
  using assms
proof (induction rule: store_run.induct)
  case run_start
  then show ?case by (simp add: farthest_exact_def)
next
  case (run_op b st st')
  then show ?case using store_op_invariant [of E A K st st'] by auto
next
  case (run_out_of_sync b st k)
  then show ?case
    using pruning_indexing_cache_index [of E st K k] pruning_indexing_cache_farthest [of E st k] by simp
qed

lemma sample_aes_laws: "aes_laws sample_disk_crates"
  by (simp add: aes_laws_def sample_disk_crates_def)

lemma delete_id: "k \<notin> fst ` set m \<Longrightarrow> AList.delete k m = m"
  by (force simp: AList.delete_eq filter_id_conv)

section \<open>Properties\<close>

text \<open>C1: In every state reached from a freshly configured store, whatever the order of operations and
  spawned tasks, the distance index lists exactly the records held, each under its own distance, and no
  record is farther than the farthest record; and the farthest record is itself held as long as no
  out-of-sync entry was dropped.\<close>

theorem store_index_reachable:
  assumes "with_config E A now d entries local_id cfg = (st\<^sub>0, removed)"
    and "entry_keys E entries \<subseteq> K" and "distances_distinct E (na_from_peer E local_id) K"
    and "store_run E A K st\<^sub>0 synced st"
  shows "set (records_by_distance st) = (\<lambda>k. (key_distance E st k, k)) ` store_keys st \<and>
    distinct (map fst (records st)) \<and> sorted_wrt (<) (map fst (records_by_distance st)) \<and>
    (\<forall>f d. farthest_record st = Some (f, d) \<longrightarrow>
        d = key_distance E st f \<and> (\<forall>k \<in> store_keys st. key_distance E st k \<le> d) \<and> (synced \<longrightarrow> f \<in> store_keys st)) \<and>
    (farthest_record st = None \<longrightarrow> store_keys st = {})"
proof -
  from with_config_established [OF assms(1-3)] assms(3)
  have "index_invar E K st\<^sub>0" "farthest_exact E st\<^sub>0" "distances_distinct E (local_address st\<^sub>0) K" by simp_all
  from store_run_invariant [OF assms(4) this(3,1,2)] show ?thesis
    by (auto simp: index_invar_def farthest_exact_def farthest_bound_def hm_invar_def bt_invar_def)
qed

text \<open>C8: When the store is full and the farthest record is exact, room is made by removing exactly the
  farthest record, unless the incoming record is farther still, in which case it is refused and nothing
  changes.\<close>

theorem prune_makes_room:
  assumes "index_invar E K st" and "farthest_exact E st"
    and "max_records (config st) \<le> length (records st)" and "records st \<noteq> []"
  shows "\<exists>f \<in> store_keys st. (\<forall>k' \<in> store_keys st. key_distance E st k' \<le> key_distance E st f) \<and>
    (if key_distance E st f < key_distance E st k
     then prune_records_if_needed E k st = (st, Err MaxRecords)
     else \<exists>st'. prune_records_if_needed E k st = (st', Ok ()) \<and> store_keys st' = store_keys st - {f} \<and>
       Suc (length (records st')) = length (records st))"
proof -
  obtain f d where f: "farthest_record st = Some (f, d)"
    using assms(2,4) by (auto simp: farthest_exact_def farthest_bound_def store_keys_def split: option.splits)
  with assms(2) have *: "f \<in> store_keys st" "d = key_distance E st f" "\<forall>k' \<in> store_keys st. key_distance E st k' \<le> d"
    by (auto simp: farthest_exact_def farthest_bound_def)
  have "Suc (length (AList.delete f (records st))) = length (records st)"
    using assms(1) *(1) by (intro length_delete_present) (simp_all add: index_invar_def store_keys_def)
  moreover have "\<not> length (records st) < max_records (config st)"
    using assms(3) by simp
  ultimately show ?thesis
    using * f by (intro bexI [of _ f]) (simp_all add: prune_records_if_needed_def)
qed

text \<open>C25: After an out-of-sync entry was dropped the farthest record may no longer be held. A full store
  then accepts a closer record without removing anything, and holds one record more than its maximum
  once the new one is marked as stored.\<close>

theorem prune_without_room:
  assumes "hm_invar (records st)" and "length (records st) = max_records (config st)"
    and "farthest_record st = Some (f, d)" and "f \<notin> store_keys st"
    and "key_distance E st k \<le> d" and "k \<notin> store_keys st"
  shows "\<exists>st'. prune_records_if_needed E k st = (st', Ok ()) \<and>
    length (records (mark_as_stored E k vt dt st')) = Suc (max_records (config st))"
proof -
  have "AList.delete f (records st) = records st"
    using assms(4) by (simp add: store_keys_def delete_id)
  moreover have "length (AList.update k e (records st)) = Suc (length (records st))" for e
    using hm.len_insert [OF assms(1), of k e] assms(6) by (simp add: store_keys_def map_of_eq_None_iff)
  ultimately show ?thesis
    using assms by (simp add: prune_records_if_needed_def)
qed

text \<open>C9: Cleanup removes at most a tenth of the records, each of them at least ten times the
  responsible range away (saturating at the largest distance), and every record it keeps is closer than
  every record it removes. A store with fewer than a tenth of the standard capacity, or without a
  responsible range, is left alone.\<close>

theorem cleanup_removes_farthest:
  assumes "index_invar E K st"
  shows "store_keys (cleanup_irrelevant_records E st) \<subseteq> store_keys st \<and>
    card (store_keys st - store_keys (cleanup_irrelevant_records E st)) \<le> length (records st) div 10 \<and>
    (\<forall>k \<in> store_keys st - store_keys (cleanup_irrelevant_records E st).
       (\<exists>rng. responsible_distance_range st = Some rng \<and> saturating_mul rng 10 \<le> key_distance E st k) \<and>
       (\<forall>k' \<in> store_keys (cleanup_irrelevant_records E st). key_distance E st k' < key_distance E st k)) \<and>
    (length (records st) < MAX_RECORDS_COUNT div 10 \<or> responsible_distance_range st = None \<longrightarrow>
       cleanup_irrelevant_records E st = st)"
proof -
  have keys: "store_keys (cleanup_irrelevant_records E st) = store_keys st - set (irrelevant_keys st)"
    by (simp add: cleanup_fold store_keys_fold_store_remove)
  have "card (store_keys st - store_keys (cleanup_irrelevant_records E st)) \<le> card (set (irrelevant_keys st))"
    by (intro card_mono) (auto simp: keys)
  also have "\<dots> \<le> length (irrelevant_keys st)" by (rule card_length)
  also have "\<dots> \<le> length (records st) div 10"
    using length_cleanup_keys by (auto simp: irrelevant_keys_def split: option.splits)
  finally have card: "card (store_keys st - store_keys (cleanup_irrelevant_records E st)) \<le> length (records st) div 10" .
  have removed: "(\<exists>rng. responsible_distance_range st = Some rng \<and> saturating_mul rng 10 \<le> key_distance E st k) \<and>
      (\<forall>k' \<in> store_keys st - set (irrelevant_keys st). key_distance E st k' < key_distance E st k)"
    if "k \<in> set (irrelevant_keys st)" for k
  proof -
    from that obtain rng where rng: "responsible_distance_range st = Some rng"
      by (cases "responsible_distance_range st") (auto simp: irrelevant_keys_def)
    with that have ik: "irrelevant_keys st =
        cleanup_keys (length (records st) div 10) (saturating_mul rng 10) (records_by_distance st)"
      by (simp add: irrelevant_keys_def split: if_splits)
    show ?thesis using rng cleanup_keys_spec [OF assms that [unfolded ik]] by (simp add: ik)
  qed
  have "length (records st) < MAX_RECORDS_COUNT div 10 \<or> responsible_distance_range st = None \<Longrightarrow> irrelevant_keys st = []"
    by (auto simp: irrelevant_keys_def split: option.splits)
  then show ?thesis
    using card removed unfolding keys by (auto simp: cleanup_fold)
qed

lemma push_back_total:
  assumes "mono now" and "\<And>t. \<exists>n. t < now n" and "0 < cache_size c"
  shows "\<exists>c'. push_back now k r c = Some c'"
proof -
  define c0 where "c0 = c\<lparr>cached := retain (\<lambda>_ (_, timestamp). timestamp > now 0) (cached c)\<rparr>"
  have "0 < cache_size c0" using assms(3) by (simp add: c0_def)
  then obtain j c1 where "free_up_loop now 1 c0 = Some (j, c1)"
    using free_up_loop_ends [of c0 now 1] assms by blast
  then show ?thesis by (simp add: push_back_def free_up_space_def c0_def)
qed

text \<open>C10: Putting a record into the cache returns as soon as the clock advances, provided the cache may
  hold anything at all; the cache then holds the record and at most its configured number of entries.
  With a configured size of zero the loop that frees space never ends.\<close>

theorem cache_push_back_returns:
  assumes "mono now" and "\<And>t. \<exists>n. t < now n"
  shows "(0 < cache_size c \<longrightarrow>
     (\<exists>c' t. push_back now k r c = Some c' \<and> cache_get c' k = Some (r, t) \<and> length (cached c') \<le> cache_size c)) \<and>
    (cache_size c = 0 \<longrightarrow> push_back now k r c = None)"
proof -
  have "\<exists>c' t. push_back now k r c = Some c' \<and> cache_get c' k = Some (r, t) \<and> length (cached c') \<le> cache_size c"
    if room: "0 < cache_size c"
  proof -
    obtain c' where c': "push_back now k r c = Some c'" using push_back_total [OF assms room] by blast
    from push_back_result [OF this] show ?thesis by (auto simp: c' cache_get_def)
  qed
  moreover have "push_back now k r c = None" if "cache_size c = 0"
    using that free_up_loop_no_room [of "c\<lparr>cached := retain (\<lambda>_ (_, timestamp). timestamp > now 0) (cached c)\<rparr>" now 1]
    by (simp add: push_back_def free_up_space_def)
  ultimately show ?thesis by blast
qed

lemma records_per_type_fold:
  fixes recs :: "(record_key, record_entry) hash_map"
  defines "m \<equiv> fold (\<lambda>(_, _, _, dt) counts.
      bt_insert (get_index dt) ((case map_of counts (get_index dt) of Some n \<Rightarrow> n | None \<Rightarrow> 0) + 1) counts) recs []"
  defines "n \<equiv> \<lambda>dt. length (filter (\<lambda>(_, _, _, t). t = dt) recs)"
  shows "bt_invar m \<and> (\<forall>dt. map_of m (get_index dt) = (if n dt = 0 then None else Some (word_of_nat (n dt) :: u32)))"
  unfolding m_def n_def
proof (induction recs rule: rev_induct)
  case Nil
  then show ?case by (simp add: bt_invar_Nil)
next
  case (snoc e recs)
  obtain k a v t where e: "e = (k, a, v, t)" by (cases e)
  have idx: "get_index dt = get_index t \<longleftrightarrow> dt = t" for dt
    using from_index_get_index by (metis option.inject)
  show ?case
    using snoc.IH by (simp add: e bt.invar_insert bt.lookup_insert idx)
qed

text \<open>C12: The metrics a node quotes count what the store holds: the records closer than the responsible
  range when there is one, all of them otherwise, and for each data type the number of records of that
  type.\<close>

theorem quoting_metrics_count:
  assumes "index_invar E K st" and "store_quoting_metrics now key dt sz net st = (q, is_stored)"
  shows "qm_close_records_stored q = word_of_nat (card
       {k \<in> store_keys st. \<forall>rng. responsible_distance_range st = Some rng \<longrightarrow> key_distance E st k < rng}) \<and>
    qm_network_density q = responsible_distance_range st \<and>
    (\<forall>t. map_of (qm_records_per_type q) (get_index t) =
       (let n = length (filter (\<lambda>(_, _, _, t'). t' = t) (records st)) in if n = 0 then None else Some (word_of_nat n))) \<and>
    (is_stored \<longleftrightarrow> key \<in> store_keys st)"
proof -
  have dist: "distinct (map fst (records st))" "distinct (map fst (records_by_distance st))"
    using assms(1) by (simp_all add: index_invar_def hm_invar_def bt_invar_distinct)
  have all: "length (records st) = card (store_keys st)"
    using dist(1) by (simp add: store_keys_def length_distinct_card dom_map_of_conv_image_fst)
  have within: "get_records_within_distance_range st rng = card {k \<in> store_keys st. key_distance E st k < rng}" for rng
  proof -
    have "get_records_within_distance_range st rng = card (set (filter (\<lambda>(d, _). d < rng) (records_by_distance st)))"
      unfolding get_records_within_distance_range_def
      by (rule distinct_card [symmetric]) (use dist(2) in \<open>simp add: distinct_map\<close>)
    also have "set (filter (\<lambda>(d, _). d < rng) (records_by_distance st)) =
        (\<lambda>k. (key_distance E st k, k)) ` {k \<in> store_keys st. key_distance E st k < rng}"
      using assms(1) by (auto simp: index_invar_def)
    finally show ?thesis by (simp add: card_image inj_on_def)
  qed
  show ?thesis
    using records_per_type_fold [of "records st"] assms(2)
    by (auto simp: store_quoting_metrics_def Let_def within all store_contains_def contains_key_iff
        records_per_type_def store_keys_def split: option.splits)
qed

text \<open>C11: A record written by the spawned task is read back as it was put, whatever else is on disk,
  other records on disk are not disturbed, and a node that restarts with the same encryption key finds
  the record in its directory and indexes it under the same key with its data type.\<close>

theorem written_record_is_read_back:
  assumes "aes_laws A" and "hex_laws E" and "get_data_type E r = Ok dt"
    and "prepare_record_bytes A r (encryption_details st) = Some bs"
    and "cache_get (records_cache st) (rkey r) = None"
  defines "file \<equiv> (storage_dir (config st), generate_filename E (rkey r))"
  defines "r' \<equiv> \<lparr>rkey = rkey r, rvalue = rvalue r, publisher = None, expires = None\<rparr>"
  shows "\<exists>d'. run_write E A Written r vt file (encryption_details st) d =
      (d', Some (AddLocalRecordAsStored (rkey r) vt dt)) \<and>
    snd (store_get E A d' (rkey r) (mark_as_stored E (rkey r) vt dt st)) = Some r' \<and>
    (\<forall>k. k \<noteq> rkey r \<longrightarrow> read_from_disk E A d' (encryption_details st) k (storage_dir (config st)) =
       read_from_disk E A d (encryption_details st) k (storage_dir (config st))) \<and>
    (\<exists>vt'. process_entry E A (encryption_details st)
       \<lparr>de_is_file = True, de_file_name = Some (snd file), de_path = file, de_contents = map_of d' file\<rparr> =
       (Some (rkey r, na_from_key (rkey r), vt', dt), False) \<and> (dt = DT_Chunk \<longrightarrow> vt' = VT_Chunk))"
proof -
  have read: "get_record_from_bytes A bs (rkey r) (encryption_details st) = Some r'"
    using assms(1,4) by (auto simp: prepare_record_bytes_def get_record_from_bytes_def aes_laws_def r'_def split: prod.splits)
  have dt: "get_data_type E r' = Ok dt" using assms(3) by (auto simp: get_data_type_def header_from_record_def r'_def split: if_splits)
  have name: "get_data_from_filename E (snd file) = Some (rkey r)"
    using assms(2) by (simp add: get_data_from_filename_def generate_filename_def file_def hex_laws_def)
  have other: "generate_filename E k \<noteq> generate_filename E (rkey r)" if "k \<noteq> rkey r" for k
    using that by (simp add: generate_filename_def hex_encode_eq_iff [OF assms(2)])
  have "run_write E A Written r vt file (encryption_details st) d =
      (AList.update file bs d, Some (AddLocalRecordAsStored (rkey r) vt dt))"
    by (simp add: run_write_def assms(3,4))
  moreover have "snd (store_get E A (AList.update file bs d) (rkey r) (mark_as_stored E (rkey r) vt dt st)) = Some r'"
    using assms(5) read
    by (simp add: store_get_def contains_key_iff AList.dom_update read_from_disk_def update_conv' file_def)
  moreover have "process_entry E A (encryption_details st)
       \<lparr>de_is_file = True, de_file_name = Some (snd file), de_path = file, de_contents = map_of (AList.update file bs d) file\<rparr> =
       (Some (rkey r, na_from_key (rkey r), (if dt = DT_Chunk then VT_Chunk else VT_NonChunk (from_content E (rvalue r'))), dt), False)"
    by (simp add: process_entry_def name update_conv' read dt Let_def)
  ultimately show ?thesis
    using other by (intro exI [of _ "AList.update file bs d"]) (auto simp: read_from_disk_def update_conv' file_def)
qed

text \<open>C26: A client's record that a full store refuses stays in the cache, so the same put repeated is
  answered with success although the record is neither indexed nor scheduled to be written.\<close>

theorem refused_put_accepted_on_retry:
  assumes "max_records (config st) \<le> length (records st)" and "farthest_record st = Some (f, d)"
    and "d < key_distance E st (rkey r)" and "cache_get (records_cache st) (rkey r) = None"
    and "0 < cache_size (records_cache st)"
    and "mono now" and "\<And>t. \<exists>n. t < now n" and "mono now'" and "\<And>t. \<exists>n. t < now' n"
  shows "\<exists>st\<^sub>1 st\<^sub>2. put_verified E now r vt True st = Some (st\<^sub>1, Err MaxRecords) \<and>
    put_verified E now' r vt True st\<^sub>1 = Some (st\<^sub>2, Ok ()) \<and>
    records st\<^sub>2 = records st \<and> spawned st\<^sub>2 = spawned st"
proof -
  define c0 where "c0 = fst (cache_remove (rkey r) (records_cache st))"
  have "0 < cache_size c0" using assms(5) by (simp add: c0_def cache_remove_def)
  then obtain c1 where c1: "push_back now (rkey r) r c0 = Some c1"
    using push_back_total [OF assms(6,7)] by blast
  note res = push_back_result [OF c1]
  define st1 where "st1 = st\<lparr>records_cache := c1\<rparr>"
  have "put_verified E now r vt True st = put_uncached E now r vt True (st\<lparr>records_cache := c0\<rparr>)"
    using assms(4) by (simp add: put_verified_def cache_remove_def cache_get_def c0_def Let_def)
  also have "\<dots> = Some (st1, Err MaxRecords)"
    using assms(1-3) by (simp add: put_uncached_def c1 prune_records_if_needed_def key_distance_def st1_def Let_def not_less)
  finally have first: "put_verified E now r vt True st = Some (st1, Err MaxRecords)" .
  obtain r1 t where hit: "map_of (cached c1) (rkey r) = Some (r1, t)" "r1 = r"
    using res by (cases "the (map_of (cached c1) (rkey r))") auto
  define c2 where "c2 = fst (cache_remove (rkey r) c1)"
  have "0 < cache_size c2" using res \<open>0 < cache_size c0\<close> by (simp add: c2_def cache_remove_def)
  then obtain c3 where c3: "push_back now' (rkey r) r c2 = Some c3"
    using push_back_total [OF assms(8,9)] by blast
  have "put_verified E now' r vt True st1 = Some (st1\<lparr>records_cache := c3\<rparr>, Ok ())"
    using hit c3 by (simp add: put_verified_def cache_remove_def st1_def c2_def Let_def)
  with first show ?thesis by (auto simp: st1_def)
qed

lemma of_be_bytes_single [simp]: "(of_be_bytes [b] :: u256) = ucast b"
  by (simp add: of_be_bytes_def word_rcat_def)

lemma sample_distance [simp]: "na_distance sample_crates (NA_PeerId [0]) (na_from_key [b]) = ucast b"
  by (simp add: na_distance_def sample_crates_def na_from_key_def)

lemma sample_clock: "mono int" "\<exists>n. t < int n"
  by (simp_all add: mono_def) presburger

lemma sample_distances_distinct: "distances_distinct sample_crates (NA_PeerId [0]) {[1], [2]}"
  by (simp add: distances_distinct_def)

lemma sample_store_index:
  "index_invar sample_crates {[1], [2]} (sample_store n [sample_entry [1], sample_entry [2]] far)"
  by (auto simp: index_invar_def sample_store_def sample_entry_def store_keys_def key_distance_def
      hm_invar_def bt_invar_def)

lemma store_index_reachable_witness:
  "store_keys (mark_as_stored sample_crates [1] VT_Chunk DT_Chunk sample_start) = {[1]} \<and>
   set (records_by_distance (mark_as_stored sample_crates [1] VT_Chunk DT_Chunk sample_start)) = {(1, [1])}"
proof -
  obtain removed where start: "with_config sample_crates sample_disk_crates 0 [] [] (PeerId [0]) (default_config ''d'') = (sample_start, removed)"
    by (metis sample_start_def prod.collapse)
  have l: "na_from_peer sample_crates (PeerId [0]) = NA_PeerId [0]" by (simp add: na_from_peer_def sample_crates_def)
  have run: "store_run sample_crates sample_disk_crates {[1], [2]} sample_start True
      (mark_as_stored sample_crates [1] VT_Chunk DT_Chunk sample_start)"
    by (rule run_op [OF run_start op_mark_as_stored]) simp
  have la: "local_address sample_start = NA_PeerId [0]" and keys: "store_keys sample_start = {}"
    by (simp_all add: sample_start_def with_config_def restore_quoting_metrics_def
        update_records_from_an_existing_store_def flush_historic_quoting_metrics_def l store_keys_def Let_def)
  show ?thesis
    using store_index_reachable [OF start _ sample_distances_distinct [folded l] run] keys la
    by (simp add: entry_keys_def key_distance_def)
qed

lemma prune_makes_room_witness:
  "\<exists>f st'. prune_records_if_needed sample_crates [1] (sample_store 2 [sample_entry [1], sample_entry [2]] (Some ([2], 2))) = (st', Ok ()) \<and>
     store_keys st' = {[1], [2]} - {f}"
proof -
  define st where "st = sample_store 2 [sample_entry [1], sample_entry [2]] (Some ([2], 2))"
  have keys: "store_keys st = {[1], [2]}" by (simp add: st_def sample_store_def sample_entry_def store_keys_def)
  have dist: "key_distance sample_crates st [b] = ucast b" for b by (simp add: st_def sample_store_def key_distance_def)
  have "farthest_exact sample_crates st"
    using keys dist by (simp add: farthest_exact_def farthest_bound_def st_def sample_store_def)
  then have "\<exists>f \<in> store_keys st. (\<forall>k' \<in> store_keys st. key_distance sample_crates st k' \<le> key_distance sample_crates st f) \<and>
    (if key_distance sample_crates st f < key_distance sample_crates st [1]
     then prune_records_if_needed sample_crates [1] st = (st, Err MaxRecords)
     else \<exists>st'. prune_records_if_needed sample_crates [1] st = (st', Ok ()) \<and> store_keys st' = store_keys st - {f} \<and>
       Suc (length (records st')) = length (records st))"
    using prune_makes_room [OF sample_store_index [of 2 "Some ([2], 2)", folded st_def], of "[1]"]
    by (simp add: st_def sample_store_def)
  then show ?thesis unfolding st_def [symmetric] by (auto simp: keys dist word_le_nat_alt word_less_nat_alt split: if_splits)
qed

lemma prune_without_room_witness:
  "\<exists>st'. prune_records_if_needed sample_crates [1] (sample_store 1 [sample_entry [2]] (Some ([3], 3))) = (st', Ok ()) \<and>
     length (records (mark_as_stored sample_crates [1] VT_Chunk DT_Chunk st')) = Suc 1"
  using prune_without_room [of "sample_store 1 [sample_entry [2]] (Some ([3], 3))" "[3]" 3 sample_crates "[1]" VT_Chunk DT_Chunk]
  by (simp add: sample_store_def sample_entry_def store_keys_def key_distance_def hm_invar_def default_config_def)

lemma cleanup_removes_farthest_witness:
  "cleanup_irrelevant_records sample_crates (sample_store 2 [sample_entry [1], sample_entry [2]] None) =
   sample_store 2 [sample_entry [1], sample_entry [2]] None"
  using cleanup_removes_farthest [OF sample_store_index [of 2 None]] by (simp add: sample_store_def)

lemma cache_push_back_returns_witness:
  "\<exists>c'. push_back int [1] (sample_record [1]) (cache_new 2 CACHE_TIMEOUT) = Some c' \<and> length (cached c') \<le> 2"
  using cache_push_back_returns [OF sample_clock, of "cache_new 2 CACHE_TIMEOUT" "[1]" "sample_record [1]"]
  by (auto simp: cache_new_def)

lemma quoting_metrics_count_witness:
  "qm_close_records_stored (fst (store_quoting_metrics 0 [1] 0 1 None (sample_store 2 [sample_entry [1], sample_entry [2]] None))) = 2"
proof -
  define st where "st = sample_store 2 [sample_entry [1], sample_entry [2]] None"
  obtain q b where q: "store_quoting_metrics 0 [1] 0 1 None st = (q, b)" by fastforce
  have "{k \<in> store_keys st. \<forall>rng. responsible_distance_range st = Some rng \<longrightarrow> key_distance sample_crates st k < rng} = {[1], [2]}"
    by (auto simp: st_def sample_store_def sample_entry_def store_keys_def)
  with quoting_metrics_count [OF sample_store_index [of 2 None, folded st_def] q] show ?thesis
    by (simp add: q st_def [symmetric])
qed

lemma written_record_is_read_back_witness:
  "\<exists>d'. run_write sample_crates sample_disk_crates Written (sample_record [1]) VT_Chunk (''d'', ''01'') (0, [0, 0, 0, 0]) [] =
     (d', Some (AddLocalRecordAsStored [1] VT_Chunk DT_Chunk))"
proof -
  have hdr: "get_data_type sample_crates (sample_record [1]) = Ok DT_Chunk"
    by (simp add: get_data_type_def header_from_record_def header_try_deserialize_def sample_record_def
        sample_crates_def HEADER_SIZE_def record_kind_deserialize_def
        RECORD_KIND_PAYMENT_STARTING_INDEX_def RECORD_KIND_MERKLE_PAYMENT_STARTING_INDEX_def from_index_def)
  have name: "generate_filename sample_crates [1] = ''01''"
    by (simp add: generate_filename_def sample_crates_def sample_hex_encode_def hex_digit_def)
  define st where "st = sample_store 1 [] None"
  have st: "encryption_details st = (0, [0, 0, 0, 0])" "storage_dir (config st) = ''d''"
    "cache_get (records_cache st) (rkey (sample_record [1])) = None" "rkey (sample_record [1]) = [1]"
    by (simp_all add: st_def sample_store_def default_config_def cache_get_def cache_new_def sample_record_def)
  have bs: "prepare_record_bytes sample_disk_crates (sample_record [1]) (encryption_details st) = Some [145, 0, 7]"
    by (simp add: prepare_record_bytes_def sample_disk_crates_def st sample_record_def)
  from written_record_is_read_back [OF sample_aes_laws sample_hex_laws hdr bs st(3), of VT_Chunk "[]"]
  show ?thesis by (auto simp: st name)
qed

lemma refused_put_accepted_on_retry_witness:
  "\<exists>st\<^sub>1. put_verified sample_crates int (sample_record [3]) VT_Chunk True
     (sample_store 2 [sample_entry [1], sample_entry [2]] (Some ([2], 2))) = Some (st\<^sub>1, Err MaxRecords)"
  using refused_put_accepted_on_retry [of "sample_store 2 [sample_entry [1], sample_entry [2]] (Some ([2], 2))" "[2]" 2
      sample_crates "sample_record [3]" int int VT_Chunk, OF _ _ _ _ _ sample_clock sample_clock]
  by (simp add: sample_store_def default_config_def key_distance_def sample_record_def cache_get_def cache_new_def) blast

end
