(* ===== verification/Replication_Fetcher.thy ===== *)
theory Replication_Fetcher
  imports Protocol
begin

text \<open>
  The replication fetcher (\<^verbatim>\<open>ant-node/src/networking/replication_fetcher.rs\<close>): which of the records that
  other nodes announce are fetched, from whom, and how many at a time. Peers are judged by the last two
  results of their storage challenges; a peer without such a history is believed only together with
  others. The clock is read once per operation, except in \<open>add_peer_scores\<close>, whose pruning compares
  readings of the same call and takes them as a sequence. Events for the driver are appended to
  \<open>failed_holder_events\<close>. Logging and metrics are not modelled.
\<close>

definition MAX_PARALLEL_FETCH :: nat where "MAX_PARALLEL_FETCH = 5"
definition FETCH_TIMEOUT :: int where "FETCH_TIMEOUT = from_secs 20"
definition PENDING_TIMEOUT :: int where "PENDING_TIMEOUT = from_secs 900"
definition CLOSE_GROUP_SIZE :: nat where "CLOSE_GROUP_SIZE = 5"

type_synonym fetch_key = "record_key \<times> validation_type"
type_synonym pending_key = "record_key \<times> validation_type \<times> peer_id"
type_synonym stored_keys = "(record_key, network_address \<times> validation_type \<times> data_types) hash_map"

record replication_fetcher =
  self_peer_id :: peer_id
  to_be_fetched :: "(pending_key, instant) hash_map"
  on_going_fetches :: "(fetch_key, peer_id \<times> instant) hash_map"
  failed_holder_events :: "(peer_id, record_key) hash_map list"
  distance_range :: "distance option"
  farthest_acceptable_distance :: "distance option"
  peers_scores :: "(peer_id, bool list \<times> instant) hash_map"
  initial_replicates :: "(network_address \<times> validation_type, peer_id list \<times> instant) hash_map"

definition fetcher_new :: "peer_id \<Rightarrow> replication_fetcher" where
  "fetcher_new self = \<lparr>self_peer_id = self, to_be_fetched = [], on_going_fetches = [],
     failed_holder_events = [], distance_range = None, farthest_acceptable_distance = None,
     peers_scores = [], initial_replicates = []\<rparr>"

definition set_replication_distance_range :: "distance \<Rightarrow> replication_fetcher \<Rightarrow> replication_fetcher" where
  "set_replication_distance_range d f = f\<lparr>distance_range := Some d\<rparr>"

definition self_distance :: "crates \<Rightarrow> replication_fetcher \<Rightarrow> network_address \<Rightarrow> distance" where
  "self_distance E f addr = na_distance E (na_from_peer E (self_peer_id f)) addr"

definition remove_stored_keys :: "stored_keys \<Rightarrow> replication_fetcher \<Rightarrow> replication_fetcher" where
  "remove_stored_keys existing f =
     f\<lparr>to_be_fetched := retain (\<lambda>(key, t, _) _.
          case map_of existing key of Some (_, record_type, _) \<Rightarrow> t \<noteq> record_type | None \<Rightarrow> True) (to_be_fetched f),
       on_going_fetches := retain (\<lambda>(key, t) _.
          case map_of existing key of Some (_, record_type, _) \<Rightarrow> t \<noteq> record_type | None \<Rightarrow> True) (on_going_fetches f)\<rparr>"

definition prune_expired_keys_and_slow_nodes :: "instant \<Rightarrow> replication_fetcher \<Rightarrow> replication_fetcher" where
  "prune_expired_keys_and_slow_nodes now f =
    (let failed_fetches = map (\<lambda>((key, _), (peer, _)). (key, peer))
           (filter (\<lambda>(_, (_, time_out)). time_out < now) (on_going_fetches f));
         f1 = f\<lparr>on_going_fetches := retain (\<lambda>_ (_, time_out). \<not> time_out < now) (on_going_fetches f)\<rparr>;
         failed_holders = fold (\<lambda>(key, peer). AList.update peer key) failed_fetches [];
         f2 = f1\<lparr>to_be_fetched := retain (\<lambda>(_, _, holder) _. \<not> contains_key failed_holders holder) (to_be_fetched f1)\<rparr>;
         f3 = (if failed_holders = [] then f2
               else f2\<lparr>failed_holder_events := failed_holder_events f2 @ [failed_holders]\<rparr>)
     in f3\<lparr>initial_replicates :=
          retain (\<lambda>_ (_, first_seen). \<not> now - first_seen \<ge> PENDING_TIMEOUT) (initial_replicates f3)\<rparr>)"

fun fetch_loop :: "instant \<Rightarrow> pending_key list \<Rightarrow> (fetch_key, peer_id \<times> instant) hash_map \<Rightarrow>
    (fetch_key, peer_id \<times> instant) hash_map \<times> (peer_id \<times> record_key \<times> validation_type) list" where
  "fetch_loop now [] on_going = (on_going, [])"
| "fetch_loop now ((key, t, holder) # pending) on_going =
    (let (on_going1, selected) =
           (if length on_going < MAX_PARALLEL_FETCH \<and> \<not> contains_key on_going (key, t)
            then (AList.update (key, t) (holder, now + FETCH_TIMEOUT) on_going, [(holder, key, t)])
            else (on_going, []))
     in if length on_going1 \<ge> MAX_PARALLEL_FETCH then (on_going1, selected)
        else (let (on_going2, rest) = fetch_loop now pending on_going1 in (on_going2, selected @ rest)))"

definition next_keys_to_fetch ::
  "crates \<Rightarrow> instant \<Rightarrow> replication_fetcher \<Rightarrow> replication_fetcher \<times> (peer_id \<times> record_key) list" where
  "next_keys_to_fetch E now f =
    (let f1 = prune_expired_keys_and_slow_nodes now f in
     if length (on_going_fetches f1) \<ge> MAX_PARALLEL_FETCH then (f1, [])
     else if to_be_fetched f1 = [] then (f1, [])
     else
      (let sorted = sort_key (\<lambda>(key, _, _). self_distance E f1 (na_from_key key)) (map fst (to_be_fetched f1));
           (on_going, data_to_fetch) = fetch_loop now sorted (on_going_fetches f1);
           f2 = f1\<lparr>on_going_fetches := on_going\<rparr>;
           f3 = f2\<lparr>to_be_fetched :=
                  fold (\<lambda>(holder, key, t). AList.delete (key, t, holder)) data_to_fetch (to_be_fetched f2)\<rparr>
       in (f3, map (\<lambda>(holder, key, _). (holder, key)) data_to_fetch)))"

definition is_peer_trustworthy :: "replication_fetcher \<Rightarrow> peer_id \<Rightarrow> bool option" where
  "is_peer_trustworthy f holder =
    (case map_of (peers_scores f) holder of
       Some (scores, _) \<Rightarrow>
         if length scores > 1 then Some (length (filter (\<lambda>is_healthy. is_healthy) scores) > 1) else None
     | None \<Rightarrow> None)"

definition add_score :: "instant \<Rightarrow> peer_id \<Rightarrow> bool \<Rightarrow> (peer_id, bool list \<times> instant) hash_map \<Rightarrow>
    (peer_id, bool list \<times> instant) hash_map" where
  "add_score now peer is_healthy scores =
    (let old = (case map_of scores peer of Some (s, _) \<Rightarrow> s | None \<Rightarrow> []);
         pushed = old @ [is_healthy];
         window = (if length pushed > 2 then tl pushed else pushed)
     in AList.update peer (window, now) scores)"

definition oldest_peer :: "instant \<Rightarrow> peer_id \<Rightarrow> (peer_id, bool list \<times> instant) hash_map \<Rightarrow> peer_id" where
  "oldest_peer now random_peer scores =
     snd (fold (\<lambda>(peer, (_, last_seen)) (oldest_timestamp, oldest).
            if last_seen < oldest_timestamp then (last_seen, peer) else (oldest_timestamp, oldest))
          scores (now, random_peer))"

definition add_peer_scores ::
  "(nat \<Rightarrow> instant) \<Rightarrow> peer_id \<Rightarrow> (peer_id \<times> bool) list \<Rightarrow> replication_fetcher \<Rightarrow> replication_fetcher" where
  "add_peer_scores now random_peer scores f =
    (let scored = fold (\<lambda>(i, (peer, is_healthy)). add_score (now i) peer is_healthy)
           (zip [0..<length scores] scores) (peers_scores f);
         pruned = (if length scored > 20
                   then AList.delete (oldest_peer (now (length scores)) random_peer scored) scored
                   else scored)
     in f\<lparr>peers_scores := pruned\<rparr>)"

text \<open>The closest peers, with the node itself, give the farthest distance a key may have. The list with
  the node itself is never empty, so its last element exists.\<close>

definition in_range_new_keys ::
  "crates \<Rightarrow> peer_id \<Rightarrow> (network_address \<times> validation_type) list \<Rightarrow> stored_keys \<Rightarrow> network_address list \<Rightarrow>
   replication_fetcher \<Rightarrow> (network_address \<times> validation_type) list" where
  "in_range_new_keys E holder incoming stored closest_peers f =
    (let self_address = na_from_peer E (self_peer_id f);
         peers = closest_peers @ [self_address];
         new_keys = filter (\<lambda>(addr, t).
            \<not> contains_key stored (to_record_key E addr) \<and>
            \<not> contains_key (to_be_fetched f) (to_record_key E addr, t, holder)) incoming;
         sorted = sort_key (\<lambda>peer. na_distance E self_address peer) peers
     in case (if sorted = [] then None else Some (na_distance E self_address (last sorted))) of
          Some max_distance \<Rightarrow> filter (\<lambda>(addr, _). na_distance E self_address addr \<le> max_distance) new_keys
        | None \<Rightarrow> new_keys)"

definition accumulate_replicate ::
  "instant \<Rightarrow> peer_id \<Rightarrow> network_address \<times> validation_type \<Rightarrow>
   (network_address \<times> validation_type, peer_id list \<times> instant) hash_map \<times> (network_address \<times> validation_type) list \<Rightarrow>
   (network_address \<times> validation_type, peer_id list \<times> instant) hash_map \<times> (network_address \<times> validation_type) list" where
  "accumulate_replicate now holder key acc =
    (case acc of (m, majorities) \<Rightarrow>
      (let (peers, first_seen) = (case map_of m key of Some e \<Rightarrow> e | None \<Rightarrow> ([], now));
           peers1 = List.insert holder peers
       in (AList.update key (peers1, first_seen) m,
           if length peers1 \<ge> CLOSE_GROUP_SIZE div 2 then majorities @ [key] else majorities)))"

definition take_majority ::
  "network_address \<times> validation_type \<Rightarrow>
   (network_address \<times> validation_type, peer_id list \<times> instant) hash_map \<times> (peer_id \<times> network_address \<times> validation_type) list \<Rightarrow>
   (network_address \<times> validation_type, peer_id list \<times> instant) hash_map \<times> (peer_id \<times> network_address \<times> validation_type) list" where
  "take_majority key acc =
    (case acc of (m, result) \<Rightarrow>
       (case map_of m key of
          Some (peers, _) \<Rightarrow> (AList.delete key m, result @ map (\<lambda>peer. (peer, fst key, snd key)) peers)
        | None \<Rightarrow> (AList.delete key m, result)))"

definition initial_majority_replicates ::
  "instant \<Rightarrow> peer_id \<Rightarrow> (network_address \<times> validation_type) list \<Rightarrow> replication_fetcher \<Rightarrow>
   replication_fetcher \<times> (peer_id \<times> network_address \<times> validation_type) list" where
  "initial_majority_replicates now holder incoming f =
    (let (m, majorities) = fold (accumulate_replicate now holder) incoming (initial_replicates f, []);
         (m1, result) = fold take_majority majorities (m, [])
     in (f\<lparr>initial_replicates := m1\<rparr>, result))"

definition add_absent ::
  "peer_id \<times> network_address \<times> validation_type \<Rightarrow> (peer_id \<times> network_address \<times> validation_type) list \<Rightarrow>
   (peer_id \<times> network_address \<times> validation_type) list" where
  "add_absent c result =
    (if list_ex (\<lambda>(_, addr, t). addr = fst (snd c) \<and> t = snd (snd c)) result then result else result @ [c])"

definition valid_candidates ::
  "crates \<Rightarrow> instant \<Rightarrow> peer_id \<Rightarrow> (network_address \<times> validation_type) list \<Rightarrow> stored_keys \<Rightarrow>
   network_address list \<Rightarrow> replication_fetcher \<Rightarrow>
   replication_fetcher \<times> (peer_id \<times> network_address \<times> validation_type) list" where
  "valid_candidates E now holder incoming stored closest_peers f =
    (let new_keys = in_range_new_keys E holder incoming stored closest_peers f in
     case is_peer_trustworthy f holder of
       Some True \<Rightarrow>
        (let result = map (\<lambda>(addr, t). (holder, addr, t)) new_keys;
             (f1, majority_results) = initial_majority_replicates now holder new_keys f
         in (f1, fold add_absent majority_results result))
     | Some False \<Rightarrow> (f, [])
     | None \<Rightarrow> initial_majority_replicates now holder new_keys f)"

text \<open>One candidate of \<^verbatim>\<open>add_keys\<close>: fresh records start to be fetched at once, others are queued.\<close>

definition add_candidate ::
  "crates \<Rightarrow> instant \<Rightarrow> bool \<Rightarrow> peer_id \<Rightarrow> peer_id \<times> network_address \<times> validation_type \<Rightarrow>
   replication_fetcher \<times> (peer_id \<times> record_key) list \<Rightarrow> replication_fetcher \<times> (peer_id \<times> record_key) list" where
  "add_candidate E now is_fresh holder c acc =
    (case (c, acc) of ((peer, addr, t), (f, keys_to_fetch)) \<Rightarrow>
      (let key = to_record_key E addr in
       if is_fresh then
         (if contains_key (on_going_fetches f) (key, t) then (f, keys_to_fetch)
          else (f\<lparr>on_going_fetches := AList.update (key, t) (holder, now + FETCH_TIMEOUT) (on_going_fetches f)\<rparr>,
                keys_to_fetch @ [(holder, key)]))
       else
         (if contains_key (to_be_fetched f) (key, t, peer) then (f, keys_to_fetch)
          else (f\<lparr>to_be_fetched := AList.update (key, t, peer) (now + PENDING_TIMEOUT) (to_be_fetched f)\<rparr>,
                keys_to_fetch))))"

definition add_keys ::
  "crates \<Rightarrow> instant \<Rightarrow> peer_id \<Rightarrow> (network_address \<times> validation_type) list \<Rightarrow> stored_keys \<Rightarrow> bool \<Rightarrow>
   network_address list \<Rightarrow> replication_fetcher \<Rightarrow> replication_fetcher \<times> (peer_id \<times> record_key) list" where
  "add_keys E now holder incoming stored is_fresh closest_k_peers f =
    (let (f1, candidates) =
           (if is_fresh then (f, map (\<lambda>(addr, t). (holder, addr, t)) incoming)
            else valid_candidates E now holder incoming stored closest_k_peers f);
         f2 = remove_stored_keys stored f1;
         f3 = f2\<lparr>to_be_fetched := retain (\<lambda>_ time_out. time_out > now) (to_be_fetched f2)\<rparr>;
         (f4, keys_to_fetch) = fold (add_candidate E now is_fresh holder) candidates (f3, []);
         (f5, more) = next_keys_to_fetch E now f4
     in (f5, keys_to_fetch @ more))"

definition set_farthest_on_full :: "crates \<Rightarrow> record_key option \<Rightarrow> replication_fetcher \<Rightarrow> replication_fetcher" where
  "set_farthest_on_full E farthest_in f =
    (case farthest_in of
       None \<Rightarrow> f
     | Some key \<Rightarrow>
        (let new_distance = self_distance E f (na_from_key key) in
         if (case farthest_acceptable_distance f of Some old \<Rightarrow> new_distance \<ge> old | None \<Rightarrow> False) then f
         else f\<lparr>to_be_fetched := retain (\<lambda>(k, _, _) _. self_distance E f (na_from_key k) \<le> new_distance) (to_be_fetched f),
                on_going_fetches := retain (\<lambda>(k, _) _. self_distance E f (na_from_key k) \<le> new_distance) (on_going_fetches f),
                farthest_acceptable_distance := Some new_distance\<rparr>))"

definition notify_about_new_put ::
  "crates \<Rightarrow> instant \<Rightarrow> record_key \<Rightarrow> validation_type \<Rightarrow> replication_fetcher \<Rightarrow>
   replication_fetcher \<times> (peer_id \<times> record_key) list" where
  "notify_about_new_put E now new_put record_type f =
     next_keys_to_fetch E now
       (f\<lparr>to_be_fetched := retain (\<lambda>(key, t, _) _. key \<noteq> new_put \<or> t \<noteq> record_type) (to_be_fetched f),
          on_going_fetches := retain (\<lambda>(key, _) _. key \<noteq> new_put) (on_going_fetches f)\<rparr>)"

definition notify_fetch_early_completed ::
  "crates \<Rightarrow> instant \<Rightarrow> record_key \<Rightarrow> validation_type \<Rightarrow> replication_fetcher \<Rightarrow>
   replication_fetcher \<times> (peer_id \<times> record_key) list" where
  "notify_fetch_early_completed E now key_in record_type f =
     next_keys_to_fetch E now
       (f\<lparr>to_be_fetched := retain (\<lambda>(key, t, _) _. if t = record_type then key \<noteq> key_in else True) (to_be_fetched f),
          on_going_fetches := retain (\<lambda>(key, t) _. if t = record_type then key \<noteq> key_in else True) (on_going_fetches f)\<rparr>)"

end
