(* ===== verification/Replication_Fetcher_Props.thy ===== *)
theory Replication_Fetcher_Props
  imports Replication_Fetcher
begin

text \<open>
  What holds of the replication fetcher: the fetch loop respects its capacity and takes the closest
  records first, the accumulated majorities stay below the threshold until they are taken, and every
  queued fetch is backed by a trusted peer or by enough distinct peers.
\<close>

section \<open>Invariants and runs\<close>

definition fetcher_invar :: "replication_fetcher \<Rightarrow> bool" where
  "fetcher_invar f \<longleftrightarrow> hm_invar (to_be_fetched f) \<and> hm_invar (on_going_fetches f) \<and> hm_invar (peers_scores f) \<and>
     hm_invar (initial_replicates f) \<and>
     (\<forall>(key, peers, _) \<in> set (initial_replicates f). distinct peers \<and> peers \<noteq> [] \<and> length peers < CLOSE_GROUP_SIZE div 2) \<and>
     (\<forall>(peer, scores, _) \<in> set (peers_scores f). length scores \<in> {1, 2})"

definition acc_ok :: "(network_address \<times> validation_type, peer_id list \<times> instant) hash_map \<times> (network_address \<times> validation_type) list \<Rightarrow> bool" where
  "acc_ok acc \<longleftrightarrow> hm_invar (fst acc) \<and> set (snd acc) \<subseteq> fst ` set (fst acc) \<and>
     (\<forall>(key, peers, _) \<in> set (fst acc). distinct peers \<and> peers \<noteq> [] \<and>
        (CLOSE_GROUP_SIZE div 2 \<le> length peers \<longleftrightarrow> key \<in> set (snd acc)))"

definition reported :: "replication_fetcher \<Rightarrow> network_address \<times> validation_type \<Rightarrow> peer_id \<Rightarrow> bool" where
  "reported f key q \<longleftrightarrow> (\<exists>peers fs. (key, peers, fs) \<in> set (initial_replicates f) \<and> q \<in> set peers)"

text \<open>A pending fetch is backed when its holder announced the record and was trusted then, or when
  enough distinct peers announced it.\<close>

type_synonym announcement = "peer_id \<times> network_address \<times> validation_type"

definition backed :: "announcement set \<Rightarrow> announcement set \<Rightarrow> announcement \<Rightarrow> bool" where
  "backed R T c \<longleftrightarrow> c \<in> R \<and> (c \<in> T \<or>
     (\<exists>peers. distinct peers \<and> CLOSE_GROUP_SIZE div 2 \<le> length peers \<and> (\<forall>q \<in> set peers. (q, snd c) \<in> R)))"

definition announcements :: "peer_id \<Rightarrow> (network_address \<times> validation_type) list \<Rightarrow> announcement set" where
  "announcements holder keys = (\<lambda>(a, t). (holder, a, t)) ` set keys"

definition backed_invar :: "crates \<Rightarrow> announcement set \<Rightarrow> announcement set \<Rightarrow> replication_fetcher \<Rightarrow> bool" where
  "backed_invar E R T f \<longleftrightarrow> fetcher_invar f \<and> (\<forall>key q. reported f key q \<longrightarrow> (q, key) \<in> R) \<and>
     (\<forall>(k, t, p) \<in> fst ` set (to_be_fetched f). \<exists>a. to_record_key E a = k \<and> backed R T (p, a, t))"

text \<open>Runs of the fetcher, with the announcements made so far and those made by peers that were trusted
  when they announced.\<close>

inductive fetcher_run :: "crates \<Rightarrow> peer_id \<Rightarrow> announcement set \<Rightarrow> announcement set \<Rightarrow> replication_fetcher \<Rightarrow> bool"
  for E self where
  run_new: "fetcher_run E self {} {} (fetcher_new self)"
| run_add_keys: "fetcher_run E self R T f \<Longrightarrow>
    add_keys E now holder incoming stored False closest f = (f', keys) \<Longrightarrow>
    fetcher_run E self (R \<union> announcements holder incoming)
      (T \<union> (if is_peer_trustworthy f holder = Some True then announcements holder incoming else {})) f'"
| run_fresh: "fetcher_run E self R T f \<Longrightarrow> add_keys E now holder incoming stored True closest f = (f', keys) \<Longrightarrow>
    fetcher_run E self R T f'"
| run_next: "fetcher_run E self R T f \<Longrightarrow> next_keys_to_fetch E now f = (f', keys) \<Longrightarrow> fetcher_run E self R T f'"
| run_new_put: "fetcher_run E self R T f \<Longrightarrow> notify_about_new_put E now k vt f = (f', keys) \<Longrightarrow> fetcher_run E self R T f'"
| run_early: "fetcher_run E self R T f \<Longrightarrow> notify_fetch_early_completed E now k vt f = (f', keys) \<Longrightarrow> fetcher_run E self R T f'"
| run_full: "fetcher_run E self R T f \<Longrightarrow> fetcher_run E self R T (set_farthest_on_full E k' f)"
| run_scores: "fetcher_run E self R T f \<Longrightarrow> fetcher_run E self R T (add_peer_scores clock rnd scores f)"
| run_range: "fetcher_run E self R T f \<Longrightarrow> fetcher_run E self R T (set_replication_distance_range d f)"

definition sample_fetcher_1 :: replication_fetcher where
  "sample_fetcher_1 = fst (add_keys sample_crates 0 (PeerId [1]) [(NA_RecordKey [5], VT_Chunk)] [] False [NA_PeerId [255]] (fetcher_new (PeerId [0])))"

definition sample_fetcher_2 :: replication_fetcher where
  "sample_fetcher_2 = fst (add_keys sample_crates 1 (PeerId [2]) [(NA_RecordKey [5], VT_Chunk)] [] False [NA_PeerId [255]] sample_fetcher_1)"

definition sample_scored :: "bool list \<Rightarrow> replication_fetcher" where
  "sample_scored scores = (fetcher_new (PeerId [0]))\<lparr>peers_scores := [(PeerId [1], scores, 0)]\<rparr>"

section \<open>Lemmas\<close>

subsection \<open>The fetch loop\<close>

lemma fetch_loop_step:
  "fetch_loop now ((k, t, h) # xs) og =
    (if length og < MAX_PARALLEL_FETCH \<and> \<not> contains_key og (k, t)
     then (let og1 = AList.update (k, t) (h, now + FETCH_TIMEOUT) og in
           if length og1 \<ge> MAX_PARALLEL_FETCH then (og1, [(h, k, t)])
           else (fst (fetch_loop now xs og1), (h, k, t) # snd (fetch_loop now xs og1)))
     else if length og \<ge> MAX_PARALLEL_FETCH then (og, []) else fetch_loop now xs og)"
  by (auto simp: Let_def split: prod.splits)

declare fetch_loop.simps(2) [simp del]

lemma length_update_absent:
  "hm_invar m \<Longrightarrow> \<not> contains_key m k \<Longrightarrow> length (AList.update k v m) = Suc (length m)"
  using hm.len_insert [of m k v] by (simp add: contains_key_iff map_of_eq_None_iff)

lemma fetch_loop_basic:
  assumes "fetch_loop now xs og = (og', sel)" and "hm_invar og"
  shows "hm_invar og' \<and> length og' = length og + length sel \<and>
    (length og \<le> MAX_PARALLEL_FETCH \<longrightarrow> length og' \<le> MAX_PARALLEL_FETCH) \<and>
    (\<forall>(h, k, t) \<in> set sel. (k, t, h) \<in> set xs \<and> \<not> contains_key og (k, t) \<and>
        map_of og' (k, t) = Some (h, now + FETCH_TIMEOUT)) \<and>
    distinct (map (\<lambda>(h, k, t). (k, t)) sel) \<and>
    (\<forall>key. contains_key og key \<longrightarrow> map_of og' key = map_of og key) \<and>
    (\<forall>key. contains_key og' key \<longleftrightarrow> contains_key og key \<or> (\<exists>h. (h, key) \<in> set sel))"
  using assms
proof (induction xs arbitrary: og og' sel)
  case Nil
  then show ?case by auto
next
  case (Cons x xs)
  obtain k t h where x: "x = (k, t, h)" by (cases x)
  define og1 where "og1 = AList.update (k, t) (h, now + FETCH_TIMEOUT) og"
  show ?case
  proof (cases "length og < MAX_PARALLEL_FETCH \<and> \<not> contains_key og (k, t)")
    case take: True
    have inv1: "hm_invar og1" using Cons.prems(2) by (simp add: og1_def hm.invar_insert)
    have len1: "length og1 = Suc (length og)" using take Cons.prems(2) by (simp add: og1_def length_update_absent)
    have look1: "map_of og1 key = (if key = (k, t) then Some (h, now + FETCH_TIMEOUT) else map_of og key)" for key
      by (simp add: og1_def update_conv')
    have con1: "contains_key og1 key \<longleftrightarrow> key = (k, t) \<or> contains_key og key" for key
      by (simp add: og1_def contains_key_iff AList.dom_update)
    show ?thesis
    proof (cases "length og1 \<ge> MAX_PARALLEL_FETCH")
      case True
      with Cons.prems(1) take have "og' = og1" "sel = [(h, k, t)]"
        by (auto simp: x fetch_loop_step og1_def Let_def)
      then show ?thesis using inv1 len1 take look1 con1 by (auto simp: x)
    next
      case False
      obtain og2 rest where rec: "fetch_loop now xs og1 = (og2, rest)" by fastforce
      with Cons.prems(1) take False have res: "og' = og2" "sel = (h, k, t) # rest"
        by (auto simp: x fetch_loop_step og1_def Let_def)
      note IH = Cons.IH [OF rec inv1]
      have "(h', k, t) \<notin> set rest" for h' using IH con1 by fastforce
      then show ?thesis using IH len1 take False unfolding res con1 look1 by (fastforce simp: x)
    qed
  next
    case False
    with Cons.prems Cons.IH [of og og' sel] show ?thesis
      by (auto simp: x fetch_loop_step split: if_splits)
  qed
qed

lemma fetch_loop_prefix:
  assumes "fetch_loop now xs og = (og', sel)" and "hm_invar og" and "length og < MAX_PARALLEL_FETCH"
  shows "\<exists>n. (\<forall>(h, k, t) \<in> set sel. (k, t, h) \<in> set (take n xs)) \<and>
    (\<forall>(k, t, h) \<in> set (take n xs). contains_key og' (k, t)) \<and>
    (length og' < MAX_PARALLEL_FETCH \<longrightarrow> n = length xs)"
  using assms
proof (induction xs arbitrary: og og' sel)
  case Nil
  then show ?case by auto
next
  case (Cons x xs)
  obtain k t h where x: "x = (k, t, h)" by (cases x)
  define og1 where "og1 = AList.update (k, t) (h, now + FETCH_TIMEOUT) og"
  have inv1: "hm_invar og1" using Cons.prems(2) by (simp add: og1_def hm.invar_insert)
  have con1: "contains_key og1 (k, t)" by (simp add: og1_def contains_key_iff AList.dom_update)
  consider (last) "\<not> contains_key og (k, t)" "length og1 \<ge> MAX_PARALLEL_FETCH" "og' = og1" "sel = [(h, k, t)]"
    | (more) rest where "\<not> contains_key og (k, t)" "length og1 < MAX_PARALLEL_FETCH"
        "fetch_loop now xs og1 = (og', rest)" "sel = (h, k, t) # rest"
    | (skip) "contains_key og (k, t)" "fetch_loop now xs og = (og', sel)"
    using Cons.prems(1,3)
    by (cases "fetch_loop now xs og1") (auto simp: x fetch_loop_step og1_def [symmetric] Let_def split: if_splits)
  then show ?case
  proof cases
    case last
    with con1 show ?thesis by (intro exI [of _ 1]) (simp add: x)
  next
    case more
    then obtain n where n: "\<forall>(h, k, t) \<in> set rest. (k, t, h) \<in> set (take n xs)"
      "\<forall>(k, t, h) \<in> set (take n xs). contains_key og' (k, t)"
      "length og' < MAX_PARALLEL_FETCH \<longrightarrow> n = length xs"
      using Cons.IH [OF more(3) inv1] by auto
    moreover have "contains_key og' (k, t)"
      using fetch_loop_basic [OF more(3) inv1] con1 by blast
    ultimately show ?thesis using more(4) by (intro exI [of _ "Suc n"]) (auto simp: x)
  next
    case skip
    then obtain n where n: "\<forall>(h, k, t) \<in> set sel. (k, t, h) \<in> set (take n xs)"
      "\<forall>(k, t, h) \<in> set (take n xs). contains_key og' (k, t)"
      "length og' < MAX_PARALLEL_FETCH \<longrightarrow> n = length xs"
      using Cons.IH [OF skip(2) Cons.prems(2,3)] by auto
    moreover have "contains_key og' (k, t)"
      using fetch_loop_basic [OF skip(2) Cons.prems(2)] skip(1) by blast
    ultimately show ?thesis by (intro exI [of _ "Suc n"]) (auto simp: x)
  qed
qed

lemma sorted_prefix_le:
  assumes "sorted (map D xs)" and "x \<in> set (take n xs)" and "y \<in> set xs" and "y \<notin> set (take n xs)"
  shows "D x \<le> D y"
proof -
  have "y \<in> set (drop n xs)" using assms(3,4) by (metis Un_iff append_take_drop_id set_append)
  moreover have "sorted (map D (take n xs) @ map D (drop n xs))" using assms(1) by (metis append_take_drop_id map_append)
  ultimately show ?thesis using assms(2) by (auto simp: sorted_append)
qed

subsection \<open>The invariant\<close>

lemma fetcher_new_invar: "fetcher_invar (fetcher_new p)"
  by (simp add: fetcher_invar_def fetcher_new_def hm_invar_Nil)

lemma prune_expired_simps [simp]:
  "self_peer_id (prune_expired_keys_and_slow_nodes now f) = self_peer_id f"
  "on_going_fetches (prune_expired_keys_and_slow_nodes now f) =
     retain (\<lambda>_ (_, time_out). \<not> time_out < now) (on_going_fetches f)"
  "peers_scores (prune_expired_keys_and_slow_nodes now f) = peers_scores f"
  "initial_replicates (prune_expired_keys_and_slow_nodes now f) =
     retain (\<lambda>_ (_, first_seen). \<not> now - first_seen \<ge> PENDING_TIMEOUT) (initial_replicates f)"
  by (simp_all add: prune_expired_keys_and_slow_nodes_def Let_def)

lemma prune_expired_to_be_fetched:
  "\<exists>p. to_be_fetched (prune_expired_keys_and_slow_nodes now f) = retain p (to_be_fetched f)"
  by (auto simp: prune_expired_keys_and_slow_nodes_def Let_def)

lemma prune_expired_invar: "fetcher_invar f \<Longrightarrow> fetcher_invar (prune_expired_keys_and_slow_nodes now f)"
  using prune_expired_to_be_fetched [of now f] by (auto simp: fetcher_invar_def hm_invar_retain)

lemma hm_invar_fold_delete: "hm_invar m \<Longrightarrow> hm_invar (fold (\<lambda>x. AList.delete (g x)) xs m)"
  by (induction xs arbitrary: m) (auto simp: hm.invar_remove)

lemma set_fold_delete: "set (fold (\<lambda>x. AList.delete (g x)) xs m) = {e \<in> set m. fst e \<notin> g ` set xs}"
  by (induction xs arbitrary: m) (auto simp: set_delete)

lemma next_keys_to_fetch_cases:
  obtains (idle) "next_keys_to_fetch E now f = (prune_expired_keys_and_slow_nodes now f, [])"
      "length (on_going_fetches (prune_expired_keys_and_slow_nodes now f)) \<ge> MAX_PARALLEL_FETCH \<or>
       to_be_fetched (prune_expired_keys_and_slow_nodes now f) = []"
  | (busy) f1 on_going sel where "f1 = prune_expired_keys_and_slow_nodes now f"
      "length (on_going_fetches f1) < MAX_PARALLEL_FETCH"
      "fetch_loop now (sort_key (\<lambda>(key, _, _). self_distance E f1 (na_from_key key)) (map fst (to_be_fetched f1)))
         (on_going_fetches f1) = (on_going, sel)"
      "next_keys_to_fetch E now f =
         (f1\<lparr>on_going_fetches := on_going,
             to_be_fetched := fold (\<lambda>x. AList.delete ((\<lambda>(holder, key, t). (key, t, holder)) x)) sel (to_be_fetched f1)\<rparr>,
          map (\<lambda>(holder, key, _). (holder, key)) sel)"
proof -
  define f1 where "f1 = prune_expired_keys_and_slow_nodes now f"
  show thesis
  proof (cases "length (on_going_fetches f1) \<ge> MAX_PARALLEL_FETCH \<or> to_be_fetched f1 = []")
    case True
    then have "next_keys_to_fetch E now f = (f1, [])"
      unfolding next_keys_to_fetch_def f1_def [symmetric] Let_def by auto
    with True show thesis using idle unfolding f1_def by blast
  next
    case False
    obtain on_going sel where loop: "fetch_loop now (sort_key (\<lambda>(key, _, _). self_distance E f1 (na_from_key key)) (map fst (to_be_fetched f1)))
         (on_going_fetches f1) = (on_going, sel)" by fastforce
    have "(\<lambda>(holder, key, t). AList.delete (key, t, holder)) =
        (\<lambda>x. AList.delete ((\<lambda>(holder, key, t). (key, t, holder)) x) :: (pending_key, instant) hash_map \<Rightarrow> _)"
      by (simp add: fun_eq_iff split: prod.splits)
    then have "next_keys_to_fetch E now f =
         (f1\<lparr>on_going_fetches := on_going,
             to_be_fetched := fold (\<lambda>x. AList.delete ((\<lambda>(holder, key, t). (key, t, holder)) x)) sel (to_be_fetched f1)\<rparr>,
          map (\<lambda>(holder, key, _). (holder, key)) sel)"
      unfolding next_keys_to_fetch_def f1_def [symmetric] Let_def loop using False by simp
    with False show thesis using busy [OF f1_def _ loop] by simp
  qed
qed

lemma next_keys_to_fetch_invar:
  assumes "fetcher_invar f" and "next_keys_to_fetch E now f = (f', keys)"
  shows "fetcher_invar f' \<and> self_peer_id f' = self_peer_id f"
proof -
  have inv: "fetcher_invar (prune_expired_keys_and_slow_nodes now f)" by (rule prune_expired_invar [OF assms(1)])
  show ?thesis
  proof (cases rule: next_keys_to_fetch_cases [of E now f])
    case idle
    then show ?thesis using assms(2) inv by simp
  next
    case (busy f1 on_going sel)
    then have f1: "fetcher_invar f1" using inv by simp
    then have "hm_invar on_going" using fetch_loop_basic [OF busy(3)] by (simp add: fetcher_invar_def)
    then show ?thesis
      using busy assms(2) f1 hm_invar_fold_delete by (auto simp: fetcher_invar_def)
  qed
qed

subsection \<open>Majorities\<close>

lemma accumulate_replicate_ok:
  assumes "acc_ok acc" shows "acc_ok (accumulate_replicate now holder key acc)"
proof -
  obtain m majs where acc: "acc = (m, majs)" by (cases acc)
  obtain peers fs where old: "(case map_of m key of Some e \<Rightarrow> e | None \<Rightarrow> ([], now)) = (peers, fs)" by fastforce
  have hm: "hm_invar m" using assms by (simp add: acc acc_ok_def)
  have entry: "distinct p \<and> p \<noteq> [] \<and> (CLOSE_GROUP_SIZE div 2 \<le> length p \<longleftrightarrow> k \<in> set majs)" if "(k, p, s) \<in> set m" for k p s
    using assms that by (auto simp: acc acc_ok_def)
  have peers: "distinct peers" "map_of m key \<noteq> None \<longrightarrow> (CLOSE_GROUP_SIZE div 2 \<le> length peers \<longleftrightarrow> key \<in> set majs)"
    using old entry [of key peers fs] by (auto split: option.splits dest!: map_of_SomeD)
  define new where "new = List.insert holder peers"
  have new: "distinct new" "new \<noteq> []" "length peers \<le> length new"
    using peers(1) by (simp_all add: new_def List.insert_def) auto
  have res: "accumulate_replicate now holder key acc =
      (AList.update key (new, fs) m, if CLOSE_GROUP_SIZE div 2 \<le> length new then majs @ [key] else majs)"
    by (simp add: accumulate_replicate_def acc old new_def Let_def)
  have majs: "set majs \<subseteq> fst ` set m" using assms by (simp add: acc acc_ok_def)
  have short: "key \<notin> set majs" if "\<not> CLOSE_GROUP_SIZE div 2 \<le> length new"
    using that peers(2) new(3) majs by (auto simp: map_of_eq_None_iff)
  have keys: "fst ` set (AList.update key (new, fs) m) = insert key (fst ` set m)" by (simp add: AList.dom_update)
  have "distinct p \<and> p \<noteq> [] \<and> (CLOSE_GROUP_SIZE div 2 \<le> length p \<longleftrightarrow>
      k \<in> set (if CLOSE_GROUP_SIZE div 2 \<le> length new then majs @ [key] else majs))"
    if "(k, p, s) \<in> set (AList.update key (new, fs) m)" for k p s
    using that entry [of k p s] new short by (auto simp: set_hm_update [OF hm])
  then show ?thesis
    using hm.invar_insert [OF hm] majs unfolding res acc_ok_def by (auto simp: keys)
qed

lemma accumulate_replicate_peers:
  assumes "hm_invar (fst acc)" and "(k, peers, fs) \<in> set (fst (accumulate_replicate now holder key acc))"
  shows "\<forall>q \<in> set peers. q = holder \<and> k = key \<or> (\<exists>peers' fs'. (k, peers', fs') \<in> set (fst acc) \<and> q \<in> set peers')"
proof -
  obtain m majs where acc: "acc = (m, majs)" by (cases acc)
  obtain old ofs where old: "(case map_of m key of Some e \<Rightarrow> e | None \<Rightarrow> ([], now)) = (old, ofs)" by fastforce
  then have "\<forall>q \<in> set old. \<exists>peers' fs'. (key, peers', fs') \<in> set m \<and> q \<in> set peers'"
    by (auto split: option.splits dest!: map_of_SomeD)
  then show ?thesis
    using assms unfolding acc accumulate_replicate_def
    by (fastforce simp: old Let_def set_hm_update)
qed

lemma fold_accumulate:
  assumes "acc_ok acc"
  shows "acc_ok (fold (accumulate_replicate now holder) ks acc) \<and>
    (\<forall>(k, peers, fs) \<in> set (fst (fold (accumulate_replicate now holder) ks acc)). \<forall>q \<in> set peers.
       q = holder \<and> k \<in> set ks \<or> (\<exists>peers' fs'. (k, peers', fs') \<in> set (fst acc) \<and> q \<in> set peers'))"
  using assms
proof (induction ks arbitrary: acc)
  case Nil
  then show ?case by auto
next
  case (Cons key ks)
  define acc1 where "acc1 = accumulate_replicate now holder key acc"
  have ok1: "acc_ok acc1" using Cons.prems by (simp add: acc1_def accumulate_replicate_ok)
  have hm: "hm_invar (fst acc)" using Cons.prems by (simp add: acc_ok_def)
  have step: "\<forall>q \<in> set peers. q = holder \<and> k = key \<or> (\<exists>peers' fs'. (k, peers', fs') \<in> set (fst acc) \<and> q \<in> set peers')"
    if "(k, peers, fs) \<in> set (fst acc1)" for k peers fs
    using accumulate_replicate_peers [OF hm that [unfolded acc1_def]] .
  have peers: "q = holder \<and> k \<in> set (key # ks) \<or> (\<exists>peers' fs'. (k, peers', fs') \<in> set (fst acc) \<and> q \<in> set peers')"
    if "(k, peers, fs) \<in> set (fst (fold (accumulate_replicate now holder) ks acc1))" "q \<in> set peers" for k peers fs q
    using Cons.IH [OF ok1] that step by fastforce
  have "acc_ok (fold (accumulate_replicate now holder) ks acc1)" using Cons.IH [OF ok1] by blast
  moreover have "fold (accumulate_replicate now holder) (key # ks) acc = fold (accumulate_replicate now holder) ks acc1"
    by (simp add: acc1_def)
  ultimately show ?case using peers by (simp only:) blast
qed

lemma fold_take_majority:
  assumes "hm_invar m" and "fold take_majority ks (m, r) = (m', r')"
  shows "hm_invar m' \<and> set m' = {e \<in> set m. fst e \<notin> set ks} \<and>
    set r' \<subseteq> set r \<union> {(p, a, t). (a, t) \<in> set ks \<and> (\<exists>peers fs. ((a, t), peers, fs) \<in> set m \<and> p \<in> set peers)}"
  using assms
proof (induction ks arbitrary: m r)
  case Nil
  then show ?case by auto
next
  case (Cons key ks)
  obtain a t where key: "key = (a, t)" by (cases key)
  define r1 where "r1 = (case map_of m key of Some (peers, _) \<Rightarrow> r @ map (\<lambda>peer. (peer, a, t)) peers | None \<Rightarrow> r)"
  have step: "take_majority key (m, r) = (AList.delete key m, r1)"
    by (simp add: take_majority_def key r1_def split: option.splits)
  have r1: "x \<in> set r \<or> (\<exists>p peers fs. x = (p, a, t) \<and> (key, peers, fs) \<in> set m \<and> p \<in> set peers)" if "x \<in> set r1" for x
    using that by (auto simp: r1_def split: option.splits dest!: map_of_SomeD)
  have "fold take_majority ks (AList.delete key m, r1) = (m', r')"
    using Cons.prems(2) by (simp add: step)
  note IH = Cons.IH [OF hm.invar_remove [OF Cons.prems(1)] this]
  have "set m' = {e \<in> set m. fst e \<notin> set (key # ks)}"
    using IH by (auto simp: set_delete)
  moreover have "x \<in> set r \<union> {(p, a, t). (a, t) \<in> set (key # ks) \<and> (\<exists>peers fs. ((a, t), peers, fs) \<in> set m \<and> p \<in> set peers)}"
    if x: "x \<in> set r'" for x
  proof (cases "x \<in> set r1")
    case True
    then show ?thesis using r1 [OF True] key by auto
  next
    case False
    with x IH have "x \<in> {(p, a, t). (a, t) \<in> set ks \<and> (\<exists>peers fs. ((a, t), peers, fs) \<in> set (AList.delete key m) \<and> p \<in> set peers)}"
      by blast
    then show ?thesis by (auto simp: set_delete)
  qed
  ultimately show ?case using IH by blast
qed

lemma initial_majority_result:
  assumes "fetcher_invar f" and "initial_majority_replicates now holder ks f = (f', res)"
  shows "\<exists>m. f' = f\<lparr>initial_replicates := m\<rparr>" and "fetcher_invar f'"
    and "\<And>key q. reported f' key q \<Longrightarrow> q = holder \<and> key \<in> set ks \<or> reported f key q"
    and "\<And>p a t. (p, a, t) \<in> set res \<Longrightarrow> \<exists>peers. distinct peers \<and> CLOSE_GROUP_SIZE div 2 \<le> length peers \<and> p \<in> set peers \<and>
       (\<forall>q \<in> set peers. q = holder \<and> (a, t) \<in> set ks \<or> reported f (a, t) q)"
proof -
  obtain m majs where acc: "fold (accumulate_replicate now holder) ks (initial_replicates f, []) = (m, majs)" by fastforce
  obtain m1 where tk: "fold take_majority majs (m, []) = (m1, res)" and f': "f' = f\<lparr>initial_replicates := m1\<rparr>"
    using assms(2) by (auto simp: initial_majority_replicates_def acc split: prod.splits)
  have "acc_ok (initial_replicates f, [])" using assms(1) by (auto simp: acc_ok_def fetcher_invar_def not_le)
  note fa = fold_accumulate [OF this, of now holder ks, unfolded acc fst_conv snd_conv]
  have ok: "hm_invar m" "\<And>k p s. (k, p, s) \<in> set m \<Longrightarrow> distinct p \<and> p \<noteq> [] \<and> (CLOSE_GROUP_SIZE div 2 \<le> length p \<longleftrightarrow> k \<in> set majs)"
    using fa by (auto simp: acc_ok_def)
  have src: "q = holder \<and> k \<in> set ks \<or> reported f k q" if "(k, p, s) \<in> set m" "q \<in> set p" for k p s q
    using fa that unfolding reported_def by fastforce
  note ft = fold_take_majority [OF ok(1) tk]
  show "\<exists>m. f' = f\<lparr>initial_replicates := m\<rparr>" using f' by blast
  show "fetcher_invar f'"
    using assms(1) ft ok(2) by (auto simp: f' fetcher_invar_def not_le [symmetric])
  show "q = holder \<and> key \<in> set ks \<or> reported f key q" if "reported f' key q" for key q
  proof -
    from that obtain peers fs where "(key, peers, fs) \<in> set m1" "q \<in> set peers" by (auto simp: f' reported_def)
    with ft have "(key, peers, fs) \<in> set m" by simp
    from src [OF this \<open>q \<in> set peers\<close>] show ?thesis .
  qed
  show "\<exists>peers. distinct peers \<and> CLOSE_GROUP_SIZE div 2 \<le> length peers \<and> p \<in> set peers \<and>
       (\<forall>q \<in> set peers. q = holder \<and> (a, t) \<in> set ks \<or> reported f (a, t) q)" if "(p, a, t) \<in> set res" for p a t
  proof -
    from that ft obtain peers fs where "(a, t) \<in> set majs" "((a, t), peers, fs) \<in> set m" "p \<in> set peers" by auto
    with ok(2) src show ?thesis by (intro exI [of _ peers]) blast
  qed
qed

lemma backed_mono: "R \<subseteq> R' \<Longrightarrow> T \<subseteq> T' \<Longrightarrow> backed R T c \<Longrightarrow> backed R' T' c"
  unfolding backed_def by (metis subsetD)

lemma in_range_new_keys_subset: "set (in_range_new_keys E holder incoming stored closest f) \<subseteq> set incoming"
  by (auto simp: in_range_new_keys_def Let_def split: option.splits)

lemma set_fold_add_absent: "set (fold add_absent cs result) \<subseteq> set result \<union> set cs"
proof (induction cs arbitrary: result)
  case (Cons c cs)
  have "set (add_absent c result) \<subseteq> insert c (set result)" by (auto simp: add_absent_def)
  then show ?case using Cons.IH [of "add_absent c result"] by (simp del: Un_insert_right) blast
qed simp

lemma valid_candidates_backed:
  fixes T :: "announcement set"
  assumes "fetcher_invar f" and "\<And>key q. reported f key q \<Longrightarrow> (q, key) \<in> R"
    and "valid_candidates E now holder incoming stored closest f = (f', cands)"
  defines "R' \<equiv> R \<union> announcements holder incoming"
  defines "T' \<equiv> T \<union> (if is_peer_trustworthy f holder = Some True then announcements holder incoming else {})"
  shows "\<exists>m. f' = f\<lparr>initial_replicates := m\<rparr>" and "fetcher_invar f'"
    and "\<And>key q. reported f' key q \<Longrightarrow> (q, key) \<in> R'"
    and "\<And>c. c \<in> set cands \<Longrightarrow> backed R' T' c"
proof -
  define ks where "ks = in_range_new_keys E holder incoming stored closest f"
  have ks: "set ks \<subseteq> set incoming" by (simp add: ks_def in_range_new_keys_subset)
  then have ann: "(holder, key) \<in> R'" if "key \<in> set ks" for key
    using that by (auto simp: R'_def announcements_def)
  obtain f1 res where maj: "initial_majority_replicates now holder ks f = (f1, res)" by fastforce
  note im = initial_majority_result [OF assms(1) maj]
  have rep1: "(q, key) \<in> R'" if "reported f1 key q" for key q
    using im(3) [OF that] assms(2) [of key q] ann [of key] by (auto simp: R'_def)
  have res: "backed R' T' (p, a, t)" if "(p, a, t) \<in> set res" for p a t
  proof -
    from im(4) [OF that] obtain peers where peers: "distinct peers" "CLOSE_GROUP_SIZE div 2 \<le> length peers" "p \<in> set peers"
      and src: "\<forall>q \<in> set peers. q = holder \<and> (a, t) \<in> set ks \<or> reported f (a, t) q" by blast
    have "(q, a, t) \<in> R'" if "q \<in> set peers" for q
      using src that assms(2) [of "(a, t)" q] ann [of "(a, t)"] by (auto simp: R'_def)
    with peers show ?thesis unfolding backed_def by auto
  qed
  consider (trusted) "is_peer_trustworthy f holder = Some True" "f' = f1"
      "cands = fold add_absent res (map (\<lambda>(a, t). (holder, a, t)) ks)"
    | (rejected) "f' = f" "cands = []" | (unknown) "f' = f1" "cands = res"
    using assms(3) maj
    by (auto simp: valid_candidates_def ks_def [symmetric] Let_def split: option.splits bool.splits)
  then have "(\<exists>m. f' = f\<lparr>initial_replicates := m\<rparr>) \<and> fetcher_invar f' \<and>
     (\<forall>key q. reported f' key q \<longrightarrow> (q, key) \<in> R') \<and> (\<forall>c \<in> set cands. backed R' T' c)"
  proof cases
    case trusted
    have "backed R' T' c" if "c \<in> set cands" for c
    proof (cases "c \<in> set res")
      case True
      then show ?thesis using res [of "fst c" "fst (snd c)" "snd (snd c)"] by simp
    next
      case False
      with that trusted(3) set_fold_add_absent have "c \<in> (\<lambda>(a, t). (holder, a, t)) ` set ks" by fastforce
      then show ?thesis using ks trusted(1) by (auto simp: backed_def R'_def T'_def announcements_def)
    qed
    then show ?thesis using trusted(2) im(1,2) rep1 by blast
  next
    case rejected
    have "\<exists>m. f = f\<lparr>initial_replicates := m\<rparr>" by (rule exI [of _ "initial_replicates f"]) simp
    with rejected show ?thesis using assms(1,2) by (auto simp: R'_def)
  next
    case unknown
    then show ?thesis using im(1,2) rep1 res by fast
  qed
  then show "\<exists>m. f' = f\<lparr>initial_replicates := m\<rparr>" "fetcher_invar f'"
    "\<And>key q. reported f' key q \<Longrightarrow> (q, key) \<in> R'" "\<And>c. c \<in> set cands \<Longrightarrow> backed R' T' c" by auto
qed

subsection \<open>Operations and runs\<close>

lemma backed_invar_shrink:
  assumes "backed_invar E R T f" and "fetcher_invar f'" and "set (to_be_fetched f') \<subseteq> set (to_be_fetched f)"
    and "set (initial_replicates f') \<subseteq> set (initial_replicates f)" and "R \<subseteq> R'" and "T \<subseteq> T'"
  shows "backed_invar E R' T' f'"
proof -
  have "\<exists>a. to_record_key E a = k \<and> backed R' T' (p, a, t)" if "(k, t, p) \<in> fst ` set (to_be_fetched f')" for k t p
  proof -
    have "(k, t, p) \<in> fst ` set (to_be_fetched f)" using that assms(3) by blast
    then obtain a where "to_record_key E a = k" "backed R T (p, a, t)"
      using assms(1) unfolding backed_invar_def by blast
    then show ?thesis using backed_mono [OF assms(5,6)] by blast
  qed
  moreover have "(q, key) \<in> R'" if "reported f' key q" for key q
    using that assms(1,4,5) unfolding backed_invar_def reported_def by blast
  ultimately show ?thesis using assms(2) unfolding backed_invar_def by blast
qed

lemma retain_subset: "set (retain p m) \<subseteq> set m"
  by auto

lemma next_keys_to_fetch_shrink:
  assumes "fetcher_invar f" and "next_keys_to_fetch E now f = (f', keys)"
  shows "set (to_be_fetched f') \<subseteq> set (to_be_fetched f)" "set (initial_replicates f') \<subseteq> set (initial_replicates f)"
    "length (on_going_fetches f') \<le> max MAX_PARALLEL_FETCH (length (on_going_fetches f))"
proof -
  define f1 where "f1 = prune_expired_keys_and_slow_nodes now f"
  have sub: "set (to_be_fetched f1) \<subseteq> set (to_be_fetched f)"
    using prune_expired_to_be_fetched [of now f] retain_subset by (force simp: f1_def)
  have init: "set (initial_replicates f1) \<subseteq> set (initial_replicates f)" by (auto simp: f1_def)
  have len: "length (on_going_fetches f1) \<le> length (on_going_fetches f)" by (simp add: f1_def)
  have "set (to_be_fetched f') \<subseteq> set (to_be_fetched f) \<and> set (initial_replicates f') \<subseteq> set (initial_replicates f) \<and>
    length (on_going_fetches f') \<le> max MAX_PARALLEL_FETCH (length (on_going_fetches f))"
  proof (cases rule: next_keys_to_fetch_cases [of E now f])
    case idle
    then have "f' = f1" using assms(2) by (simp add: f1_def)
    then show ?thesis using sub init len by simp
  next
    case (busy f2 on_going sel)
    have f2: "f2 = f1" using busy(1) by (simp add: f1_def)
    have "hm_invar (on_going_fetches f1)" using prune_expired_invar [OF assms(1), of now] by (simp add: fetcher_invar_def f1_def)
    then have "length on_going \<le> MAX_PARALLEL_FETCH"
      using fetch_loop_basic [OF busy(3) [unfolded f2]] busy(2) f2 by simp
    moreover have "f' = f1\<lparr>on_going_fetches := on_going,
        to_be_fetched := fold (\<lambda>x. AList.delete ((\<lambda>(holder, key, t). (key, t, holder)) x)) sel (to_be_fetched f1)\<rparr>"
      using busy(4) assms(2) by (simp add: f2)
    ultimately show ?thesis using sub init by (auto simp: set_fold_delete)
  qed
  then show "set (to_be_fetched f') \<subseteq> set (to_be_fetched f)" "set (initial_replicates f') \<subseteq> set (initial_replicates f)"
    "length (on_going_fetches f') \<le> max MAX_PARALLEL_FETCH (length (on_going_fetches f))" by blast+
qed

lemma fold_add_candidate_queue:
  assumes "fold (add_candidate E now False holder) cands (f, ks) = (f', ks')" and "hm_invar (to_be_fetched f)"
  shows "\<exists>q. f' = f\<lparr>to_be_fetched := q\<rparr> \<and> hm_invar q \<and>
    fst ` set q \<subseteq> fst ` set (to_be_fetched f) \<union> (\<lambda>(p, a, t). (to_record_key E a, t, p)) ` set cands"
  using assms
proof (induction cands arbitrary: f ks)
  case Nil
  then have "f' = f\<lparr>to_be_fetched := to_be_fetched f\<rparr>" by simp
  with Nil show ?case by (intro exI [of _ "to_be_fetched f"]) simp
next
  case (Cons c cands)
  obtain p a t where c: "c = (p, a, t)" by (cases c)
  define q1 where "q1 = (if contains_key (to_be_fetched f) (to_record_key E a, t, p) then to_be_fetched f
      else AList.update (to_record_key E a, t, p) (now + PENDING_TIMEOUT) (to_be_fetched f))"
  have step: "add_candidate E now False holder c (f, ks) = (f\<lparr>to_be_fetched := q1\<rparr>, ks)"
    by (simp add: add_candidate_def c q1_def Let_def)
  have hm: "hm_invar q1" using Cons.prems(2) by (simp add: q1_def hm.invar_insert)
  have keys: "fst ` set q1 \<subseteq> insert (to_record_key E a, t, p) (fst ` set (to_be_fetched f))"
    by (auto simp: q1_def AList.dom_update)
  have "fold (add_candidate E now False holder) cands (f\<lparr>to_be_fetched := q1\<rparr>, ks) = (f', ks')"
    using Cons.prems(1) step by simp
  from Cons.IH [OF this] hm obtain q where q: "f' = f\<lparr>to_be_fetched := q\<rparr>" "hm_invar q"
    "fst ` set q \<subseteq> fst ` set q1 \<union> (\<lambda>(p, a, t). (to_record_key E a, t, p)) ` set cands" by auto
  then show ?case using keys by (intro exI [of _ q]) (auto simp: c)
qed

lemma fold_add_candidate_fresh:
  assumes "fold (add_candidate E now True holder) cands (f, ks) = (f', ks')" and "hm_invar (on_going_fetches f)"
  shows "\<exists>q. f' = f\<lparr>on_going_fetches := q\<rparr> \<and> hm_invar q"
  using assms
proof (induction cands arbitrary: f ks)
  case Nil
  then have "f' = f\<lparr>on_going_fetches := on_going_fetches f\<rparr>" by simp
  with Nil show ?case by (intro exI [of _ "on_going_fetches f"]) simp
next
  case (Cons c cands)
  obtain p a t where c: "c = (p, a, t)" by (cases c)
  define q1 where "q1 = (if contains_key (on_going_fetches f) (to_record_key E a, t) then on_going_fetches f
      else AList.update (to_record_key E a, t) (holder, now + FETCH_TIMEOUT) (on_going_fetches f))"
  obtain ks1 where step: "add_candidate E now True holder c (f, ks) = (f\<lparr>on_going_fetches := q1\<rparr>, ks1)"
    by (cases "contains_key (on_going_fetches f) (to_record_key E a, t)") (simp_all add: add_candidate_def c q1_def Let_def)
  have hm: "hm_invar q1" using Cons.prems(2) by (simp add: q1_def hm.invar_insert)
  have "fold (add_candidate E now True holder) cands (f\<lparr>on_going_fetches := q1\<rparr>, ks1) = (f', ks')"
    using Cons.prems(1) step by simp
  from Cons.IH [OF this] hm show ?case by auto
qed

lemma add_score_invar:
  assumes "hm_invar m" and "\<forall>(peer, scores, _) \<in> set m. length scores \<in> {1, 2}"
  shows "hm_invar (add_score now p b m) \<and> (\<forall>(peer, scores, _) \<in> set (add_score now p b m). length scores \<in> {1, 2})"
proof -
  define old where "old = (case map_of m p of Some (s, _) \<Rightarrow> s | None \<Rightarrow> [])"
  define window where "window = (if length (old @ [b]) > 2 then tl (old @ [b]) else old @ [b])"
  have "length old \<le> 2"
    using assms(2) by (fastforce simp: old_def split: option.splits dest: map_of_SomeD)
  then consider "length old = 0" | "length old = 1" | "length old = 2" by linarith
  then have "length window \<in> {1, 2}" by cases (simp_all add: window_def)
  moreover have "add_score now p b m = AList.update p (window, now) m"
    by (simp add: add_score_def old_def window_def Let_def)
  ultimately show ?thesis using assms by (auto simp: hm.invar_insert set_hm_update)
qed

lemma add_peer_scores_invar:
  assumes "fetcher_invar f" shows "fetcher_invar (add_peer_scores now rnd scores f)"
proof -
  have "hm_invar (fold (\<lambda>(i, (peer, h)). add_score (now i) peer h) xs m) \<and>
      (\<forall>(peer, s, _) \<in> set (fold (\<lambda>(i, (peer, h)). add_score (now i) peer h) xs m). length s \<in> {1, 2})"
    if "hm_invar m" "\<forall>(peer, s, _) \<in> set m. length s \<in> {1, 2}" for xs m
    using that
  proof (induction xs arbitrary: m)
    case (Cons x xs)
    obtain i p b where x: "x = (i, p, b)" by (cases x)
    show ?case using Cons.IH [of "add_score (now i) p b m"] add_score_invar [OF Cons.prems, of "now i" p b] by (simp add: x)
  qed simp
  from this [of "peers_scores f" "zip [0..<length scores] scores"] assms show ?thesis
    by (auto simp: fetcher_invar_def add_peer_scores_def Let_def hm.invar_remove set_delete)
qed

lemma next_keys_backed:
  assumes "backed_invar E R T f" and "next_keys_to_fetch E now f = (f', keys)"
  shows "backed_invar E R T f'"
proof -
  have inv: "fetcher_invar f" using assms(1) by (simp add: backed_invar_def)
  show ?thesis
    using next_keys_to_fetch_invar [OF inv assms(2)] next_keys_to_fetch_shrink [OF inv assms(2)]
    by (intro backed_invar_shrink [OF assms(1)]) auto
qed

lemma retain_backed:
  assumes "backed_invar E R T f" and "to_be_fetched f' = retain p (to_be_fetched f)"
    and "on_going_fetches f' = retain q (on_going_fetches f)" and "peers_scores f' = peers_scores f"
    and "initial_replicates f' = initial_replicates f"
  shows "backed_invar E R T f'"
  using assms(1) by (rule backed_invar_shrink) (use assms in \<open>auto simp: backed_invar_def fetcher_invar_def hm_invar_retain\<close>)

lemma remove_stored_backed: "backed_invar E R T f \<Longrightarrow> backed_invar E R T (remove_stored_keys stored f)"
  by (erule retain_backed) (simp_all add: remove_stored_keys_def)

lemma add_keys_backed:
  assumes "backed_invar E R T f" and "add_keys E now holder incoming stored False closest f = (f', keys)"
  shows "backed_invar E (R \<union> announcements holder incoming)
      (T \<union> (if is_peer_trustworthy f holder = Some True then announcements holder incoming else {})) f'"
proof -
  define R' where "R' = R \<union> announcements holder incoming"
  define T' where "T' = T \<union> (if is_peer_trustworthy f holder = Some True then announcements holder incoming else {})"
  have inv: "fetcher_invar f" and rep: "\<And>key q. reported f key q \<Longrightarrow> (q, key) \<in> R"
    using assms(1) unfolding backed_invar_def by blast+
  obtain f1 cands where vc: "valid_candidates E now holder incoming stored closest f = (f1, cands)" by fastforce
  note c = valid_candidates_backed(1-3) [OF inv rep vc, folded R'_def]
    valid_candidates_backed(4) [OF inv rep vc, where T = T, folded R'_def T'_def]
  have f1: "backed_invar E R' T' f1"
  proof -
    from c(1) obtain m where m: "f1 = f\<lparr>initial_replicates := m\<rparr>" by blast
    have "backed_invar E R' T' (f\<lparr>initial_replicates := []\<rparr>)"
      by (rule backed_invar_shrink [OF assms(1)]) (use inv in \<open>auto simp: fetcher_invar_def hm_invar_Nil R'_def T'_def\<close>)
    then show ?thesis using c(2,3) m unfolding backed_invar_def by simp
  qed
  define f3 where "f3 = (remove_stored_keys stored f1)\<lparr>to_be_fetched := retain (\<lambda>_ time_out. time_out > now) (to_be_fetched (remove_stored_keys stored f1))\<rparr>"
  have "backed_invar E R' T' f3"
    unfolding f3_def by (rule backed_invar_shrink [OF remove_stored_backed [OF f1]])
      (use remove_stored_backed [OF f1] in \<open>auto simp: backed_invar_def fetcher_invar_def hm_invar_retain\<close>)
  moreover obtain f4 ks where f4: "fold (add_candidate E now False holder) cands (f3, []) = (f4, ks)" by fastforce
  ultimately have f3: "backed_invar E R' T' f3" "hm_invar (to_be_fetched f3)" by (simp_all add: backed_invar_def fetcher_invar_def)
  obtain q where q: "f4 = f3\<lparr>to_be_fetched := q\<rparr>" "hm_invar q"
    "fst ` set q \<subseteq> fst ` set (to_be_fetched f3) \<union> (\<lambda>(p, a, t). (to_record_key E a, t, p)) ` set cands"
    using fold_add_candidate_queue [OF f4 f3(2)] by blast
  have pending: "\<exists>a. to_record_key E a = k \<and> backed R' T' (p, a, t)" if "(k, t, p) \<in> fst ` set q" for k t p
  proof (cases "(k, t, p) \<in> fst ` set (to_be_fetched f3)")
    case True
    then show ?thesis using f3(1) unfolding backed_invar_def by blast
  next
    case False
    with that q(3) obtain a where "(p, a, t) \<in> set cands" "k = to_record_key E a" by auto
    then show ?thesis using c(4) by blast
  qed
  have "fetcher_invar f4" using f3(1) q(1,2) by (simp add: backed_invar_def fetcher_invar_def)
  moreover have rep4: "reported f4 = reported f3" by (simp add: fun_eq_iff reported_def q(1))
  moreover have tb: "to_be_fetched f4 = q" by (simp add: q(1))
  ultimately have "backed_invar E R' T' f4"
    using f3(1) pending unfolding backed_invar_def tb rep4 by blast
  moreover obtain more where "next_keys_to_fetch E now f4 = (f', more)"
    using assms(2) f4 by (auto simp: add_keys_def vc f3_def Let_def split: prod.splits)
  ultimately show ?thesis using next_keys_backed unfolding R'_def T'_def by blast
qed

lemma add_keys_fresh_backed:
  assumes "backed_invar E R T f" and "add_keys E now holder incoming stored True closest f = (f', keys)"
  shows "backed_invar E R T f'"
proof -
  define f3 where "f3 = (remove_stored_keys stored f)\<lparr>to_be_fetched := retain (\<lambda>_ time_out. time_out > now) (to_be_fetched (remove_stored_keys stored f))\<rparr>"
  have all: "retain (\<lambda>_ _. True) m = m" for m :: "(fetch_key, peer_id \<times> instant) hash_map" by (simp add: retain_def)
  have f3: "backed_invar E R T f3"
    unfolding f3_def by (rule retain_backed [OF remove_stored_backed [OF assms(1)], where q = "\<lambda>_ _. True"]) (simp_all add: all)
  obtain f4 ks where f4: "fold (add_candidate E now True holder) (map (\<lambda>(a, t). (holder, a, t)) incoming) (f3, []) = (f4, ks)" by fastforce
  have "hm_invar (on_going_fetches f3)" using f3 by (simp add: backed_invar_def fetcher_invar_def)
  from fold_add_candidate_fresh [OF f4 this] obtain q where q: "f4 = f3\<lparr>on_going_fetches := q\<rparr>" "hm_invar q" by blast
  have "fetcher_invar f4" using f3 q by (simp add: backed_invar_def fetcher_invar_def)
  then have "backed_invar E R T f4" by (rule backed_invar_shrink [OF f3]) (simp_all add: q(1))
  moreover obtain more where "next_keys_to_fetch E now f4 = (f', more)"
    using assms(2) f4 by (auto simp: add_keys_def f3_def Let_def split: prod.splits)
  ultimately show ?thesis by (rule next_keys_backed)
qed

lemma fetcher_run_invariant:
  assumes "fetcher_run E self R T f"
  shows "backed_invar E R T f \<and> finite R"
  using assms
proof (induction rule: fetcher_run.induct)
  case run_new
  then show ?case by (simp add: backed_invar_def fetcher_new_invar reported_def) (simp add: fetcher_new_def)
next
  case (run_add_keys R T f now holder incoming stored closest f' keys)
  then show ?case using add_keys_backed [of E R T f] by (simp add: announcements_def)
next
  case (run_fresh R T f now holder incoming stored closest f' keys)
  then show ?case using add_keys_fresh_backed by blast
next
  case (run_next R T f now f' keys)
  then show ?case using next_keys_backed by blast
next
  case (run_new_put R T f now k vt f' keys)
  let ?f = "f\<lparr>to_be_fetched := retain (\<lambda>(key, t, _) _. key \<noteq> k \<or> t \<noteq> vt) (to_be_fetched f),
      on_going_fetches := retain (\<lambda>(key, _) _. key \<noteq> k) (on_going_fetches f)\<rparr>"
  have "backed_invar E R T ?f" using run_new_put.IH by (elim conjE retain_backed) simp_all
  then show ?case
    using next_keys_backed run_new_put.hyps(2) run_new_put.IH unfolding notify_about_new_put_def by blast
next
  case (run_early R T f now k vt f' keys)
  let ?f = "f\<lparr>to_be_fetched := retain (\<lambda>(key, t, _) _. if t = vt then key \<noteq> k else True) (to_be_fetched f),
      on_going_fetches := retain (\<lambda>(key, t) _. if t = vt then key \<noteq> k else True) (on_going_fetches f)\<rparr>"
  have "backed_invar E R T ?f" using run_early.IH by (elim conjE retain_backed) simp_all
  then show ?case
    using next_keys_backed run_early.hyps(2) run_early.IH unfolding notify_fetch_early_completed_def by blast
next
  case (run_full R T f k')
  have "set_farthest_on_full E k' f = f \<or> (\<exists>p q. to_be_fetched (set_farthest_on_full E k' f) = retain p (to_be_fetched f) \<and>
      on_going_fetches (set_farthest_on_full E k' f) = retain q (on_going_fetches f) \<and>
      peers_scores (set_farthest_on_full E k' f) = peers_scores f \<and>
      initial_replicates (set_farthest_on_full E k' f) = initial_replicates f)"
    by (auto simp: set_farthest_on_full_def Let_def split: option.splits)
  then show ?case using run_full.IH retain_backed by metis
next
  case (run_scores R T f clock rnd scores)
  then have "fetcher_invar (add_peer_scores clock rnd scores f)" using add_peer_scores_invar by (simp add: backed_invar_def)
  then show ?case
    using run_scores.IH backed_invar_shrink [of E R T f "add_peer_scores clock rnd scores f" R T]
    by (simp add: add_peer_scores_def Let_def)
next
  case (run_range R T f d)
  then have "fetcher_invar (set_replication_distance_range d f)"
    by (simp add: backed_invar_def fetcher_invar_def set_replication_distance_range_def)
  then show ?case
    using run_range.IH backed_invar_shrink [of E R T f "set_replication_distance_range d f" R T]
    by (simp add: set_replication_distance_range_def)
qed

lemma snd_fold_accumulate: "set (snd (fold (accumulate_replicate now holder) ks acc)) \<subseteq> set (snd acc) \<union> set ks"
proof (induction ks arbitrary: acc)
  case (Cons key ks)
  have "set (snd (accumulate_replicate now holder key acc)) \<subseteq> insert key (set (snd acc))"
    by (auto simp: accumulate_replicate_def Let_def split: prod.splits)
  then show ?case using Cons.IH [of "accumulate_replicate now holder key acc"] by fastforce
qed simp

lemma initial_majority_keys:
  assumes "fetcher_invar f" and "initial_majority_replicates now holder ks f = (f', res)" and "(p, a, t) \<in> set res"
  shows "(a, t) \<in> set ks"
proof -
  obtain m majs where acc: "fold (accumulate_replicate now holder) ks (initial_replicates f, []) = (m, majs)" by fastforce
  obtain m1 where tk: "fold take_majority majs (m, []) = (m1, res)"
    using assms(2) by (auto simp: initial_majority_replicates_def acc split: prod.splits)
  have "acc_ok (initial_replicates f, [])" using assms(1) by (auto simp: acc_ok_def fetcher_invar_def not_le)
  from fold_accumulate [OF this, of now holder ks] have "hm_invar m" by (simp add: acc acc_ok_def)
  from fold_take_majority [OF this tk] assms(3) have "(a, t) \<in> set majs" by auto
  then show ?thesis using snd_fold_accumulate [of now holder ks "(initial_replicates f, [])"] by (auto simp: acc)
qed

lemma valid_candidates_keys:
  assumes "fetcher_invar f" and "valid_candidates E now holder incoming stored closest f = (f', cands)"
    and "(p, a, t) \<in> set cands"
  shows "(a, t) \<in> set (in_range_new_keys E holder incoming stored closest f)"
proof -
  define ks where "ks = in_range_new_keys E holder incoming stored closest f"
  obtain f1 res where maj: "initial_majority_replicates now holder ks f = (f1, res)" by fastforce
  have "(p, a, t) \<in> set res \<or> (a, t) \<in> set ks"
    using assms(2,3) maj set_fold_add_absent [of res "map (\<lambda>(addr, t). (holder, addr, t)) ks"]
    by (auto simp: valid_candidates_def ks_def [symmetric] Let_def split: option.splits bool.splits)
  then show ?thesis using initial_majority_keys [OF assms(1) maj] by (auto simp: ks_def)
qed

section \<open>Properties\<close>

text \<open>C2: Every queued fetch was announced by the peer it is to be fetched from, and that peer was
  trusted when it announced the record or at least \<open>CLOSE_GROUP_SIZE div 2\<close> different peers have announced
  it: a single peer without a record of passed challenges cannot make the node fetch anything.\<close>

theorem queued_fetches_are_backed:
  assumes "fetcher_run E self R T f" and "(k, t, p) \<in> fst ` set (to_be_fetched f)"
  shows "\<exists>a. to_record_key E a = k \<and> (p, a, t) \<in> R \<and>
    ((p, a, t) \<in> T \<or> CLOSE_GROUP_SIZE div 2 \<le> card {q. (q, a, t) \<in> R})"
proof -
  from fetcher_run_invariant [OF assms(1)] have inv: "backed_invar E R T f" and fin: "finite R" by simp_all
  then obtain a where a: "to_record_key E a = k" "backed R T (p, a, t)"
    using assms(2) unfolding backed_invar_def by blast
  have "CLOSE_GROUP_SIZE div 2 \<le> card {q. (q, a, t) \<in> R}"
    if "distinct peers" "CLOSE_GROUP_SIZE div 2 \<le> length peers" "\<forall>q \<in> set peers. (q, a, t) \<in> R" for peers
  proof -
    have "finite {q. (q, a, t) \<in> R}"
      by (rule finite_subset [of _ "fst ` R"]) (use fin in force)+
    then have "card (set peers) \<le> card {q. (q, a, t) \<in> R}" using that(3) by (intro card_mono) auto
    then show ?thesis using that(1,2) by (simp add: distinct_card)
  qed
  then show ?thesis using a unfolding backed_def by auto
qed

text \<open>C7: The next fetches are pending records that nobody is being asked for, at most as many as there
  is capacity, each record once and marked as on-going with a fresh timeout; no pending record that is
  left out is closer than one that is taken, and one is left out only when the capacity is used up.\<close>

theorem next_fetches_closest_first:
  assumes "fetcher_invar f" and "next_keys_to_fetch E now f = (f', keys)"
  defines "f1 \<equiv> prune_expired_keys_and_slow_nodes now f"
  shows "\<exists>sel. keys = map (\<lambda>(h, k, t). (h, k)) sel \<and> distinct (map (\<lambda>(h, k, t). (k, t)) sel) \<and>
    length (on_going_fetches f') \<le> max MAX_PARALLEL_FETCH (length (on_going_fetches f1)) \<and>
    (\<forall>(h, k, t) \<in> set sel. (k, t, h) \<in> fst ` set (to_be_fetched f1) \<and> (k, t, h) \<notin> fst ` set (to_be_fetched f') \<and>
       \<not> contains_key (on_going_fetches f1) (k, t) \<and>
       map_of (on_going_fetches f') (k, t) = Some (h, now + FETCH_TIMEOUT)) \<and>
    (\<forall>(k', t', h') \<in> fst ` set (to_be_fetched f1). \<not> contains_key (on_going_fetches f') (k', t') \<longrightarrow>
       MAX_PARALLEL_FETCH \<le> length (on_going_fetches f') \<and>
       (\<forall>(h, k, t) \<in> set sel. self_distance E f (na_from_key k) \<le> self_distance E f (na_from_key k')))"
proof (cases rule: next_keys_to_fetch_cases [of E now f])
  case idle
  then have "f' = f1" "keys = []" using assms(2) by (simp_all add: f1_def)
  then show ?thesis using idle(2) by (intro exI [of _ "[]"]) (auto simp: f1_def [symmetric])
next
  case (busy f2 on_going sel)
  have f2: "f2 = f1" using busy(1) by (simp add: f1_def)
  define D where "D = (\<lambda>(key, _ :: validation_type, _ :: peer_id). self_distance E f1 (na_from_key key))"
  define xs where "xs = sort_key D (map fst (to_be_fetched f1))"
  have loop: "fetch_loop now xs (on_going_fetches f1) = (on_going, sel)"
    using busy(3) by (simp add: f2 xs_def D_def)
  have hm: "hm_invar (on_going_fetches f1)" and room: "length (on_going_fetches f1) < MAX_PARALLEL_FETCH"
    using prune_expired_invar [OF assms(1), of now] busy(2) by (simp_all add: fetcher_invar_def f1_def f2)
  note basic = fetch_loop_basic [OF loop hm]
  then have taken: "\<forall>(h, k, t) \<in> set sel. (k, t, h) \<in> set xs \<and> \<not> contains_key (on_going_fetches f1) (k, t) \<and>
      map_of on_going (k, t) = Some (h, now + FETCH_TIMEOUT)" by blast
  obtain n where n: "\<forall>(h, k, t) \<in> set sel. (k, t, h) \<in> set (take n xs)"
    "\<forall>(k, t, h) \<in> set (take n xs). contains_key on_going (k, t)" "length on_going < MAX_PARALLEL_FETCH \<longrightarrow> n = length xs"
    using fetch_loop_prefix [OF loop hm room] by blast
  have f'_eq: "f' = f1\<lparr>on_going_fetches := on_going,
        to_be_fetched := fold (\<lambda>x. AList.delete ((\<lambda>(h, k, t). (k, t, h)) x)) sel (to_be_fetched f1)\<rparr>"
    and keys: "keys = map (\<lambda>(h, k, t). (h, k)) sel"
    using assms(2) unfolding busy(4) f2 prod.inject by (simp_all only:)
  have f': "on_going_fetches f' = on_going"
    "set (to_be_fetched f') = {e \<in> set (to_be_fetched f1). fst e \<notin> (\<lambda>(h, k, t). (k, t, h)) ` set sel}"
    unfolding f'_eq by (simp_all add: set_fold_delete)
  have set_xs: "set xs = fst ` set (to_be_fetched f1)" by (simp add: xs_def)
  have dist: "D (k, t, h) = self_distance E f (na_from_key k)" for k t h
    by (simp add: D_def self_distance_def f1_def)
  have left: "MAX_PARALLEL_FETCH \<le> length on_going \<and> (\<forall>(h, k, t) \<in> set sel. D (k, t, h) \<le> D y)"
    if "y \<in> set xs" "y \<notin> set (take n xs)" for y
  proof -
    have "sorted (map D xs)" by (simp add: xs_def)
    then have "\<forall>(h, k, t) \<in> set sel. D (k, t, h) \<le> D y" using n(1) sorted_prefix_le [OF _ _ that] by fastforce
    then show ?thesis using n(3) that by (cases "length on_going < MAX_PARALLEL_FETCH") auto
  qed
  show ?thesis
  proof (intro exI [of _ sel] conjI)
    show "\<forall>(h, k, t) \<in> set sel. (k, t, h) \<in> fst ` set (to_be_fetched f1) \<and> (k, t, h) \<notin> fst ` set (to_be_fetched f') \<and>
       \<not> contains_key (on_going_fetches f1) (k, t) \<and>
       map_of (on_going_fetches f') (k, t) = Some (h, now + FETCH_TIMEOUT)"
    proof clarify
      fix h k t assume s: "(h, k, t) \<in> set sel"
      have "(k, t, h) \<in> set xs" "\<not> contains_key (on_going_fetches f1) (k, t)" "map_of on_going (k, t) = Some (h, now + FETCH_TIMEOUT)"
        using taken s by auto
      moreover have "(k, t, h) \<notin> fst ` set (to_be_fetched f')" using s unfolding f'(2) by force
      ultimately show "(k, t, h) \<in> fst ` set (to_be_fetched f1) \<and> (k, t, h) \<notin> fst ` set (to_be_fetched f') \<and>
         \<not> contains_key (on_going_fetches f1) (k, t) \<and> map_of (on_going_fetches f') (k, t) = Some (h, now + FETCH_TIMEOUT)"
        unfolding f'(1) set_xs by simp
    qed
    show "\<forall>(k', t', h') \<in> fst ` set (to_be_fetched f1). \<not> contains_key (on_going_fetches f') (k', t') \<longrightarrow>
       MAX_PARALLEL_FETCH \<le> length (on_going_fetches f') \<and>
       (\<forall>(h, k, t) \<in> set sel. self_distance E f (na_from_key k) \<le> self_distance E f (na_from_key k'))"
    proof clarify
      fix k' t' h' e assume e: "e \<in> set (to_be_fetched f1)" "(k', t', h') = fst e" and out: "\<not> contains_key (on_going_fetches f') (k', t')"
      have "(k', t', h') \<in> set xs" "(k', t', h') \<notin> set (take n xs)"
        using e out n(2) unfolding set_xs f'(1) by force+
      from left [OF this] show "MAX_PARALLEL_FETCH \<le> length (on_going_fetches f') \<and>
         (\<forall>(h, k, t) \<in> set sel. self_distance E f (na_from_key k) \<le> self_distance E f (na_from_key k'))"
        unfolding f'(1) dist .
    qed
  qed (use basic f' keys room in auto)
qed


text \<open>C35: What is queued on an announcement is never a key the node already holds, not even in another
  version, and never farther away than the farthest of the closest peers.\<close>

theorem candidates_new_and_near:
  assumes "fetcher_invar f" and "valid_candidates E now holder incoming stored closest f = (f', cands)"
    and "(p, a, t) \<in> set cands"
  shows "\<not> contains_key stored (to_record_key E a) \<and>
    (\<exists>peer \<in> set (closest @ [na_from_peer E (self_peer_id f)]). self_distance E f a \<le> self_distance E f peer)"
proof -
  define peers where "peers = closest @ [na_from_peer E (self_peer_id f)]"
  define sorted where "sorted = sort_key (self_distance E f) peers"
  have "sorted \<noteq> []" unfolding sorted_def peers_def using set_empty [of "sort_key (self_distance E f) (closest @ [na_from_peer E (self_peer_id f)])"] by auto
  then have last: "last sorted \<in> set peers" using last_in_set [of sorted] by (simp add: sorted_def)
  have "\<not> contains_key stored (to_record_key E a)" "self_distance E f a \<le> self_distance E f (last sorted)"
    using valid_candidates_keys [OF assms] \<open>sorted \<noteq> []\<close>
    unfolding in_range_new_keys_def Let_def sorted_def peers_def self_distance_def by auto
  with last show ?thesis unfolding peers_def by blast
qed


lemma sample_fetcher_run:
  "\<exists>R T. fetcher_run sample_crates (PeerId [0]) R T sample_fetcher_2"
proof -
  obtain f1 k1 where f1: "add_keys sample_crates 0 (PeerId [1]) [(NA_RecordKey [5], VT_Chunk)] [] False [NA_PeerId [255]] (fetcher_new (PeerId [0])) = (f1, k1)" by fastforce
  then have "sample_fetcher_1 = f1" by (simp add: sample_fetcher_1_def)
  moreover obtain f2 k2 where f2: "add_keys sample_crates 1 (PeerId [2]) [(NA_RecordKey [5], VT_Chunk)] [] False [NA_PeerId [255]] f1 = (f2, k2)" by fastforce
  ultimately have "sample_fetcher_2 = f2" by (simp add: sample_fetcher_2_def)
  with run_add_keys [OF run_add_keys [OF run_new f1] f2] show ?thesis by blast
qed

lemma sample_fetcher_pending: "map fst (to_be_fetched sample_fetcher_2) = [([5], VT_Chunk, PeerId [1])]"
  by code_simp

lemma sample_scored_invar: "length scores \<in> {1, 2} \<Longrightarrow> fetcher_invar (sample_scored scores)"
  by (simp add: sample_scored_def fetcher_new_def fetcher_invar_def hm_invar_def)

lemma queued_fetches_are_backed_witness:
  "\<exists>R T a. fetcher_run sample_crates (PeerId [0]) R T sample_fetcher_2 \<and> to_record_key sample_crates a = [5] \<and>
     (PeerId [1], a, VT_Chunk) \<in> R"
proof -
  obtain R T where run: "fetcher_run sample_crates (PeerId [0]) R T sample_fetcher_2" using sample_fetcher_run by blast
  have "([5], VT_Chunk, PeerId [1]) \<in> fst ` set (to_be_fetched sample_fetcher_2)"
    using sample_fetcher_pending by (metis image_set list.set_intros(1))
  from queued_fetches_are_backed [OF run this] run show ?thesis by blast
qed

lemma next_fetches_closest_first_witness:
  "length (on_going_fetches (fst (next_keys_to_fetch sample_crates 0 (sample_scored [True])))) \<le> 5"
proof -
  obtain f' keys where n: "next_keys_to_fetch sample_crates 0 (sample_scored [True]) = (f', keys)" by fastforce
  from next_fetches_closest_first [OF sample_scored_invar n] have "length (on_going_fetches f') \<le>
      max MAX_PARALLEL_FETCH (length (on_going_fetches (prune_expired_keys_and_slow_nodes 0 (sample_scored [True]))))" by auto
  then have "length (on_going_fetches f') \<le> 5" by (simp add: sample_scored_def fetcher_new_def MAX_PARALLEL_FETCH_def retain_def)
  then show ?thesis by (simp add: n)
qed


lemma candidates_new_and_near_witness:
  "\<exists>peer \<in> {NA_PeerId [255], NA_PeerId [0]}. self_distance sample_crates (sample_scored [True, True]) (NA_RecordKey [5]) \<le>
     self_distance sample_crates (sample_scored [True, True]) peer"
proof -
  have "snd (valid_candidates sample_crates 0 (PeerId [1]) [(NA_RecordKey [5], VT_Chunk)] [] [NA_PeerId [255]] (sample_scored [True, True])) =
      [(PeerId [1], NA_RecordKey [5], VT_Chunk)]" by code_simp
  then obtain f' where v: "valid_candidates sample_crates 0 (PeerId [1]) [(NA_RecordKey [5], VT_Chunk)] [] [NA_PeerId [255]] (sample_scored [True, True]) =
      (f', [(PeerId [1], NA_RecordKey [5], VT_Chunk)])" by (metis prod.collapse)
  from candidates_new_and_near [OF sample_scored_invar v, of "PeerId [1]" "NA_RecordKey [5]" VT_Chunk] show ?thesis
    by (auto simp: sample_scored_def fetcher_new_def na_from_peer_def sample_crates_def)
qed


end
