(* ===== verification/Network_Wide_Replication.thy ===== *)
theory Network_Wide_Replication
  imports Record_Store_Props
begin

text \<open>
  Network wide replication (\<^verbatim>\<open>ant-node/src/networking/driver/network_wide_replication.rs\<close>): every so often
  a node hands some of its record addresses to the layer above, spread so that all of them are handed over
  before a deadline. An execution takes the clock, whether the event channel is open, and the record
  store; it gives the new state and the keys of the event it sends, if any. The number of keys per
  execution is computed by the source through \<^verbatim>\<open>f64\<close>, which is exact for counts below \<open>2 ^ 52\<close>, far
  above the capacity of the store.
\<close>

definition REPLICATION_DEADLINE_SECS :: nat where "REPLICATION_DEADLINE_SECS = 4 * 24 * 60 * 60"
definition NETWORK_LOAD_TIMEOUT_SECS :: nat where "NETWORK_LOAD_TIMEOUT_SECS = 72 * 60 * 60"
definition NETWORK_WIDE_REPLICATION_INTERVAL :: int where "NETWORK_WIDE_REPLICATION_INTERVAL = from_secs (15 * 60)"

type_synonym replication_key = "network_address \<times> validation_type"

record network_wide_replication =
  last_record_count :: nat
  pending_records :: "replication_key list"
  completed_records :: "replication_key list"
  last_replication_time :: "instant option"
  complete_replication_within :: instant
  network_is_under_load :: "instant option"

definition nwr_new :: "instant \<Rightarrow> network_wide_replication" where
  "nwr_new now = \<lparr>last_record_count = 0, pending_records = [], completed_records = [],
     last_replication_time = None,
     complete_replication_within = now + from_secs REPLICATION_DEADLINE_SECS,
     network_is_under_load = None\<rparr>"

definition set_network_under_load :: "instant \<Rightarrow> network_wide_replication \<Rightarrow> network_wide_replication" where
  "set_network_under_load now w = w\<lparr>network_is_under_load := Some now\<rparr>"

definition is_network_under_load :: "network_wide_replication \<Rightarrow> bool" where
  "is_network_under_load w \<longleftrightarrow> network_is_under_load w \<noteq> None"

definition calculate_keys_to_send :: "nat \<Rightarrow> nat \<Rightarrow> int option \<Rightarrow> nat \<Rightarrow> nat option" where
  "calculate_keys_to_send pending_count time_remaining_secs elapsed_since_last execute_interval_secs =
    (if pending_count = 0 then None else
     let execute_runs_remaining =
           (if time_remaining_secs = 0 then 0 else max (time_remaining_secs div execute_interval_secs) 1)
     in if execute_runs_remaining = 0 then Some pending_count
        else let keys_per_execution = div_ceil pending_count execute_runs_remaining in
          if keys_per_execution = 0 \<or> pending_count < execute_runs_remaining
          then let target_interval_secs = time_remaining_secs div pending_count in
            (case elapsed_since_last of
               Some since \<Rightarrow>
                 if as_secs since < target_interval_secs then None
                 else Some (min (max (as_secs since div target_interval_secs) 1) pending_count)
             | None \<Rightarrow> Some 1)
          else Some (min keys_per_execution pending_count))"

definition store_replication_keys :: "node_record_store \<Rightarrow> replication_key list" where
  "store_replication_keys st = map (\<lambda>(_, addr, vt, _). (addr, vt)) (records st)"

definition queue_new_records :: "node_record_store \<Rightarrow> network_wide_replication \<Rightarrow> network_wide_replication" where
  "queue_new_records st w =
    (let current_count = length (records st) in
     if last_record_count w \<noteq> current_count
     then let new_keys = filter (\<lambda>key. key \<notin> set (pending_records w) \<and> key \<notin> set (completed_records w))
                (store_replication_keys st)
          in w\<lparr>last_record_count := current_count, pending_records := pending_records w @ new_keys\<rparr>
     else w)"

definition expire_load :: "instant \<Rightarrow> network_wide_replication \<Rightarrow> network_wide_replication" where
  "expire_load now w =
    (case network_is_under_load w of
       Some last_time \<Rightarrow> if now - last_time > from_secs NETWORK_LOAD_TIMEOUT_SECS
                        then w\<lparr>network_is_under_load := None\<rparr> else w
     | None \<Rightarrow> w)"

definition hand_over ::
  "instant \<Rightarrow> bool \<Rightarrow> nat \<Rightarrow> nat \<Rightarrow> network_wide_replication \<Rightarrow>
   network_wide_replication \<times> replication_key list option" where
  "hand_over now channel_open time_remaining_secs keys_to_send w =
    (let keys_list = take keys_to_send (pending_records w);
         w1 = w\<lparr>pending_records := drop keys_to_send (pending_records w),
                completed_records := completed_records w @ keys_list\<rparr>;
         w2 = (if channel_open then w1\<lparr>last_replication_time := Some now\<rparr> else w1);
         w3 = (if time_remaining_secs = 0 \<and> pending_records w2 = []
               then w2\<lparr>completed_records := [],
                      complete_replication_within := now + from_secs REPLICATION_DEADLINE_SECS,
                      last_replication_time := None\<rparr>
               else w2)
     in (w3, if channel_open then Some keys_list else None))"

definition execute ::
  "instant \<Rightarrow> bool \<Rightarrow> node_record_store \<Rightarrow> network_wide_replication \<Rightarrow>
   network_wide_replication \<times> replication_key list option" where
  "execute now channel_open st w =
    (let w1 = queue_new_records st (expire_load now w);
         time_remaining_secs =
           (if complete_replication_within w1 > now then as_secs (complete_replication_within w1 - now) else 0);
         elapsed_since_last = map_option (\<lambda>last_time. max 0 (now - last_time)) (last_replication_time w1)
     in case calculate_keys_to_send (length (pending_records w1)) time_remaining_secs elapsed_since_last
               (as_secs NETWORK_WIDE_REPLICATION_INTERVAL) of
          None \<Rightarrow> (w1, None)
        | Some keys_to_send \<Rightarrow> hand_over now channel_open time_remaining_secs keys_to_send w1)"

text \<open>A run of executions, each at its own time on the store of that time; the result lists the events sent.\<close>

fun nwr_run :: "(instant \<times> bool \<times> node_record_store) list \<Rightarrow> network_wide_replication \<Rightarrow>
    network_wide_replication \<times> replication_key list list" where
  "nwr_run [] w = (w, [])"
| "nwr_run ((now, channel_open, st) # rest) w =
    (let (w1, sent) = execute now channel_open st w;
         (w2, more) = nwr_run rest w1
     in (w2, (case sent of Some ks \<Rightarrow> ks # more | None \<Rightarrow> more)))"

definition nwr_invar :: "network_wide_replication \<Rightarrow> bool" where
  "nwr_invar w \<longleftrightarrow> distinct (pending_records w @ completed_records w)"

text \<open>Two records, queued and handed over in a cycle that ends at its deadline.\<close>

definition sample_nwr_store :: node_record_store where
  "sample_nwr_store = sample_store 4 [sample_entry [1], sample_entry [2]] None"

section \<open>Lemmas\<close>

text \<open>When the executions outnumber the keys, the target interval is not zero, so the division of the
  elapsed time by it is defined.\<close>

lemma target_interval_positive:
  assumes "0 < (pending :: nat)" "pending < max (time_remaining div interval) 1"
  shows "0 < time_remaining div pending"
proof -
  have "pending < time_remaining div interval" using assms by (auto simp: less_max_iff_disj)
  also have "\<dots> \<le> time_remaining" by simp
  finally show ?thesis using assms(1) by (simp add: div_greater_zero_iff)
qed

lemma calculate_keys_range:
  assumes "calculate_keys_to_send pending time_remaining since interval = Some n"
  shows "1 \<le> n" "n \<le> pending"
proof -
  have "0 < pending" using assms by (cases "pending = 0") (simp_all add: calculate_keys_to_send_def)
  then show "1 \<le> n" "n \<le> pending"
    using assms div_ceil_positive [of pending "max (time_remaining div interval) 1"]
    by (auto simp: calculate_keys_to_send_def Let_def split: if_splits option.splits)
qed

lemma calculate_keys_deadline: "0 < pending \<Longrightarrow> calculate_keys_to_send pending 0 since interval = Some pending"
  by (simp add: calculate_keys_to_send_def)

lemma calculate_keys_first: "calculate_keys_to_send pending time_remaining None interval = None \<longleftrightarrow> pending = 0"
  by (simp add: calculate_keys_to_send_def Let_def)

lemma distinct_store_replication_keys:
  assumes "index_invar E K st"
  shows "distinct (store_replication_keys st)"
proof -
  have *: "\<forall>(k, addr, _) \<in> set (records st). addr = na_from_key k" "distinct (map fst (records st))"
    using assms by (auto simp: index_invar_def hm_invar_def)
  have "inj_on (\<lambda>(_, addr, vt, _). (addr, vt)) (set (records st))"
  proof (rule inj_onI, clarsimp)
    fix k1 a vt d1 k2 d2
    assume mem: "(k1, a, vt, d1) \<in> set (records st)" "(k2, a, vt, d2) \<in> set (records st)"
    have "na_from_key k1 = a" "na_from_key k2 = a" using *(1) mem by auto
    then have "na_from_key k1 = na_from_key k2" by simp
    then have "k1 = k2" by (simp add: na_from_key_def)
    then show "k1 = k2 \<and> d1 = d2" using mem *(2) by (meson eq_key_imp_eq_value prod.inject)
  qed
  then show ?thesis
    using *(2) by (simp add: store_replication_keys_def distinct_map)
qed

lemma queue_new_records_invar:
  "nwr_invar w \<Longrightarrow> distinct (store_replication_keys st) \<Longrightarrow> nwr_invar (queue_new_records st w)"
  by (auto simp: nwr_invar_def queue_new_records_def Let_def)

lemma queue_new_records_fields:
  "completed_records (queue_new_records st w) = completed_records w"
  "complete_replication_within (queue_new_records st w) = complete_replication_within w"
  "last_replication_time (queue_new_records st w) = last_replication_time w"
  "network_is_under_load (queue_new_records st w) = network_is_under_load w"
  "set (pending_records w) \<subseteq> set (pending_records (queue_new_records st w))"
  by (auto simp: queue_new_records_def Let_def)

text \<open>The outcome of an execution in terms of the queue it works on: either nothing is due, or a
  non-empty front of the queue is handed over.\<close>

lemma execute_cases:
  obtains (idle) w2 where "execute now channel_open st w = (w2, None)"
      "pending_records w2 = pending_records (queue_new_records st w)" "completed_records w2 = completed_records w"
      "complete_replication_within w2 = complete_replication_within w"
      "pending_records w2 = [] \<or> now < complete_replication_within w"
  | (sent) n w2 where "execute now channel_open st w = (w2, if channel_open then Some (take n (pending_records (queue_new_records st w))) else None)"
      "1 \<le> n" "n \<le> length (pending_records (queue_new_records st w))"
      "pending_records w2 = drop n (pending_records (queue_new_records st w))"
      "completed_records w2 = completed_records w @ take n (pending_records (queue_new_records st w)) \<or>
       completed_records w2 = [] \<and> pending_records w2 = []"
      "complete_replication_within w2 = complete_replication_within w \<or> pending_records w2 = []"
      "complete_replication_within w \<ge> now + from_secs 1 \<Longrightarrow>
         completed_records w2 = completed_records w @ take n (pending_records (queue_new_records st w)) \<and>
         complete_replication_within w2 = complete_replication_within w"
      "complete_replication_within w \<le> now \<Longrightarrow> pending_records w2 = []"
proof -
  define q where "q = queue_new_records st (expire_load now w)"
  define tr where "tr = (if complete_replication_within q > now then as_secs (complete_replication_within q - now) else 0)"
  define el where "el = map_option (\<lambda>last_time. max 0 (now - last_time)) (last_replication_time q)"
  have q: "pending_records q = pending_records (queue_new_records st w)" "completed_records q = completed_records w"
    "complete_replication_within q = complete_replication_within w"
    by (auto simp: q_def expire_load_def queue_new_records_def Let_def split: option.splits)
  have ex: "execute now channel_open st w =
      (case calculate_keys_to_send (length (pending_records q)) tr el (as_secs NETWORK_WIDE_REPLICATION_INTERVAL) of
         None \<Rightarrow> (q, None) | Some n \<Rightarrow> hand_over now channel_open tr n q)"
    unfolding execute_def Let_def q_def tr_def el_def ..
  show thesis
  proof (cases "calculate_keys_to_send (length (pending_records q)) tr el (as_secs NETWORK_WIDE_REPLICATION_INTERVAL)")
    case None
    have "pending_records q = [] \<or> now < complete_replication_within w"
      using None q calculate_keys_deadline [of "length (pending_records q)" el "as_secs NETWORK_WIDE_REPLICATION_INTERVAL"]
      by (auto simp: tr_def split: if_splits)
    then show thesis using idle [of q] None ex q by simp
  next
    case (Some n)
    note range = calculate_keys_range [OF Some]
    define w2 where "w2 = fst (hand_over now channel_open tr n q)"
    have w2: "hand_over now channel_open tr n q = (w2, if channel_open then Some (take n (pending_records q)) else None)"
      "pending_records w2 = drop n (pending_records q)"
      "tr = 0 \<and> pending_records w2 = [] \<and> completed_records w2 = [] \<or>
       \<not> (tr = 0 \<and> pending_records w2 = []) \<and> completed_records w2 = completed_records q @ take n (pending_records q) \<and>
         complete_replication_within w2 = complete_replication_within q"
      by (auto simp: w2_def hand_over_def Let_def)
    have late: "tr \<noteq> 0" if "complete_replication_within w \<ge> now + from_secs 1"
      using that q(3) by (auto simp: tr_def as_secs_def from_secs_def)
    have "n = length (pending_records q)" if "complete_replication_within w \<le> now"
    proof -
      have "tr = 0" using that q(3) by (simp add: tr_def)
      then show ?thesis using Some by (auto simp: calculate_keys_to_send_def split: if_splits)
    qed
    then have drained: "complete_replication_within w \<le> now \<Longrightarrow> pending_records w2 = []"
      using w2(2) by simp
    show thesis
    proof (rule sent [of w2 n, OF _ range(1) _ _ _ _ _ drained])
      show "execute now channel_open st w =
          (w2, if channel_open then Some (take n (pending_records (queue_new_records st w))) else None)"
        using ex Some w2(1) q(1) by simp
      show "n \<le> length (pending_records (queue_new_records st w))" using range(2) q(1) by simp
      show "pending_records w2 = drop n (pending_records (queue_new_records st w))" using w2(2) q(1) by simp
      show "completed_records w2 = completed_records w @ take n (pending_records (queue_new_records st w)) \<or>
          completed_records w2 = [] \<and> pending_records w2 = []" using w2(3) q by metis
      show "complete_replication_within w2 = complete_replication_within w \<or> pending_records w2 = []"
        using w2(3) q(3) by metis
      show "completed_records w2 = completed_records w @ take n (pending_records (queue_new_records st w)) \<and>
          complete_replication_within w2 = complete_replication_within w"
        if "complete_replication_within w \<ge> now + from_secs 1"
        using late [OF that] w2(3) q by metis
    qed
  qed
qed

lemma execute_invar:
  assumes "nwr_invar w" "distinct (store_replication_keys st)"
  shows "nwr_invar (fst (execute now channel_open st w))"
proof -
  let ?q = "queue_new_records st w"
  have q: "distinct (pending_records ?q @ completed_records w)"
    using queue_new_records_invar [OF assms] by (simp add: nwr_invar_def queue_new_records_fields)
  show ?thesis
  proof (cases rule: execute_cases [of now channel_open st w])
    case (idle w2)
    then show ?thesis using q by (simp add: nwr_invar_def)
  next
    case (sent n w2)
    have "distinct ((take n (pending_records ?q) @ drop n (pending_records ?q)) @ completed_records w)"
      using q by (simp only: append_take_drop_id)
    then have "distinct (drop n (pending_records ?q) @ completed_records w @ take n (pending_records ?q))"
      unfolding distinct_append set_append by blast
    then show ?thesis using sent by (auto simp: nwr_invar_def)
  qed
qed

lemma execute_pending_kept:
  assumes "key \<in> set (pending_records w)"
  shows "key \<in> set (pending_records (fst (execute now True st w))) \<and>
           complete_replication_within (fst (execute now True st w)) = complete_replication_within w \<and>
           now < complete_replication_within w \<or>
         (\<exists>keys. snd (execute now True st w) = Some keys \<and> key \<in> set keys)"
proof -
  let ?q = "pending_records (queue_new_records st w)"
  have key: "key \<in> set ?q" using assms queue_new_records_fields(5) by blast
  show ?thesis
  proof (cases rule: execute_cases [of now True st w])
    case (idle w2)
    then show ?thesis using key by auto
  next
    case (sent n w2)
    have "key \<in> set (take n ?q) \<or> key \<in> set (drop n ?q)"
      using key by (metis Un_iff append_take_drop_id set_append)
    moreover have "now < complete_replication_within w" if "key \<in> set (drop n ?q)"
      using that sent(4,8) by (cases "complete_replication_within w \<le> now") auto
    moreover have "complete_replication_within w2 = complete_replication_within w" if "key \<in> set (drop n ?q)"
      using that sent(4,6) by auto
    ultimately show ?thesis using sent(1,4) by auto
  qed
qed

lemma expire_load_fields:
  "pending_records (expire_load now w) = pending_records w" "completed_records (expire_load now w) = completed_records w"
  "last_record_count (expire_load now w) = last_record_count w"
  "complete_replication_within (expire_load now w) = complete_replication_within w"
  by (auto simp: expire_load_def split: option.splits)

lemma execute_idle:
  assumes "pending_records w = []" "length (records st) = last_record_count w"
  shows "execute now channel_open st w = (expire_load now w, None)"
proof -
  have "queue_new_records st (expire_load now w) = expire_load now w"
    using assms(2) by (simp add: queue_new_records_def expire_load_fields)
  then show ?thesis
    using assms(1) by (simp add: execute_def expire_load_fields calculate_keys_to_send_def)
qed

section \<open>Properties\<close>

text \<open>Whenever keys are due, at least one and at most all of the pending ones are handed over, and
  once the deadline has passed all of them are.\<close>

theorem keys_to_send_bounds:
  "(\<forall>n. calculate_keys_to_send pending time_remaining since interval = Some n \<longrightarrow> 1 \<le> n \<and> n \<le> pending) \<and>
   (0 < pending \<longrightarrow> calculate_keys_to_send pending 0 since interval = Some pending) \<and>
   (calculate_keys_to_send pending time_remaining None interval = None \<longleftrightarrow> pending = 0)"
  using calculate_keys_range(1) by (simp add: calculate_keys_range(2) calculate_keys_deadline calculate_keys_first)

theorem keys_to_send_bounds_witness:
  "calculate_keys_to_send 100 (7 * 900) None 900 = Some 15 \<and> 1 \<le> (15::nat) \<and> (15::nat) \<le> 100"
proof -
  have "calculate_keys_to_send 100 (7 * 900) None 900 = Some 15"
    by (simp add: calculate_keys_to_send_def div_ceil_def)
  then show ?thesis using keys_to_send_bounds [of 100 "7 * 900" None 900] by blast
qed

text \<open>C38: Before the deadline of a cycle no record is handed over twice: in any sequence of executions
  on stores with a consistent index, at times at least a second before the deadline, the keys of all
  the events sent are distinct, and none of them had been completed before.\<close>

theorem no_record_sent_twice:
  assumes "nwr_invar w"
    and "list_all (\<lambda>(now, _, st). now + from_secs 1 \<le> complete_replication_within w \<and> index_invar E UNIV st) steps"
  shows "distinct (completed_records w @ concat (snd (nwr_run steps w)))"
  using assms
proof (induction steps w rule: nwr_run.induct)
  case (1 w)
  then show ?case by (simp add: nwr_invar_def)
next
  case (2 now channel_open st rest w)
  let ?w1 = "fst (execute now channel_open st w)"
  have keys: "distinct (store_replication_keys st)" and early: "now + from_secs 1 \<le> complete_replication_within w"
    using 2(3) distinct_store_replication_keys [of E UNIV st] by auto
  have inv: "nwr_invar ?w1" using execute_invar 2(2) keys by blast
  show ?case
  proof (cases rule: execute_cases [of now channel_open st w])
    case (idle w2)
    then have "distinct (completed_records w2 @ concat (snd (nwr_run rest w2)))"
      using 2(1) [OF refl] inv 2(3) by (force intro!: 2(1))
    then show ?thesis using idle by (simp split: prod.splits)
  next
    case (sent n w2)
    let ?ks = "take n (pending_records (queue_new_records st w))"
    have w2: "completed_records w2 = completed_records w @ ?ks" "complete_replication_within w2 = complete_replication_within w"
      using sent(7) early by auto
    have "distinct (completed_records w2 @ concat (snd (nwr_run rest w2)))"
      using sent(1) inv 2(3) w2(2) by (intro 2(1)) auto
    then have dist: "distinct (completed_records w @ ?ks @ concat (snd (nwr_run rest w2)))" using w2(1) by simp
    have "snd (nwr_run ((now, channel_open, st) # rest) w) =
        (if channel_open then [?ks] else []) @ snd (nwr_run rest w2)"
      using sent(1) by (simp split: prod.splits)
    then show ?thesis using dist unfolding distinct_append set_append by (cases channel_open) auto
  qed
qed

theorem no_record_sent_twice_witness:
  "nwr_invar (nwr_new 0) \<and> distinct (concat (snd (nwr_run [(1, True, sample_nwr_store), (2, True, sample_nwr_store)] (nwr_new 0))))"
proof -
  have "nwr_invar (nwr_new 0)" by (simp add: nwr_invar_def nwr_new_def)
  moreover have "index_invar sample_crates UNIV sample_nwr_store"
    using sample_store_index [of 4 None] by (simp add: index_invar_def sample_nwr_store_def)
  ultimately show ?thesis
    using no_record_sent_twice [of "nwr_new 0" sample_crates "[(1, True, sample_nwr_store), (2, True, sample_nwr_store)]"]
    by (simp add: nwr_new_def from_secs_def REPLICATION_DEADLINE_SECS_def)
qed

text \<open>C37: A queued record is handed over by the deadline: when the channel stays open and one of the
  executions takes place at or after the deadline of the cycle, every record pending at the start is
  in one of the events sent.\<close>

theorem pending_records_sent_by_deadline:
  assumes "key \<in> set (pending_records w)"
    and "\<exists>(now, _, _) \<in> set steps. complete_replication_within w \<le> now"
    and "list_all (\<lambda>(_, channel_open, _). channel_open) steps"
  shows "key \<in> set (concat (snd (nwr_run steps w)))"
  using assms
proof (induction steps w rule: nwr_run.induct)
  case (2 now channel_open st rest w)
  obtain w1 sent where ex: "execute now True st w = (w1, sent)" by fastforce
  have "channel_open" using 2(4) by simp
  from execute_pending_kept [OF 2(2), of now st] ex
  consider (kept) "key \<in> set (pending_records w1)" "complete_replication_within w1 = complete_replication_within w"
      "now < complete_replication_within w"
    | (sent) keys where "sent = Some keys" "key \<in> set keys"
    by auto
  then show ?case
  proof cases
    case kept
    then have "key \<in> set (concat (snd (nwr_run rest w1)))"
      using ex \<open>channel_open\<close> 2(3,4) by (intro 2(1)) auto
    then show ?thesis using ex \<open>channel_open\<close> by (auto split: prod.splits option.splits)
  next
    case sent
    then show ?thesis using ex \<open>channel_open\<close> by (auto split: prod.splits)
  qed
qed simp

theorem pending_records_sent_by_deadline_witness:
  "(NA_RecordKey [1], VT_Chunk) \<in> set (concat (snd (nwr_run
     [(1, True, sample_nwr_store), (from_secs 345601, True, sample_nwr_store)]
     ((nwr_new 0)\<lparr>pending_records := [(NA_RecordKey [2], VT_Chunk), (NA_RecordKey [1], VT_Chunk)]\<rparr>))))"
  by (rule pending_records_sent_by_deadline)
    (simp_all add: nwr_new_def from_secs_def REPLICATION_DEADLINE_SECS_def)

text \<open>C39: A cycle whose records were all handed over before its deadline is never followed by another:
  when nothing is pending and the number of stored records does not change, no execution, however
  late, sends anything or starts a new cycle.\<close>

theorem finished_cycle_never_restarts:
  assumes "pending_records w = []"
    and "list_all (\<lambda>(_, _, st). length (records st) = last_record_count w) steps"
  shows "snd (nwr_run steps w) = [] \<and> completed_records (fst (nwr_run steps w)) = completed_records w \<and>
      complete_replication_within (fst (nwr_run steps w)) = complete_replication_within w"
  using assms
proof (induction steps w rule: nwr_run.induct)
  case (2 now channel_open st rest w)
  obtain w1 sent where ex: "execute now channel_open st w = (w1, sent)" by fastforce
  have "execute now channel_open st w = (expire_load now w, None)" using execute_idle 2(2,3) by simp
  then have "sent = None" "w1 = expire_load now w" using ex by auto
  then have "sent = None \<and> pending_records w1 = [] \<and> last_record_count w1 = last_record_count w \<and>
      completed_records w1 = completed_records w \<and> complete_replication_within w1 = complete_replication_within w"
    using 2(2) by (simp add: expire_load_fields)
  then show ?case using ex 2(1) [of "(w1, sent)" w1 sent] 2(3) by (auto split: prod.splits)
qed simp

theorem finished_cycle_never_restarts_witness:
  "snd (nwr_run [(from_secs 345601, True, sample_nwr_store), (from_secs 691202, True, sample_nwr_store)]
     ((nwr_new 0)\<lparr>last_record_count := 2, completed_records := [(NA_RecordKey [2], VT_Chunk), (NA_RecordKey [1], VT_Chunk)]\<rparr>)) = []"
  using finished_cycle_never_restarts
    [of "(nwr_new 0)\<lparr>last_record_count := 2, completed_records := [(NA_RecordKey [2], VT_Chunk), (NA_RecordKey [1], VT_Chunk)]\<rparr>"
      "[(from_secs 345601, True, sample_nwr_store), (from_secs 691202, True, sample_nwr_store)]"]
  by (simp add: nwr_new_def sample_nwr_store_def sample_store_def)

end
