(* ===== verification/Payments.thy ===== *)
theory Payments
  imports Quoting
begin

text \<open>
  Token amounts (\<^verbatim>\<open>ant-evm/src/amount.rs\<close>) and payment quotes with their proofs of payment
  (\<^verbatim>\<open>ant-evm/src/data_payments.rs\<close>). A \<^verbatim>\<open>SystemTime\<close> is the number of nanoseconds since the Unix
  epoch: quotes carry times read from the clock or from the wire, whose format has no earlier ones.
  MessagePack, and the reading and printing of 256-bit numbers, are operations of the record
  \<open>payment_crates\<close>. Decimal numerals are written out only to state what those operations promise.
\<close>

section \<open>Definitions\<close>

subsection \<open>Amounts\<close>

type_synonym amount = u256
type_synonym system_time = nat
type_synonym evm_address = "160 word"

datatype atto_tokens = AttoTokens amount

datatype evm_error =
    LossOfPrecision
  | ExcessiveValue
  | FailedToParseAttoToken
  | NumericOverflow
  | NotEnoughBalance atto_tokens atto_tokens
  | InvalidQuotePublicKey

record payment_crates =
  u256_parse :: "string \<Rightarrow> u256 option"
  u256_display :: "u256 \<Rightarrow> string"
  u256_display_padded :: "nat \<Rightarrow> u256 \<Rightarrow> string"
  rmp_quoting_metrics :: "quoting_metrics \<Rightarrow> bytes option"

definition TOKEN_TO_RAW_POWER_OF_10_CONVERSION :: nat where "TOKEN_TO_RAW_POWER_OF_10_CONVERSION = 18"
definition TOKEN_TO_RAW_CONVERSION :: amount where "TOKEN_TO_RAW_CONVERSION = 10 ^ 18"

definition atto_zero :: atto_tokens where "atto_zero = AttoTokens 0"

fun as_atto :: "atto_tokens \<Rightarrow> amount" where "as_atto (AttoTokens a) = a"

definition is_zero_atto :: "atto_tokens \<Rightarrow> bool" where "is_zero_atto t \<longleftrightarrow> as_atto t = 0"

definition from_atto :: "amount \<Rightarrow> atto_tokens" where "from_atto a = AttoTokens a"

definition from_u64 :: "u64 \<Rightarrow> atto_tokens" where "from_u64 n = AttoTokens (ucast n)"

definition u256_checked_add :: "u256 \<Rightarrow> u256 \<Rightarrow> u256 option" where
  "u256_checked_add a b = (if unat a + unat b < 2 ^ 256 then Some (a + b) else None)"

definition u256_checked_mul :: "u256 \<Rightarrow> u256 \<Rightarrow> u256 option" where
  "u256_checked_mul a b = (if unat a * unat b < 2 ^ 256 then Some (a * b) else None)"

definition checked_add :: "atto_tokens \<Rightarrow> atto_tokens \<Rightarrow> atto_tokens option" where
  "checked_add a b = map_option from_atto (u256_checked_add (as_atto a) (as_atto b))"

definition checked_sub :: "atto_tokens \<Rightarrow> atto_tokens \<Rightarrow> atto_tokens option" where
  "checked_sub a b = map_option from_atto (if as_atto b \<le> as_atto a then Some (as_atto a - as_atto b) else None)"

definition atto_to_bytes :: "atto_tokens \<Rightarrow> bytes" where
  "atto_to_bytes a = le_bytes 32 (as_atto a)"

definition trim_end_zeros :: "string \<Rightarrow> string" where
  "trim_end_zeros s = rev (dropWhile (\<lambda>c. c = CHR ''0'') (rev s))"

definition atto_from_str :: "payment_crates \<Rightarrow> string \<Rightarrow> (atto_tokens, evm_error) result" where
  "atto_from_str P value_str =
    (let units_str = takeWhile (\<lambda>c. c \<noteq> CHR ''.'') value_str;
         rest_str = tl (dropWhile (\<lambda>c. c \<noteq> CHR ''.'') value_str) in
     and_then (ok_or (u256_parse P units_str) FailedToParseAttoToken) (\<lambda>units.
     if units > ucast (- 1 :: u64) then Err ExcessiveValue else
     and_then (ok_or (u256_checked_mul units TOKEN_TO_RAW_CONVERSION) ExcessiveValue) (\<lambda>converted_units.
     let remainder_str = trim_end_zeros rest_str in
     if remainder_str = [] then Ok (AttoTokens (converted_units + 0))
     else and_then (ok_or (u256_parse P remainder_str) FailedToParseAttoToken) (\<lambda>parsed_remainder.
       if length remainder_str > TOKEN_TO_RAW_POWER_OF_10_CONVERSION then Err LossOfPrecision
       else let remainder_conversion = TOKEN_TO_RAW_POWER_OF_10_CONVERSION - length remainder_str in
         if remainder_conversion > 32 then Err LossOfPrecision
         else Ok (AttoTokens (converted_units + parsed_remainder * 10 ^ remainder_conversion))))))"

definition atto_display :: "payment_crates \<Rightarrow> atto_tokens \<Rightarrow> string" where
  "atto_display P a =
    (let unit_part = as_atto a div TOKEN_TO_RAW_CONVERSION;
         remainder = as_atto a mod TOKEN_TO_RAW_CONVERSION
     in u256_display P unit_part @ ''.'' @ u256_display_padded P 18 remainder)"

subsection \<open>Quotes and proofs of payment\<close>

definition LIVE_TIME_MARGIN :: u64 where "LIVE_TIME_MARGIN = 10"

datatype encoded_peer_id = EncodedPeerId bytes

fun to_peer_id :: "crates \<Rightarrow> encoded_peer_id \<Rightarrow> peer_id option" where
  "to_peer_id E (EncodedPeerId bs) = peer_id_from_bytes E bs"

definition encode_peer_id :: "crates \<Rightarrow> peer_id \<Rightarrow> encoded_peer_id" where
  "encode_peer_id E p = EncodedPeerId (peer_id_to_bytes E p)"

record payment_quote =
  pq_content :: xor_name
  pq_timestamp :: system_time
  pq_quoting_metrics :: quoting_metrics
  pq_rewards_address :: evm_address
  pq_pub_key :: bytes
  pq_signature :: bytes

definition system_secs :: "system_time \<Rightarrow> nat" where "system_secs t = t div 10 ^ 9"

definition bytes_for_signing ::
  "payment_crates \<Rightarrow> xor_name \<Rightarrow> system_time \<Rightarrow> quoting_metrics \<Rightarrow> evm_address \<Rightarrow> bytes" where
  "bytes_for_signing P xorname ts metrics rewards =
     xor_to_vec xorname @ le_bytes 8 (word_of_nat (system_secs ts) :: u64) @
     (case rmp_quoting_metrics P metrics of Some bs \<Rightarrow> bs | None \<Rightarrow> []) @ be_bytes 20 rewards"

definition bytes_for_sig :: "payment_crates \<Rightarrow> payment_quote \<Rightarrow> bytes" where
  "bytes_for_sig P q = bytes_for_signing P (pq_content q) (pq_timestamp q) (pq_quoting_metrics q) (pq_rewards_address q)"

definition quote_hash :: "crates \<Rightarrow> payment_crates \<Rightarrow> payment_quote \<Rightarrow> hash32" where
  "quote_hash E P q = evm_hash E (bytes_for_sig P q @ pq_pub_key q @ pq_signature q)"

definition quote_peer_id :: "crates \<Rightarrow> payment_quote \<Rightarrow> (peer_id, evm_error) result" where
  "quote_peer_id E q =
    (case p2p_decode_protobuf E (pq_pub_key q) of
       Some pub_key \<Rightarrow> Ok (p2p_to_peer_id E pub_key)
     | None \<Rightarrow> Err InvalidQuotePublicKey)"

definition check_is_signed_by_claimed_peer :: "crates \<Rightarrow> payment_crates \<Rightarrow> peer_id \<Rightarrow> payment_quote \<Rightarrow> bool" where
  "check_is_signed_by_claimed_peer E P claimed_peer q =
    (case p2p_decode_protobuf E (pq_pub_key q) of
       None \<Rightarrow> False
     | Some pub_key \<Rightarrow>
         if p2p_to_peer_id E pub_key \<noteq> claimed_peer then False
         else p2p_verify E pub_key (bytes_for_sig P q) (pq_signature q))"

definition is_newer_than :: "payment_quote \<Rightarrow> payment_quote \<Rightarrow> bool" where
  "is_newer_than q other \<longleftrightarrow> pq_timestamp q > pq_timestamp other"

definition system_elapsed :: "system_time \<Rightarrow> system_time \<Rightarrow> nat option" where
  "system_elapsed now t = (if t \<le> now then Some (now - t) else None)"

text \<open>The two clock readings are those of the two \<^verbatim>\<open>elapsed\<close> calls, the older quote's first.\<close>

definition historical_verify :: "system_time \<Rightarrow> system_time \<Rightarrow> payment_quote \<Rightarrow> payment_quote \<Rightarrow> bool" where
  "historical_verify now_old now_new q other =
    (let (old_quote, new_quote) = (if is_newer_than q other then (other, q) else (q, other));
         old_m = pq_quoting_metrics old_quote;
         new_m = pq_quoting_metrics new_quote
     in if qm_live_time new_m < qm_live_time old_m then False
        else if qm_received_payment_count new_m < qm_received_payment_count old_m then False
        else case system_elapsed now_old (pq_timestamp old_quote) of
          None \<Rightarrow> True
        | Some old_elapsed \<Rightarrow>
           (case system_elapsed now_new (pq_timestamp new_quote) of
              None \<Rightarrow> True
            | Some new_elapsed \<Rightarrow>
               (let time_diff = (word_of_nat (system_secs old_elapsed - system_secs new_elapsed) :: u64);
                    live_time_diff = qm_live_time new_m - qm_live_time old_m
                in \<not> live_time_diff > time_diff + LIVE_TIME_MARGIN)))"

datatype proof_of_payment = ProofOfPayment (peer_quotes: "(encoded_peer_id \<times> payment_quote) list")

datatype 'm client_proof_of_payment =
  ClientProofOfPayment (client_peer_quotes: "(encoded_peer_id \<times> 'm list \<times> payment_quote) list")

definition client_payees :: "crates \<Rightarrow> 'm client_proof_of_payment \<Rightarrow> (peer_id \<times> 'm list) list" where
  "client_payees E c =
     filter_map (\<lambda>(id, addrs, _). case to_peer_id E id of Some p \<Rightarrow> Some (p, addrs) | None \<Rightarrow> None)
       (client_peer_quotes c)"

definition to_proof_of_payment :: "'m client_proof_of_payment \<Rightarrow> proof_of_payment" where
  "to_proof_of_payment c = ProofOfPayment (map (\<lambda>(id, _, q). (id, q)) (client_peer_quotes c))"

definition payment_digest ::
  "crates \<Rightarrow> payment_crates \<Rightarrow> proof_of_payment \<Rightarrow> (hash32 \<times> quoting_metrics \<times> evm_address) list" where
  "payment_digest E P p =
     map (\<lambda>(_, q). (quote_hash E P q, pq_quoting_metrics q, pq_rewards_address q)) (peer_quotes p)"

definition payees :: "crates \<Rightarrow> proof_of_payment \<Rightarrow> peer_id list" where
  "payees E p = filter_map (\<lambda>(id, _). to_peer_id E id) (peer_quotes p)"

definition quotes_by_peer :: "crates \<Rightarrow> peer_id \<Rightarrow> proof_of_payment \<Rightarrow> payment_quote list" where
  "quotes_by_peer E peer p =
     filter_map (\<lambda>(_, q). case quote_peer_id E q of
        Ok quote_peer \<Rightarrow> if peer = quote_peer then Some q else None
      | Err _ \<Rightarrow> None) (peer_quotes p)"

definition verify_for :: "crates \<Rightarrow> payment_crates \<Rightarrow> peer_id \<Rightarrow> proof_of_payment \<Rightarrow> bool" where
  "verify_for E P peer p =
    (if peer \<notin> set (payees E p) then False
     else list_all (\<lambda>(id, q). case to_peer_id E id of
            Some claimed \<Rightarrow> check_is_signed_by_claimed_peer E P claimed q
          | None \<Rightarrow> False) (peer_quotes p))"

definition verify_data_type :: "u32 \<Rightarrow> proof_of_payment \<Rightarrow> bool" where
  "verify_data_type data_type p =
     list_all (\<lambda>(_, q). qm_data_type (pq_quoting_metrics q) = data_type) (peer_quotes p)"

subsection \<open>Documented behaviour of the numerals\<close>

definition digit_char :: "nat \<Rightarrow> char" where "digit_char n = ''0123456789'' ! n"

definition digit_val :: "char \<Rightarrow> nat" where "digit_val c = of_char c - 48"

definition is_digit :: "char \<Rightarrow> bool" where "is_digit c \<longleftrightarrow> c \<in> set ''0123456789''"

fun dec :: "nat \<Rightarrow> string" where
  "dec n = (if n < 10 then [digit_char n] else dec (n div 10) @ [digit_char (n mod 10)])"

definition dec_val :: "string \<Rightarrow> nat" where
  "dec_val s = fold (\<lambda>c n. 10 * n + digit_val c) s 0"

definition zero_padded :: "nat \<Rightarrow> string \<Rightarrow> string" where
  "zero_padded w s = replicate (w - length s) CHR ''0'' @ s"

text \<open>Numbers are printed as decimal numerals, padded with zeros when a width is asked for, and a
  numeral that fits is read back as its value.\<close>

definition u256_text_laws :: "payment_crates \<Rightarrow> bool" where
  "u256_text_laws P \<longleftrightarrow>
     (\<forall>x. u256_display P x = dec (unat x)) \<and>
     (\<forall>w x. u256_display_padded P w x = zero_padded w (dec (unat x))) \<and>
     (\<forall>s. s \<noteq> [] \<and> list_all is_digit s \<and> dec_val s < 2 ^ 256 \<longrightarrow> u256_parse P s = Some (word_of_nat (dec_val s)))"

definition sample_payment_crates :: payment_crates where
  "sample_payment_crates = \<lparr>
     u256_parse = (\<lambda>s. if s \<noteq> [] \<and> list_all is_digit s \<and> dec_val s < 2 ^ 256 then Some (word_of_nat (dec_val s)) else None),
     u256_display = (\<lambda>x. dec (unat x)),
     u256_display_padded = (\<lambda>w x. zero_padded w (dec (unat x))),
     rmp_quoting_metrics = (\<lambda>q. Some (qm_to_bytes q))\<rparr>"

definition rmp_metrics_laws :: "payment_crates \<Rightarrow> bool" where
  "rmp_metrics_laws P \<longleftrightarrow>
     (\<forall>m. qm_wf m \<longrightarrow> (\<exists>bs. rmp_quoting_metrics P m = Some bs)) \<and>
     (\<forall>m m'. qm_wf m \<and> qm_wf m' \<and> rmp_quoting_metrics P m = rmp_quoting_metrics P m' \<longrightarrow> m = m')"

definition sample_quote :: "system_time \<Rightarrow> u64 \<Rightarrow> u64 \<Rightarrow> payment_quote" where
  "sample_quote t live payments = \<lparr>pq_content = 9, pq_timestamp = t,
     pq_quoting_metrics = sample_metrics\<lparr>qm_live_time := live, qm_received_payment_count := payments\<rparr>,
     pq_rewards_address = 3, pq_pub_key = [7], pq_signature = []\<rparr>"

section \<open>Lemmas\<close>

subsection \<open>Decimal numerals\<close>

declare dec.simps [simp del]

lemma digit_char_props: "n < 10 \<Longrightarrow> digit_val (digit_char n) = n \<and> is_digit (digit_char n)"
proof -
  have "list_all (\<lambda>n. digit_val (digit_char n) = n \<and> is_digit (digit_char n)) [0..<10]" by code_simp
  then show "n < 10 \<Longrightarrow> digit_val (digit_char n) = n \<and> is_digit (digit_char n)" by (simp add: list_all_iff)
qed

lemma fold_dec_val: "fold (\<lambda>c n. 10 * n + digit_val c) s acc = acc * 10 ^ length s + dec_val s"
  unfolding dec_val_def
proof (induction s arbitrary: acc)
  case (Cons c s)
  show ?case using Cons [of "10 * acc + digit_val c"] Cons [of "digit_val c"] by (simp add: algebra_simps)
qed simp

lemma dec_val_append: "dec_val (s @ t) = dec_val s * 10 ^ length t + dec_val t"
proof -
  have "dec_val (s @ t) = fold (\<lambda>c n. 10 * n + digit_val c) t (dec_val s)" by (simp add: dec_val_def)
  then show ?thesis by (simp add: fold_dec_val)
qed

lemma dec_val_dec: "dec_val (dec n) = n"
proof (induction n rule: dec.induct)
  case (1 n)
  show ?case
  proof (cases "n < 10")
    case True
    then show ?thesis using digit_char_props by (simp add: dec.simps [of n] dec_val_def)
  next
    case False
    then show ?thesis
      using 1 digit_char_props [of "n mod 10"]
      by (simp add: dec.simps [of n] dec_val_append) (simp add: dec_val_def)
  qed
qed

lemma dec_digits: "list_all is_digit (dec n)" "dec n \<noteq> []"
proof (induction n rule: dec.induct)
  case (1 n)
  {
    case 1
    show ?case
      using "1.IH"(1) digit_char_props [of n] digit_char_props [of "n mod 10"]
      by (cases "n < 10") (simp_all add: dec.simps [of n])
  }
  {
    case 2
    show ?case by (simp add: dec.simps [of n])
  }
qed

lemma length_dec: "n < 10 ^ Suc k \<Longrightarrow> length (dec n) \<le> Suc k"
proof (induction n arbitrary: k rule: dec.induct)
  case (1 n)
  show ?case
  proof (cases "n < 10")
    case True
    then show ?thesis by (simp add: dec.simps [of n])
  next
    case False
    then obtain k' where k: "k = Suc k'" using "1.prems" by (cases k) auto
    have "n div 10 < 10 ^ Suc k'" using "1.prems" k by (simp add: less_mult_imp_div_less mult.commute)
    then show ?thesis using "1.IH" [OF False, of k'] k by (simp add: dec.simps [of n])
  qed
qed

lemma dec_val_zeros: "dec_val (replicate k CHR ''0'') = 0"
  by (induction k) (simp_all add: replicate_append_same [symmetric] dec_val_append del: replicate_Suc, simp_all add: dec_val_def digit_val_def)

lemma is_digit_not_dot: "is_digit c \<Longrightarrow> c \<noteq> CHR ''.''"
  by (auto simp: is_digit_def)

lemma padded_props:
  assumes "n < 10 ^ 18"
  shows "length (zero_padded 18 (dec n)) = 18" "dec_val (zero_padded 18 (dec n)) = n"
    "list_all is_digit (zero_padded 18 (dec n))"
proof -
  have "is_digit CHR ''0''" by (simp add: is_digit_def)
  then show "list_all is_digit (zero_padded 18 (dec n))"
    using dec_digits(1) [of n] by (auto simp: zero_padded_def list_all_iff)
qed (use assms length_dec [of n 17] in \<open>simp_all add: zero_padded_def dec_val_append dec_val_zeros dec_val_dec\<close>)

lemma trim_end_zeros_split: "\<exists>k. s = trim_end_zeros s @ replicate k CHR ''0''"
proof (induction s rule: rev_induct)
  case (snoc c s)
  then obtain k where k: "s = trim_end_zeros s @ replicate k CHR ''0''" by blast
  show ?case
  proof (cases "c = CHR ''0''")
    case True
    then have "trim_end_zeros (s @ [c]) = trim_end_zeros s" by (simp add: trim_end_zeros_def)
    moreover have "s @ [c] = trim_end_zeros s @ replicate (Suc k) CHR ''0''"
      using k True by (metis append.assoc replicate_Suc replicate_append_same)
    ultimately show ?thesis by metis
  next
    case False
    then show ?thesis by (intro exI [of _ 0]) (simp add: trim_end_zeros_def)
  qed
qed (simp add: trim_end_zeros_def)

lemma trimmed_value:
  assumes "length s = 18" "list_all is_digit s"
  shows "length (trim_end_zeros s) \<le> 18" "list_all is_digit (trim_end_zeros s)"
    "dec_val s = dec_val (trim_end_zeros s) * 10 ^ (18 - length (trim_end_zeros s))"
proof -
  obtain k where k: "s = trim_end_zeros s @ replicate k CHR ''0''" using trim_end_zeros_split by blast
  have len: "18 = length (trim_end_zeros s) + k" using arg_cong [OF k, of length] assms(1) by simp
  have k': "k = 18 - length (trim_end_zeros s)" unfolding len by simp
  show "length (trim_end_zeros s) \<le> 18" unfolding len by simp
  show "list_all is_digit (trim_end_zeros s)" using assms(2) k by (metis list_all_append)
  have "dec_val s = dec_val (trim_end_zeros s) * 10 ^ k"
    using arg_cong [OF k, of dec_val] by (simp only: dec_val_append dec_val_zeros length_replicate add_0_right)
  then show "dec_val s = dec_val (trim_end_zeros s) * 10 ^ (18 - length (trim_end_zeros s))" unfolding k' .
qed

lemma takeWhile_dot: "list_all is_digit s \<Longrightarrow> takeWhile (\<lambda>c. c \<noteq> CHR ''.'') (s @ CHR ''.'' # t) = s"
  "list_all is_digit s \<Longrightarrow> dropWhile (\<lambda>c. c \<noteq> CHR ''.'') (s @ CHR ''.'' # t) = CHR ''.'' # t"
  using is_digit_not_dot by (induction s) auto

lemma unat_token_conversion: "unat TOKEN_TO_RAW_CONVERSION = 10 ^ 18"
  by (simp add: TOKEN_TO_RAW_CONVERSION_def)

lemma unat_u64_max: "unat (ucast (- 1 :: u64) :: u256) = 2 ^ 64 - 1"
  by (simp add: unsigned_ucast_eq unsigned_minus_1_eq_mask mask_eq_exp_minus_1)

text \<open>The fraction of a printed amount is read back, whatever the number of zeros it ends in.\<close>

lemma remainder_read_back:
  assumes laws: "u256_text_laws P" and r: "r < TOKEN_TO_RAW_CONVERSION"
  defines "s \<equiv> trim_end_zeros (zero_padded 18 (dec (unat r)))"
  shows "s = [] \<Longrightarrow> r = 0"
    and "s \<noteq> [] \<Longrightarrow> \<exists>p. u256_parse P s = Some p \<and> length s \<le> 18 \<and> p * 10 ^ (18 - length s) = r"
proof -
  have n: "unat r < 10 ^ 18" using r by (simp add: word_less_nat_alt unat_token_conversion)
  note pad = padded_props [OF n]
  note trim = trimmed_value [OF pad(1,3), folded s_def]
  have val: "unat r = dec_val s * 10 ^ (18 - length s)" using trim(3) pad(2) by simp
  show "r = 0" if "s = []"
    using val that by (simp add: dec_val_def word_unat_eq_iff)
  assume s: "s \<noteq> []"
  have "dec_val s \<le> unat r" using val by simp
  then have "dec_val s < 2 ^ 256" using n by simp
  then have parse: "u256_parse P s = Some (word_of_nat (dec_val s))"
    using laws s trim(2) by (simp add: u256_text_laws_def)
  have "word_of_nat (dec_val s) * 10 ^ (18 - length s) = (word_of_nat (dec_val s * 10 ^ (18 - length s)) :: u256)"
    by simp
  also have "\<dots> = r" unfolding val [symmetric] by simp
  finally show "\<exists>p. u256_parse P s = Some p \<and> length s \<le> 18 \<and> p * 10 ^ (18 - length s) = r"
    using parse trim(1) by blast
qed

subsection \<open>Quotes\<close>

lemma sample_u256_text_laws: "u256_text_laws sample_payment_crates"
  by (simp add: u256_text_laws_def sample_payment_crates_def)

lemma sample_rmp_metrics_laws: "rmp_metrics_laws sample_payment_crates"
  using qm_code.enc_append [of _ _ "[]" "[]"]
  by (auto simp: rmp_metrics_laws_def sample_payment_crates_def)

lemma filter_map_eq_map: "(\<And>x. x \<in> set xs \<Longrightarrow> f x = Some (g x)) \<Longrightarrow> filter_map f xs = map g xs"
  by (induction xs) auto

lemma div_diff_nat: "(a :: nat) \<le> b \<Longrightarrow> b div c - a div c \<le> (b - a) div c + 1"
proof (cases "c = 0")
  case False
  assume "a \<le> b"
  have "b div c = ((b - a) + a) div c" using \<open>a \<le> b\<close> by simp
  also have "\<dots> = (b - a) div c + a div c + ((b - a) mod c + a mod c) div c" by (rule div_add1_eq)
  also have "((b - a) mod c + a mod c) div c \<le> 1"
  proof -
    have "(b - a) mod c + a mod c < 2 * c" using False mod_less_divisor [of c "b - a"] mod_less_divisor [of c a] by linarith
    then have "((b - a) mod c + a mod c) div c < 2" by (simp add: less_mult_imp_div_less)
    then show ?thesis by simp
  qed
  finally show ?thesis by simp
qed simp

lemma delayed_reading_secs:
  assumes "a \<le> b" "d \<le> (b - a) + 8 * c" "0 < c"
  shows "a div c \<le> b div c - d div c + (9 :: nat)"
proof -
  have "a div c + (b - a) div c \<le> (a + (b - a)) div c" 
    using div_add1_eq [of a "b - a" c] by linarith
  moreover have "d div c \<le> ((b - a) + 8 * c) div c" using assms(2) by (rule div_le_mono)
  then have "d div c \<le> (b - a) div c + 8" using assms(3) by (subst (asm) div_mult_self1) simp_all
  ultimately show ?thesis using assms(1) by simp
qed

text \<open>Which of two quotes of different times is held and which is checked makes no difference to the
  verdict.\<close>

lemma historical_verify_symmetric:
  "pq_timestamp q \<noteq> pq_timestamp other \<Longrightarrow>
   historical_verify now_old now_new q other = historical_verify now_old now_new other q"
  by (cases "pq_timestamp q < pq_timestamp other") (simp_all add: historical_verify_def is_newer_than_def)

section \<open>Properties\<close>

text \<open>A printed amount is read back as itself when its whole tokens fit in 64 bits, and is refused as
  excessive otherwise.\<close>

theorem atto_display_from_str:
  assumes "u256_text_laws P"
  shows "atto_from_str P (atto_display P (AttoTokens a)) =
     (if unat a div 10 ^ 18 < 2 ^ 64 then Ok (AttoTokens a) else Err ExcessiveValue)"
proof -
  let ?C = TOKEN_TO_RAW_CONVERSION
  define u where "u = a div ?C"
  define r where "r = a mod ?C"
  have nz: "?C \<noteq> 0" using unat_token_conversion by (metis unat_0 power_not_zero zero_neq_numeral)
  have r: "r < ?C" unfolding r_def using nz by (simp add: word_mod_less_divisor word_gt_0)
  have u: "unat u = unat a div 10 ^ 18" by (simp add: u_def unat_div unat_token_conversion)
  have split: "u * ?C + r = a" unfolding u_def r_def by (rule word_mod_div_equality)
  have printed: "atto_display P (AttoTokens a) = dec (unat u) @ ''.'' @ zero_padded 18 (dec (unat r))"
    using assms by (simp add: atto_display_def u256_text_laws_def u_def r_def)
  have "unat u < 2 ^ LENGTH(256)" by (rule unsigned_less)
  then have parse_u: "u256_parse P (dec (unat u)) = Some u"
    using assms dec_digits by (simp add: u256_text_laws_def dec_val_dec)
  have big: "u > ucast (- 1 :: u64) \<longleftrightarrow> \<not> unat u < 2 ^ 64"
    by (auto simp: word_less_nat_alt unat_u64_max)
  show ?thesis
  proof (cases "unat u < 2 ^ 64")
    case False
    then show ?thesis
      using parse_u big u by (simp add: atto_from_str_def printed takeWhile_dot dec_digits(1))
  next
    case True
    have "unat u * 10 ^ 18 < 2 ^ 64 * 10 ^ 18" using True by simp
    then have mul: "u256_checked_mul u ?C = Some (u * ?C)"
      by (simp add: u256_checked_mul_def unat_token_conversion)
    define s where "s = trim_end_zeros (zero_padded 18 (dec (unat r)))"
    note rem = remainder_read_back [OF assms r, folded s_def]
    show ?thesis
      using parse_u mul big True u split rem
      by (auto simp: atto_from_str_def printed takeWhile_dot dec_digits(1) s_def [symmetric]
          TOKEN_TO_RAW_POWER_OF_10_CONVERSION_def Let_def)
  qed
qed

theorem atto_display_from_str_witness:
  "atto_from_str sample_payment_crates (atto_display sample_payment_crates (AttoTokens 1100000000000000001)) =
     Ok (AttoTokens 1100000000000000001)"
  using atto_display_from_str [OF sample_u256_text_laws, of 1100000000000000001] by simp

text \<open>C15: A proof of payment that a node accepts lists the node among its payees, every one of its entries
  names a peer, and the quote of each entry carries that peer's key and its signature over the content,
  time, metrics and rewards address quoted.\<close>

theorem verified_payment_is_signed:
  assumes "verify_for E P peer p"
  shows "peer \<in> set (payees E p) \<and> length (payees E p) = length (peer_quotes p) \<and>
    quotes_by_peer E peer p \<noteq> [] \<and>
    (\<forall>i < length (peer_quotes p). let q = snd (peer_quotes p ! i) in
       \<exists>pk. p2p_decode_protobuf E (pq_pub_key q) = Some pk \<and> p2p_to_peer_id E pk = payees E p ! i \<and>
         p2p_verify E pk (bytes_for_sig P q) (pq_signature q))"
proof -
  have payee: "peer \<in> set (payees E p)"
    and all: "\<And>id q. (id, q) \<in> set (peer_quotes p) \<Longrightarrow>
      \<exists>claimed. to_peer_id E id = Some claimed \<and> check_is_signed_by_claimed_peer E P claimed q"
    using assms by (auto simp: verify_for_def list_all_iff split: if_splits option.splits)
  have signed: "\<exists>claimed pk. to_peer_id E (fst e) = Some claimed \<and> p2p_decode_protobuf E (pq_pub_key (snd e)) = Some pk \<and>
      p2p_to_peer_id E pk = claimed \<and> p2p_verify E pk (bytes_for_sig P (snd e)) (pq_signature (snd e))"
    if "e \<in> set (peer_quotes p)" for e
    using all [of "fst e" "snd e"] that
    by (auto simp: check_is_signed_by_claimed_peer_def split: option.splits if_splits)
  have payees: "payees E p = map (\<lambda>e. the (to_peer_id E (fst e))) (peer_quotes p)"
    unfolding payees_def by (rule filter_map_eq_map) (use all in fastforce)
  have nth: "\<exists>pk. p2p_decode_protobuf E (pq_pub_key (snd (peer_quotes p ! i))) = Some pk \<and>
      p2p_to_peer_id E pk = payees E p ! i \<and>
      p2p_verify E pk (bytes_for_sig P (snd (peer_quotes p ! i))) (pq_signature (snd (peer_quotes p ! i)))"
    if "i < length (peer_quotes p)" for i
    using signed [OF nth_mem [OF that]] that payees by auto
  obtain e where e: "e \<in> set (peer_quotes p)" "to_peer_id E (fst e) = Some peer"
    using payee signed unfolding payees by fastforce
  then have "snd e \<in> set (quotes_by_peer E peer p)"
    using signed [OF e(1)]
    by (auto simp: quotes_by_peer_def set_filter_map quote_peer_id_def intro!: bexI [of _ e] split: prod.splits)
  then show ?thesis using payee payees nth by (auto simp: Let_def)
qed

theorem verified_payment_is_signed_witness:
  "verify_for sample_crates sample_payment_crates (PeerId [7]) (ProofOfPayment [(EncodedPeerId [7], sample_quote 100 1 0)]) \<and>
   quotes_by_peer sample_crates (PeerId [7]) (ProofOfPayment [(EncodedPeerId [7], sample_quote 100 1 0)]) \<noteq> []"
proof -
  have v: "verify_for sample_crates sample_payment_crates (PeerId [7]) (ProofOfPayment [(EncodedPeerId [7], sample_quote 100 1 0)])"
    by (simp add: verify_for_def payees_def check_is_signed_by_claimed_peer_def sample_crates_def sample_quote_def)
  then show ?thesis using verified_payment_is_signed [OF v] by blast
qed



text \<open>The bytes a quote is signed over determine the content, the second it was made in, the metrics
  and the rewards address, when MessagePack tells the metrics apart.\<close>

theorem quote_signature_binds:
  assumes "rmp_metrics_laws P" "qm_wf (pq_quoting_metrics q)" "qm_wf (pq_quoting_metrics q')"
    and "system_secs (pq_timestamp q) < 2 ^ 64" "system_secs (pq_timestamp q') < 2 ^ 64"
  shows "bytes_for_sig P q = bytes_for_sig P q' \<longleftrightarrow>
     pq_content q = pq_content q' \<and> system_secs (pq_timestamp q) = system_secs (pq_timestamp q') \<and>
     pq_quoting_metrics q = pq_quoting_metrics q' \<and> pq_rewards_address q = pq_rewards_address q'"
proof -
  obtain m m' where m: "rmp_quoting_metrics P (pq_quoting_metrics q) = Some m"
      "rmp_quoting_metrics P (pq_quoting_metrics q') = Some m'"
    using assms(1-3) unfolding rmp_metrics_laws_def by blast
  have "m = m' \<longleftrightarrow> pq_quoting_metrics q = pq_quoting_metrics q'"
    using assms(1-3) m unfolding rmp_metrics_laws_def by (metis option.inject)
  moreover have "(word_of_nat (system_secs (pq_timestamp q)) :: u64) = word_of_nat (system_secs (pq_timestamp q')) \<longleftrightarrow>
      system_secs (pq_timestamp q) = system_secs (pq_timestamp q')"
    using assms(4,5) by (simp add: word_of_nat_eq_iff take_bit_eq_mod)
  moreover have "length (be_bytes 20 (pq_rewards_address q)) = length (be_bytes 20 (pq_rewards_address q'))" by simp
  ultimately show ?thesis
    using m by (auto simp: bytes_for_sig_def bytes_for_signing_def)
qed

theorem quote_signature_binds_witness:
  "bytes_for_sig sample_payment_crates (sample_quote 5 1 0) \<noteq> bytes_for_sig sample_payment_crates (sample_quote 5 2 0)"
  using quote_signature_binds [OF sample_rmp_metrics_laws, of "sample_quote 5 1 0" "sample_quote 5 2 0"]
  by (simp add: sample_quote_def sample_metrics_def qm_wf_def system_secs_def)

end
