(* ===== verification/Merkle_Payment.thy ===== *)
theory Merkle_Payment
  imports Payments
begin

text \<open>
  Batch payments over a Merkle tree: the packed commitments sent to the contract
  (\<^verbatim>\<open>evmlib/src/merkle_batch_payment.rs\<close>), the tree and its proofs
  (\<^verbatim>\<open>ant-evm/src/merkle_payments/merkle_tree.rs\<close>) and the candidate pools and payment proofs
  (\<^verbatim>\<open>ant-evm/src/merkle_payments/merkle_payment.rs\<close>). The library \<^verbatim>\<open>ant_merkle\<close>, which is handed the
  program's hasher, and the signing of libp2p key pairs are operations of the record \<open>merkle_crates\<close>.
  Random salts and padding leaves are arguments. A clock reading is None when the clock stands before
  the Unix epoch. Arrays of candidates are lists; their length is part of \<open>pool_wf\<close>.
\<close>

section \<open>Definitions\<close>

subsection \<open>Packed commitments\<close>

type_synonym pool_hash = hash32

datatype cost_unit_overflow = CostUnitOverflowError

definition CANDIDATES_PER_POOL :: nat where "CANDIDATES_PER_POOL = 16"
definition MAX_MERKLE_DEPTH :: nat where "MAX_MERKLE_DEPTH = 8"
definition TOTAL_COST_UNIT_BITS :: nat where "TOTAL_COST_UNIT_BITS = 248"

definition COST_UNIT_GRAPH_ENTRY :: u64 where "COST_UNIT_GRAPH_ENTRY = 1"
definition COST_UNIT_SCRATCHPAD :: u64 where "COST_UNIT_SCRATCHPAD = 100"
definition COST_UNIT_CHUNK :: u64 where "COST_UNIT_CHUNK = 10"
definition COST_UNIT_POINTER :: u64 where "COST_UNIT_POINTER = 20"

definition data_type_conversion :: "u32 \<Rightarrow> u8" where
  "data_type_conversion data_type =
    (if data_type = 0 then 2 else if data_type = 1 then 0 else if data_type = 2 then 3
     else if data_type = 3 then 1 else 4)"

definition cost_unit_for_data_type :: "u8 \<Rightarrow> u256" where
  "cost_unit_for_data_type solidity_data_type =
    (if solidity_data_type = 0 then ucast COST_UNIT_GRAPH_ENTRY
     else if solidity_data_type = 1 then ucast COST_UNIT_SCRATCHPAD
     else if solidity_data_type = 2 then ucast COST_UNIT_CHUNK
     else if solidity_data_type = 3 then ucast COST_UNIT_POINTER
     else 0)"

definition evmlib_expected_reward_pools :: "nat \<Rightarrow> nat" where
  "evmlib_expected_reward_pools depth = (let half_depth = div_ceil depth 2 in 2 ^ half_depth)"

record candidate_node =
  cn_rewards_address :: evm_address
  cn_metrics :: quoting_metrics

record pool_commitment =
  pc_pool_hash :: pool_hash
  pc_candidates :: "candidate_node list"

record candidate_node_packed =
  cp_rewards_address :: evm_address
  data_type_and_total_cost_unit :: u256

record pool_commitment_packed =
  pp_pool_hash :: pool_hash
  pp_candidates :: "candidate_node_packed list"

definition encode_data_type_and_cost :: "u8 \<Rightarrow> u256 \<Rightarrow> (u256, cost_unit_overflow) result" where
  "encode_data_type_and_cost data_type total_cost_unit =
    (if total_cost_unit \<ge> push_bit TOTAL_COST_UNIT_BITS 1 then Err CostUnitOverflowError
     else Ok (or (push_bit 8 total_cost_unit) (ucast data_type)))"

definition decode_data_type_and_cost :: "u256 \<Rightarrow> u8 \<times> u256" where
  "decode_data_type_and_cost packed = (ucast (and packed 255), drop_bit 8 packed)"

definition calculate_total_cost_unit :: "quoting_metrics \<Rightarrow> u256" where
  "calculate_total_cost_unit m =
    (let total_from_types =
           fold (\<lambda>(data_type, count) acc. acc + cost_unit_for_data_type (data_type_conversion data_type) * ucast count)
             (qm_records_per_type m) 0
     in if total_from_types > 0 then total_from_types
        else let fallback = max (qm_close_records_stored m) 1
             in cost_unit_for_data_type (data_type_conversion (qm_data_type m)) * ucast fallback)"

definition candidate_to_packed :: "candidate_node \<Rightarrow> (candidate_node_packed, cost_unit_overflow) result" where
  "candidate_to_packed c =
     and_then (encode_data_type_and_cost (data_type_conversion (qm_data_type (cn_metrics c)))
                 (calculate_total_cost_unit (cn_metrics c)))
       (\<lambda>packed. Ok \<lparr>cp_rewards_address = cn_rewards_address c, data_type_and_total_cost_unit = packed\<rparr>)"

definition commitment_to_packed :: "pool_commitment \<Rightarrow> (pool_commitment_packed, cost_unit_overflow) result" where
  "commitment_to_packed c =
     and_then (try_map candidate_to_packed (pc_candidates c))
       (\<lambda>packed. Ok \<lparr>pp_pool_hash = pc_pool_hash c, pp_candidates = packed\<rparr>)"

subsection \<open>The tree\<close>

datatype p2p_keypair = P2pKeypair bytes

record 't merkle_crates =
  mk_from_leaves :: "(hash32 \<Rightarrow> hash32 option \<Rightarrow> hash32) \<Rightarrow> hash32 list \<Rightarrow> 't"
  mk_root :: "'t \<Rightarrow> hash32 option"
  mk_get_nodes_at_level :: "'t \<Rightarrow> nat \<Rightarrow> (nat \<times> hash32) list option"
  mk_proof :: "'t \<Rightarrow> nat list \<Rightarrow> hash32 list"
  mk_proof_from_node :: "'t \<Rightarrow> nat \<Rightarrow> nat \<Rightarrow> hash32 list option"
  mk_verify :: "(hash32 \<Rightarrow> hash32 option \<Rightarrow> hash32) \<Rightarrow> hash32 list \<Rightarrow> hash32 \<Rightarrow> nat list \<Rightarrow> hash32 list \<Rightarrow> nat \<Rightarrow> bool"
  kp_public_protobuf :: "p2p_keypair \<Rightarrow> bytes"
  kp_sign :: "p2p_keypair \<Rightarrow> bytes \<Rightarrow> bytes option"

definition MIN_LEAVES :: nat where "MIN_LEAVES = 2"
definition MAX_LEAVES :: nat where "MAX_LEAVES = 2 ^ MAX_MERKLE_DEPTH"
definition MERKLE_PAYMENT_EXPIRATION :: u64 where "MERKLE_PAYMENT_EXPIRATION = 7 * 24 * 60 * 60"

datatype merkle_tree_error =
    TooFewLeaves nat
  | TooManyLeaves nat
  | InvalidLeafIndex nat nat
  | InvalidMidpointIndex nat nat
  | InvalidProof
  | InternalError string

fun concat_and_hash :: "crates \<Rightarrow> hash32 \<Rightarrow> hash32 option \<Rightarrow> hash32" where
  "concat_and_hash E l (Some r) = sha3 E (be_bytes 32 l @ be_bytes 32 r)"
| "concat_and_hash E l None = sha3 E (be_bytes 32 l)"

fun depth_loop :: "nat \<Rightarrow> nat" where
  "depth_loop n = (if n > 0 then Suc (depth_loop (n div 2)) else 0)"

definition tree_depth :: "nat \<Rightarrow> nat" where
  "tree_depth leaf_count = (if leaf_count \<le> 1 then 0 else depth_loop (leaf_count - 1))"

definition midpoint_proof_depth :: "nat \<Rightarrow> nat" where
  "midpoint_proof_depth depth = div_ceil depth 2"

definition midpoint_level :: "nat \<Rightarrow> nat" where
  "midpoint_level depth = depth div 2"

definition expected_reward_pools :: "nat \<Rightarrow> nat" where
  "expected_reward_pools depth = 2 ^ midpoint_proof_depth depth"

record merkle_branch =
  proof_hashes :: "hash32 list"
  leaf_index :: nat
  total_leaves_count :: nat
  unsalted_leaf_hash :: xor_name
  branch_root :: xor_name
  branch_salt :: "hash32 option"

record midpoint_proof =
  mp_branch :: merkle_branch
  mp_timestamp :: u64

record 't merkle_tree =
  mt_inner :: 't
  mt_leaf_count :: nat
  mt_depth :: nat
  mt_root :: xor_name
  mt_salts :: "hash32 list"

definition salted_leaf :: "crates \<Rightarrow> xor_name \<Rightarrow> hash32 \<Rightarrow> hash32" where
  "salted_leaf E address salt = sha3 E (be_bytes 32 address @ be_bytes 32 salt)"

definition from_xornames ::
  "crates \<Rightarrow> 't merkle_crates \<Rightarrow> (nat \<Rightarrow> hash32) \<Rightarrow> (nat \<Rightarrow> hash32) \<Rightarrow> xor_name list \<Rightarrow>
   ('t merkle_tree, merkle_tree_error) result" where
  "from_xornames E M random_salt random_dummy leaves =
    (let leaf_count = length leaves in
     if leaf_count < MIN_LEAVES then Err (TooFewLeaves leaf_count)
     else if leaf_count > MAX_LEAVES then Err (TooManyLeaves leaf_count)
     else
      (let salts = map random_salt [0..<leaf_count];
           depth = tree_depth leaf_count;
           padded_size = 2 ^ depth;
           salted_leaves = map2 (salted_leaf E) leaves salts @ map random_dummy [leaf_count..<padded_size];
           inner = mk_from_leaves M (concat_and_hash E) salted_leaves
       in and_then (ok_or (mk_root M inner) (InternalError ''Tree must have root after construction''))
            (\<lambda>root. Ok \<lparr>mt_inner = inner, mt_leaf_count = leaf_count, mt_depth = depth, mt_root = root, mt_salts = salts\<rparr>)))"

definition midpoints :: "'t merkle_crates \<Rightarrow> 't merkle_tree \<Rightarrow> ((nat \<times> hash32) list, merkle_tree_error) result" where
  "midpoints M t =
     ok_or (mk_get_nodes_at_level M (mt_inner t) (midpoint_level (mt_depth t)))
       (InternalError ''Midpoint level must exist'')"

definition from_rs_merkle_proof ::
  "hash32 list \<Rightarrow> nat \<Rightarrow> nat \<Rightarrow> xor_name \<Rightarrow> xor_name \<Rightarrow> hash32 option \<Rightarrow> merkle_branch" where
  "from_rs_merkle_proof proof index count leaf root salt =
     \<lparr>proof_hashes = proof, leaf_index = index, total_leaves_count = count, unsalted_leaf_hash = leaf,
      branch_root = root, branch_salt = salt\<rparr>"

definition generate_address_proof ::
  "'t merkle_crates \<Rightarrow> 't merkle_tree \<Rightarrow> nat \<Rightarrow> xor_name \<Rightarrow> (merkle_branch, merkle_tree_error) result" where
  "generate_address_proof M t address_index address_hash =
    (if address_index \<ge> mt_leaf_count t then Err (InvalidLeafIndex address_index (mt_leaf_count t))
     else let proof = mk_proof M (mt_inner t) [address_index];
              padded_size = 2 ^ mt_depth t;
              salt = mt_salts t ! address_index
          in Ok (from_rs_merkle_proof proof address_index padded_size address_hash (mt_root t) (Some salt)))"

definition generate_midpoint_proof ::
  "'t merkle_crates \<Rightarrow> 't merkle_tree \<Rightarrow> nat \<Rightarrow> xor_name \<Rightarrow> (merkle_branch, merkle_tree_error) result" where
  "generate_midpoint_proof M t midpoint_index midpoint_hash =
    (let level = midpoint_level (mt_depth t);
         midpoint_count = expected_reward_pools (mt_depth t)
     in if midpoint_index \<ge> midpoint_count then Err (InvalidMidpointIndex midpoint_index midpoint_count)
        else and_then (ok_or (mk_proof_from_node M (mt_inner t) level midpoint_index)
                         (InternalError ''Failed to generate midpoint proof''))
          (\<lambda>proof. Ok (from_rs_merkle_proof proof midpoint_index midpoint_count midpoint_hash (mt_root t) None)))"

definition reward_candidates ::
  "'t merkle_crates \<Rightarrow> 't merkle_tree \<Rightarrow> u64 \<Rightarrow> (midpoint_proof list, merkle_tree_error) result" where
  "reward_candidates M t merkle_payment_timestamp =
     and_then (midpoints M t)
       (try_map (\<lambda>(index, hash). and_then (generate_midpoint_proof M t index hash)
          (\<lambda>branch. Ok \<lparr>mp_branch = branch, mp_timestamp = merkle_payment_timestamp\<rparr>)))"

definition midpoint_address :: "crates \<Rightarrow> midpoint_proof \<Rightarrow> xor_name" where
  "midpoint_address E p =
     from_content E (be_bytes 32 (unsalted_leaf_hash (mp_branch p)) @ be_bytes 32 (branch_root (mp_branch p)) @
       le_bytes 8 (mp_timestamp p))"

definition midpoint_proof_bytes :: "midpoint_proof \<Rightarrow> bytes" where
  "midpoint_proof_bytes p =
    (let b = mp_branch p in
     concat (map (be_bytes 32) (proof_hashes b)) @
     le_bytes 8 (word_of_nat (leaf_index b) :: u64) @ le_bytes 8 (word_of_nat (total_leaves_count b) :: u64) @
     be_bytes 32 (unsalted_leaf_hash b) @ be_bytes 32 (branch_root b) @
     (case branch_salt b of Some salt \<Rightarrow> 1 # be_bytes 32 salt | None \<Rightarrow> [0]) @
     le_bytes 8 (mp_timestamp p))"

definition midpoint_proof_hash :: "crates \<Rightarrow> midpoint_proof \<Rightarrow> hash32" where
  "midpoint_proof_hash E p = sha3 E (midpoint_proof_bytes p)"

definition branch_verify :: "crates \<Rightarrow> 't merkle_crates \<Rightarrow> merkle_branch \<Rightarrow> bool" where
  "branch_verify E M b =
    (let hash = (case branch_salt b of
                   Some salt \<Rightarrow> salted_leaf E (unsalted_leaf_hash b) salt
                 | None \<Rightarrow> unsalted_leaf_hash b)
     in mk_verify M (concat_and_hash E) (proof_hashes b) (branch_root b) [leaf_index b] [hash] (total_leaves_count b))"

definition branch_depth :: "merkle_branch \<Rightarrow> nat" where
  "branch_depth b = length (proof_hashes b)"

datatype bad_merkle_proof =
    InvalidAddressBranchProof
  | InvalidWinnerBranchProof
  | AddressProofDepthMismatch nat nat
  | WinnerProofDepthMismatch nat nat
  | AddressBranchRootMismatch xor_name xor_name
  | WinnerBranchRootMismatch xor_name xor_name
  | TimestampInFuture u64 u64
  | PaymentExpired u64 u64 u64
  | SystemTimeError
  | PoolTimestampMismatch u64 u64
  | AddressHashNotBranchLeaf xor_name xor_name

definition validate_payment_timestamp ::
  "system_time option \<Rightarrow> u64 \<Rightarrow> u64 \<Rightarrow> (unit, bad_merkle_proof) result" where
  "validate_payment_timestamp clock payment_timestamp pool_timestamp =
     and_then (ok_or clock SystemTimeError) (\<lambda>now.
     let current_time = (word_of_nat (system_secs now) :: u64) in
     if payment_timestamp > current_time then Err (TimestampInFuture payment_timestamp current_time)
     else let age = current_time - payment_timestamp in
       if age > MERKLE_PAYMENT_EXPIRATION then Err (PaymentExpired payment_timestamp current_time age)
       else if pool_timestamp \<noteq> payment_timestamp then Err (PoolTimestampMismatch pool_timestamp payment_timestamp)
       else Ok ())"

definition verify_merkle_proof ::
  "crates \<Rightarrow> 't merkle_crates \<Rightarrow> system_time option \<Rightarrow> xor_name \<Rightarrow> merkle_branch \<Rightarrow> midpoint_proof \<Rightarrow> u8 \<Rightarrow> xor_name \<Rightarrow> u64 \<Rightarrow>
   (unit, bad_merkle_proof) result" where
  "verify_merkle_proof E M clock address_hash address_branch winner contract_depth contract_root contract_timestamp =
     and_then (validate_payment_timestamp clock contract_timestamp (mp_timestamp winner)) (\<lambda>_.
     let address_depth = branch_depth address_branch;
         expected_address_depth = unat contract_depth;
         winner_depth = branch_depth (mp_branch winner);
         expected_winner_depth = midpoint_proof_depth (unat contract_depth)
     in if address_depth \<noteq> expected_address_depth then Err (AddressProofDepthMismatch expected_address_depth address_depth)
        else if winner_depth \<noteq> expected_winner_depth then Err (WinnerProofDepthMismatch expected_winner_depth winner_depth)
        else if \<not> branch_verify E M address_branch then Err InvalidAddressBranchProof
        else if \<not> branch_verify E M (mp_branch winner) then Err InvalidWinnerBranchProof
        else if address_hash \<noteq> unsalted_leaf_hash address_branch
          then Err (AddressHashNotBranchLeaf (unsalted_leaf_hash address_branch) address_hash)
        else if branch_root address_branch \<noteq> contract_root
          then Err (AddressBranchRootMismatch contract_root (branch_root address_branch))
        else if branch_root (mp_branch winner) \<noteq> contract_root
          then Err (WinnerBranchRootMismatch contract_root (branch_root (mp_branch winner)))
        else Ok ())"

subsection \<open>Candidate pools and payment proofs\<close>

record merkle_candidate_node =
  mc_pub_key :: bytes
  mc_quoting_metrics :: quoting_metrics
  mc_reward_address :: evm_address
  mc_timestamp :: u64
  mc_signature :: bytes

record merkle_candidate_pool =
  mcp_midpoint_proof :: midpoint_proof
  mcp_candidate_nodes :: "merkle_candidate_node list"

record merkle_payment_proof =
  mpp_address :: xor_name
  mpp_data_proof :: merkle_branch
  mpp_winner_pool :: merkle_candidate_pool

datatype merkle_verification_error =
    WinnerPoolHashMismatch pool_hash pool_hash
  | MerkleProofFailed bad_merkle_proof
  | PaidAddressesNotSubset "evm_address list" "evm_address list"
  | WrongPaidAddressCount nat nat
  | InvalidNodeSignature evm_address
  | TimestampMismatch evm_address u64 u64
  | CommitmentDoesNotMatchPool
  | PaidNodeIndexOutOfBounds nat nat
  | PaidAddressMismatch nat evm_address evm_address
  | InvalidNodePeerId nat evm_address
  | DataTypeMismatch evm_address u32 u32
  | DataSizeMismatch evm_address u64 u64
  | CostUnitMismatch nat u256 u256
  | WinnerPoolNotInCommitments
  | CostUnitOverflow cost_unit_overflow

definition bytes_to_sign :: "quoting_metrics \<Rightarrow> evm_address \<Rightarrow> u64 \<Rightarrow> bytes" where
  "bytes_to_sign m reward ts = qm_to_bytes m @ be_bytes 20 reward @ le_bytes 8 ts"

definition merkle_candidate_new ::
  "'t merkle_crates \<Rightarrow> p2p_keypair \<Rightarrow> quoting_metrics \<Rightarrow> evm_address \<Rightarrow> u64 \<Rightarrow> merkle_candidate_node option" where
  "merkle_candidate_new M keypair m reward ts =
    (case kp_sign M keypair (bytes_to_sign m reward ts) of
       None \<Rightarrow> None
     | Some signature \<Rightarrow> Some \<lparr>mc_pub_key = kp_public_protobuf M keypair, mc_quoting_metrics = m,
         mc_reward_address = reward, mc_timestamp = ts, mc_signature = signature\<rparr>)"

definition mc_to_bytes :: "merkle_candidate_node \<Rightarrow> bytes" where
  "mc_to_bytes n = mc_pub_key n @ qm_to_bytes (mc_quoting_metrics n) @ be_bytes 20 (mc_reward_address n) @
     le_bytes 8 (mc_timestamp n) @ mc_signature n"

definition mc_peer_id :: "crates \<Rightarrow> merkle_candidate_node \<Rightarrow> peer_id option" where
  "mc_peer_id E n = map_option (p2p_to_peer_id E) (p2p_decode_protobuf E (mc_pub_key n))"

definition mc_verify_signature :: "crates \<Rightarrow> merkle_candidate_node \<Rightarrow> bool" where
  "mc_verify_signature E n =
    (case p2p_decode_protobuf E (mc_pub_key n) of
       None \<Rightarrow> False
     | Some pub_key \<Rightarrow>
         p2p_verify E pub_key (bytes_to_sign (mc_quoting_metrics n) (mc_reward_address n) (mc_timestamp n)) (mc_signature n))"

definition candidate_pool_hash :: "crates \<Rightarrow> merkle_candidate_pool \<Rightarrow> pool_hash" where
  "candidate_pool_hash E pool =
     sha3 E (be_bytes 32 (midpoint_proof_hash E (mcp_midpoint_proof pool)) @
       le_bytes 4 (word_of_nat (length (mcp_candidate_nodes pool)) :: u32) @
       concat (map mc_to_bytes (mcp_candidate_nodes pool)))"

definition to_commitment :: "crates \<Rightarrow> merkle_candidate_pool \<Rightarrow> pool_commitment" where
  "to_commitment E pool =
     \<lparr>pc_pool_hash = candidate_pool_hash E pool,
      pc_candidates = map (\<lambda>n. \<lparr>cn_rewards_address = mc_reward_address n, cn_metrics = mc_quoting_metrics n\<rparr>)
        (mcp_candidate_nodes pool)\<rparr>"

definition to_commitment_packed :: "crates \<Rightarrow> merkle_candidate_pool \<Rightarrow> (pool_commitment_packed, cost_unit_overflow) result" where
  "to_commitment_packed E pool = commitment_to_packed (to_commitment E pool)"

definition verify_cost_unit ::
  "nat \<times> candidate_node_packed \<times> merkle_candidate_node \<Rightarrow> (unit, merkle_verification_error) result" where
  "verify_cost_unit = (\<lambda>(i, on_chain, signed).
     let expected_data_type = data_type_conversion (qm_data_type (mc_quoting_metrics signed));
         expected_cost_unit = calculate_total_cost_unit (mc_quoting_metrics signed)
     in and_then (map_err CostUnitOverflow (encode_data_type_and_cost expected_data_type expected_cost_unit))
       (\<lambda>expected_packed.
         if data_type_and_total_cost_unit on_chain \<noteq> expected_packed
         then Err (CostUnitMismatch i (data_type_and_total_cost_unit on_chain) expected_packed)
         else Ok ()))"

definition verify_cost_units ::
  "pool_commitment_packed list \<Rightarrow> pool_hash \<Rightarrow> merkle_candidate_pool \<Rightarrow> (unit, merkle_verification_error) result" where
  "verify_cost_units on_chain_commitments winner_pool_hash pool =
     and_then (ok_or (find (\<lambda>pc. pp_pool_hash pc = winner_pool_hash) on_chain_commitments) WinnerPoolNotInCommitments)
       (\<lambda>on_chain_winner.
         try_for_each verify_cost_unit
           (enumerate 0 (zip (pp_candidates on_chain_winner) (mcp_candidate_nodes pool))))"

definition candidate_nodes_addresses :: "merkle_candidate_pool \<Rightarrow> evm_address set" where
  "candidate_nodes_addresses pool = set (map mc_reward_address (mcp_candidate_nodes pool))"

definition verify_signatures :: "crates \<Rightarrow> u64 \<Rightarrow> merkle_candidate_pool \<Rightarrow> (unit, merkle_verification_error) result" where
  "verify_signatures E ts pool =
     and_then (try_for_each (\<lambda>n. if \<not> mc_verify_signature E n then Err (InvalidNodeSignature (mc_reward_address n)) else Ok ())
                 (mcp_candidate_nodes pool)) (\<lambda>_.
     and_then (try_for_each (\<lambda>n. if mc_timestamp n \<noteq> ts then Err (TimestampMismatch (mc_reward_address n) ts (mc_timestamp n)) else Ok ())
                 (mcp_candidate_nodes pool)) (\<lambda>_.
     case mcp_candidate_nodes pool of
       [] \<Rightarrow> Ok ()
     | first_node # _ \<Rightarrow>
        (let expected_data_type = qm_data_type (mc_quoting_metrics first_node);
             expected_data_size = qm_data_size (mc_quoting_metrics first_node)
         in try_for_each (\<lambda>n.
              if qm_data_type (mc_quoting_metrics n) \<noteq> expected_data_type
              then Err (DataTypeMismatch (mc_reward_address n) expected_data_type (qm_data_type (mc_quoting_metrics n)))
              else if qm_data_size (mc_quoting_metrics n) \<noteq> expected_data_size
              then Err (DataSizeMismatch (mc_reward_address n) expected_data_size (qm_data_size (mc_quoting_metrics n)))
              else Ok ()) (mcp_candidate_nodes pool))))"

definition verify_commitment ::
  "crates \<Rightarrow> pool_commitment \<Rightarrow> u64 \<Rightarrow> merkle_candidate_pool \<Rightarrow> (unit, merkle_verification_error) result" where
  "verify_commitment E commitment ts pool =
     and_then (verify_signatures E ts pool) (\<lambda>_.
       if commitment \<noteq> to_commitment E pool then Err CommitmentDoesNotMatchPool else Ok ())"

definition merkle_payment_proof_new :: "xor_name \<Rightarrow> merkle_branch \<Rightarrow> merkle_candidate_pool \<Rightarrow> merkle_payment_proof" where
  "merkle_payment_proof_new address data_proof winner_pool =
     \<lparr>mpp_address = address, mpp_data_proof = data_proof, mpp_winner_pool = winner_pool\<rparr>"

definition winner_pool_hash :: "crates \<Rightarrow> merkle_payment_proof \<Rightarrow> pool_hash" where
  "winner_pool_hash E p = candidate_pool_hash E (mpp_winner_pool p)"

definition corresponding_peer_id ::
  "crates \<Rightarrow> merkle_candidate_node list \<Rightarrow> evm_address \<times> nat \<Rightarrow> (peer_id, merkle_verification_error) result" where
  "corresponding_peer_id E nodes = (\<lambda>(expected_address, index).
     if \<not> index < length nodes then Err (PaidNodeIndexOutOfBounds index (length nodes))
     else let n = nodes ! index in
       if mc_reward_address n \<noteq> expected_address
       then Err (PaidAddressMismatch index expected_address (mc_reward_address n))
       else ok_or (mc_peer_id E n) (InvalidNodePeerId index (mc_reward_address n)))"

definition corresponding_peer_ids ::
  "crates \<Rightarrow> (evm_address \<times> nat) list \<Rightarrow> merkle_payment_proof \<Rightarrow> (peer_id list, merkle_verification_error) result" where
  "corresponding_peer_ids E paid_nodes p =
     try_map (corresponding_peer_id E (mcp_candidate_nodes (mpp_winner_pool p))) paid_nodes"

definition merkle_proof_verify ::
  "crates \<Rightarrow> 't merkle_crates \<Rightarrow> system_time option \<Rightarrow> u8 \<Rightarrow> u64 \<Rightarrow> pool_hash \<Rightarrow> (evm_address \<times> nat) list \<Rightarrow>
   merkle_payment_proof \<Rightarrow> (unit, merkle_verification_error) result" where
  "merkle_proof_verify E M clock contract_depth contract_timestamp contract_pool_hash contract_paid_nodes p =
     and_then (verify_signatures E contract_timestamp (mpp_winner_pool p)) (\<lambda>_.
     let actual_hash = candidate_pool_hash E (mpp_winner_pool p) in
     if actual_hash \<noteq> contract_pool_hash then Err (WinnerPoolHashMismatch contract_pool_hash actual_hash)
     else let contract_root = branch_root (mp_branch (mcp_midpoint_proof (mpp_winner_pool p))) in
       and_then (map_err MerkleProofFailed
         (verify_merkle_proof E M clock (mpp_address p) (mpp_data_proof p) (mcp_midpoint_proof (mpp_winner_pool p))
            contract_depth contract_root contract_timestamp)) (\<lambda>_.
       if length contract_paid_nodes \<noteq> unat contract_depth
       then Err (WrongPaidAddressCount (unat contract_depth) (length contract_paid_nodes))
       else and_then (corresponding_peer_ids E contract_paid_nodes p) (\<lambda>_. Ok ())))"

definition pool_wf :: "merkle_candidate_pool \<Rightarrow> bool" where
  "pool_wf pool \<longleftrightarrow> length (mcp_candidate_nodes pool) = CANDIDATES_PER_POOL"

end
