(* ===== verification/Multiaddr.thy ===== *)
theory Multiaddr
  imports Protocol
begin

text \<open>
  Multiaddresses: a sequence of protocol components, as the libp2p type is. The components the sources
  inspect are constructors; the others are kept as their bytes.
\<close>

datatype protocol =
    Ip4 "32 word"
  | Ip6 "128 word"
  | Tcp u16
  | Udp u16
  | Quic
  | QuicV1
  | Ws string
  | P2p peer_id
  | P2pCircuit
  | OtherProtocol bytes

datatype multiaddr = Multiaddr (components: "protocol list")
datatype addresses = Addresses (addrs: "multiaddr list")

end
