(* ===== verification/Messages.thy ===== *)
theory Messages
  imports Merkle_Payment Multiaddr
begin

text \<open>
  The requests and responses peers exchange (\<^verbatim>\<open>ant-protocol/src/messages/\<close>), the destination of a
  request, and the proof that a peer holds a chunk.
\<close>

type_synonym nonce = u64

datatype chunk_proof = ChunkProof hash32

definition chunk_proof_new :: "crates \<Rightarrow> bytes \<Rightarrow> nonce \<Rightarrow> chunk_proof" where
  "chunk_proof_new E record_value nonce = ChunkProof (sha3 E (record_value @ be_bytes 8 nonce))"

fun chunk_proof_verify :: "chunk_proof \<Rightarrow> chunk_proof \<Rightarrow> bool" where
  "chunk_proof_verify (ChunkProof a) (ChunkProof b) \<longleftrightarrow> a = b"

datatype cmd =
    Replicate network_address "(network_address \<times> validation_type) list"
  | FreshReplicate network_address "(network_address \<times> data_types \<times> validation_type \<times> proof_of_payment option) list"
  | PeerConsideredAsBad network_address network_address string

fun cmd_dst :: "cmd \<Rightarrow> network_address" where
  "cmd_dst (Replicate holder _) = holder"
| "cmd_dst (FreshReplicate holder _) = holder"
| "cmd_dst (PeerConsideredAsBad _ bad_peer _) = bad_peer"

datatype query =
    GetStoreQuote network_address u32 u64 "nonce option" u64
  | GetReplicatedRecord network_address network_address
  | GetChunkExistenceProof network_address nonce u64
  | CheckNodeInProblem network_address
  | GetClosestPeers network_address "nat option" "hash32 option" bool
  | GetVersion network_address
  | PutRecord network_address bytes network_address
  | GetMerkleCandidateQuote network_address u32 u64 u64
  | DevGetClosestPeersFromNetwork network_address "nat option"

fun query_dst :: "query \<Rightarrow> network_address" where
  "query_dst (CheckNodeInProblem address) = address"
| "query_dst (GetVersion address) = address"
| "query_dst (GetStoreQuote key _ _ _ _) = key"
| "query_dst (GetReplicatedRecord _ key) = key"
| "query_dst (GetChunkExistenceProof key _ _) = key"
| "query_dst (GetClosestPeers key _ _ _) = key"
| "query_dst (GetMerkleCandidateQuote key _ _ _) = key"
| "query_dst (DevGetClosestPeersFromNetwork key _) = key"
| "query_dst (PutRecord holder _ _) = holder"

datatype request = Request_Cmd cmd | Request_Query query

fun request_dst :: "request \<Rightarrow> network_address" where
  "request_dst (Request_Cmd c) = cmd_dst c"
| "request_dst (Request_Query q) = query_dst q"

datatype query_response =
    QR_GetStoreQuote "(payment_quote, protocol_error) result" network_address
      "(network_address \<times> (chunk_proof, protocol_error) result) list"
  | QR_CheckNodeInProblem network_address network_address bool
  | QR_GetReplicatedRecord "(network_address \<times> bytes, protocol_error) result"
  | QR_GetChunkExistenceProof "(network_address \<times> (chunk_proof, protocol_error) result) list"
  | QR_GetClosestPeers network_address "(network_address \<times> multiaddr list) list" "bytes option"
  | QR_GetVersion network_address string
  | QR_PutRecord "(unit, protocol_error) result" network_address network_address
  | QR_GetMerkleCandidateQuote "(merkle_candidate_node, protocol_error) result"
  | QR_DevGetClosestPeersFromNetwork network_address network_address "(network_address \<times> multiaddr list) list"

datatype cmd_response =
    CR_Replicate "(unit, protocol_error) result"
  | CR_FreshReplicate "(unit, protocol_error) result"
  | CR_PeerConsideredAsBad "(unit, protocol_error) result"

datatype response = Response_Cmd cmd_response | Response_Query query_response

end
