(* ===== verification/Node_Actions.thy ===== *)
theory Node_Actions
  imports Messages "HOL-Library.State_Monad"
begin

text \<open>
  The asynchronous tasks of a node. A task talks to the rest of the program by commands to the swarm
  driver, some of which are answered, and to the outside through a provider of the EVM chain. While a
  task waits, other tasks and the driver run, so whatever answers it is a value of an arbitrary type
  \<open>'w\<close>: every call is a function that returns an answer and the world it leaves behind. The state of a
  task is that world with the list of the commands the task has sent.

  The theory has the commands (\<^verbatim>\<open>networking/interface/local_cmd.rs\<close>), the errors of the networking
  layer, the calls of the handle \<^verbatim>\<open>Network\<close> that send one command (\<^verbatim>\<open>networking/network/mod.rs\<close>),
  the operator \<open>?\<close> on tasks, and a small logic of what a task may send.
\<close>

section \<open>Commands and errors\<close>

datatype node_issue =
    ConnectionIssue
  | WrongPeerId
  | ReplicationFailure
  | CloseNodesShunning
  | BadQuoting
  | FailedChunkProofCheck

text \<open>The channel on which a command is answered is not a part of the command here: the answer is what
  the handler of the command returns.\<close>

datatype local_swarm_cmd =
    LC_GetPeersWithMultiaddr
  | LC_GetKBuckets
  | LC_GetKCloseLocalPeersToTarget network_address
  | LC_GetSwarmLocalState
  | LC_RecordStoreHasKey record_key
  | LC_GetAllLocalRecordAddresses
  | LC_GetLocalRecord record_key
  | LC_GetLocalQuotingMetrics record_key u32 u64
  | LC_PaymentReceived
  | LC_PutLocalRecord kad_record bool
  | LC_RemoveFailedLocalRecord record_key
  | LC_RemoveOutOfSyncEntry record_key
  | LC_AddLocalRecordAsStored record_key validation_type data_types
  | LC_AddPeerToBlockList peer_id
  | LC_RecordNodeIssue peer_id node_issue
  | LC_IsPeerShunned network_address
  | LC_QuoteVerification "(peer_id \<times> payment_quote) list"
  | LC_FetchCompleted record_key validation_type
  | LC_TriggerIntervalReplication
  | LC_TriggerIrrelevantRecordCleanup
  | LC_NotifyPeerScores "(peer_id \<times> bool) list"
  | LC_AddFreshReplicateRecords network_address "(network_address \<times> validation_type) list"
  | LC_NotifyPeerVersion peer_id string
  | LC_GetNetworkDensity
  | LC_RemovePeer peer_id
  | LC_RecordNotAtTargetLocation

record connection_info =
  ci_peer_id :: peer_id
  ci_response_origin :: multiaddr

text \<open>The errors the modelled calls raise; third-party errors are their text.\<close>

datatype network_error =
    GetClosestTimedOut
  | InternalMsgChannelDropped
  | SenderDropped
  | EventChannelFailure string
  | OutboundError string

section \<open>Tasks\<close>

record 'w task_state =
  ts_world :: 'w
  ts_sent :: "local_swarm_cmd list"

type_synonym ('w, 'a) task = "('w task_state, 'a) state"

definition call :: "('w \<Rightarrow> 'a \<times> 'w) \<Rightarrow> ('w, 'a) task" where
  "call f = State (\<lambda>s. case f (ts_world s) of (a, w) \<Rightarrow> (a, s\<lparr>ts_world := w\<rparr>))"

abbreviation ret :: "'a \<Rightarrow> ('w, 'a) task" where
  "ret \<equiv> State_Monad.return"

text \<open>The operator \<open>?\<close> after an awaited call.\<close>

definition try_bind ::
  "('w, ('a, 'e) result) task \<Rightarrow> ('a \<Rightarrow> ('w, ('b, 'e) result) task) \<Rightarrow> ('w, ('b, 'e) result) task" where
  "try_bind m f = do { r \<leftarrow> m; case r of Ok x \<Rightarrow> f x | Err e \<Rightarrow> ret (Err e) }"

section \<open>The network handle\<close>

text \<open>What a task can ask of the driver and of other peers. The field \<open>nw_deliver\<close> is the effect on the
  world of a command sent without waiting for it; \<open>nw_requests\<close> sends requests to peers at once and
  returns the answers in the order they arrive; \<open>nw_backoff\<close> is the third-party sequence of waiting
  times (attempts, least and greatest wait, in seconds), ending with the attempt after which nothing is
  waited for.\<close>

record 'w network_api =
  nw_deliver :: "local_swarm_cmd \<Rightarrow> 'w \<Rightarrow> 'w"
  nw_record_store_has_key :: "record_key \<Rightarrow> 'w \<Rightarrow> bool option \<times> 'w"
  nw_local_record :: "record_key \<Rightarrow> 'w \<Rightarrow> (kad_record option, string) result \<times> 'w"
  nw_k_close_local_peers :: "network_address \<Rightarrow> 'w \<Rightarrow> (peer_id \<times> addresses) list option \<times> 'w"
  nw_network_density :: "'w \<Rightarrow> distance option option \<times> 'w"
  nw_get_closest_from_network :: "network_address \<Rightarrow> nat option \<Rightarrow> 'w \<Rightarrow> (peer_id \<times> addresses) list option \<times> 'w"
  nw_requests ::
    "(request \<times> peer_id \<times> addresses) list \<Rightarrow> 'w \<Rightarrow>
     (peer_id \<times> addresses \<times> (response \<times> connection_info option, network_error) result) list \<times> 'w"
  nw_backoff :: "nat \<Rightarrow> nat \<Rightarrow> nat option \<Rightarrow> nat option list"
  nw_sleep :: "nat \<Rightarrow> 'w \<Rightarrow> 'w"

definition send_local_swarm_cmd :: "'w network_api \<Rightarrow> local_swarm_cmd \<Rightarrow> ('w, unit) task" where
  "send_local_swarm_cmd V cmd = State (\<lambda>s.
     ((), s\<lparr>ts_world := nw_deliver V cmd (ts_world s), ts_sent := ts_sent s @ [cmd]\<rparr>))"

definition sleep_ms :: "'w network_api \<Rightarrow> nat \<Rightarrow> ('w, unit) task" where
  "sleep_ms V ms = call (\<lambda>w. ((), nw_sleep V ms w))"

definition get_k_closest_local_peers_to_the_target ::
  "crates \<Rightarrow> 'w network_api \<Rightarrow> peer_id \<Rightarrow> network_address option \<Rightarrow> ('w, ((peer_id \<times> addresses) list, network_error) result) task" where
  "get_k_closest_local_peers_to_the_target E V self key =
    (let target = (case key of Some target \<Rightarrow> target | None \<Rightarrow> na_from_peer E self)
     in do { r \<leftarrow> call (nw_k_close_local_peers V target); ret (ok_or r InternalMsgChannelDropped) })"

definition get_local_record ::
  "'w network_api \<Rightarrow> record_key \<Rightarrow> ('w, (kad_record option, network_error) result) task" where
  "get_local_record V key = do { r \<leftarrow> call (nw_local_record V key); ret (map_err EventChannelFailure r) }"

definition is_record_key_present_locally ::
  "'w network_api \<Rightarrow> record_key \<Rightarrow> ('w, (bool, network_error) result) task" where
  "is_record_key_present_locally V key =
     do { r \<leftarrow> call (nw_record_store_has_key V key); ret (ok_or r InternalMsgChannelDropped) }"

definition get_network_density :: "'w network_api \<Rightarrow> ('w, (distance option, network_error) result) task" where
  "get_network_density V = do { r \<leftarrow> call (nw_network_density V); ret (ok_or r InternalMsgChannelDropped) }"

definition notify_payment_received :: "'w network_api \<Rightarrow> ('w, unit) task" where
  "notify_payment_received V = send_local_swarm_cmd V LC_PaymentReceived"

definition notify_fetch_completed :: "'w network_api \<Rightarrow> record_key \<Rightarrow> validation_type \<Rightarrow> ('w, unit) task" where
  "notify_fetch_completed V key record_type = send_local_swarm_cmd V (LC_FetchCompleted key record_type)"

definition put_local_record :: "'w network_api \<Rightarrow> kad_record \<Rightarrow> bool \<Rightarrow> ('w, unit) task" where
  "put_local_record V r is_client_put = send_local_swarm_cmd V (LC_PutLocalRecord r is_client_put)"

section \<open>What a task sends\<close>

text \<open>\<open>yields m R\<close>: whatever the calls of \<open>m\<close> answer, \<open>R\<close> relates its result to the commands it sends,
  which come after those sent before. \<open>wp m Q s\<close>: \<open>Q\<close> holds of the result and the state \<open>m\<close> ends in.\<close>

definition wp :: "('s, 'a) state \<Rightarrow> ('a \<Rightarrow> 's \<Rightarrow> bool) \<Rightarrow> 's \<Rightarrow> bool" where
  "wp m Q s \<longleftrightarrow> (case run_state m s of (a, s') \<Rightarrow> Q a s')"

definition yields :: "('w, 'a) task \<Rightarrow> ('a \<Rightarrow> local_swarm_cmd list \<Rightarrow> bool) \<Rightarrow> bool" where
  "yields m R \<longleftrightarrow> (\<forall>s. wp m (\<lambda>a s'. \<exists>cs. ts_sent s' = ts_sent s @ cs \<and> R a cs) s)"

named_theorems wp_simps "weakest preconditions of the task operations"

lemma wp_return [wp_simps]: "wp (State_Monad.return x) Q s \<longleftrightarrow> Q x s"
  by (simp add: wp_def)

lemma wp_bind [wp_simps]: "wp (State_Monad.bind m f) Q s \<longleftrightarrow> wp m (\<lambda>a. wp (f a) Q) s"
  by (simp add: wp_def split: prod.splits)

lemma wp_call [wp_simps]:
  "wp (call f) Q s \<longleftrightarrow> Q (fst (f (ts_world s))) (s\<lparr>ts_world := snd (f (ts_world s))\<rparr>)"
  by (simp add: wp_def call_def split: prod.splits)

lemma wp_send [wp_simps]:
  "wp (send_local_swarm_cmd V c) Q s \<longleftrightarrow>
   Q () (s\<lparr>ts_world := nw_deliver V c (ts_world s), ts_sent := ts_sent s @ [c]\<rparr>)"
  by (simp add: wp_def send_local_swarm_cmd_def)

lemma wp_try_bind [wp_simps]:
  "wp (try_bind m f) Q s \<longleftrightarrow> wp m (\<lambda>r. case r of Ok x \<Rightarrow> wp (f x) Q | Err e \<Rightarrow> Q (Err e)) s"
  by (auto simp: try_bind_def wp_simps wp_def split: prod.splits result.splits)

lemma wp_mono: "wp m R s \<Longrightarrow> (\<And>a s'. R a s' \<Longrightarrow> Q a s') \<Longrightarrow> wp m Q s"
  by (auto simp: wp_def split: prod.splits)

lemma wp_conj: "wp m Q s \<Longrightarrow> wp m R s \<Longrightarrow> wp m (\<lambda>a s'. Q a s' \<and> R a s') s"
  by (auto simp: wp_def split: prod.splits)

lemma yields_mono: "yields m R \<Longrightarrow> (\<And>a cs. R a cs \<Longrightarrow> R' a cs) \<Longrightarrow> yields m R'"
  unfolding yields_def by (blast intro: wp_mono)

lemma yields_return [simp]: "yields (ret x) R \<longleftrightarrow> R x []"
  by (simp add: yields_def wp_simps)

lemma yields_bind:
  assumes "yields m P" and "\<And>a cs. P a cs \<Longrightarrow> yields (f a) (\<lambda>b ds. R b (cs @ ds))"
  shows "yields (State_Monad.bind m f) R"
  unfolding yields_def
proof (rule allI, simp only: wp_bind)
  fix s :: "'a task_state"
  show "wp m (\<lambda>a. wp (f a) (\<lambda>a s'. \<exists>cs. ts_sent s' = ts_sent s @ cs \<and> R a cs)) s"
  proof (rule wp_mono)
    show "wp m (\<lambda>a s'. \<exists>cs. ts_sent s' = ts_sent s @ cs \<and> P a cs) s"
      using assms(1) by (simp add: yields_def)
    fix a and s' :: "'a task_state"
    assume "\<exists>cs. ts_sent s' = ts_sent s @ cs \<and> P a cs"
    then obtain cs where *: "ts_sent s' = ts_sent s @ cs" "P a cs" by blast
    show "wp (f a) (\<lambda>a s'. \<exists>cs. ts_sent s' = ts_sent s @ cs \<and> R a cs) s'"
      using assms(2) [OF *(2)] * unfolding yields_def by (auto elim!: wp_mono allE [of _ s'])
  qed
qed

lemma yields_try_bind:
  assumes "yields m P" and "\<And>x cs. P (Ok x) cs \<Longrightarrow> yields (f x) (\<lambda>b ds. R b (cs @ ds))"
    and "\<And>e cs. P (Err e) cs \<Longrightarrow> R (Err e) cs"
  shows "yields (try_bind m f) R"
  unfolding try_bind_def
  by (rule yields_bind [OF assms(1)]) (auto split: result.split intro: assms(2,3))

lemma yields_call: "yields (call f) (\<lambda>_ cs. cs = [])"
  by (simp add: yields_def wp_simps)

lemma yields_send: "yields (send_local_swarm_cmd V c) (\<lambda>_ cs. cs = [c])"
  by (simp add: yields_def wp_simps)

text \<open>A task that sends nothing.\<close>

definition silent :: "('w, 'a) task \<Rightarrow> bool" where
  "silent m \<longleftrightarrow> yields m (\<lambda>_ cs. cs = [])"

lemma silent_call [intro, simp]: "silent (call f)"
  by (simp add: silent_def yields_call)

lemma silent_return [intro, simp]: "silent (ret x)"
  by (auto simp: silent_def)

lemma silent_bind [intro!]: "silent m \<Longrightarrow> (\<And>a. silent (f a)) \<Longrightarrow> silent (State_Monad.bind m f)"
  unfolding silent_def by (erule yields_bind) simp

lemma silent_try_bind [intro!]: "silent m \<Longrightarrow> (\<And>a. silent (f a)) \<Longrightarrow> silent (try_bind m f)"
  unfolding silent_def by (erule yields_try_bind) simp_all

lemma silent_cases [intro!]:
  "(\<And>x. silent (f x)) \<Longrightarrow> (\<And>e. silent (g e)) \<Longrightarrow> silent (case r of Ok x \<Rightarrow> f x | Err e \<Rightarrow> g e)"
  "silent a \<Longrightarrow> (\<And>x. silent (h x)) \<Longrightarrow> silent (case oo of None \<Rightarrow> a | Some x \<Rightarrow> h x)"
  "silent a \<Longrightarrow> (\<And>y ys. silent (k y ys)) \<Longrightarrow> silent (case l of [] \<Rightarrow> a | y # ys \<Rightarrow> k y ys)"
  "(\<And>x y. silent (p x y)) \<Longrightarrow> silent (case xy of (x, y) \<Rightarrow> p x y)"
  "(c \<Longrightarrow> silent a) \<Longrightarrow> (\<not> c \<Longrightarrow> silent b) \<Longrightarrow> silent (if c then a else b)"
  by (simp_all split: result.split option.split list.split prod.split)

lemma silent_queries [intro, simp]:
  "silent (sleep_ms V n)" "silent (get_local_record V k)" "silent (is_record_key_present_locally V k)"
  "silent (get_network_density V)" "silent (get_k_closest_local_peers_to_the_target E V self a)"
  by (auto simp: sleep_ms_def get_local_record_def is_record_key_present_locally_def get_network_density_def
      get_k_closest_local_peers_to_the_target_def)

lemma yields_silent_bind:
  "silent m \<Longrightarrow> (\<And>a. yields (f a) R) \<Longrightarrow> yields (State_Monad.bind m f) R"
  unfolding silent_def by (erule yields_bind) simp

lemma yields_silent_try_bind:
  "silent m \<Longrightarrow> (\<And>a. yields (f a) R) \<Longrightarrow> (\<And>e. R (Err e) []) \<Longrightarrow> yields (try_bind m f) R"
  unfolding silent_def by (erule yields_try_bind) simp_all

end
