(* ===== verification/Vault_Calls.thy ===== *)
theory Vault_Calls
  imports Node_Actions
begin

text \<open>
  The calls a node makes to the payment contracts (\<^verbatim>\<open>evmlib/src/retry.rs\<close>,
  \<^verbatim>\<open>evmlib/src/contract/payment_vault/\<close> and \<^verbatim>\<open>evmlib/src/contract/merkle_payment_vault/\<close>): retries,
  the verification of a data payment, the on-chain information of a Merkle payment, and the pool
  commitments read back from the calldata of the payment transaction. The provider of the chain and the
  decoder of calldata are third-party and are fields of \<open>evm_api\<close>.
\<close>

section \<open>The provider\<close>

record payment_verification =
  pv_metrics :: quoting_metrics
  pv_rewards_address :: evm_address
  pv_quote_hash :: hash32

record payment_verification_result =
  pvr_quote_hash :: hash32
  pvr_amount_paid :: amount
  pvr_is_valid :: bool

record contract_payment_info =
  cpi_depth :: u8
  cpi_timestamp :: u64
  cpi_paid_nodes :: "(evm_address \<times> u8) list"

record 'w evm_api =
  merkle_payments_address :: "evm_address option"
  call_verify_payment :: "payment_verification list \<Rightarrow> 'w \<Rightarrow> (payment_verification_result list, string) result \<times> 'w"
  call_get_payment_info :: "evm_address \<Rightarrow> pool_hash \<Rightarrow> 'w \<Rightarrow> (contract_payment_info, string) result \<times> 'w"
  get_block_number :: "'w \<Rightarrow> (u64, string) result \<times> 'w"
  query_payment_made :: "evm_address \<Rightarrow> pool_hash \<Rightarrow> u64 \<Rightarrow> u64 \<Rightarrow> 'w \<Rightarrow> (hash32 option list, string) result \<times> 'w"
  get_transaction_input :: "hash32 \<Rightarrow> 'w \<Rightarrow> (bytes option, string) result \<times> 'w"
  decode_pay_for_merkle_tree2 :: "bytes \<Rightarrow> (pool_commitment_packed list, string) result"
  unix_now :: "'w \<Rightarrow> system_time option \<times> 'w"

section \<open>Retries\<close>

definition MAX_RETRIES :: nat where "MAX_RETRIES = 3"
definition DEFAULT_RETRY_INTERVAL_MS :: nat where "DEFAULT_RETRY_INTERVAL_MS = 4000"

text \<open>The loop of \<^verbatim>\<open>retry\<close>, with the number of retries made so far and the number still allowed.\<close>

fun retry_loop ::
  "'w network_api \<Rightarrow> nat option \<Rightarrow> ('w, ('a, 'e) result) task \<Rightarrow> nat \<Rightarrow> nat \<Rightarrow> ('w, ('a, 'e) result) task" where
  "retry_loop V interval_ms action 0 retries = action"
| "retry_loop V interval_ms action (Suc left) retries = do {
     r \<leftarrow> action;
     case r of
       Ok x \<Rightarrow> ret (Ok x)
     | Err _ \<Rightarrow> do {
         sleep_ms V ((case interval_ms of Some ms \<Rightarrow> ms | None \<Rightarrow> DEFAULT_RETRY_INTERVAL_MS) * (retries + 1) ^ 2);
         retry_loop V interval_ms action left (retries + 1)
       }
   }"

definition retry :: "'w network_api \<Rightarrow> ('w, ('a, 'e) result) task \<Rightarrow> nat option \<Rightarrow> ('w, ('a, 'e) result) task" where
  "retry V action interval_ms = retry_loop V interval_ms action MAX_RETRIES 0"

section \<open>Data payments\<close>

datatype vault_error = VaultContractError string | PaymentInvalid

definition to_payment_verification :: "hash32 \<times> quoting_metrics \<times> evm_address \<Rightarrow> payment_verification" where
  "to_payment_verification = (\<lambda>(h, m, a). \<lparr>pv_metrics = m, pv_rewards_address = a, pv_quote_hash = h\<rparr>)"

definition verify_payment ::
  "'w network_api \<Rightarrow> 'w evm_api \<Rightarrow> payment_verification list \<Rightarrow> ('w, (payment_verification_result list, vault_error) result) task" where
  "verify_payment V C verifications =
     do { r \<leftarrow> retry V (call (call_verify_payment C verifications)) None; ret (map_err VaultContractError r) }"

fun sum_verified :: "hash32 list \<Rightarrow> payment_verification_result list \<Rightarrow> amount \<Rightarrow> (amount, vault_error) result" where
  "sum_verified owned [] acc = Ok acc"
| "sum_verified owned (r # rs) acc =
    (if \<not> pvr_is_valid r then Err PaymentInvalid
     else sum_verified owned rs (if pvr_quote_hash r \<in> set owned then acc + pvr_amount_paid r else acc))"

definition verify_data_payment ::
  "'w network_api \<Rightarrow> 'w evm_api \<Rightarrow> hash32 list \<Rightarrow> (hash32 \<times> quoting_metrics \<times> evm_address) list \<Rightarrow> ('w, (amount, vault_error) result) task" where
  "verify_data_payment V C owned_quote_hashes payment =
     try_bind (verify_payment V C (map to_payment_verification payment)) (\<lambda>results.
     ret (sum_verified owned_quote_hashes results 0))"

section \<open>Merkle payments\<close>

datatype merkle_vault_error =
    MV_Contract string
  | MV_Rpc string
  | MerklePaymentsAddressNotConfigured
  | PaymentNotFound pool_hash

definition get_payment_info ::
  "'w evm_api \<Rightarrow> evm_address \<Rightarrow> pool_hash \<Rightarrow> ('w, (contract_payment_info, merkle_vault_error) result) task" where
  "get_payment_info C vault winner =
     do { r \<leftarrow> call (call_get_payment_info C vault winner);
          ret (and_then (map_err MV_Contract r) (\<lambda>info.
            if cpi_depth info = 0 then Err (PaymentNotFound winner) else Ok info)) }"

definition get_merkle_payment_info ::
  "'w evm_api \<Rightarrow> pool_hash \<Rightarrow> ('w, (contract_payment_info, merkle_vault_error) result) task" where
  "get_merkle_payment_info C winner =
    (case merkle_payments_address C of
       None \<Rightarrow> ret (Err MerklePaymentsAddressNotConfigured)
     | Some vault \<Rightarrow> get_payment_info C vault winner)"

definition ARBITRUM_BLOCKS_PER_SECOND :: u64 where "ARBITRUM_BLOCKS_PER_SECOND = 4"
definition LOOKBACK_PADDING_SECS :: u64 where "LOOKBACK_PADDING_SECS = 3600"
definition MIN_LOOKBACK_BLOCKS :: u64 where "MIN_LOOKBACK_BLOCKS = 200000"
definition MAX_LOOKBACK_BLOCKS :: u64 where "MAX_LOOKBACK_BLOCKS = 2500000"
definition LOOKBACK_MARGIN_DIVISOR :: u64 where "LOOKBACK_MARGIN_DIVISOR = 5"

definition u64_saturating_sub :: "u64 \<Rightarrow> u64 \<Rightarrow> u64" where
  "u64_saturating_sub a b = (if b \<le> a then a - b else 0)"

definition u64_saturating_add :: "u64 \<Rightarrow> u64 \<Rightarrow> u64" where
  "u64_saturating_add a b = (if unat a + unat b < 2 ^ 64 then a + b else - 1)"

definition u64_saturating_mul :: "u64 \<Rightarrow> u64 \<Rightarrow> u64" where
  "u64_saturating_mul a b = (if unat a * unat b < 2 ^ 64 then a * b else - 1)"

definition u64_clamp :: "u64 \<Rightarrow> u64 \<Rightarrow> u64 \<Rightarrow> u64" where
  "u64_clamp lo hi x = (if x < lo then lo else if x > hi then hi else x)"

definition lookback_blocks :: "u64 \<Rightarrow> u64 \<Rightarrow> u64" where
  "lookback_blocks now_unix merkle_payment_timestamp =
    (let age_secs = u64_saturating_sub now_unix merkle_payment_timestamp;
         raw_blocks = u64_saturating_mul age_secs ARBITRUM_BLOCKS_PER_SECOND;
         buffered = u64_saturating_add (u64_saturating_add raw_blocks (raw_blocks div LOOKBACK_MARGIN_DIVISOR))
           (u64_saturating_mul LOOKBACK_PADDING_SECS ARBITRUM_BLOCKS_PER_SECOND)
     in u64_clamp MIN_LOOKBACK_BLOCKS MAX_LOOKBACK_BLOCKS buffered)"

definition get_payment_packed_commitments ::
  "'w evm_api \<Rightarrow> evm_address \<Rightarrow> pool_hash \<Rightarrow> u64 \<Rightarrow> ('w, (pool_commitment_packed list, merkle_vault_error) result) task" where
  "get_payment_packed_commitments C vault winner merkle_payment_timestamp =
     try_bind (do { r \<leftarrow> call (get_block_number C); ret (map_err MV_Rpc r) }) (\<lambda>current_block. do {
     clock \<leftarrow> call (unix_now C);
     let now_unix = (case clock of Some t \<Rightarrow> word_of_nat (system_secs t) | None \<Rightarrow> 0);
     let from_block = u64_saturating_sub current_block (lookback_blocks now_unix merkle_payment_timestamp);
     try_bind (do { r \<leftarrow> call (query_payment_made C vault winner from_block current_block); ret (map_err MV_Rpc r) }) (\<lambda>events.
     case events of
       [] \<Rightarrow> ret (Err (MV_Rpc ''No MerklePaymentMade event found''))
     | log # _ \<Rightarrow>
        (case log of
           None \<Rightarrow> ret (Err (MV_Rpc ''MerklePaymentMade event log has no transaction hash''))
         | Some tx_hash \<Rightarrow>
            try_bind (do { r \<leftarrow> call (get_transaction_input C tx_hash); ret (map_err MV_Rpc r) }) (\<lambda>tx.
            case tx of
              None \<Rightarrow> ret (Err (MV_Rpc ''Transaction not found''))
            | Some input \<Rightarrow> ret (map_err MV_Rpc (decode_pay_for_merkle_tree2 C input))))) })"

definition get_merkle_payment_packed_commitments ::
  "'w evm_api \<Rightarrow> pool_hash \<Rightarrow> u64 \<Rightarrow> ('w, (pool_commitment_packed list, merkle_vault_error) result) task" where
  "get_merkle_payment_packed_commitments C winner merkle_payment_timestamp =
    (case merkle_payments_address C of
       None \<Rightarrow> ret (Err MerklePaymentsAddressNotConfigured)
     | Some vault \<Rightarrow> get_payment_packed_commitments C vault winner merkle_payment_timestamp)"

section \<open>Lemmas\<close>

lemma silent_retry_loop: "silent action \<Longrightarrow> silent (retry_loop V i action left retries)"
  by (induction left arbitrary: retries) auto

lemma silent_vault [intro, simp]:
  "silent (verify_data_payment V C owned payment)"
  "silent (get_merkle_payment_info C winner)"
  "silent (get_merkle_payment_packed_commitments C winner ts)"
  by (auto simp: verify_data_payment_def verify_payment_def retry_def get_merkle_payment_info_def get_payment_info_def
      get_merkle_payment_packed_commitments_def get_payment_packed_commitments_def Let_def
      intro!: silent_retry_loop)

end
