(* ===== verification/Closest_Peers.thy ===== *)
theory Closest_Peers
  imports Node_Actions
begin

text \<open>
  The verified closest peers of an address (\<^verbatim>\<open>networking/network/mod.rs\<close>): candidates come from a
  Kademlia query, every candidate is asked for its own view, and the peers named by more than half of
  the views are preferred, in four tiers.
\<close>

section \<open>Requests to the candidates\<close>

definition closest_peers_request :: "network_address \<Rightarrow> nat option \<Rightarrow> request" where
  "closest_peers_request addr num_of_peers = Request_Query (GetClosestPeers addr num_of_peers None True)"

definition closest_peers_from_response ::
  "(response \<times> connection_info option, network_error) result \<Rightarrow> ((network_address \<times> multiaddr list) list, network_error) result" where
  "closest_peers_from_response r = and_then r (\<lambda>(resp, _).
     case resp of
       Response_Query (QR_GetClosestPeers _ peers _) \<Rightarrow> Ok peers
     | _ \<Rightarrow> Err (EventChannelFailure ''Unexpected response type''))"

type_synonym peer_views = "(peer_id, nat) hash_map \<times> (peer_id, multiaddr list) hash_map"

definition count_peer :: "peer_id \<Rightarrow> (peer_id, nat) hash_map \<Rightarrow> (peer_id, nat) hash_map" where
  "count_peer p counts = AList.update p ((case map_of counts p of Some c \<Rightarrow> c | None \<Rightarrow> 0) + 1) counts"

definition count_reported :: "crates \<Rightarrow> network_address \<times> multiaddr list \<Rightarrow> peer_views \<Rightarrow> peer_views" where
  "count_reported E = (\<lambda>(peer_addr, as) (counts, known).
     case as_peer_id E peer_addr of
       Some p \<Rightarrow> (count_peer p counts,
                AList.update p ((case map_of known p of Some l \<Rightarrow> l | None \<Rightarrow> []) @ as) known)
     | None \<Rightarrow> (counts, known))"

definition count_response ::
  "crates \<Rightarrow> peer_id \<times> ((network_address \<times> multiaddr list) list, network_error) result \<Rightarrow> peer_views \<Rightarrow> peer_views" where
  "count_response E = (\<lambda>(responder, r) (counts, known).
     case r of
       Ok peers_list \<Rightarrow> fold (count_reported E) peers_list (count_peer responder counts, known)
     | Err _ \<Rightarrow> (counts, known))"

section \<open>Selection\<close>

definition popular_peers :: "nat \<Rightarrow> (peer_id, nat) hash_map \<Rightarrow> peer_id list" where
  "popular_peers n counts = map fst (filter (\<lambda>(_, count). count > n div 2) counts)"

definition peer_distance :: "crates \<Rightarrow> network_address \<Rightarrow> peer_id \<Rightarrow> distance" where
  "peer_distance E key p = na_distance E key (na_from_peer E p)"

definition farthest_popular_distance :: "crates \<Rightarrow> network_address \<Rightarrow> peer_id list \<Rightarrow> distance option" where
  "farthest_popular_distance E key popular =
    (if popular = [] then None else Some (Max (set (map (peer_distance E key) popular))))"

type_synonym selection = "(peer_id \<times> addresses) list \<times> peer_id list"

text \<open>The loop that ends every tier: peers are taken until there are \<open>n\<close>.\<close>

fun push_tier :: "nat \<Rightarrow> (peer_id \<times> addresses) list \<Rightarrow> selection \<Rightarrow> selection" where
  "push_tier n [] acc = acc"
| "push_tier n (x # xs) (verified, selected) =
    (if length verified \<ge> n then (verified, selected)
     else push_tier n xs (verified @ [x], fst x # selected))"

definition by_distance :: "crates \<Rightarrow> network_address \<Rightarrow> (peer_id \<times> addresses) list \<Rightarrow> (peer_id \<times> addresses) list" where
  "by_distance E key = sort_key (\<lambda>(p, _). peer_distance E key p)"

definition select_tier1 ::
  "crates \<Rightarrow> network_address \<Rightarrow> (peer_id \<times> addresses) list \<Rightarrow> peer_id list \<Rightarrow> selection" where
  "select_tier1 E key candidates popular =
     push_tier (length candidates) (by_distance E key (filter (\<lambda>(p, _). p \<in> set popular) candidates)) ([], [])"

definition popular_not_in_candidates ::
  "(peer_id \<times> addresses) list \<Rightarrow> peer_id list \<Rightarrow> (peer_id, multiaddr list) hash_map \<Rightarrow> (peer_id \<times> addresses) list" where
  "popular_not_in_candidates candidates popular known =
     filter_map (\<lambda>p. case map_of known p of
         Some as \<Rightarrow> if as = [] then None else Some (p, Addresses as)
       | None \<Rightarrow> None)
     (filter (\<lambda>p. p \<notin> set (map fst candidates)) popular)"

definition version_verified ::
  "(peer_id \<times> addresses \<times> (response \<times> connection_info option, network_error) result) list \<Rightarrow> (peer_id \<times> addresses) list" where
  "version_verified answers = filter_map (\<lambda>(p, as, r).
     case r of
       Ok (Response_Query (QR_GetVersion _ _), _) \<Rightarrow> Some (p, as)
     | _ \<Rightarrow> None) answers"

definition select_tier2 ::
  "crates \<Rightarrow> 'w network_api \<Rightarrow> network_address \<Rightarrow> (peer_id \<times> addresses) list \<Rightarrow> peer_id list \<Rightarrow>
   (peer_id, multiaddr list) hash_map \<Rightarrow> selection \<Rightarrow> ('w, selection) task" where
  "select_tier2 E V key candidates popular known acc =
    (if length (fst acc) < length candidates
     then let others = popular_not_in_candidates candidates popular known in
       if others \<noteq> [] then do {
         answers \<leftarrow> call (nw_requests V (map (\<lambda>(p, as). (Request_Query (GetVersion (na_from_peer E p)), p, as)) others));
         ret (push_tier (length candidates) (by_distance E key (version_verified answers)) acc)
       } else ret acc
     else ret acc)"

definition select_tier3 ::
  "crates \<Rightarrow> network_address \<Rightarrow> (peer_id \<times> addresses) list \<Rightarrow> peer_id list \<Rightarrow> selection \<Rightarrow> selection" where
  "select_tier3 E key candidates popular acc =
    (if length (fst acc) < length candidates
     then case farthest_popular_distance E key popular of
       Some farthest_popular \<Rightarrow>
         push_tier (length candidates)
           (by_distance E key (filter (\<lambda>(p, _). p \<notin> set (snd acc) \<and> peer_distance E key p > farthest_popular) candidates)) acc
     | None \<Rightarrow> acc
     else acc)"

definition select_tier4 ::
  "crates \<Rightarrow> network_address \<Rightarrow> (peer_id \<times> addresses) list \<Rightarrow> selection \<Rightarrow> selection" where
  "select_tier4 E key candidates acc =
    (if length (fst acc) < length candidates
     then push_tier (length candidates)
            (by_distance E key (filter (\<lambda>(p, _). p \<notin> set (snd acc)) candidates)) acc
     else acc)"

definition get_closest_peers_with_majority_knowledge ::
  "crates \<Rightarrow> 'w network_api \<Rightarrow> network_address \<Rightarrow> nat option \<Rightarrow> ('w, ((peer_id \<times> addresses) list, network_error) result) task" where
  "get_closest_peers_with_majority_knowledge E V key n =
     try_bind (do { r \<leftarrow> call (nw_get_closest_from_network V key (if n = Some 0 then None else n)); ret (ok_or r SenderDropped) })
       (\<lambda>candidates.
         if candidates = [] then ret (Err GetClosestTimedOut)
         else do {
           let n_value = length candidates + 2;
           answers \<leftarrow> call (nw_requests V (map (\<lambda>(p, as). (closest_peers_request key (Some n_value), p, as)) candidates));
           let (counts, known) =
             fold (count_response E) (map (\<lambda>(p, _, r). (p, closest_peers_from_response r)) answers) ([], []);
           let popular = popular_peers (length candidates) counts;
           acc \<leftarrow> select_tier2 E V key candidates popular known (select_tier1 E key candidates popular);
           let (verified, _) = select_tier4 E key candidates (select_tier3 E key candidates popular acc);
           ret (Ok (by_distance E key verified))
         })"

section \<open>Retries\<close>

definition CLOSEST_PEERS_RETRY_ATTEMPTS :: nat where "CLOSEST_PEERS_RETRY_ATTEMPTS = 2"
definition CLOSEST_PEERS_RETRY_MIN_WAIT_SECS :: nat where "CLOSEST_PEERS_RETRY_MIN_WAIT_SECS = 2"
definition CLOSEST_PEERS_RETRY_MAX_WAIT_SECS :: nat where "CLOSEST_PEERS_RETRY_MAX_WAIT_SECS = 8"

fun closest_peers_retry_loop ::
  "crates \<Rightarrow> 'w network_api \<Rightarrow> network_address \<Rightarrow> nat option \<Rightarrow> nat option list \<Rightarrow>
   ('w, ((peer_id \<times> addresses) list, network_error) result) task" where
  "closest_peers_retry_loop E V key n [] = ret (Err GetClosestTimedOut)"
| "closest_peers_retry_loop E V key n (duration # durations) = do {
     r \<leftarrow> get_closest_peers_with_majority_knowledge E V key n;
     case r of
       Ok peers \<Rightarrow> ret (Ok peers)
     | Err err \<Rightarrow>
        (case duration of
           Some retry_delay \<Rightarrow> do {
             sleep_ms V (1000 * retry_delay);
             closest_peers_retry_loop E V key n durations
           }
         | None \<Rightarrow> ret (Err err))
   }"

definition get_closest_peers_with_retries ::
  "crates \<Rightarrow> 'w network_api \<Rightarrow> network_address \<Rightarrow> nat option \<Rightarrow> ('w, ((peer_id \<times> addresses) list, network_error) result) task" where
  "get_closest_peers_with_retries E V key n =
     closest_peers_retry_loop E V key n
       (nw_backoff V CLOSEST_PEERS_RETRY_ATTEMPTS CLOSEST_PEERS_RETRY_MIN_WAIT_SECS (Some CLOSEST_PEERS_RETRY_MAX_WAIT_SECS))"

text \<open>The answers are collected until none is left, or until the first success when only one is wanted.
  A \<^verbatim>\<open>BTreeMap\<close> keeps the last answer of each peer; peers are ordered by their bytes.\<close>

fun collect_responses ::
  "bool \<Rightarrow> (peer_id \<times> 'r) list \<Rightarrow> ('r \<Rightarrow> bool) \<Rightarrow> (peer_id, 'r) hash_map \<Rightarrow> (peer_id, 'r) hash_map" where
  "collect_responses get_all [] good acc = acc"
| "collect_responses get_all ((p, r) # rest) good acc =
    (if \<not> get_all \<and> good r then [(p, r)] else collect_responses get_all rest good (AList.update p r acc))"

definition send_and_get_responses ::
  "'w network_api \<Rightarrow> (peer_id \<times> addresses) list \<Rightarrow> request \<Rightarrow> bool \<Rightarrow>
   ('w, (peer_id, (response \<times> connection_info option, network_error) result) hash_map) task" where
  "send_and_get_responses V peers req get_all_responses = do {
     answers \<leftarrow> call (nw_requests V (map (\<lambda>(p, as). (req, p, as)) peers));
     ret (collect_responses get_all_responses (map (\<lambda>(p, _, r). (p, r)) answers) is_ok [])
   }"

end
