(* ===== verification/Put_Validation.thy ===== *)
theory Put_Validation
  imports Record_Store Storage_Types Vault_Calls Closest_Peers
begin

text \<open>
  How a node decides whether to store a record (\<^verbatim>\<open>ant-node/src/put_validation.rs\<close>): uploads with a
  payment, updates of existing data without one, uploads with a Merkle payment, and records replicated
  by other nodes. The handlers are tasks: they read the local store and the network by calls, and they
  send commands to the swarm driver. The codecs of \<^verbatim>\<open>rmp_serde\<close> at the record types are fields of
  \<open>record_codecs\<close>; the text of error messages is replaced by the values the text is made of.
\<close>

section \<open>The node and its errors\<close>

record record_codecs =
  rc_chunk_to_vec :: "bytes \<Rightarrow> bytes option"
  rc_chunk_from_slice :: "bytes \<Rightarrow> bytes option"
  rc_paid_chunk_from_slice :: "bytes \<Rightarrow> (proof_of_payment \<times> bytes) option"
  rc_merkle_chunk_from_slice :: "bytes \<Rightarrow> (merkle_payment_proof \<times> bytes) option"
  rc_scratchpad_to_vec :: "scratchpad \<Rightarrow> bytes option"
  rc_scratchpad_from_slice :: "bytes \<Rightarrow> scratchpad option"
  rc_paid_scratchpad_from_slice :: "bytes \<Rightarrow> (proof_of_payment \<times> scratchpad) option"
  rc_merkle_scratchpad_from_slice :: "bytes \<Rightarrow> (merkle_payment_proof \<times> scratchpad) option"
  rc_graph_entries_to_vec :: "graph_entry list \<Rightarrow> bytes option"
  rc_graph_entries_from_slice :: "bytes \<Rightarrow> graph_entry list option"
  rc_paid_graph_entry_from_slice :: "bytes \<Rightarrow> (proof_of_payment \<times> graph_entry) option"
  rc_merkle_graph_entry_from_slice :: "bytes \<Rightarrow> (merkle_payment_proof \<times> graph_entry) option"
  rc_pointer_to_vec :: "pointer \<Rightarrow> bytes option"
  rc_pointer_from_slice :: "bytes \<Rightarrow> pointer option"
  rc_paid_pointer_from_slice :: "bytes \<Rightarrow> (proof_of_payment \<times> pointer) option"
  rc_merkle_pointer_from_slice :: "bytes \<Rightarrow> (merkle_payment_proof \<times> pointer) option"

record ('t, 'w) node =
  nd_crates :: crates
  nd_payments :: payment_crates
  nd_merkle :: "'t merkle_crates"
  nd_codecs :: record_codecs
  nd_network :: "'w network_api"
  nd_evm :: "'w evm_api"
  nd_peer_id :: peer_id

datatype merkle_failure =
    ProofAddressMismatch xor_name bytes
  | PaymentInfoUnavailable pool_hash merkle_vault_error
  | ProofVerificationFailed merkle_verification_error
  | CostUnitFetchFailed merkle_vault_error
  | CostUnitVerificationFailed merkle_verification_error
  | ClosestPeersUnavailable xor_name network_error
  | PaidPeerIdsUnavailable merkle_verification_error
  | PaidNodesOutOfRange "(peer_id \<times> distance) list"

datatype put_validation_error =
    LocalSwarmError
  | InvalidRecordHeader
  | InvalidRecord record_key
  | RecordKeyMismatch
  | RecordSerializationFailed record_key
  | NoPayment record_key
  | UnexpectedRecordWithPayment record_key
  | PaymentNotMadeToOurNode record_key
  | PaymentMadeToIncorrectDataType record_key
  | PaymentQuoteOutOfRange record_key "peer_id list"
  | PaymentVerificationFailed record_key vault_error
  | OversizedChunk nat nat
  | OutdatedRecordCounter u64 u64
  | InvalidScratchpadSignature
  | ScratchpadTooBig nat
  | EmptyGraphEntry record_key
  | InvalidPointerSignature
  | MerklePaymentVerificationFailed record_key merkle_failure
  | TopologyVerificationFailed network_address nat nat nat "peer_id list" "peer_id list"

type_synonym ('w, 'a) put_task = "('w, ('a, put_validation_error) result) task"

definition RETRY_PAYMENT_VERIFICATION_WAIT_TIME_SECS :: nat where
  "RETRY_PAYMENT_VERIFICATION_WAIT_TIME_SECS = 5"

definition MAX_COST_UNIT_FETCH_RETRIES :: nat where "MAX_COST_UNIT_FETCH_RETRIES = 3"

definition PEERS_TO_QUERY :: nat where
  "PEERS_TO_QUERY = CANDIDATES_PER_POOL + (CANDIDATES_PER_POOL div 4)"

definition map_err_task :: "('e \<Rightarrow> 'f) \<Rightarrow> ('w, ('a, 'e) result) task \<Rightarrow> ('w, ('a, 'f) result) task" where
  "map_err_task f m = do { r \<leftarrow> m; ret (map_err f r) }"

definition local_record_at :: "('t, 'w) node \<Rightarrow> record_key \<Rightarrow> ('w, kad_record option) put_task" where
  "local_record_at N key = map_err_task (\<lambda>_. LocalSwarmError) (get_local_record (nd_network N) key)"

definition plain_record :: "record_key \<Rightarrow> bytes \<Rightarrow> kad_record" where
  "plain_record key v = \<lparr>rkey = key, rvalue = v, publisher = None, expires = None\<rparr>"

definition decode_record :: "(bytes \<Rightarrow> 'a option) \<Rightarrow> kad_record \<Rightarrow> record_key \<Rightarrow> ('a, put_validation_error) result" where
  "decode_record from_slice r key = map_err (\<lambda>_. InvalidRecord key) (try_deserialize_record from_slice r)"

definition chunk_of_payload :: "crates \<Rightarrow> ('p \<times> bytes) option \<Rightarrow> ('p \<times> chunk) option" where
  "chunk_of_payload E = map_option (\<lambda>(p, v). (p, chunk_new E v))"

section \<open>Storing what was validated\<close>

definition validate_key_and_existence ::
  "('t, 'w) node \<Rightarrow> network_address \<Rightarrow> record_key \<Rightarrow> ('w, bool) put_task" where
  "validate_key_and_existence N address expected_record_key =
    (let data_key = to_record_key (nd_crates N) address in
     if expected_record_key \<noteq> data_key then ret (Err RecordKeyMismatch)
     else try_bind (map_err_task (\<lambda>_. LocalSwarmError) (is_record_key_present_locally (nd_network N) data_key))
       (\<lambda>present_locally. if present_locally then ret (Ok True) else ret (Ok False)))"

definition store_chunk :: "('t, 'w) node \<Rightarrow> chunk \<Rightarrow> bool \<Rightarrow> ('w, unit) put_task" where
  "store_chunk N chunk is_client_put =
    (let E = nd_crates N;
         key = to_record_key E (NA_ChunkAddress (ch_address chunk))
     in if chunk_size chunk > CHUNK_MAX_SIZE then ret (Err (OversizedChunk (chunk_size chunk) CHUNK_MAX_SIZE))
        else case try_serialize_record E (\<lambda>c. rc_chunk_to_vec (nd_codecs N) (ch_value c)) chunk (DataOnly DT_Chunk) of
          Err _ \<Rightarrow> ret (Err (RecordSerializationFailed key))
        | Ok v \<Rightarrow> do {
            put_local_record (nd_network N) (plain_record key v) is_client_put;
            ret (Ok ())
          })"

definition validate_and_store_scratchpad_record ::
  "('t, 'w) node \<Rightarrow> scratchpad \<Rightarrow> record_key \<Rightarrow> bool \<Rightarrow> ('w, unit) put_task" where
  "validate_and_store_scratchpad_record N pad record_key is_client_put =
    (let E = nd_crates N;
         scratchpad_key = to_record_key E (NA_ScratchpadAddress (sp_address pad));
         store =
          (if \<not> sp_verify_signature E pad then ret (Err InvalidScratchpadSignature)
           else if sp_is_too_big E pad then ret (Err (ScratchpadTooBig (sp_size E pad)))
           else case try_serialize_record E (rc_scratchpad_to_vec (nd_codecs N)) pad (DataOnly DT_Scratchpad) of
             Err _ \<Rightarrow> ret (Err (RecordSerializationFailed scratchpad_key))
           | Ok v \<Rightarrow> do {
               put_local_record (nd_network N) (plain_record scratchpad_key v) is_client_put;
               ret (Ok ())
             })
     in if scratchpad_key \<noteq> record_key then ret (Err RecordKeyMismatch)
        else try_bind (local_record_at N scratchpad_key) (\<lambda>held.
          case held of
            None \<Rightarrow> store
          | Some local_record \<Rightarrow>
             (case decode_record (rc_scratchpad_from_slice (nd_codecs N)) local_record scratchpad_key of
                Err e \<Rightarrow> ret (Err e)
              | Ok local_pad \<Rightarrow>
                  if local_pad = pad then ret (Ok ())
                  else if sp_counter local_pad \<ge> sp_counter pad
                  then ret (Err (OutdatedRecordCounter (sp_counter pad) (sp_counter local_pad)))
                  else store)))"

definition get_local_graphentries :: "('t, 'w) node \<Rightarrow> graph_entry_address \<Rightarrow> ('w, graph_entry list) put_task" where
  "get_local_graphentries N addr =
    (let record_key = to_record_key (nd_crates N) (NA_GraphEntryAddress addr)
     in try_bind (local_record_at N record_key) (\<lambda>held.
          case held of
            None \<Rightarrow> ret (Ok [])
          | Some local_record \<Rightarrow> ret (decode_record (rc_graph_entries_from_slice (nd_codecs N)) local_record record_key)))"

text \<open>A \<^verbatim>\<open>BTreeSet\<close> of entries is its elements in order.\<close>

definition btree_set :: "graph_entry list \<Rightarrow> graph_entry list" where
  "btree_set xs = sort (remdups xs)"

definition validate_merge_and_store_graphentries ::
  "('t, 'w) node \<Rightarrow> graph_entry list \<Rightarrow> record_key \<Rightarrow> bool \<Rightarrow> ('w, unit) put_task" where
  "validate_merge_and_store_graphentries N entries record_key is_client_put =
    (let E = nd_crates N;
         entries_for_key = filter (\<lambda>s. to_record_key E (NA_GraphEntryAddress (ge_address s)) = record_key) entries
     in if entries_for_key = [] then ret (Err (EmptyGraphEntry record_key))
        else case btree_set (filter (ge_verify_signature E) entries_for_key) of
          [] \<Rightarrow> ret (Ok ())
        | first # rest \<Rightarrow>
            try_bind (get_local_graphentries N (ge_address first)) (\<lambda>local_entries.
            let validated_entries = btree_set (first # rest @ local_entries) in
            if length local_entries = length validated_entries then ret (Ok ())
            else case try_serialize_record E (rc_graph_entries_to_vec (nd_codecs N)) validated_entries (DataOnly DT_GraphEntry) of
              Err _ \<Rightarrow> ret (Err (RecordSerializationFailed record_key))
            | Ok v \<Rightarrow> do {
                put_local_record (nd_network N) (plain_record record_key v) is_client_put;
                ret (Ok ())
              }))"

definition get_local_pointer :: "('t, 'w) node \<Rightarrow> pointer_address \<Rightarrow> ('w, pointer option) task" where
  "get_local_pointer N addr =
    (let E = nd_crates N;
         record_key = to_record_key E (NA_PointerAddress addr)
     in do {
       held \<leftarrow> get_local_record (nd_network N) record_key;
       ret (case held of
          Ok (Some local_record) \<Rightarrow>
            (case header_from_record E local_record of
               Err _ \<Rightarrow> None
             | Ok local_header \<Rightarrow>
                 if kind local_header \<noteq> DataOnly DT_Pointer then None
                 else result_ok (try_deserialize_record (rc_pointer_from_slice (nd_codecs N)) local_record))
        | _ \<Rightarrow> None)
     })"

definition validate_and_store_pointer_record ::
  "('t, 'w) node \<Rightarrow> pointer \<Rightarrow> record_key \<Rightarrow> bool \<Rightarrow> ('w, unit) put_task" where
  "validate_and_store_pointer_record N pointer key is_client_put =
    (let E = nd_crates N;
         store =
          (case try_serialize_record E (rc_pointer_to_vec (nd_codecs N)) pointer (DataOnly DT_Pointer) of
             Err _ \<Rightarrow> ret (Err (RecordSerializationFailed key))
           | Ok v \<Rightarrow> do {
               put_local_record (nd_network N) (plain_record key v) is_client_put;
               ret (Ok ())
             })
     in if \<not> pt_verify_signature E pointer then ret (Err InvalidPointerSignature)
        else if key \<noteq> to_record_key E (NA_PointerAddress (pt_address pointer)) then ret (Err RecordKeyMismatch)
        else do {
          held \<leftarrow> get_local_pointer N (pt_address pointer);
          case held of
            None \<Rightarrow> store
          | Some local_pointer \<Rightarrow>
              if pointer = local_pointer then ret (Ok ())
              else if pt_counter pointer \<le> pt_counter local_pointer
              then ret (Err (OutdatedRecordCounter (pt_counter pointer) (pt_counter local_pointer)))
              else store
        })"

section \<open>Payments\<close>

definition payees_in_range ::
  "('t, 'w) node \<Rightarrow> network_address \<Rightarrow> record_key \<Rightarrow> peer_id list \<Rightarrow> ('w, unit) put_task" where
  "payees_in_range N address key unknown =
    (if unknown \<noteq> []
     then try_bind (map_err_task (\<lambda>_. LocalSwarmError) (get_network_density (nd_network N))) (\<lambda>density.
       case density of
         Some network_density \<Rightarrow>
          (let far = filter (\<lambda>p. na_distance (nd_crates N) (na_from_peer (nd_crates N) p) address > network_density) unknown
           in if far \<noteq> [] then ret (Err (PaymentQuoteOutOfRange key far)) else ret (Ok ()))
       | None \<Rightarrow> ret (Ok ()))
     else ret (Ok ()))"

definition payment_on_chain ::
  "('t, 'w) node \<Rightarrow> record_key \<Rightarrow> hash32 list \<Rightarrow> (hash32 \<times> quoting_metrics \<times> evm_address) list \<Rightarrow> ('w, amount) put_task" where
  "payment_on_chain N key owned payments = do {
     first \<leftarrow> verify_data_payment (nd_network N) (nd_evm N) owned payments;
     case first of
       Ok amount \<Rightarrow> ret (Ok amount)
     | Err _ \<Rightarrow> do {
         sleep_ms (nd_network N) (1000 * RETRY_PAYMENT_VERIFICATION_WAIT_TIME_SECS);
         map_err_task (PaymentVerificationFailed key) (verify_data_payment (nd_network N) (nd_evm N) owned payments)
       }
   }"

definition payment_for_us_exists_and_is_still_valid ::
  "('t, 'w) node \<Rightarrow> network_address \<Rightarrow> data_types \<Rightarrow> proof_of_payment \<Rightarrow> ('w, unit) put_task" where
  "payment_for_us_exists_and_is_still_valid N address data_type payment =
    (let E = nd_crates N; P = nd_payments N; self = nd_peer_id N;
         key = to_record_key E address
     in if \<not> verify_for E P self payment then ret (Err (PaymentNotMadeToOurNode key))
        else let own_quotes = quotes_by_peer E self payment in
        if \<not> verify_data_type (get_index data_type) payment then ret (Err (PaymentMadeToIncorrectDataType key))
        else try_bind (map_err_task (\<lambda>_. LocalSwarmError)
               (get_k_closest_local_peers_to_the_target E (nd_network N) self (Some address))) (\<lambda>closest_k_peers.
        let unknown = filter (\<lambda>p. p \<notin> set (map fst closest_k_peers)) (payees E payment) in
        try_bind (payees_in_range N address key unknown) (\<lambda>_.
        try_bind (payment_on_chain N key (map (quote_hash E P) own_quotes) (payment_digest E P payment)) (\<lambda>reward_amount.
        if reward_amount \<noteq> 0 then do {
          notify_payment_received (nd_network N);
          ret (Ok ())
        } else ret (Ok ())))))"

section \<open>Merkle payments\<close>

definition merkle_payment_info ::
  "('t, 'w) node \<Rightarrow> record_key \<Rightarrow> pool_hash \<Rightarrow> ('w, contract_payment_info) put_task" where
  "merkle_payment_info N key pool = do {
     first \<leftarrow> get_merkle_payment_info (nd_evm N) pool;
     case first of
       Ok info \<Rightarrow> ret (Ok info)
     | Err _ \<Rightarrow> do {
         sleep_ms (nd_network N) (1000 * RETRY_PAYMENT_VERIFICATION_WAIT_TIME_SECS);
         map_err_task (\<lambda>e. MerklePaymentVerificationFailed key (PaymentInfoUnavailable pool e))
           (get_merkle_payment_info (nd_evm N) pool)
       }
   }"

text \<open>The attempts after the first, as long as the last one failed.\<close>

fun refetch_commitments ::
  "('t, 'w) node \<Rightarrow> pool_hash \<Rightarrow> u64 \<Rightarrow> nat \<Rightarrow> (pool_commitment_packed list, merkle_vault_error) result \<Rightarrow>
   ('w, (pool_commitment_packed list, merkle_vault_error) result) task" where
  "refetch_commitments N pool ts 0 r = ret r"
| "refetch_commitments N pool ts (Suc n) r =
    (case r of
       Ok _ \<Rightarrow> ret r
     | Err _ \<Rightarrow> do {
         sleep_ms (nd_network N) (1000 * RETRY_PAYMENT_VERIFICATION_WAIT_TIME_SECS);
         r' \<leftarrow> get_merkle_payment_packed_commitments (nd_evm N) pool ts;
         refetch_commitments N pool ts n r'
       })"

definition node_verify_cost_units ::
  "('t, 'w) node \<Rightarrow> merkle_payment_proof \<Rightarrow> u64 \<Rightarrow> pool_hash \<Rightarrow> record_key \<Rightarrow> ('w, unit) put_task" where
  "node_verify_cost_units N proof ts pool key =
     try_bind (do {
       r \<leftarrow> get_merkle_payment_packed_commitments (nd_evm N) pool ts;
       r' \<leftarrow> refetch_commitments N pool ts (MAX_COST_UNIT_FETCH_RETRIES - 1) r;
       ret (map_err (\<lambda>e. MerklePaymentVerificationFailed key (CostUnitFetchFailed e)) r')
     }) (\<lambda>on_chain_commitments.
     ret (map_err (\<lambda>e. MerklePaymentVerificationFailed key (CostUnitVerificationFailed e))
       (verify_cost_units on_chain_commitments pool (mpp_winner_pool proof))))"

definition verify_paid_nodes_distance ::
  "('t, 'w) node \<Rightarrow> peer_id list \<Rightarrow> network_address \<Rightarrow> ('w, (unit, (peer_id \<times> distance) list) result) task" where
  "verify_paid_nodes_distance N paid_peer_ids target_address = do {
     density \<leftarrow> get_network_density (nd_network N);
     case Option.bind (result_ok density) (\<lambda>d. d) of
       None \<Rightarrow> ret (Ok ())
     | Some distance_range \<Rightarrow>
        (let E = nd_crates N;
             effective_range = saturating_mul distance_range 10;
             nodes_outside_range = filter_map (\<lambda>p.
               let dist = na_distance E (na_from_peer E p) target_address
               in if dist > effective_range then Some (p, dist) else None) paid_peer_ids
         in if nodes_outside_range \<noteq> [] then ret (Err nodes_outside_range) else ret (Ok ()))
   }"

text \<open>The last step of the verification: the paid nodes against the peers closest to the pool.\<close>

definition verify_topology ::
  "('t, 'w) node \<Rightarrow> merkle_payment_proof \<Rightarrow> (evm_address \<times> nat) list \<Rightarrow> record_key \<Rightarrow> ('w, unit) put_task" where
  "verify_topology N proof paid_node_addresses key =
    (let E = nd_crates N; V = nd_network N;
         midpoint = midpoint_address E (mcp_midpoint_proof (mpp_winner_pool proof));
         reward_pool_address = NA_ChunkAddress (ChunkAddr midpoint)
     in try_bind (map_err_task (\<lambda>e. MerklePaymentVerificationFailed key (ClosestPeersUnavailable midpoint e))
          (get_closest_peers_with_retries E V reward_pool_address (Some PEERS_TO_QUERY))) (\<lambda>closest_peers.
        if length closest_peers < PEERS_TO_QUERY then ret (Ok ())
        else let candidate_peer_ids_set = remdups (map fst closest_peers) in
          case corresponding_peer_ids E paid_node_addresses proof of
            Err e \<Rightarrow> ret (Err (MerklePaymentVerificationFailed key (PaidPeerIdsUnavailable e)))
          | Ok paid_peer_ids \<Rightarrow>
              try_bind (map_err_task (\<lambda>out. MerklePaymentVerificationFailed key (PaidNodesOutOfRange out))
                (verify_paid_nodes_distance N paid_peer_ids reward_pool_address)) (\<lambda>_.
              let legitimate_paid_nodes = length (filter (\<lambda>p. p \<in> set candidate_peer_ids_set) paid_peer_ids);
                  paid_nodes_count = length paid_node_addresses
              in if \<not> legitimate_paid_nodes > paid_nodes_count div 2
                 then ret (Err (TopologyVerificationFailed reward_pool_address legitimate_paid_nodes paid_nodes_count
                        (length candidate_peer_ids_set) candidate_peer_ids_set paid_peer_ids))
                 else ret (Ok ()))))"

definition verify_merkle_payment ::
  "('t, 'w) node \<Rightarrow> merkle_payment_proof \<Rightarrow> network_address \<Rightarrow> ('w, unit) put_task" where
  "verify_merkle_payment N proof target_address =
    (let E = nd_crates N;
         key = to_record_key E target_address
     in if xor_to_vec (mpp_address proof) \<noteq> as_bytes E target_address
        then ret (Err (MerklePaymentVerificationFailed key (ProofAddressMismatch (mpp_address proof) (as_bytes E target_address))))
        else let pool = winner_pool_hash E proof in
          try_bind (merkle_payment_info N key pool) (\<lambda>info.
          let paid_node_addresses = map (\<lambda>(a, i). (a, unat i)) (cpi_paid_nodes info) in
          try_bind (do {
            clock \<leftarrow> call (unix_now (nd_evm N));
            ret (map_err (\<lambda>e. MerklePaymentVerificationFailed key (ProofVerificationFailed e))
              (merkle_proof_verify E (nd_merkle N) clock (cpi_depth info) (cpi_timestamp info) pool paid_node_addresses proof))
          }) (\<lambda>_.
          try_bind (node_verify_cost_units N proof (cpi_timestamp info) pool key) (\<lambda>_.
          verify_topology N proof paid_node_addresses key))))"

section \<open>The handlers\<close>

text \<open>After a success the fetcher is told that the record is there.\<close>

definition notify_when_ok ::
  "('t, 'w) node \<Rightarrow> record_key \<Rightarrow> validation_type \<Rightarrow> (unit, put_validation_error) result \<Rightarrow> ('w, unit) put_task" where
  "notify_when_ok N key vt res =
    (if is_ok res then do { notify_fetch_completed (nd_network N) key vt; ret res } else ret res)"

definition content_hash :: "('t, 'w) node \<Rightarrow> kad_record \<Rightarrow> validation_type" where
  "content_hash N r = VT_NonChunk (from_content (nd_crates N) (rvalue r))"

definition put_paid_chunk :: "('t, 'w) node \<Rightarrow> kad_record \<Rightarrow> ('w, unit) put_task" where
  "put_paid_chunk N r =
    (case decode_record (\<lambda>bs. chunk_of_payload (nd_crates N) (rc_paid_chunk_from_slice (nd_codecs N) bs)) r (rkey r) of
       Err e \<Rightarrow> ret (Err e)
     | Ok (payment, chunk) \<Rightarrow>
        try_bind (validate_key_and_existence N (chunk_network_address chunk) (rkey r)) (\<lambda>already_exists. do {
          payment_res \<leftarrow> payment_for_us_exists_and_is_still_valid N (chunk_network_address chunk) DT_Chunk payment;
          if already_exists then do {
            notify_fetch_completed (nd_network N) (rkey r) VT_Chunk;
            ret (Ok ())
          } else case payment_res of
            Err e \<Rightarrow> ret (Err e)
          | Ok _ \<Rightarrow> do { res \<leftarrow> store_chunk N chunk True; notify_when_ok N (rkey r) VT_Chunk res }
        }))"

definition put_paid_scratchpad :: "('t, 'w) node \<Rightarrow> kad_record \<Rightarrow> ('w, unit) put_task" where
  "put_paid_scratchpad N r =
    (case decode_record (rc_paid_scratchpad_from_slice (nd_codecs N)) r (rkey r) of
       Err e \<Rightarrow> ret (Err e)
     | Ok (payment, pad) \<Rightarrow>
        try_bind (validate_key_and_existence N (sp_network_address pad) (rkey r)) (\<lambda>_.
        try_bind (payment_for_us_exists_and_is_still_valid N (sp_network_address pad) DT_Scratchpad payment) (\<lambda>_. do {
          res \<leftarrow> validate_and_store_scratchpad_record N pad (rkey r) True;
          (case res of
             Ok _ \<Rightarrow> notify_fetch_completed (nd_network N) (rkey r) (content_hash N r)
           | Err (OutdatedRecordCounter _ _) \<Rightarrow> notify_fetch_completed (nd_network N) (rkey r) (content_hash N r)
           | Err _ \<Rightarrow> ret ());
          ret res
        })))"

definition put_scratchpad_update :: "('t, 'w) node \<Rightarrow> kad_record \<Rightarrow> ('w, unit) put_task" where
  "put_scratchpad_update N r =
    (case decode_record (rc_scratchpad_from_slice (nd_codecs N)) r (rkey r) of
       Err e \<Rightarrow> ret (Err e)
     | Ok pad \<Rightarrow>
        try_bind (validate_key_and_existence N (NA_ScratchpadAddress (sp_address pad)) (rkey r)) (\<lambda>exists.
        if \<not> exists then ret (Err (NoPayment (rkey r)))
        else validate_and_store_scratchpad_record N pad (rkey r) True))"

definition put_paid_graph_entry :: "('t, 'w) node \<Rightarrow> kad_record \<Rightarrow> ('w, unit) put_task" where
  "put_paid_graph_entry N r =
    (case decode_record (rc_paid_graph_entry_from_slice (nd_codecs N)) r (rkey r) of
       Err e \<Rightarrow> ret (Err e)
     | Ok (payment, entry) \<Rightarrow>
        (let net_addr = NA_GraphEntryAddress (ge_address entry);
             key = to_record_key (nd_crates N) net_addr
         in if rkey r \<noteq> key then ret (Err RecordKeyMismatch)
            else try_bind (validate_key_and_existence N net_addr key) (\<lambda>already_exists. do {
              payment_res \<leftarrow> payment_for_us_exists_and_is_still_valid N net_addr DT_GraphEntry payment;
              case (payment_res, already_exists) of
                (Err e, False) \<Rightarrow> ret (Err e)
              | _ \<Rightarrow> do {
                  res \<leftarrow> validate_merge_and_store_graphentries N [entry] key True;
                  notify_when_ok N (rkey r) (content_hash N r) res
                }
            })))"

definition put_pointer_update :: "('t, 'w) node \<Rightarrow> kad_record \<Rightarrow> ('w, unit) put_task" where
  "put_pointer_update N r =
    (case decode_record (rc_pointer_from_slice (nd_codecs N)) r (rkey r) of
       Err e \<Rightarrow> ret (Err e)
     | Ok pointer \<Rightarrow>
        try_bind (validate_key_and_existence N (NA_PointerAddress (pt_address pointer)) (rkey r)) (\<lambda>already_exists.
        if \<not> already_exists then ret (Err (NoPayment (rkey r)))
        else do {
          res \<leftarrow> validate_and_store_pointer_record N pointer (rkey r) True;
          notify_when_ok N (rkey r) (content_hash N r) res
        }))"

definition put_paid_pointer :: "('t, 'w) node \<Rightarrow> kad_record \<Rightarrow> ('w, unit) put_task" where
  "put_paid_pointer N r =
    (case decode_record (rc_paid_pointer_from_slice (nd_codecs N)) r (rkey r) of
       Err e \<Rightarrow> ret (Err e)
     | Ok (payment, pointer) \<Rightarrow>
        (let net_addr = NA_PointerAddress (pt_address pointer) in
         try_bind (validate_key_and_existence N net_addr (rkey r)) (\<lambda>already_exists. do {
           payment_res \<leftarrow> payment_for_us_exists_and_is_still_valid N net_addr DT_Pointer payment;
           case (payment_res, already_exists) of
             (Err e, False) \<Rightarrow> ret (Err e)
           | _ \<Rightarrow> do {
               res \<leftarrow> validate_and_store_pointer_record N pointer (rkey r) True;
               notify_when_ok N (rkey r) (content_hash N r) res
             }
         })))"

definition merkle_chunk_put :: "('t, 'w) node \<Rightarrow> kad_record \<Rightarrow> ('w, unit) put_task" where
  "merkle_chunk_put N r =
    (case decode_record (\<lambda>bs. chunk_of_payload (nd_crates N) (rc_merkle_chunk_from_slice (nd_codecs N) bs)) r (rkey r) of
       Err e \<Rightarrow> ret (Err e)
     | Ok (proof, chunk) \<Rightarrow>
        try_bind (validate_key_and_existence N (chunk_network_address chunk) (rkey r)) (\<lambda>already_exists.
        if already_exists then do {
          notify_fetch_completed (nd_network N) (rkey r) VT_Chunk;
          ret (Ok ())
        } else try_bind (verify_merkle_payment N proof (chunk_network_address chunk)) (\<lambda>_. do {
          res \<leftarrow> store_chunk N chunk True;
          notify_when_ok N (rkey r) VT_Chunk res
        })))"

definition merkle_scratchpad_put :: "('t, 'w) node \<Rightarrow> kad_record \<Rightarrow> ('w, unit) put_task" where
  "merkle_scratchpad_put N r =
    (case decode_record (rc_merkle_scratchpad_from_slice (nd_codecs N)) r (rkey r) of
       Err e \<Rightarrow> ret (Err e)
     | Ok (proof, pad) \<Rightarrow>
        try_bind (verify_merkle_payment N proof (sp_network_address pad)) (\<lambda>_. do {
          res \<leftarrow> validate_and_store_scratchpad_record N pad (rkey r) True;
          notify_when_ok N (rkey r) (content_hash N r) res
        }))"

definition merkle_graph_entry_put :: "('t, 'w) node \<Rightarrow> kad_record \<Rightarrow> ('w, unit) put_task" where
  "merkle_graph_entry_put N r =
    (case decode_record (rc_merkle_graph_entry_from_slice (nd_codecs N)) r (rkey r) of
       Err e \<Rightarrow> ret (Err e)
     | Ok (proof, entry) \<Rightarrow>
        try_bind (verify_merkle_payment N proof (NA_GraphEntryAddress (ge_address entry))) (\<lambda>_. do {
          res \<leftarrow> validate_merge_and_store_graphentries N [entry] (rkey r) True;
          notify_when_ok N (rkey r) (content_hash N r) res
        }))"

definition merkle_pointer_put :: "('t, 'w) node \<Rightarrow> kad_record \<Rightarrow> ('w, unit) put_task" where
  "merkle_pointer_put N r =
    (case decode_record (rc_merkle_pointer_from_slice (nd_codecs N)) r (rkey r) of
       Err e \<Rightarrow> ret (Err e)
     | Ok (proof, pointer) \<Rightarrow>
        try_bind (verify_merkle_payment N proof (NA_PointerAddress (pt_address pointer))) (\<lambda>_. do {
          res \<leftarrow> validate_and_store_pointer_record N pointer (rkey r) True;
          notify_when_ok N (rkey r) (content_hash N r) res
        }))"

fun validate_and_store_merkle_payment_record ::
  "('t, 'w) node \<Rightarrow> kad_record \<Rightarrow> data_types \<Rightarrow> ('w, unit) put_task" where
  "validate_and_store_merkle_payment_record N r DT_Chunk = merkle_chunk_put N r"
| "validate_and_store_merkle_payment_record N r DT_Scratchpad = merkle_scratchpad_put N r"
| "validate_and_store_merkle_payment_record N r DT_GraphEntry = merkle_graph_entry_put N r"
| "validate_and_store_merkle_payment_record N r DT_Pointer = merkle_pointer_put N r"

definition validate_and_store_record :: "('t, 'w) node \<Rightarrow> kad_record \<Rightarrow> ('w, unit) put_task" where
  "validate_and_store_record N r =
    (case header_from_record (nd_crates N) r of
       Err _ \<Rightarrow> ret (Err InvalidRecordHeader)
     | Ok hdr \<Rightarrow>
        (case kind hdr of
           DataWithPayment DT_Chunk \<Rightarrow> put_paid_chunk N r
         | DataOnly DT_Chunk \<Rightarrow> ret (Err (NoPayment (rkey r)))
         | DataWithPayment DT_Scratchpad \<Rightarrow> put_paid_scratchpad N r
         | DataOnly DT_Scratchpad \<Rightarrow> put_scratchpad_update N r
         | DataOnly DT_GraphEntry \<Rightarrow> ret (Err (NoPayment (rkey r)))
         | DataWithPayment DT_GraphEntry \<Rightarrow> put_paid_graph_entry N r
         | DataOnly DT_Pointer \<Rightarrow> put_pointer_update N r
         | DataWithPayment DT_Pointer \<Rightarrow> put_paid_pointer N r
         | DataWithMerklePayment data_type \<Rightarrow> validate_and_store_merkle_payment_record N r data_type))"

definition store_replicated_in_record :: "('t, 'w) node \<Rightarrow> kad_record \<Rightarrow> ('w, unit) put_task" where
  "store_replicated_in_record N r =
    (case header_from_record (nd_crates N) r of
       Err _ \<Rightarrow> ret (Err InvalidRecordHeader)
     | Ok hdr \<Rightarrow>
        (case kind hdr of
           DataWithPayment _ \<Rightarrow> ret (Err (UnexpectedRecordWithPayment (rkey r)))
         | DataWithMerklePayment _ \<Rightarrow> ret (Err (UnexpectedRecordWithPayment (rkey r)))
         | DataOnly DT_Chunk \<Rightarrow>
            (case decode_record (\<lambda>bs. map_option (chunk_new (nd_crates N)) (rc_chunk_from_slice (nd_codecs N) bs)) r (rkey r) of
               Err e \<Rightarrow> ret (Err e)
             | Ok chunk \<Rightarrow>
                try_bind (validate_key_and_existence N (chunk_network_address chunk) (rkey r)) (\<lambda>already_exists.
                if already_exists then ret (Ok ()) else store_chunk N chunk False))
         | DataOnly DT_Scratchpad \<Rightarrow>
            (case decode_record (rc_scratchpad_from_slice (nd_codecs N)) r (rkey r) of
               Err e \<Rightarrow> ret (Err e)
             | Ok pad \<Rightarrow> validate_and_store_scratchpad_record N pad (rkey r) False)
         | DataOnly DT_GraphEntry \<Rightarrow>
            (case decode_record (rc_graph_entries_from_slice (nd_codecs N)) r (rkey r) of
               Err e \<Rightarrow> ret (Err e)
             | Ok entries \<Rightarrow> validate_merge_and_store_graphentries N entries (rkey r) False)
         | DataOnly DT_Pointer \<Rightarrow>
            (case decode_record (rc_pointer_from_slice (nd_codecs N)) r (rkey r) of
               Err e \<Rightarrow> ret (Err e)
             | Ok pointer \<Rightarrow> validate_and_store_pointer_record N pointer (rkey r) False)))"

end
