(* ===== verification/Merkle_Payment_Props.thy ===== *)
theory Merkle_Payment_Props
  imports Merkle_Payment
begin

text \<open>
  What holds of Merkle batch payments: the proofs a client generates are the ones a node accepts, a
  payment a node accepts is bound to signed candidates, and the packed cost units cannot be lowered.
  The laws of the tree library are stated against the complete binary tree of a list of leaves.
\<close>

section \<open>Invariants and runs\<close>

text \<open>The complete binary tree over a list of leaves: its levels, the siblings on the way up from a node,
  and the hash reached by climbing that way.\<close>

fun pair_up :: "('h \<Rightarrow> 'h \<Rightarrow> 'h) \<Rightarrow> 'h list \<Rightarrow> 'h list" where
  "pair_up f (a # b # xs) = f a b # pair_up f xs"
| "pair_up f _ = []"

fun tree_level :: "('h \<Rightarrow> 'h \<Rightarrow> 'h) \<Rightarrow> nat \<Rightarrow> 'h list \<Rightarrow> 'h list" where
  "tree_level f 0 ls = ls"
| "tree_level f (Suc k) ls = pair_up f (tree_level f k ls)"

definition sibling :: "nat \<Rightarrow> nat" where
  "sibling i = (if even i then i + 1 else i - 1)"

fun tree_path :: "('h \<Rightarrow> 'h \<Rightarrow> 'h) \<Rightarrow> 'h list \<Rightarrow> nat \<Rightarrow> nat \<Rightarrow> nat \<Rightarrow> 'h list" where
  "tree_path f ls k 0 i = []"
| "tree_path f ls k (Suc n) i = tree_level f k ls ! sibling i # tree_path f ls (Suc k) n (i div 2)"

fun climb :: "('h \<Rightarrow> 'h \<Rightarrow> 'h) \<Rightarrow> 'h \<Rightarrow> nat \<Rightarrow> 'h list \<Rightarrow> 'h" where
  "climb f h i [] = h"
| "climb f h i (s # ss) = climb f (if even i then f h s else f s h) (i div 2) ss"

definition hash_pair :: "crates \<Rightarrow> hash32 \<Rightarrow> hash32 \<Rightarrow> hash32" where
  "hash_pair E l r = concat_and_hash E l (Some r)"

text \<open>What the tree library promises when the number of leaves is a power of two.\<close>

definition merkle_laws :: "crates \<Rightarrow> 't merkle_crates \<Rightarrow> bool" where
  "merkle_laws E M \<longleftrightarrow>
     (\<forall>d ls. length ls = 2 ^ d \<longrightarrow>
        mk_root M (mk_from_leaves M (concat_and_hash E) ls) = Some (tree_level (hash_pair E) d ls ! 0) \<and>
        (\<forall>k \<le> d. mk_get_nodes_at_level M (mk_from_leaves M (concat_and_hash E) ls) k =
           Some (enumerate 0 (tree_level (hash_pair E) k ls))) \<and>
        (\<forall>i < 2 ^ d. mk_proof M (mk_from_leaves M (concat_and_hash E) ls) [i] = tree_path (hash_pair E) ls 0 d i) \<and>
        (\<forall>k i. k \<le> d \<and> i < 2 ^ (d - k) \<longrightarrow>
           mk_proof_from_node M (mk_from_leaves M (concat_and_hash E) ls) k i =
             Some (tree_path (hash_pair E) ls k (d - k) i))) \<and>
     (\<forall>hs root i h. i < 2 ^ length hs \<longrightarrow>
        mk_verify M (concat_and_hash E) hs root [i] [h] (2 ^ length hs) = (climb (hash_pair E) h i hs = root))"

definition sample_merkle_crates :: "hash32 list merkle_crates" where
  "sample_merkle_crates = \<lparr>
     mk_from_leaves = (\<lambda>H ls. ls),
     mk_root = (\<lambda>ls. Some (tree_level (hash_pair sample_crates) (tree_depth (length ls)) ls ! 0)),
     mk_get_nodes_at_level = (\<lambda>ls k. Some (enumerate 0 (tree_level (hash_pair sample_crates) k ls))),
     mk_proof = (\<lambda>ls is. tree_path (hash_pair sample_crates) ls 0 (tree_depth (length ls)) (hd is)),
     mk_proof_from_node = (\<lambda>ls k i. Some (tree_path (hash_pair sample_crates) ls k (tree_depth (length ls) - k) i)),
     mk_verify = (\<lambda>H hs root is ls n. climb (hash_pair sample_crates) (hd ls) (hd is) hs = root),
     kp_public_protobuf = (\<lambda>kp. case kp of P2pKeypair bs \<Rightarrow> bs),
     kp_sign = (\<lambda>kp msg. Some [])\<rparr>"

definition padded_leaves :: "crates \<Rightarrow> (nat \<Rightarrow> hash32) \<Rightarrow> (nat \<Rightarrow> hash32) \<Rightarrow> xor_name list \<Rightarrow> hash32 list" where
  "padded_leaves E salt dummy xs =
     map2 (salted_leaf E) xs (map salt [0..<length xs]) @ map dummy [length xs..<2 ^ tree_depth (length xs)]"

definition type_cost :: "u32 \<times> u32 \<Rightarrow> nat" where
  "type_cost = (\<lambda>(t, n). unat (cost_unit_for_data_type (data_type_conversion t)) * unat n)"

definition sample_candidate :: merkle_candidate_node where
  "sample_candidate = \<lparr>mc_pub_key = [7], mc_quoting_metrics = sample_metrics, mc_reward_address = 3, mc_timestamp = 1000,
     mc_signature = []\<rparr>"

definition sample_branch :: merkle_branch where
  "sample_branch = from_rs_merkle_proof [6] 0 2 5 (hash_pair sample_crates 5 6) None"

definition sample_pool :: merkle_candidate_pool where
  "sample_pool = \<lparr>mcp_midpoint_proof = \<lparr>mp_branch = sample_branch, mp_timestamp = 1000\<rparr>,
     mcp_candidate_nodes = replicate CANDIDATES_PER_POOL sample_candidate\<rparr>"

definition sample_merkle_payment :: merkle_payment_proof where
  "sample_merkle_payment = merkle_payment_proof_new 5 sample_branch sample_pool"

text \<open>The packed value a candidate's signed metrics call for.\<close>

definition expected_packed :: "quoting_metrics \<Rightarrow> u256" where
  "expected_packed m = or (push_bit 8 (calculate_total_cost_unit m)) (ucast (data_type_conversion (qm_data_type m)))"

section \<open>Lemmas\<close>

subsection \<open>Depths\<close>

declare depth_loop.simps [simp del]

lemma depth_loop_bounds: "0 < n \<Longrightarrow> 2 ^ (depth_loop n - 1) \<le> n \<and> n < 2 ^ depth_loop n \<and> 0 < depth_loop n"
proof (induction n rule: depth_loop.induct)
  case (1 n)
  show ?case
  proof (cases "n div 2 = 0")
    case True
    then have "n = 1" using 1(2) by simp
    then show ?thesis by (simp add: depth_loop.simps [of "Suc 0"] depth_loop.simps [of 0])
  next
    case False
    define k where "k = depth_loop (n div 2)"
    have "2 ^ (k - 1) \<le> n div 2" "n div 2 < 2 ^ k" "0 < k" using 1 False by (auto simp: k_def)
    moreover have "(2 :: nat) ^ k = 2 * 2 ^ (k - 1)" using \<open>0 < k\<close> by (simp add: power_eq_if)
    moreover have "depth_loop n = Suc k" using 1(2) by (simp add: depth_loop.simps [of n] k_def)
    ultimately show ?thesis by auto
  qed
qed

lemma tree_depth_bounds: "2 \<le> n \<Longrightarrow> 2 ^ (tree_depth n - 1) < n \<and> n \<le> 2 ^ tree_depth n \<and> 0 < tree_depth n"
  using depth_loop_bounds [of "n - 1"] by (auto simp: tree_depth_def)

lemma tree_depth_power: "tree_depth (2 ^ d) = d"
proof (cases "d = 0")
  case False
  then have "2 \<le> (2 :: nat) ^ d" by (simp add: self_le_power)
  from tree_depth_bounds [OF this] have "2 ^ (tree_depth (2 ^ d) - 1) < (2 :: nat) ^ d" "(2 :: nat) ^ d \<le> 2 ^ tree_depth (2 ^ d)"
    "0 < tree_depth (2 ^ d)" by auto
  then show ?thesis by simp
qed (simp add: tree_depth_def)

lemma tree_depth_le_max: "2 \<le> n \<Longrightarrow> n \<le> MAX_LEAVES \<Longrightarrow> tree_depth n \<le> MAX_MERKLE_DEPTH"
proof -
  assume n: "2 \<le> n" "n \<le> MAX_LEAVES"
  note bounds = tree_depth_bounds [OF n(1)]
  have "(2 :: nat) ^ (tree_depth n - 1) < 2 ^ MAX_MERKLE_DEPTH"
    using bounds n(2) unfolding MAX_LEAVES_def by (meson order.strict_trans2)
  then have "tree_depth n - 1 < MAX_MERKLE_DEPTH" by (rule power_less_imp_less_exp [rotated]) simp
  then show "tree_depth n \<le> MAX_MERKLE_DEPTH" using bounds by simp
qed

lemma midpoint_levels: "midpoint_level d + midpoint_proof_depth d = d" "midpoint_level d \<le> d"
  by (auto simp: midpoint_level_def midpoint_proof_depth_def div_ceil_def)

subsection \<open>The complete binary tree\<close>

lemma length_pair_up: "length (pair_up f xs) = length xs div 2"
  by (induction f xs rule: pair_up.induct) auto

lemma nth_pair_up: "Suc (2 * i) < length xs \<Longrightarrow> pair_up f xs ! i = f (xs ! (2 * i)) (xs ! Suc (2 * i))"
proof (induction f xs arbitrary: i rule: pair_up.induct)
  case (1 f a b xs)
  then show ?case by (cases i) auto
qed auto

lemma length_tree_level: "length ls = 2 ^ d \<Longrightarrow> k \<le> d \<Longrightarrow> length (tree_level f k ls) = 2 ^ (d - k)"
proof (induction k)
  case (Suc k)
  then have "(2 :: nat) ^ (d - k) = 2 * 2 ^ (d - Suc k)" by (simp add: Suc_diff_Suc flip: power_Suc)
  then show ?case using Suc by (simp add: length_pair_up)
qed simp

lemma length_tree_path: "length (tree_path f ls k n i) = n"
  by (induction n arbitrary: k i) auto

lemma pair_up_step:
  assumes "i < 2 * n" "length xs = 2 * n"
  shows "(if even i then f (xs ! i) (xs ! sibling i) else f (xs ! sibling i) (xs ! i)) = pair_up f xs ! (i div 2)"
proof (cases "even i")
  case True
  then obtain j where "i = 2 * j" by blast
  then show ?thesis using assms by (simp add: sibling_def nth_pair_up)
next
  case False
  then obtain j where "i = Suc (2 * j)" by (auto elim: oddE)
  then show ?thesis using assms by (simp add: sibling_def nth_pair_up)
qed

lemma climb_tree_path:
  "length (tree_level f k ls) = 2 ^ n \<Longrightarrow> i < 2 ^ n \<Longrightarrow>
   climb f (tree_level f k ls ! i) i (tree_path f ls k n i) = tree_level f (k + n) ls ! 0"
proof (induction n arbitrary: k i)
  case (Suc n)
  have "length (tree_level f (Suc k) ls) = 2 ^ n" using Suc.prems by (simp add: length_pair_up)
  moreover have "i div 2 < 2 ^ n" using Suc.prems by auto
  ultimately have "climb f (tree_level f (Suc k) ls ! (i div 2)) (i div 2) (tree_path f ls (Suc k) n (i div 2)) =
      tree_level f (Suc k + n) ls ! 0" by (rule Suc.IH)
  then show ?case using Suc.prems pair_up_step [of i "2 ^ n" "tree_level f k ls" f] by simp
qed simp

lemma merkle_laws_tree:
  assumes "merkle_laws E M" "length ls = 2 ^ d"
  shows "mk_root M (mk_from_leaves M (concat_and_hash E) ls) = Some (tree_level (hash_pair E) d ls ! 0)"
    and "k \<le> d \<Longrightarrow> mk_get_nodes_at_level M (mk_from_leaves M (concat_and_hash E) ls) k =
           Some (enumerate 0 (tree_level (hash_pair E) k ls))"
    and "i < 2 ^ d \<Longrightarrow> mk_proof M (mk_from_leaves M (concat_and_hash E) ls) [i] = tree_path (hash_pair E) ls 0 d i"
    and "k \<le> d \<Longrightarrow> i < 2 ^ (d - k) \<Longrightarrow> mk_proof_from_node M (mk_from_leaves M (concat_and_hash E) ls) k i =
           Some (tree_path (hash_pair E) ls k (d - k) i)"
  using assms unfolding merkle_laws_def by blast+

lemma merkle_laws_verify:
  "merkle_laws E M \<Longrightarrow> i < 2 ^ length hs \<Longrightarrow>
   mk_verify M (concat_and_hash E) hs root [i] [h] (2 ^ length hs) = (climb (hash_pair E) h i hs = root)"
  unfolding merkle_laws_def by blast

text \<open>A branch that follows the tree from one of its nodes verifies.\<close>

lemma branch_verify_tree_path:
  assumes laws: "merkle_laws E M" and len: "length ls = 2 ^ d" and k: "k \<le> d" and i: "i < 2 ^ (d - k)"
    and hash: "(case salt of Some s \<Rightarrow> salted_leaf E leaf s | None \<Rightarrow> leaf) = tree_level (hash_pair E) k ls ! i"
  shows "branch_verify E M (from_rs_merkle_proof (tree_path (hash_pair E) ls k (d - k) i) i (2 ^ (d - k)) leaf
           (tree_level (hash_pair E) d ls ! 0) salt)"
proof -
  let ?p = "tree_path (hash_pair E) ls k (d - k) i"
  have "climb (hash_pair E) (tree_level (hash_pair E) k ls ! i) i ?p = tree_level (hash_pair E) d ls ! 0"
    using climb_tree_path [of "hash_pair E" k ls "d - k" i] length_tree_level [OF len k] i k by simp
  moreover have "mk_verify M (concat_and_hash E) ?p r [i] [h] (2 ^ (d - k)) = (climb (hash_pair E) h i ?p = r)" for r h
    using merkle_laws_verify [OF laws, of i ?p] i by (simp add: length_tree_path)
  ultimately show ?thesis
    using hash by (cases salt) (simp_all add: branch_verify_def from_rs_merkle_proof_def)
qed

subsection \<open>Clients' trees\<close>

lemma length_padded_leaves: "2 \<le> length xs \<Longrightarrow> length (padded_leaves E salt dummy xs) = 2 ^ tree_depth (length xs)"
  using tree_depth_bounds [of "length xs"] by (simp add: padded_leaves_def)

lemma nth_padded_leaves: "i < length xs \<Longrightarrow> padded_leaves E salt dummy xs ! i = salted_leaf E (xs ! i) (salt i)"
  by (simp add: padded_leaves_def nth_append)

lemma from_xornames_tree:
  assumes "merkle_laws E M" "2 \<le> length xs" "length xs \<le> MAX_LEAVES"
  shows "from_xornames E M salt dummy xs =
    Ok \<lparr>mt_inner = mk_from_leaves M (concat_and_hash E) (padded_leaves E salt dummy xs), mt_leaf_count = length xs,
        mt_depth = tree_depth (length xs),
        mt_root = tree_level (hash_pair E) (tree_depth (length xs)) (padded_leaves E salt dummy xs) ! 0,
        mt_salts = map salt [0..<length xs]\<rparr>"
  using assms merkle_laws_tree(1) [OF assms(1) length_padded_leaves [OF assms(2)], of E salt dummy]
  by (simp add: from_xornames_def Let_def MIN_LEAVES_def padded_leaves_def [symmetric])

lemma try_map_map: "(\<And>x. x \<in> set xs \<Longrightarrow> f x = Ok (g x)) \<Longrightarrow> try_map f xs = Ok (map g xs)"
  by (induction xs) auto

lemma reward_candidates_tree:
  assumes laws: "merkle_laws E M" and len: "length ls = 2 ^ d" and t: "mt_inner t = mk_from_leaves M (concat_and_hash E) ls"
    "mt_depth t = d"
  shows "reward_candidates M t ts =
    Ok (map (\<lambda>(i, h). \<lparr>mp_branch = from_rs_merkle_proof (tree_path (hash_pair E) ls (midpoint_level d) (midpoint_proof_depth d) i)
                i (2 ^ midpoint_proof_depth d) h (mt_root t) None, mp_timestamp = ts\<rparr>)
      (enumerate 0 (tree_level (hash_pair E) (midpoint_level d) ls)))"
proof -
  have d: "d - midpoint_level d = midpoint_proof_depth d" "midpoint_level d \<le> d"
    using midpoint_levels [of d] by auto
  have nodes: "midpoints M t = Ok (enumerate 0 (tree_level (hash_pair E) (midpoint_level d) ls))"
    using merkle_laws_tree(2) [OF laws len d(2)] t by (simp add: midpoints_def)
  have "generate_midpoint_proof M t i h =
      Ok (from_rs_merkle_proof (tree_path (hash_pair E) ls (midpoint_level d) (midpoint_proof_depth d) i)
            i (2 ^ midpoint_proof_depth d) h (mt_root t) None)"
    if "(i, h) \<in> set (enumerate 0 (tree_level (hash_pair E) (midpoint_level d) ls))" for i h
  proof -
    have "i < 2 ^ midpoint_proof_depth d"
      using that length_tree_level [OF len d(2)] d(1) by (auto simp: in_set_enumerate_eq)
    then show ?thesis
      using merkle_laws_tree(4) [OF laws len d(2), of i] d(1) t
      by (simp add: generate_midpoint_proof_def Let_def expected_reward_pools_def)
  qed
  then show ?thesis
    unfolding reward_candidates_def nodes and_then.simps by (intro try_map_map) auto
qed

lemma reward_candidates_verify:
  assumes laws: "merkle_laws E M" and len: "length ls = 2 ^ d" and t: "mt_inner t = mk_from_leaves M (concat_and_hash E) ls"
    "mt_depth t = d" "mt_root t = tree_level (hash_pair E) d ls ! 0"
  shows "\<exists>cs. reward_candidates M t ts = Ok cs \<and> length cs = expected_reward_pools d \<and>
    (\<forall>c \<in> set cs. branch_verify E M (mp_branch c) \<and> branch_depth (mp_branch c) = midpoint_proof_depth d \<and>
       branch_root (mp_branch c) = mt_root t \<and> mp_timestamp c = ts)"
proof -
  have dl: "midpoint_level d \<le> d" "d - midpoint_level d = midpoint_proof_depth d" using midpoint_levels [of d] by auto
  define cand where "cand = (\<lambda>(i, h). \<lparr>mp_branch =
      from_rs_merkle_proof (tree_path (hash_pair E) ls (midpoint_level d) (midpoint_proof_depth d) i)
        i (2 ^ midpoint_proof_depth d) h (mt_root t) None, mp_timestamp = ts\<rparr>)"
  define cs where "cs = map cand (enumerate 0 (tree_level (hash_pair E) (midpoint_level d) ls))"
  have cs: "reward_candidates M t ts = Ok cs"
    unfolding cs_def cand_def by (rule reward_candidates_tree [OF laws len t(1,2)])
  have lcs: "length cs = expected_reward_pools d"
    using length_tree_level [OF len dl(1)] dl(2) by (simp add: cs_def expected_reward_pools_def)
  have "branch_verify E M (mp_branch c) \<and> branch_depth (mp_branch c) = midpoint_proof_depth d \<and>
      branch_root (mp_branch c) = mt_root t \<and> mp_timestamp c = ts" if "c \<in> set cs" for c
  proof -
    have "c \<in> cand ` set (enumerate 0 (tree_level (hash_pair E) (midpoint_level d) ls))"
      using \<open>c \<in> set cs\<close> unfolding cs_def set_map .
    then obtain p where p: "c = cand p" "p \<in> set (enumerate 0 (tree_level (hash_pair E) (midpoint_level d) ls))"
      by (rule imageE)
    obtain i h where "p = (i, h)" by (cases p)
    then have ih: "(i, h) \<in> set (enumerate 0 (tree_level (hash_pair E) (midpoint_level d) ls))" "c = cand (i, h)"
      using p by simp_all
    then have "i < 2 ^ (d - midpoint_level d)" "h = tree_level (hash_pair E) (midpoint_level d) ls ! i"
      using length_tree_level [OF len dl(1)] by (auto simp: in_set_enumerate_eq)
    then have "branch_verify E M (mp_branch c)"
      using branch_verify_tree_path [OF laws len dl(1), where i = i and salt = None and leaf = h] ih(2) dl(2) t(3) by (simp add: cand_def)
    then show ?thesis using ih(2) by (simp add: cand_def branch_depth_def from_rs_merkle_proof_def length_tree_path)
  qed
  then show ?thesis using cs lcs by blast
qed

lemma valid_timestamp:
  assumes "unat ts \<le> system_secs now" "system_secs now \<le> unat ts + 604800" "system_secs now < 2 ^ 64"
  shows "validate_payment_timestamp (Some now) ts ts = Ok ()"
proof -
  have now: "unat (word_of_nat (system_secs now) :: u64) = system_secs now"
    using assms(3) by (simp add: unat_of_nat)
  then have le: "ts \<le> word_of_nat (system_secs now)" using assms(1) by (simp add: word_le_nat_alt)
  have "unat ((word_of_nat (system_secs now) :: u64) - ts) = system_secs now - unat ts"
    using le now by (simp add: unat_sub)
  then have "\<not> (word_of_nat (system_secs now) :: u64) - ts > MERKLE_PAYMENT_EXPIRATION"
    using assms(2) by (simp add: word_less_nat_alt MERKLE_PAYMENT_EXPIRATION_def)
  then show ?thesis using le by (simp add: validate_payment_timestamp_def Let_def not_less)
qed

subsection \<open>Costs\<close>

lemma cost_unit_bound: "unat (cost_unit_for_data_type t) \<le> 100"
  by (auto simp: cost_unit_for_data_type_def COST_UNIT_GRAPH_ENTRY_def COST_UNIT_SCRATCHPAD_def
      COST_UNIT_CHUNK_def COST_UNIT_POINTER_def)

lemma cost_unit_zero: "cost_unit_for_data_type (data_type_conversion t) = 0 \<longleftrightarrow> t \<notin> {0, 1, 2, 3}"
  by (auto simp: cost_unit_for_data_type_def data_type_conversion_def COST_UNIT_GRAPH_ENTRY_def COST_UNIT_SCRATCHPAD_def
      COST_UNIT_CHUNK_def COST_UNIT_POINTER_def)

lemma unat_ucast_u256:
  assumes "LENGTH('a) \<le> 256"
  shows "unat (ucast (c :: 'a::len word) :: u256) = unat c"
proof -
  have "unat c < 2 ^ LENGTH('a)" by (rule unsigned_less)
  also have "\<dots> \<le> 2 ^ LENGTH(256)" using assms by (intro power_increasing) auto
  finally show ?thesis by (simp add: unsigned_ucast_eq take_bit_nat_eq_self)
qed

text \<open>Costs are added without wrap-around.\<close>

lemma unat_cost_product:
  assumes "unat c < 2 ^ 64"
  shows "unat (cost_unit_for_data_type t * c) = unat (cost_unit_for_data_type t) * unat c"
    and "unat (cost_unit_for_data_type t) * unat c < 2 ^ 71"
proof -
  have "unat (cost_unit_for_data_type t) * unat c \<le> 100 * 2 ^ 64"
    using assms cost_unit_bound [of t] by (intro mult_le_mono) auto
  then show "unat (cost_unit_for_data_type t) * unat c < 2 ^ 71" by simp
  then show "unat (cost_unit_for_data_type t * c) = unat (cost_unit_for_data_type t) * unat c"
    by (simp add: unat_word_ariths)
qed

lemma unat_type_cost: "unat (cost_unit_for_data_type (data_type_conversion t) * ucast n) = type_cost (t, n)"
  "type_cost (t, n) < 2 ^ 71"
proof -
  have "unat (ucast n :: u256) = unat n" by (rule unat_ucast_u256) simp
  moreover have "unat n < 2 ^ LENGTH(32)" by (rule unsigned_less)
  then have "unat (ucast n :: u256) < 2 ^ 64" using calculation by simp
  ultimately show "unat (cost_unit_for_data_type (data_type_conversion t) * ucast n) = type_cost (t, n)"
    "type_cost (t, n) < 2 ^ 71"
    using unat_cost_product [of "ucast n" "data_type_conversion t"] by (simp_all add: type_cost_def)
qed

lemma sum_type_costs_bound: "sum_list (map type_cost xs) \<le> length xs * 2 ^ 71"
proof (induction xs)
  case (Cons x xs)
  then show ?case using unat_type_cost(2) [of "fst x" "snd x"] by simp
qed simp

lemma unat_total_from_types:
  assumes "unat acc + sum_list (map type_cost xs) < 2 ^ 256"
  shows "unat (fold (\<lambda>(t, n) acc. acc + cost_unit_for_data_type (data_type_conversion t) * ucast n) xs acc) =
     unat acc + sum_list (map type_cost xs)"
  using assms
proof (induction xs arbitrary: acc)
  case (Cons x xs)
  obtain t n where x: "x = (t, n)" by (cases x)
  let ?c = "cost_unit_for_data_type (data_type_conversion t) * ucast n"
  have "unat (acc + ?c) = unat acc + type_cost (t, n)"
    using Cons.prems unat_type_cost(1) [of t n] by (simp add: x unat_word_ariths)
  then show ?case using Cons.IH [of "acc + ?c"] Cons.prems by (simp add: x add.assoc)
qed simp

lemma total_cost_unit_value:
  assumes "length (qm_records_per_type m) < 2 ^ 64"
  shows "unat (calculate_total_cost_unit m) =
     (let total = sum_list (map type_cost (qm_records_per_type m)) in
      if total > 0 then total
      else unat (cost_unit_for_data_type (data_type_conversion (qm_data_type m))) * max (unat (qm_close_records_stored m)) 1)"
    and "unat (calculate_total_cost_unit m) < 2 ^ 248"
proof -
  define total where "total = sum_list (map type_cost (qm_records_per_type m))"
  have small: "total < 2 ^ 136"
  proof -
    have "total \<le> length (qm_records_per_type m) * 2 ^ 71" unfolding total_def by (rule sum_type_costs_bound)
    also have "\<dots> < 2 ^ 64 * 2 ^ 71" using assms by simp
    finally show ?thesis by simp
  qed
  define T where "T = fold (\<lambda>(t, n) acc. acc + cost_unit_for_data_type (data_type_conversion t) * ucast n)
      (qm_records_per_type m) (0 :: u256)"
  have T: "unat T = total"
    using unat_total_from_types [of 0 "qm_records_per_type m"] small by (simp add: T_def total_def)
  have fb: "unat (ucast (max (qm_close_records_stored m) 1) :: u256) = max (unat (qm_close_records_stored m)) 1"
    by (subst unat_ucast_u256) (simp_all add: max_def word_le_nat_alt)
  have "unat (max (qm_close_records_stored m) 1) < 2 ^ LENGTH(64)" by (rule unsigned_less)
  then have "unat (ucast (max (qm_close_records_stored m) 1) :: u256) < 2 ^ 64"
    by (subst unat_ucast_u256) simp_all
  note prod = unat_cost_product [OF this, of "data_type_conversion (qm_data_type m)", unfolded fb]
  have eq: "calculate_total_cost_unit m = (if T > 0 then T
      else cost_unit_for_data_type (data_type_conversion (qm_data_type m)) * ucast (max (qm_close_records_stored m) 1))"
    by (simp add: calculate_total_cost_unit_def T_def Let_def)
  have "T > 0 \<longleftrightarrow> total > 0" using T by (simp add: word_less_nat_alt)
  then have "unat (calculate_total_cost_unit m) = (if total > 0 then total
      else unat (cost_unit_for_data_type (data_type_conversion (qm_data_type m))) * max (unat (qm_close_records_stored m)) 1)"
    using T prod(1) by (simp add: eq)
  then show "unat (calculate_total_cost_unit m) < 2 ^ 248"
      "unat (calculate_total_cost_unit m) = (let total = sum_list (map type_cost (qm_records_per_type m)) in if total > 0 then total
        else unat (cost_unit_for_data_type (data_type_conversion (qm_data_type m))) * max (unat (qm_close_records_stored m)) 1)"
    using small prod(2) unfolding total_def [symmetric] Let_def by auto
qed

lemma encode_cost:
  assumes "unat c < 2 ^ 248"
  shows "encode_data_type_and_cost t c = Ok (or (push_bit 8 c) (ucast t))"
proof -
  have "unat (push_bit 248 1 :: u256) = 2 ^ 248" by (simp add: push_bit_eq_mult)
  then have "c < push_bit 248 1" using assms by (simp add: word_less_nat_alt)
  then show ?thesis by (simp add: encode_data_type_and_cost_def TOTAL_COST_UNIT_BITS_def)
qed

lemma decode_encoded:
  assumes "unat (c :: u256) < 2 ^ 248"
  shows "decode_data_type_and_cost (or (push_bit 8 c) (ucast t)) = (t, c)"
proof -
  have high: "\<not> bit c n" if "248 \<le> n" for n
  proof -
    have "take_bit 248 c = c" using assms by (simp add: word_unat_eq_iff unsigned_take_bit_eq take_bit_nat_eq_self)
    then show ?thesis using that by (metis bit_take_bit_iff not_less)
  qed
  have "ucast (and (or (push_bit 8 c) (ucast t)) 255) = t"
  proof (rule bit_word_eqI)
    fix n assume "n < LENGTH(8)"
    then have n: "n < 8" by simp
    have "(255 :: u256) = mask 8" by (simp add: mask_eq_exp_minus_1)
    then have "bit (255 :: u256) n" using n by (simp only: bit_mask_iff) simp
    then show "bit (ucast (and (or (push_bit 8 c) (ucast t)) 255) :: u8) n = bit t n"
      using n by (simp add: bit_ucast_iff bit_and_iff bit_or_iff bit_push_bit_iff)
  qed
  moreover have "drop_bit 8 (or (push_bit 8 c) (ucast t)) = c"
  proof (rule bit_word_eqI)
    fix n assume n: "n < LENGTH(256)"
    show "bit (drop_bit 8 (or (push_bit 8 c) (ucast t))) n = bit c n"
    proof (cases "n < 248")
      case True
      moreover have "\<not> bit t (8 + n)" using bit_imp_le_length [of t "8 + n"] by auto
      ultimately show ?thesis by (simp add: bit_drop_bit_eq bit_or_iff bit_push_bit_iff bit_ucast_iff)
    next
      case False
      moreover have "\<not> bit (or (push_bit 8 c) (ucast t)) (8 + n)"
        using False bit_imp_le_length [of "or (push_bit 8 c) (ucast t)" "8 + n"] by auto
      moreover have "bit (drop_bit 8 (or (push_bit 8 c) (ucast t))) n = bit (or (push_bit 8 c) (ucast t)) (8 + n)"
        by (simp only: bit_drop_bit_eq comp_apply)
      ultimately show ?thesis using high [of n] False by simp
    qed
  qed
  ultimately show ?thesis by (simp add: decode_data_type_and_cost_def)
qed

lemma try_for_each_Ok: "try_for_each f xs = Ok () \<longleftrightarrow> (\<forall>x \<in> set xs. f x = Ok ())"
  by (simp add: try_for_each_eq_Ok)

lemma verify_signatures_Ok:
  assumes "verify_signatures E ts pool = Ok ()" "n \<in> set (mcp_candidate_nodes pool)"
  shows "mc_verify_signature E n" "mc_timestamp n = ts"
    and "n' \<in> set (mcp_candidate_nodes pool) \<Longrightarrow>
      qm_data_type (mc_quoting_metrics n) = qm_data_type (mc_quoting_metrics n') \<and>
      qm_data_size (mc_quoting_metrics n) = qm_data_size (mc_quoting_metrics n')"
  using assms
  by (auto simp: verify_signatures_def and_then_eq_Ok try_for_each_eq_Ok Let_def split: if_splits list.splits)

lemma validate_timestamp_Ok:
  assumes "validate_payment_timestamp clock ts pool_ts = Ok ()"
  obtains now where "clock = Some now" "pool_ts = ts" "ts \<le> word_of_nat (system_secs now)"
    "word_of_nat (system_secs now) - ts \<le> MERKLE_PAYMENT_EXPIRATION"
  using assms by (auto simp: validate_payment_timestamp_def and_then_eq_Ok ok_or_eq_Ok Let_def not_less split: if_splits)

lemma verify_merkle_proof_Ok:
  "verify_merkle_proof E M clock a b w d r ts = Ok () \<longleftrightarrow>
   validate_payment_timestamp clock ts (mp_timestamp w) = Ok () \<and> branch_depth b = unat d \<and>
   branch_depth (mp_branch w) = midpoint_proof_depth (unat d) \<and> branch_verify E M b \<and> branch_verify E M (mp_branch w) \<and>
   a = unsalted_leaf_hash b \<and> branch_root b = r \<and> branch_root (mp_branch w) = r"
  by (auto simp: verify_merkle_proof_def and_then_eq_Ok Let_def)

section \<open>Properties\<close>

text \<open>C13: What a client builds, a node accepts: for any two to 256 addresses, whatever the salts and the
  padding, the tree is built, it has a reward candidate for each node half way up, and for every
  address and every reward candidate the address proof is generated and passes the node's check against the
  tree's root and depth, from the time of the payment until a week later.\<close>

theorem generated_proofs_are_accepted:
  assumes laws: "merkle_laws E M" and count: "2 \<le> length xs" "length xs \<le> MAX_LEAVES"
    and time: "unat ts \<le> system_secs now" "system_secs now \<le> unat ts + 604800" "system_secs now < 2 ^ 64"
  shows "\<exists>t candidates. from_xornames E M salt dummy xs = Ok t \<and> reward_candidates M t ts = Ok candidates \<and>
    length candidates = expected_reward_pools (mt_depth t) \<and>
    (\<forall>i < length xs. \<forall>c \<in> set candidates. \<exists>b. generate_address_proof M t i (xs ! i) = Ok b \<and>
       verify_merkle_proof E M (Some now) (xs ! i) b c (word_of_nat (mt_depth t)) (mt_root t) ts = Ok ())"
proof -
  define d where "d = tree_depth (length xs)"
  define ls where "ls = padded_leaves E salt dummy xs"
  have len: "length ls = 2 ^ d" using length_padded_leaves [OF count(1)] by (simp add: ls_def d_def)
  have d8: "unat (word_of_nat d :: u8) = d"
    using tree_depth_le_max [OF count] by (simp add: d_def MAX_MERKLE_DEPTH_def unat_of_nat)
  obtain t where t: "from_xornames E M salt dummy xs = Ok t" "mt_inner t = mk_from_leaves M (concat_and_hash E) ls"
      "mt_depth t = d" "mt_root t = tree_level (hash_pair E) d ls ! 0" "mt_leaf_count t = length xs"
      "mt_salts t = map salt [0..<length xs]"
    using from_xornames_tree [OF laws count, of salt dummy] that by (fastforce simp: d_def ls_def)
  obtain cs where cs: "reward_candidates M t ts = Ok cs" "length cs = expected_reward_pools d"
      "\<And>c. c \<in> set cs \<Longrightarrow> branch_verify E M (mp_branch c) \<and> branch_depth (mp_branch c) = midpoint_proof_depth d \<and>
         branch_root (mp_branch c) = mt_root t \<and> mp_timestamp c = ts"
    using reward_candidates_verify [OF laws len t(2-4)] by blast
  have address: "\<exists>b. generate_address_proof M t i (xs ! i) = Ok b \<and> branch_verify E M b \<and> branch_depth b = d \<and>
      branch_root b = mt_root t \<and> unsalted_leaf_hash b = xs ! i" if i: "i < length xs" for i
  proof -
    let ?b = "from_rs_merkle_proof (tree_path (hash_pair E) ls 0 d i) i (2 ^ d) (xs ! i) (mt_root t) (Some (salt i))"
    have "i < 2 ^ d" using i tree_depth_bounds [OF count(1)] by (simp add: d_def)
    moreover have "ls ! i = salted_leaf E (xs ! i) (salt i)" using nth_padded_leaves [OF i] by (simp add: ls_def)
    ultimately have "branch_verify E M ?b" "generate_address_proof M t i (xs ! i) = Ok ?b"
      using branch_verify_tree_path [OF laws len, where k = 0 and i = i and salt = "Some (salt i)" and leaf = "xs ! i"] merkle_laws_tree(3) [OF laws len, of i] i t
      by (simp_all add: generate_address_proof_def Let_def)
    then show ?thesis by (simp add: branch_depth_def from_rs_merkle_proof_def length_tree_path)
  qed
  have "\<exists>b. generate_address_proof M t i (xs ! i) = Ok b \<and>
      verify_merkle_proof E M (Some now) (xs ! i) b c (word_of_nat (mt_depth t)) (mt_root t) ts = Ok ()"
    if "i < length xs" "c \<in> set cs" for i c
    using address [OF that(1)] cs(3) [OF that(2)] valid_timestamp [OF time] d8 t(3) by (auto simp: verify_merkle_proof_Ok)
  then show ?thesis using t(1,3) cs(1,2) by auto
qed

lemma sample_merkle_laws: "merkle_laws sample_crates sample_merkle_crates"
  unfolding merkle_laws_def by (simp add: sample_merkle_crates_def tree_depth_power)

theorem generated_proofs_are_accepted_witness:
  "\<exists>t candidates. from_xornames sample_crates sample_merkle_crates word_of_nat word_of_nat [5, 6, 7] = Ok t \<and>
     reward_candidates sample_merkle_crates t 1000 = Ok candidates \<and> length candidates = expected_reward_pools (mt_depth t) \<and>
     (\<exists>c \<in> set candidates. \<exists>b. generate_address_proof sample_merkle_crates t 1 6 = Ok b \<and>
        verify_merkle_proof sample_crates sample_merkle_crates (Some (2000 * 10 ^ 9)) 6 b c (word_of_nat (mt_depth t)) (mt_root t) 1000 = Ok ())"
proof -
  obtain t cs where t: "from_xornames sample_crates sample_merkle_crates word_of_nat word_of_nat [5, 6, 7] = Ok t"
      "reward_candidates sample_merkle_crates t 1000 = Ok cs" "length cs = expected_reward_pools (mt_depth t)"
      "\<forall>i < length [5, 6, 7 :: xor_name]. \<forall>c \<in> set cs. \<exists>b. generate_address_proof sample_merkle_crates t i ([5, 6, 7] ! i) = Ok b \<and>
        verify_merkle_proof sample_crates sample_merkle_crates (Some (2000 * 10 ^ 9)) ([5, 6, 7] ! i) b c
          (word_of_nat (mt_depth t)) (mt_root t) 1000 = Ok ()"
    using generated_proofs_are_accepted [OF sample_merkle_laws, of "[5, 6, 7]" 1000 "2000 * 10 ^ 9" word_of_nat word_of_nat]
    by (auto simp: MAX_LEAVES_def MAX_MERKLE_DEPTH_def system_secs_def)
  have "cs \<noteq> []" using t(3) by (auto simp: expected_reward_pools_def)
  then obtain c where "c \<in> set cs" by (cases cs) auto
  then show ?thesis using t(1-3) t(4) [rule_format, of 1 c] by auto
qed

text \<open>C14: A Merkle payment that a node accepts is what it claims: the candidates of the winning pool
  have each signed their metrics, their rewards address and the payment's timestamp for the same kind and
  size of data; the pool is the one the contract paid; the address is the leaf of a proof of the
  contract's depth that verifies against the root of the pool's own proof; as many nodes were paid as
  the tree is deep, each of them a candidate with the paid address and a peer identity; and the payment
  is at most a week old.\<close>

theorem accepted_merkle_payment:
  assumes "merkle_proof_verify E M clock depth ts pool_hash paid p = Ok ()"
  shows "(\<forall>n \<in> set (mcp_candidate_nodes (mpp_winner_pool p)). mc_verify_signature E n \<and> mc_timestamp n = ts) \<and>
    (\<forall>n \<in> set (mcp_candidate_nodes (mpp_winner_pool p)). \<forall>n' \<in> set (mcp_candidate_nodes (mpp_winner_pool p)).
       qm_data_type (mc_quoting_metrics n) = qm_data_type (mc_quoting_metrics n') \<and>
       qm_data_size (mc_quoting_metrics n) = qm_data_size (mc_quoting_metrics n')) \<and>
    winner_pool_hash E p = pool_hash \<and>
    mpp_address p = unsalted_leaf_hash (mpp_data_proof p) \<and>
    branch_depth (mpp_data_proof p) = unat depth \<and> branch_verify E M (mpp_data_proof p) \<and>
    branch_verify E M (mp_branch (mcp_midpoint_proof (mpp_winner_pool p))) \<and>
    branch_root (mpp_data_proof p) = branch_root (mp_branch (mcp_midpoint_proof (mpp_winner_pool p))) \<and>
    length paid = unat depth \<and>
    (\<forall>(address, i) \<in> set paid. i < length (mcp_candidate_nodes (mpp_winner_pool p)) \<and>
       mc_reward_address (mcp_candidate_nodes (mpp_winner_pool p) ! i) = address \<and>
       mc_peer_id E (mcp_candidate_nodes (mpp_winner_pool p) ! i) \<noteq> None) \<and>
    (\<exists>now. clock = Some now \<and> ts \<le> word_of_nat (system_secs now) \<and>
       word_of_nat (system_secs now) - ts \<le> MERKLE_PAYMENT_EXPIRATION)"
proof -
  let ?nodes = "mcp_candidate_nodes (mpp_winner_pool p)"
  have sig: "verify_signatures E ts (mpp_winner_pool p) = Ok ()"
    and hash: "candidate_pool_hash E (mpp_winner_pool p) = pool_hash"
    and tree: "verify_merkle_proof E M clock (mpp_address p) (mpp_data_proof p) (mcp_midpoint_proof (mpp_winner_pool p)) depth
        (branch_root (mp_branch (mcp_midpoint_proof (mpp_winner_pool p)))) ts = Ok ()"
    and len: "length paid = unat depth"
    and ids: "\<exists>ids. corresponding_peer_ids E paid p = Ok ids"
    using assms by (auto simp: merkle_proof_verify_def and_then_eq_Ok map_err_eq_Ok Let_def split: if_splits)
  obtain ids where "try_map (corresponding_peer_id E ?nodes) paid = Ok ids"
    using ids by (auto simp: corresponding_peer_ids_def)
  then have paid: "\<exists>pid. corresponding_peer_id E ?nodes e = Ok pid" if "e \<in> set paid" for e
    using that by (auto simp: try_map_eq_Ok in_set_conv_nth list_all2_conv_all_nth)
  have each: "i < length ?nodes \<and> mc_reward_address (?nodes ! i) = address \<and> mc_peer_id E (?nodes ! i) \<noteq> None"
    if "(address, i) \<in> set paid" for address i
    using paid [OF that] by (auto simp: corresponding_peer_id_def Let_def ok_or_eq_Ok split: if_splits)
  note facts = tree [unfolded verify_merkle_proof_Ok]
  obtain now where "clock = Some now" "ts \<le> word_of_nat (system_secs now)"
      "word_of_nat (system_secs now) - ts \<le> MERKLE_PAYMENT_EXPIRATION"
    using facts validate_timestamp_Ok [of clock ts] by metis
  then show ?thesis
    using verify_signatures_Ok [OF sig] hash facts len each unfolding winner_pool_hash_def by blast
qed

lemma sample_pool_nodes: "set (mcp_candidate_nodes sample_pool) = {sample_candidate}" "mcp_candidate_nodes sample_pool ! 0 = sample_candidate"
  "length (mcp_candidate_nodes sample_pool) = 16" "hd (mcp_candidate_nodes sample_pool) = sample_candidate"
  by (simp_all add: sample_pool_def CANDIDATES_PER_POOL_def)

lemma sample_signatures: "verify_signatures sample_crates 1000 sample_pool = Ok ()"
proof -
  obtain ns where ns: "mcp_candidate_nodes sample_pool = sample_candidate # ns"
    using sample_pool_nodes(3,4) by (cases "mcp_candidate_nodes sample_pool") auto
  have "mc_verify_signature sample_crates sample_candidate"
    by (simp add: mc_verify_signature_def sample_candidate_def sample_crates_def)
  moreover have "mc_timestamp sample_candidate = 1000" by (simp add: sample_candidate_def)
  moreover have "n = sample_candidate" if "n \<in> set (sample_candidate # ns)" for n
    using that sample_pool_nodes(1) unfolding ns by blast
  ultimately show ?thesis
    unfolding verify_signatures_def ns list.case by (auto simp: try_for_each_eq_Ok and_then_eq_Ok Let_def)
qed

lemma sample_merkle_verified:
  "merkle_proof_verify sample_crates sample_merkle_crates (Some (2000 * 10 ^ 9)) 1 1000
     (candidate_pool_hash sample_crates sample_pool) [(3, 0)] sample_merkle_payment = Ok ()"
proof -
  have pool: "mpp_winner_pool sample_merkle_payment = sample_pool" "mpp_address sample_merkle_payment = 5"
    "mpp_data_proof sample_merkle_payment = sample_branch"
    "mcp_midpoint_proof sample_pool = \<lparr>mp_branch = sample_branch, mp_timestamp = 1000\<rparr>"
    by (simp_all add: sample_merkle_payment_def merkle_payment_proof_new_def sample_pool_def)
  have branch: "branch_verify sample_crates sample_merkle_crates sample_branch" "branch_depth sample_branch = 1"
    "unsalted_leaf_hash sample_branch = 5"
    by (simp_all add: branch_verify_def branch_depth_def sample_branch_def from_rs_merkle_proof_def sample_merkle_crates_def)
  have time: "validate_payment_timestamp (Some (2000 * 10 ^ 9)) 1000 1000 = Ok ()"
    by (rule valid_timestamp) (simp_all add: system_secs_def)
  have "verify_merkle_proof sample_crates sample_merkle_crates (Some (2000 * 10 ^ 9)) 5 sample_branch
      \<lparr>mp_branch = sample_branch, mp_timestamp = 1000\<rparr> 1 (branch_root sample_branch) 1000 = Ok ()"
    using branch time by (simp add: verify_merkle_proof_Ok midpoint_proof_depth_def div_ceil_def)
  moreover have "corresponding_peer_ids sample_crates [(3, 0)] sample_merkle_payment = Ok [PeerId [7]]"
    using sample_pool_nodes(2,3)
    by (simp add: corresponding_peer_ids_def corresponding_peer_id_def pool sample_candidate_def mc_peer_id_def sample_crates_def)
  ultimately show ?thesis
    using sample_signatures by (simp add: merkle_proof_verify_def pool)
qed

theorem accepted_merkle_payment_witness:
  "length [(3 :: evm_address, 0 :: nat)] = unat (1 :: u8) \<and>
   branch_root (mpp_data_proof sample_merkle_payment) = branch_root (mp_branch (mcp_midpoint_proof sample_pool))"
  using accepted_merkle_payment [OF sample_merkle_verified]
  by (simp add: sample_merkle_payment_def merkle_payment_proof_new_def)

text \<open>The packed form of a kind of data and its cost is read back as what was packed, and packing fails
  exactly when the cost needs more than 248 bits.\<close>

theorem cost_packing_round_trip:
  "(\<forall>packed. encode_data_type_and_cost t c = Ok packed \<longrightarrow> decode_data_type_and_cost packed = (t, c)) \<and>
   (encode_data_type_and_cost t c = Err CostUnitOverflowError \<longleftrightarrow> 2 ^ 248 \<le> unat c)"
proof (cases "unat c < 2 ^ 248")
  case True
  then show ?thesis using encode_cost [OF True, of t] decode_encoded [OF True, of t] by simp
next
  case False
  have "unat (push_bit 248 1 :: u256) = 2 ^ 248" by (simp add: push_bit_eq_mult)
  then have "push_bit TOTAL_COST_UNIT_BITS 1 \<le> c"
    using False by (simp add: word_le_nat_alt TOTAL_COST_UNIT_BITS_def)
  then show ?thesis using False by (simp add: encode_data_type_and_cost_def)
qed

theorem cost_packing_round_trip_witness:
  "encode_data_type_and_cost 2 1000 = Ok 256002 \<and> decode_data_type_and_cost 256002 = (2, 1000)"
proof -
  have "encode_data_type_and_cost 2 1000 = Ok 256002"
    by (simp add: encode_cost push_bit_eq_mult)
  then show ?thesis using cost_packing_round_trip [of 2 1000] by blast
qed

lemma encode_metrics:
  "length (qm_records_per_type m) < 2 ^ 64 \<Longrightarrow>
   encode_data_type_and_cost (data_type_conversion (qm_data_type m)) (calculate_total_cost_unit m) = Ok (expected_packed m)"
  using total_cost_unit_value(2) [of m] by (simp add: encode_cost expected_packed_def)

lemma to_commitment_packed_value:
  assumes "\<forall>n \<in> set (mcp_candidate_nodes pool). length (qm_records_per_type (mc_quoting_metrics n)) < 2 ^ 64"
  shows "to_commitment_packed E pool = Ok \<lparr>pp_pool_hash = candidate_pool_hash E pool, pp_candidates =
     map (\<lambda>n. \<lparr>cp_rewards_address = mc_reward_address n, data_type_and_total_cost_unit = expected_packed (mc_quoting_metrics n)\<rparr>)
       (mcp_candidate_nodes pool)\<rparr>"
proof -
  have "try_map candidate_to_packed (map (\<lambda>n. \<lparr>cn_rewards_address = mc_reward_address n, cn_metrics = mc_quoting_metrics n\<rparr>)
        (mcp_candidate_nodes pool)) =
      Ok (map (\<lambda>c. \<lparr>cp_rewards_address = cn_rewards_address c, data_type_and_total_cost_unit = expected_packed (cn_metrics c)\<rparr>)
        (map (\<lambda>n. \<lparr>cn_rewards_address = mc_reward_address n, cn_metrics = mc_quoting_metrics n\<rparr>) (mcp_candidate_nodes pool)))"
    using assms by (intro try_map_map) (auto simp: candidate_to_packed_def encode_metrics)
  then show ?thesis
    by (simp add: to_commitment_packed_def commitment_to_packed_def to_commitment_def comp_def)
qed

lemma ball_enumerate: "(\<forall>x \<in> set (enumerate 0 xs). P x) \<longleftrightarrow> (\<forall>i < length xs. P (i, xs ! i))"
  by (auto simp: in_set_enumerate_eq)

lemma verify_cost_unit_Ok:
  assumes "length (qm_records_per_type (mc_quoting_metrics n)) < 2 ^ 64"
  shows "verify_cost_unit (i, c, n) = Ok () \<longleftrightarrow> data_type_and_total_cost_unit c = expected_packed (mc_quoting_metrics n)"
  using assms by (simp add: verify_cost_unit_def Let_def encode_metrics)

text \<open>C16: The node's check of the cost units on chain is exact: packing the commitment of a pool never
  fails, and a list of commitments passes if and only if the first one with the winner's hash carries
  for every candidate the very value that the commitment of the signed pool packs.\<close>

theorem cost_units_are_enforced:
  assumes wf: "\<forall>n \<in> set (mcp_candidate_nodes pool). length (qm_records_per_type (mc_quoting_metrics n)) < 2 ^ 64"
    and len: "pool_wf pool" "\<forall>c \<in> set on_chain. length (pp_candidates c) = CANDIDATES_PER_POOL"
  shows "\<exists>honest. to_commitment_packed E pool = Ok honest \<and>
    (verify_cost_units on_chain hash pool = Ok () \<longleftrightarrow>
     (\<exists>c. find (\<lambda>pc. pp_pool_hash pc = hash) on_chain = Some c \<and>
        map data_type_and_total_cost_unit (pp_candidates c) = map data_type_and_total_cost_unit (pp_candidates honest)))"
proof -
  let ?ns = "mcp_candidate_nodes pool"
  let ?expect = "map (\<lambda>n. expected_packed (mc_quoting_metrics n)) ?ns"
  have "verify_cost_units on_chain hash pool = Ok () \<longleftrightarrow>
     (\<exists>c. find (\<lambda>pc. pp_pool_hash pc = hash) on_chain = Some c \<and>
        map data_type_and_total_cost_unit (pp_candidates c) = ?expect)"
  proof (cases "find (\<lambda>pc. pp_pool_hash pc = hash) on_chain")
    case None
    then show ?thesis by (simp add: verify_cost_units_def)
  next
    case (Some c)
    then have "length (pp_candidates c) = length ?ns"
      using len by (auto simp: pool_wf_def find_Some_iff)
    moreover have "length (qm_records_per_type (mc_quoting_metrics (?ns ! i))) < 2 ^ 64" if "i < length ?ns" for i
      using wf nth_mem [OF that] by blast
    ultimately have "(\<forall>x \<in> set (enumerate 0 (zip (pp_candidates c) ?ns)). verify_cost_unit x = Ok ()) \<longleftrightarrow>
        map data_type_and_total_cost_unit (pp_candidates c) = ?expect"
      unfolding ball_enumerate by (simp add: list_eq_iff_nth_eq verify_cost_unit_Ok)
    then show ?thesis using Some by (simp add: verify_cost_units_def try_for_each_eq_Ok)
  qed
  then show ?thesis using to_commitment_packed_value [OF wf, of E] by (auto simp: comp_def)
qed

theorem cost_units_are_enforced_witness:
  "\<exists>honest. to_commitment_packed sample_crates sample_pool = Ok honest \<and>
     verify_cost_units [honest] (pp_pool_hash honest) sample_pool = Ok ()"
proof -
  have small: "\<forall>n \<in> set (mcp_candidate_nodes sample_pool). length (qm_records_per_type (mc_quoting_metrics n)) < 2 ^ 64"
    by (simp add: sample_pool_nodes sample_candidate_def sample_metrics_def)
  have wf: "pool_wf sample_pool" by (simp add: pool_wf_def sample_pool_nodes CANDIDATES_PER_POOL_def)
  obtain c where c: "to_commitment_packed sample_crates sample_pool = Ok c" "length (pp_candidates c) = CANDIDATES_PER_POOL"
    using to_commitment_packed_value [OF small, of sample_crates] wf by (simp add: pool_wf_def)
  then show ?thesis
    using cost_units_are_enforced [OF small wf, of "[c]" sample_crates "pp_pool_hash c"] by auto
qed

text \<open>The depth of a tree is the logarithm of its number of leaves rounded up, at most eight for
  the sizes allowed, its midpoints lie half way up, and the two crates that compute the number of reward
  pools agree.\<close>

theorem tree_depth_is_log:
  assumes "MIN_LEAVES \<le> n"
  shows "2 ^ (tree_depth n - 1) < n \<and> n \<le> 2 ^ tree_depth n \<and>
    (n \<le> MAX_LEAVES \<longrightarrow> tree_depth n \<le> MAX_MERKLE_DEPTH) \<and>
    midpoint_level (tree_depth n) + midpoint_proof_depth (tree_depth n) = tree_depth n \<and>
    expected_reward_pools (tree_depth n) = evmlib_expected_reward_pools (tree_depth n)"
  using assms tree_depth_bounds [of n] tree_depth_le_max [of n] midpoint_levels(1)
  by (auto simp: MIN_LEAVES_def expected_reward_pools_def evmlib_expected_reward_pools_def midpoint_proof_depth_def)

theorem tree_depth_is_log_witness: "tree_depth 100 \<le> 8 \<and> (100 :: nat) \<le> 2 ^ tree_depth 100"
  using tree_depth_is_log [of 100] by (simp add: MIN_LEAVES_def MAX_LEAVES_def MAX_MERKLE_DEPTH_def)

text \<open>C29: The cost of a candidate is zero exactly when it holds no record of a known kind and quotes for
  an unknown kind of data; every other candidate has a positive cost.\<close>

theorem zero_cost_unit:
  assumes "length (qm_records_per_type m) < 2 ^ 64"
  shows "calculate_total_cost_unit m = 0 \<longleftrightarrow>
    (\<forall>(t, n) \<in> set (qm_records_per_type m). n = 0 \<or> t \<notin> {0, 1, 2, 3}) \<and> qm_data_type m \<notin> {0, 1, 2, 3}"
proof -
  have zero: "type_cost (t, n) = 0 \<longleftrightarrow> n = 0 \<or> t \<notin> {0, 1, 2, 3}" for t n
    using cost_unit_zero [of t] by (auto simp: type_cost_def unat_eq_0)
  have "sum_list (map type_cost (qm_records_per_type m)) = 0 \<longleftrightarrow>
      (\<forall>(t, n) \<in> set (qm_records_per_type m). n = 0 \<or> t \<notin> {0, 1, 2, 3})"
    unfolding sum_list_eq_0_iff using zero by fastforce
  moreover have "unat (cost_unit_for_data_type (data_type_conversion (qm_data_type m))) = 0 \<longleftrightarrow> qm_data_type m \<notin> {0, 1, 2, 3}"
    using cost_unit_zero by (simp add: unat_eq_0)
  moreover have "unat (calculate_total_cost_unit m) = 0 \<longleftrightarrow> sum_list (map type_cost (qm_records_per_type m)) = 0 \<and>
      unat (cost_unit_for_data_type (data_type_conversion (qm_data_type m))) = 0"
    unfolding total_cost_unit_value(1) [OF assms] Let_def by (simp del: sum_list_eq_0_iff)
  ultimately show ?thesis unfolding unat_eq_0 by (simp only:)
qed

theorem zero_cost_unit_witness:
  "calculate_total_cost_unit (sample_metrics\<lparr>qm_data_type := 7, qm_records_per_type := []\<rparr>) = 0"
  using zero_cost_unit [of "sample_metrics\<lparr>qm_data_type := 7, qm_records_per_type := []\<rparr>"]
  by (simp add: sample_metrics_def)

end
