(* ===== verification/Put_Validation_Props.thy ===== *)
theory Put_Validation_Props
  imports Put_Validation Merkle_Payment_Props
begin

text \<open>
  What the put handlers of a node guarantee, whatever the local store, the network and the chain answer
  while they run: which records they hand to the store, that a rejected record changes nothing, that new
  data is not stored without a confirmed payment, and what an accepted Merkle payment was checked for.
  The contract of the storing steps is the locale \<open>put_policy\<close>: a predicate on records that every record
  the storing steps build satisfies.
\<close>

section \<open>Specification and examples\<close>

definition puts :: "local_swarm_cmd list \<Rightarrow> (kad_record \<times> bool) list" where
  "puts cs = filter_map (\<lambda>c. case c of LC_PutLocalRecord r b \<Rightarrow> Some (r, b) | _ \<Rightarrow> None) cs"

text \<open>A handler either stores nothing, or succeeds and stores one record, at the key of the request.\<close>

definition put_outcome ::
  "(kad_record \<Rightarrow> bool) \<Rightarrow> record_key \<Rightarrow> bool \<Rightarrow> (unit, put_validation_error) result \<Rightarrow> local_swarm_cmd list \<Rightarrow> bool" where
  "put_outcome Q key is_client_put res cs \<longleftrightarrow>
     puts cs = [] \<or> (\<exists>r. res = Ok () \<and> puts cs = [(r, is_client_put)] \<and> rkey r = key \<and> Q r)"

definition chunk_key :: "crates \<Rightarrow> chunk \<Rightarrow> record_key" where
  "chunk_key E c = to_record_key E (NA_ChunkAddress (ch_address c))"

definition pad_key :: "crates \<Rightarrow> scratchpad \<Rightarrow> record_key" where
  "pad_key E p = to_record_key E (NA_ScratchpadAddress (sp_address p))"

definition entry_key :: "crates \<Rightarrow> graph_entry \<Rightarrow> record_key" where
  "entry_key E g = to_record_key E (NA_GraphEntryAddress (ge_address g))"

definition pointer_key :: "crates \<Rightarrow> pointer \<Rightarrow> record_key" where
  "pointer_key E p = to_record_key E (NA_PointerAddress (pt_address p))"

definition quiet :: "('w, 'a) task \<Rightarrow> bool" where
  "quiet m \<longleftrightarrow> yields m (\<lambda>_ cs. puts cs = [])"

text \<open>What a task has sent, and what its codecs are assumed to do: what was written is read back, and
  nothing is written as no bytes.\<close>

definition sent_by :: "('w, 'a) task \<Rightarrow> 'w task_state \<Rightarrow> local_swarm_cmd list" where
  "sent_by m s = drop (length (ts_sent s)) (ts_sent (snd (run_state m s)))"

definition codec_law :: "('a \<Rightarrow> bytes option) \<Rightarrow> (bytes \<Rightarrow> 'a option) \<Rightarrow> bool" where
  "codec_law to_vec from_slice \<longleftrightarrow> (\<forall>x bs. to_vec x = Some bs \<longrightarrow> bs \<noteq> [] \<and> from_slice bs = Some x)"

definition codec_laws :: "record_codecs \<Rightarrow> bool" where
  "codec_laws C \<longleftrightarrow>
     codec_law (rc_chunk_to_vec C) (rc_chunk_from_slice C) \<and>
     codec_law (rc_scratchpad_to_vec C) (rc_scratchpad_from_slice C) \<and>
     codec_law (rc_graph_entries_to_vec C) (rc_graph_entries_from_slice C) \<and>
     codec_law (rc_pointer_to_vec C) (rc_pointer_from_slice C)"

text \<open>A record the network may rely on: it holds data without a payment, and the data is what its key and
  its signatures say.\<close>

definition valid_record :: "crates \<Rightarrow> record_codecs \<Rightarrow> kad_record \<Rightarrow> bool" where
  "valid_record E C r =
    (case header_from_record E r of
       Err _ \<Rightarrow> False
     | Ok h \<Rightarrow>
        (case kind h of
           DataOnly DT_Chunk \<Rightarrow>
            (case try_deserialize_record (rc_chunk_from_slice C) r of
               Ok v \<Rightarrow> rkey r = xor_to_vec (from_content E v) \<and> length v \<le> CHUNK_MAX_SIZE
             | Err _ \<Rightarrow> False)
         | DataOnly DT_Scratchpad \<Rightarrow>
            (case try_deserialize_record (rc_scratchpad_from_slice C) r of
               Ok pad \<Rightarrow> rkey r = pad_key E pad \<and> sp_verify_signature E pad \<and> \<not> sp_is_too_big E pad
             | Err _ \<Rightarrow> False)
         | DataOnly DT_Pointer \<Rightarrow>
            (case try_deserialize_record (rc_pointer_from_slice C) r of
               Ok p \<Rightarrow> rkey r = pointer_key E p \<and> pt_verify_signature E p
             | Err _ \<Rightarrow> False)
         | DataOnly DT_GraphEntry \<Rightarrow>
            (case try_deserialize_record (rc_graph_entries_from_slice C) r of
               Ok es \<Rightarrow> es \<noteq> [] \<and> distinct es \<and> sorted es \<and> list_all (\<lambda>g. rkey r = entry_key E g \<and> ge_verify_signature E g) es
             | Err _ \<Rightarrow> False)
         | _ \<Rightarrow> False))"

text \<open>The graph entries the local store answers with were validated when they were stored.\<close>

definition local_entries_valid :: "('t, 'w) node \<Rightarrow> bool" where
  "local_entries_valid N \<longleftrightarrow> (\<forall>k w r es.
     fst (nw_local_record (nd_network N) k w) = Ok (Some r) \<longrightarrow>
     try_deserialize_record (rc_graph_entries_from_slice (nd_codecs N)) r = Ok es \<longrightarrow>
     list_all (\<lambda>g. entry_key (nd_crates N) g = k \<and> ge_verify_signature (nd_crates N) g) es)"

definition fails :: "('w, ('a, 'e) result) task \<Rightarrow> bool" where
  "fails m \<longleftrightarrow> yields m (\<lambda>res cs. puts cs = [] \<and> \<not> is_ok res)"

text \<open>A chain that confirms no payment, and a store that does not hold the record.\<close>

definition nothing_paid :: "('t, 'w) node \<Rightarrow> bool" where
  "nothing_paid N \<longleftrightarrow>
     (\<forall>vs w rs. fst (call_verify_payment (nd_evm N) vs w) = Ok rs \<longrightarrow> (\<exists>r\<in>set rs. \<not> pvr_is_valid r)) \<and>
     (\<forall>vault h w info. fst (call_get_payment_info (nd_evm N) vault h w) = Ok info \<longrightarrow> cpi_depth info = 0)"

definition never_held :: "('t, 'w) node \<Rightarrow> record_key \<Rightarrow> bool" where
  "never_held N k \<longleftrightarrow> (\<forall>w. fst (nw_record_store_has_key (nd_network N) k w) \<noteq> Some True)"

text \<open>A node whose store is a map, delivered to at once, with a chain and codecs that witness the
  hypotheses above. The codecs write fixed-width fields one after another.\<close>

definition map_network :: "(record_key, kad_record) hash_map network_api" where
  "map_network = \<lparr>
     nw_deliver = (\<lambda>c w. case c of LC_PutLocalRecord r _ \<Rightarrow> AList.update (rkey r) r w | _ \<Rightarrow> w),
     nw_record_store_has_key = (\<lambda>k w. (Some (contains_key w k), w)),
     nw_local_record = (\<lambda>k w. (Ok (map_of w k), w)),
     nw_k_close_local_peers = (\<lambda>_ w. (Some [], w)),
     nw_network_density = (\<lambda>w. (Some None, w)),
     nw_get_closest_from_network = (\<lambda>_ _ w. (Some [(PeerId [7], Addresses [])], w)),
     nw_requests = (\<lambda>_ w. ([], w)),
     nw_backoff = (\<lambda>_ _ _. [Some 2, None]),
     nw_sleep = (\<lambda>_ w. w)\<rparr>"

definition sample_evm :: "(payment_verification list \<Rightarrow> payment_verification_result list) \<Rightarrow> contract_payment_info \<Rightarrow>
    pool_commitment_packed list \<Rightarrow> 'w evm_api" where
  "sample_evm results info commitments = \<lparr>
     merkle_payments_address = Some 1,
     call_verify_payment = (\<lambda>vs w. (Ok (results vs), w)),
     call_get_payment_info = (\<lambda>_ _ w. (Ok info, w)),
     get_block_number = (\<lambda>w. (Ok 500000, w)),
     query_payment_made = (\<lambda>_ _ _ _ w. (Ok [Some 9], w)),
     get_transaction_input = (\<lambda>_ w. (Ok (Some []), w)),
     decode_pay_for_merkle_tree2 = (\<lambda>_. Ok commitments),
     unix_now = (\<lambda>w. (Some (2000 * 10 ^ 9), w))\<rparr>"

definition sample_pad_from_slice :: "bytes \<Rightarrow> scratchpad option" where
  "sample_pad_from_slice bs = (if length bs = 152 then
     Some (sp_new_with_signature (of_be_bytes (take 48 bs)) 0 [] (of_be_bytes (take 8 (drop 48 bs))) (of_be_bytes (drop 56 bs))) else None)"

definition sample_codecs :: record_codecs where
  "sample_codecs = \<lparr>
     rc_chunk_to_vec = (\<lambda>v. Some (1 # v)),
     rc_chunk_from_slice = (\<lambda>bs. Some (tl bs)),
     rc_paid_chunk_from_slice = (\<lambda>bs. Some (ProofOfPayment [], tl bs)),
     rc_merkle_chunk_from_slice = (\<lambda>bs. Some (sample_merkle_payment, tl bs)),
     rc_scratchpad_to_vec = (\<lambda>p. if sp_data_encoding p = 0 \<and> sp_encrypted_data p = [] then
       Some (be_bytes 48 (sp_owner p) @ be_bytes 8 (sp_counter p) @ be_bytes 96 (sp_signature p)) else None),
     rc_scratchpad_from_slice = sample_pad_from_slice,
     rc_paid_scratchpad_from_slice = (\<lambda>_. None),
     rc_merkle_scratchpad_from_slice = (\<lambda>bs. map_option (Pair sample_merkle_payment) (sample_pad_from_slice bs)),
     rc_graph_entries_to_vec = (\<lambda>es. case es of
         [GraphEntry pk [] c [] sig] \<Rightarrow> Some (be_bytes 48 pk @ be_bytes 32 c @ be_bytes 96 sig) | _ \<Rightarrow> None),
     rc_graph_entries_from_slice = (\<lambda>bs. if length bs = 176 then
       Some [GraphEntry (of_be_bytes (take 48 bs)) [] (of_be_bytes (take 32 (drop 48 bs))) [] (of_be_bytes (drop 80 bs))] else None),
     rc_paid_graph_entry_from_slice = (\<lambda>_. None),
     rc_merkle_graph_entry_from_slice = (\<lambda>_. None),
     rc_pointer_to_vec = (\<lambda>p. case pt_target p of
         PT_ChunkAddress (ChunkAddr x) \<Rightarrow>
           Some (be_bytes 48 (pt_owner p) @ be_bytes 8 (pt_counter p) @ be_bytes 32 x @ be_bytes 96 (pt_signature p))
       | _ \<Rightarrow> None),
     rc_pointer_from_slice = (\<lambda>bs. if length bs = 184 then
       Some \<lparr>pt_owner = of_be_bytes (take 48 bs), pt_counter = of_be_bytes (take 8 (drop 48 bs)),
         pt_target = PT_ChunkAddress (ChunkAddr (of_be_bytes (take 32 (drop 56 bs)))), pt_signature = of_be_bytes (drop 88 bs)\<rparr> else None),
     rc_paid_pointer_from_slice = (\<lambda>_. None),
     rc_merkle_pointer_from_slice = (\<lambda>_. None)\<rparr>"

definition sample_node :: "contract_payment_info \<Rightarrow> pool_commitment_packed list \<Rightarrow>
    (hash32 list, (record_key, kad_record) hash_map) node" where
  "sample_node info commitments = \<lparr>nd_crates = sample_crates, nd_payments = sample_payment_crates,
     nd_merkle = sample_merkle_crates, nd_codecs = sample_codecs, nd_network = map_network,
     nd_evm = sample_evm (map (\<lambda>v. \<lparr>pvr_quote_hash = pv_quote_hash v, pvr_amount_paid = 0, pvr_is_valid = False\<rparr>)
        \<circ> (\<lambda>vs. if vs = [] then [\<lparr>pv_metrics = sample_metrics, pv_rewards_address = 0, pv_quote_hash = 0\<rparr>] else vs)) info commitments,
     nd_peer_id = PeerId [7]\<rparr>"

definition holding :: "(record_key, kad_record) hash_map \<Rightarrow> contract_payment_info \<Rightarrow> pool_commitment_packed list \<Rightarrow>
    (hash32 list, (record_key, kad_record) hash_map) node" where
  "holding fixed info commitments = (sample_node info commitments)\<lparr>nd_network :=
     map_network\<lparr>nw_local_record := (\<lambda>k w. (Ok (map_of fixed k), w)),
       nw_record_store_has_key := (\<lambda>k w. (Some (contains_key fixed k), w))\<rparr>\<rparr>"

definition unpaid_info :: contract_payment_info where
  "unpaid_info = \<lparr>cpi_depth = 0, cpi_timestamp = 0, cpi_paid_nodes = []\<rparr>"

definition empty_task :: "'w \<Rightarrow> 'w task_state" where
  "empty_task w = \<lparr>ts_world = w, ts_sent = []\<rparr>"

text \<open>The sample payment, confirmed by a chain that records it.\<close>

definition paid_info :: contract_payment_info where
  "paid_info = \<lparr>cpi_depth = 1, cpi_timestamp = 1000, cpi_paid_nodes = [(3, 0)]\<rparr>"

definition sample_commitment :: pool_commitment_packed where
  "sample_commitment = \<lparr>pp_pool_hash = candidate_pool_hash sample_crates sample_pool, pp_candidates =
     map (\<lambda>n. \<lparr>cp_rewards_address = mc_reward_address n, data_type_and_total_cost_unit = expected_packed (mc_quoting_metrics n)\<rparr>)
       (mcp_candidate_nodes sample_pool)\<rparr>"

abbreviation paying_node :: "(hash32 list, (record_key, kad_record) hash_map) node" where
  "paying_node \<equiv> holding [] paid_info [sample_commitment]"

section \<open>Rules\<close>

lemma puts_simps [simp]:
  "puts [] = []" "puts (a @ b) = puts a @ puts b"
  "puts [LC_PutLocalRecord r c] = [(r, c)]" "puts [LC_FetchCompleted k vt] = []" "puts [LC_PaymentReceived] = []"
  by (induction a) (auto simp: puts_def split: option.split)

lemma put_outcome_prefix [simp]: "puts cs = [] \<Longrightarrow> put_outcome Q k b res (cs @ ds) = put_outcome Q k b res ds"
  by (simp add: put_outcome_def)

lemma put_outcome_none [simp]: "puts cs = [] \<Longrightarrow> put_outcome Q k b res cs"
  by (simp add: put_outcome_def)

lemma plain_record_simps [simp]: "rkey (plain_record k v) = k" "rvalue (plain_record k v) = v"
  by (simp_all add: plain_record_def)

lemma quiet_silent [intro]: "silent m \<Longrightarrow> quiet m"
  unfolding silent_def quiet_def by (erule yields_mono) simp

lemma quiet_return [simp]: "quiet (ret x)"
  by (simp add: quiet_def)

lemma quiet_try_bind: "quiet m \<Longrightarrow> (\<And>x. quiet (f x)) \<Longrightarrow> quiet (try_bind m f)"
  unfolding quiet_def by (erule yields_try_bind) simp_all

lemma quiet_bind: "quiet m \<Longrightarrow> (\<And>x. quiet (f x)) \<Longrightarrow> quiet (State_Monad.bind m f)"
  unfolding quiet_def by (erule yields_bind) simp

lemma quiet_sends [simp]:
  "quiet (notify_payment_received V)" "quiet (notify_fetch_completed V k vt)"
  by (auto simp: quiet_def notify_payment_received_def notify_fetch_completed_def intro!: yields_mono [OF yields_send])

lemma outcome_bind:
  "quiet m \<Longrightarrow> (\<And>x. yields (f x) (put_outcome Q k b)) \<Longrightarrow> yields (State_Monad.bind m f) (put_outcome Q k b)"
  unfolding quiet_def by (erule yields_bind) simp

lemma outcome_try_bind:
  "quiet m \<Longrightarrow> (\<And>x. yields (f x) (put_outcome Q k b)) \<Longrightarrow> yields (try_bind m f) (put_outcome Q k b)"
  unfolding quiet_def by (erule yields_try_bind) simp_all

lemma outcome_put:
  "rkey r = k \<Longrightarrow> Q r \<Longrightarrow>
   yields (State_Monad.bind (put_local_record V r b) (\<lambda>_. ret (Ok ()))) (put_outcome Q k b)"
  unfolding put_local_record_def by (rule yields_bind [OF yields_send]) (simp add: put_outcome_def)

text \<open>What follows a storing step and sends no record keeps its outcome.\<close>

lemma outcome_then:
  assumes "yields m (put_outcome Q k b)" and "\<And>res. yields (f res) (\<lambda>res' cs. puts cs = [] \<and> res' = res)"
  shows "yields (State_Monad.bind m f) (put_outcome Q k b)"
  by (rule yields_bind [OF assms(1)], rule yields_mono [OF assms(2)]) (auto simp: put_outcome_def)

lemma yields_notify_when_ok: "yields (notify_when_ok N k vt res) (\<lambda>res' cs. puts cs = [] \<and> res' = res)"
  unfolding notify_when_ok_def notify_fetch_completed_def
  by (auto intro!: yields_bind [OF yields_send])

lemma yields_cases:
  "(\<And>x. r = Ok x \<Longrightarrow> yields (f x) R) \<Longrightarrow> (\<And>e. r = Err e \<Longrightarrow> yields (g e) R) \<Longrightarrow> yields (case r of Ok x \<Rightarrow> f x | Err e \<Rightarrow> g e) R"
  "(oo = None \<Longrightarrow> yields a R) \<Longrightarrow> (\<And>x. oo = Some x \<Longrightarrow> yields (h x) R) \<Longrightarrow> yields (case oo of None \<Rightarrow> a | Some x \<Rightarrow> h x) R"
  "(\<And>x y. xy = (x, y) \<Longrightarrow> yields (p x y) R) \<Longrightarrow> yields (case xy of (x, y) \<Rightarrow> p x y) R"
  "(c \<Longrightarrow> yields a R) \<Longrightarrow> (\<not> c \<Longrightarrow> yields b R) \<Longrightarrow> yields (if c then a else b) R"
  by (simp_all split: result.split option.split prod.split)

lemma silent_map_err_task [intro, simp]: "silent m \<Longrightarrow> silent (map_err_task f m)"
  by (auto simp: map_err_task_def)

lemma silent_local_record_at [intro, simp]: "silent (local_record_at N k)"
  by (simp add: local_record_at_def)

lemma silent_get_local_pointer [intro, simp]: "silent (get_local_pointer N a)"
  by (auto simp: get_local_pointer_def Let_def)

lemma silent_get_local_graphentries [intro, simp]: "silent (get_local_graphentries N a)"
  by (auto simp: get_local_graphentries_def Let_def)

lemma silent_closest_peers [intro, simp]: "silent (get_closest_peers_with_retries E V key n)"
proof -
  have "silent (get_closest_peers_with_majority_knowledge E V key n)"
    by (auto simp: get_closest_peers_with_majority_knowledge_def select_tier2_def Let_def)
  then have "silent (closest_peers_retry_loop E V key n ds)" for ds
    by (induction ds) auto
  then show ?thesis by (simp add: get_closest_peers_with_retries_def)
qed

lemma silent_verify_paid_nodes_distance [intro, simp]: "silent (verify_paid_nodes_distance N ps a)"
  by (auto simp: verify_paid_nodes_distance_def Let_def split: option.split)

lemma silent_verify_merkle_payment [intro, simp]: "silent (verify_merkle_payment N proof a)"
proof -
  have "silent (refetch_commitments N pool ts n r)" for pool ts n r
    by (induction n arbitrary: r) (auto split: result.split)
  then show ?thesis
    by (auto simp: verify_merkle_payment_def merkle_payment_info_def node_verify_cost_units_def verify_topology_def
        Let_def)
qed

lemma quiet_payment [intro, simp]: "quiet (payment_for_us_exists_and_is_still_valid N a dt payment)"
proof -
  have "silent (payees_in_range N a k ps)" for k ps by (auto simp: payees_in_range_def Let_def)
  moreover have "silent (payment_on_chain N k owned pay)" for k owned pay by (auto simp: payment_on_chain_def)
  moreover have "quiet (if c then State_Monad.bind (notify_payment_received V) (\<lambda>_. ret (Ok ())) else ret (Ok ()))" for c V
    by (auto intro: quiet_bind)
  ultimately show ?thesis
    by (auto simp: payment_for_us_exists_and_is_still_valid_def Let_def intro!: quiet_try_bind quiet_bind)
qed

lemma yields_validate_key_and_existence:
  "yields (validate_key_and_existence N a k) (\<lambda>res cs. cs = [] \<and> (\<forall>b. res = Ok b \<longrightarrow> k = to_record_key (nd_crates N) a))"
proof -
  have "silent (validate_key_and_existence N a k)"
    by (auto simp: validate_key_and_existence_def Let_def)
  moreover have "k \<noteq> to_record_key (nd_crates N) a \<Longrightarrow> validate_key_and_existence N a k = ret (Err RecordKeyMismatch)"
    by (simp add: validate_key_and_existence_def)
  ultimately show ?thesis
    by (cases "k = to_record_key (nd_crates N) a") (auto simp: silent_def elim: yields_mono)
qed

lemma outcome_key_checked:
  assumes "\<And>x. k = to_record_key (nd_crates N) a \<Longrightarrow> yields (f x) (put_outcome Q k b)"
  shows "yields (try_bind (validate_key_and_existence N a k) f) (put_outcome Q k b)"
  by (rule yields_try_bind [OF yields_validate_key_and_existence]) (use assms in auto)

section \<open>The contract of the storing steps\<close>

locale put_policy =
  fixes N :: "('t, 'w) node" and Q :: "kad_record \<Rightarrow> bool" and L :: "record_key \<Rightarrow> graph_entry list \<Rightarrow> bool"
  assumes chunk_ok: "\<lbrakk>chunk_size c \<le> CHUNK_MAX_SIZE; c = chunk_new (nd_crates N) v;
      try_serialize_record (nd_crates N) (\<lambda>c. rc_chunk_to_vec (nd_codecs N) (ch_value c)) c (DataOnly DT_Chunk) = Ok bs\<rbrakk> \<Longrightarrow>
      Q (plain_record (chunk_key (nd_crates N) c) bs)"
    and pad_ok: "\<lbrakk>sp_verify_signature (nd_crates N) pad; \<not> sp_is_too_big (nd_crates N) pad;
      try_serialize_record (nd_crates N) (rc_scratchpad_to_vec (nd_codecs N)) pad (DataOnly DT_Scratchpad) = Ok bs\<rbrakk> \<Longrightarrow>
      Q (plain_record (pad_key (nd_crates N) pad) bs)"
    and pointer_ok: "\<lbrakk>pt_verify_signature (nd_crates N) pt;
      try_serialize_record (nd_crates N) (rc_pointer_to_vec (nd_codecs N)) pt (DataOnly DT_Pointer) = Ok bs\<rbrakk> \<Longrightarrow>
      Q (plain_record (pointer_key (nd_crates N) pt) bs)"
    and entries_ok: "\<lbrakk>new \<noteq> []; \<forall>g\<in>set new. ge_verify_signature (nd_crates N) g \<and> entry_key (nd_crates N) g = k; L k old;
      try_serialize_record (nd_crates N) (rc_graph_entries_to_vec (nd_codecs N)) (btree_set (new @ old)) (DataOnly DT_GraphEntry) = Ok bs\<rbrakk> \<Longrightarrow>
      Q (plain_record k bs)"
    and local_entries: "yields (get_local_graphentries N a)
      (\<lambda>res cs. cs = [] \<and> (\<forall>es. res = Ok es \<longrightarrow> L (to_record_key (nd_crates N) (NA_GraphEntryAddress a)) es))"
begin

lemma store_chunk_outcome:
  "yields (store_chunk N (chunk_new (nd_crates N) v) b) (put_outcome Q (chunk_key (nd_crates N) (chunk_new (nd_crates N) v)) b)"
  unfolding store_chunk_def Let_def
  by (auto intro!: yields_cases outcome_put chunk_ok simp: chunk_key_def [symmetric] simp del: to_record_key.simps)

lemma scratchpad_outcome:
  "yields (validate_and_store_scratchpad_record N pad k b) (put_outcome Q k b)"
proof (cases "k = pad_key (nd_crates N) pad")
  case True
  show ?thesis
    unfolding validate_and_store_scratchpad_record_def Let_def True pad_key_def [symmetric]
    by (auto intro!: yields_cases outcome_try_bind outcome_put pad_ok split: option.split)
qed (simp add: validate_and_store_scratchpad_record_def Let_def pad_key_def)

lemma pointer_outcome:
  "yields (validate_and_store_pointer_record N pt k b) (put_outcome Q k b)"
proof (cases "k = pointer_key (nd_crates N) pt")
  case True
  show ?thesis
    unfolding validate_and_store_pointer_record_def Let_def True pointer_key_def [symmetric]
    by (auto intro!: yields_cases outcome_bind outcome_put pointer_ok split: option.split)
qed (simp add: validate_and_store_pointer_record_def Let_def pointer_key_def)

lemma graph_entries_outcome:
  "yields (validate_merge_and_store_graphentries N es k b) (put_outcome Q k b)"
proof -
  define new where "new = btree_set (filter (ge_verify_signature (nd_crates N)) (filter (\<lambda>s. entry_key (nd_crates N) s = k) es))"
  have new: "\<forall>g\<in>set new. ge_verify_signature (nd_crates N) g \<and> entry_key (nd_crates N) g = k"
    by (auto simp: new_def btree_set_def)
  show ?thesis
    unfolding validate_merge_and_store_graphentries_def Let_def entry_key_def [symmetric] new_def [symmetric]
  proof (intro yields_cases)
    show "yields (case new of [] \<Rightarrow> ret (Ok ())
      | first # rest \<Rightarrow> try_bind (get_local_graphentries N (ge_address first)) (\<lambda>local_entries.
          if length local_entries = length (btree_set (first # rest @ local_entries)) then ret (Ok ())
          else case try_serialize_record (nd_crates N) (rc_graph_entries_to_vec (nd_codecs N)) (btree_set (first # rest @ local_entries)) (DataOnly DT_GraphEntry) of
            Err _ \<Rightarrow> ret (Err (RecordSerializationFailed k))
          | Ok v \<Rightarrow> State_Monad.bind (put_local_record (nd_network N) (plain_record k v) b) (\<lambda>_. ret (Ok ())))) (put_outcome Q k b)"
    proof (cases new)
      case (Cons first rest)
      then have key: "to_record_key (nd_crates N) (NA_GraphEntryAddress (ge_address first)) = k"
        using new by (simp add: entry_key_def)
      show ?thesis
        unfolding Cons list.case
        by (rule yields_try_bind [OF local_entries])
          (use entries_ok [of "first # rest" k] new Cons key in \<open>auto intro!: yields_cases outcome_put simp del: to_record_key.simps\<close>)
    qed simp
  qed simp_all
qed

lemma chunk_outcome:
  assumes "decode_record (\<lambda>bs. chunk_of_payload (nd_crates N) (rd bs)) r key = Ok (p, c)"
    and "k = to_record_key (nd_crates N) (chunk_network_address c)"
  shows "yields (store_chunk N c b) (put_outcome Q k b)"
proof -
  obtain v where "c = chunk_new (nd_crates N) v"
    using assms(1) by (auto simp: decode_record_def chunk_of_payload_def try_deserialize_record_def split: if_splits)
  with assms(2) show ?thesis
    using store_chunk_outcome [of v b] by (simp add: chunk_key_def chunk_network_address_def)
qed

lemma replicated_chunk_outcome:
  assumes "decode_record (\<lambda>bs. map_option (chunk_new (nd_crates N)) (rd bs)) r key = Ok c"
    and "k = to_record_key (nd_crates N) (chunk_network_address c)"
  shows "yields (store_chunk N c b) (put_outcome Q k b)"
proof -
  obtain v where "c = chunk_new (nd_crates N) v"
    using assms(1) by (auto simp: decode_record_def try_deserialize_record_def split: if_splits)
  with assms(2) show ?thesis
    using store_chunk_outcome [of v b] by (simp add: chunk_key_def chunk_network_address_def)
qed

lemma paid_chunk_outcome: "yields (put_paid_chunk N r) (put_outcome Q (rkey r) True)"
  unfolding put_paid_chunk_def
  by (intro yields_cases outcome_key_checked outcome_bind quiet_payment outcome_then [OF _ yields_notify_when_ok] quiet_sends)
    (auto intro: chunk_outcome)

lemma paid_scratchpad_outcome: "yields (put_paid_scratchpad N r) (put_outcome Q (rkey r) True)"
proof -
  have notify: "yields (State_Monad.bind (case res of
       Ok _ \<Rightarrow> notify_fetch_completed (nd_network N) (rkey r) (content_hash N r)
     | Err (OutdatedRecordCounter _ _) \<Rightarrow> notify_fetch_completed (nd_network N) (rkey r) (content_hash N r)
     | Err _ \<Rightarrow> ret ()) (\<lambda>_. ret res)) (\<lambda>res' cs. puts cs = [] \<and> res' = res)" for res
    by (rule yields_bind [where P = "\<lambda>_ cs. puts cs = []"])
      (auto simp: quiet_def [symmetric] split: result.split put_validation_error.split)
  show ?thesis
    unfolding put_paid_scratchpad_def
    by (intro yields_cases outcome_key_checked outcome_try_bind quiet_payment outcome_then [OF _ notify] scratchpad_outcome) simp
qed

lemma paid_graph_entry_outcome: "yields (put_paid_graph_entry N r) (put_outcome Q (rkey r) True)"
proof -
  have *: "yields (State_Monad.bind (validate_merge_and_store_graphentries N [e] (rkey r) True)
      (notify_when_ok N (rkey r) (content_hash N r))) (put_outcome Q (rkey r) True)" for e
    by (rule outcome_then [OF graph_entries_outcome yields_notify_when_ok])
  show ?thesis
    unfolding put_paid_graph_entry_def Let_def
    by (intro yields_cases) (use * in \<open>auto intro!: outcome_key_checked outcome_bind split: result.split bool.split simp del: to_record_key.simps\<close>)
qed

lemma paid_pointer_outcome: "yields (put_paid_pointer N r) (put_outcome Q (rkey r) True)"
proof -
  have *: "yields (State_Monad.bind (validate_and_store_pointer_record N p (rkey r) True)
      (notify_when_ok N (rkey r) (content_hash N r))) (put_outcome Q (rkey r) True)" for p
    by (rule outcome_then [OF pointer_outcome yields_notify_when_ok])
  show ?thesis
    unfolding put_paid_pointer_def Let_def
    by (intro yields_cases) (use * in \<open>auto intro!: outcome_key_checked outcome_bind split: result.split bool.split simp del: to_record_key.simps\<close>)
qed

lemma unpaid_outcomes:
  "yields (put_scratchpad_update N r) (put_outcome Q (rkey r) True)"
  "yields (put_pointer_update N r) (put_outcome Q (rkey r) True)"
  unfolding put_scratchpad_update_def put_pointer_update_def
  by (intro yields_cases outcome_key_checked scratchpad_outcome outcome_then [OF pointer_outcome yields_notify_when_ok], simp_all)+

lemma merkle_outcomes: "yields (validate_and_store_merkle_payment_record N r dt) (put_outcome Q (rkey r) True)"
proof (cases dt)
  case DT_Chunk
  show ?thesis
    unfolding DT_Chunk validate_and_store_merkle_payment_record.simps merkle_chunk_put_def
    by (intro yields_cases outcome_key_checked outcome_try_bind outcome_bind outcome_then [OF _ yields_notify_when_ok] quiet_sends)
      (auto intro: chunk_outcome)
next
  case DT_GraphEntry
  show ?thesis
    unfolding DT_GraphEntry validate_and_store_merkle_payment_record.simps merkle_graph_entry_put_def
    by (intro yields_cases outcome_try_bind outcome_then [OF graph_entries_outcome yields_notify_when_ok]) auto
next
  case DT_Pointer
  show ?thesis
    unfolding DT_Pointer validate_and_store_merkle_payment_record.simps merkle_pointer_put_def
    by (intro yields_cases outcome_try_bind outcome_then [OF pointer_outcome yields_notify_when_ok]) auto
next
  case DT_Scratchpad
  show ?thesis
    unfolding DT_Scratchpad validate_and_store_merkle_payment_record.simps merkle_scratchpad_put_def
    by (intro yields_cases outcome_try_bind outcome_then [OF scratchpad_outcome yields_notify_when_ok]) auto
qed

lemma client_put_outcome: "yields (validate_and_store_record N r) (put_outcome Q (rkey r) True)"
  unfolding validate_and_store_record_def
  by (auto split: result.split record_kind.split data_types.split
      intro: paid_chunk_outcome paid_scratchpad_outcome paid_graph_entry_outcome paid_pointer_outcome unpaid_outcomes merkle_outcomes)

lemma replicated_outcome: "yields (store_replicated_in_record N r) (put_outcome Q (rkey r) False)"
proof -
  have "yields (try_bind (validate_key_and_existence N (chunk_network_address c) (rkey r))
      (\<lambda>already. if already then ret (Ok ()) else store_chunk N c False)) (put_outcome Q (rkey r) False)"
    if "decode_record (\<lambda>bs. map_option (chunk_new (nd_crates N)) (rc_chunk_from_slice (nd_codecs N) bs)) r (rkey r) = Ok c" for c
    by (intro outcome_key_checked yields_cases) (auto intro: replicated_chunk_outcome [OF that])
  then show ?thesis
    unfolding store_replicated_in_record_def
    by (auto split: result.split record_kind.split data_types.split
        intro: scratchpad_outcome pointer_outcome graph_entries_outcome)
qed

end

interpretation any_record: put_policy N "\<lambda>_. True" "\<lambda>_ _. True" for N
  by unfold_locales (use silent_get_local_graphentries in \<open>auto simp: silent_def\<close>)

section \<open>Valid records\<close>

lemma yields_sent_by: "yields m R \<Longrightarrow> R (fst (run_state m s)) (sent_by m s)"
  by (cases "run_state m s") (auto simp: yields_def wp_def sent_by_def dest!: spec [of _ s])

lemma serialized_record:
  assumes "rmp_header_laws E" and "codec_law to_vec from_slice" and "try_serialize_record E to_vec x k = Ok bs"
  shows "header_from_record E (plain_record key bs) = Ok \<lparr>kind = k\<rparr>"
    and "try_deserialize_record from_slice (plain_record key bs) = Ok x"
proof -
  obtain hdr where hdr: "rmp_header_to_vec E (record_kind_serialize k) = Some hdr" "length hdr = 2"
      "\<And>rest. rmp_header_from_slice E (hdr @ rest) = Some (record_kind_serialize k)"
    using assms(1) record_kind_serialize_less [of k] unfolding rmp_header_laws_def by blast
  obtain payload where payload: "to_vec x = Some payload" "bs = hdr @ payload"
    using assms(3) hdr(1) by (auto simp: try_serialize_record_def header_try_serialize_def ok_or_eq_Ok and_then_eq_Ok)
  with assms(2) have p: "payload \<noteq> []" "from_slice payload = Some x"
    by (auto simp: codec_law_def)
  have "take 3 (hdr @ payload) = hdr @ take 1 payload" using hdr(2) by simp
  with p payload hdr(2,3) show "header_from_record E (plain_record key bs) = Ok \<lparr>kind = k\<rparr>"
    by (cases payload) (simp_all add: header_from_record_def header_try_deserialize_def HEADER_SIZE_def
        record_kind_deserialize_serialize)
  from p payload hdr(2) show "try_deserialize_record from_slice (plain_record key bs) = Ok x"
    by (cases payload) (simp_all add: try_deserialize_record_def HEADER_SIZE_def)
qed

lemma valid_put_policy:
  assumes "rmp_header_laws (nd_crates N)" and "codec_laws (nd_codecs N)" and "local_entries_valid N"
  shows "put_policy N (valid_record (nd_crates N) (nd_codecs N))
    (\<lambda>k. list_all (\<lambda>g. entry_key (nd_crates N) g = k \<and> ge_verify_signature (nd_crates N) g))"
proof
  note ser = serialized_record [OF assms(1)]
  fix c v bs
  assume *: "chunk_size c \<le> CHUNK_MAX_SIZE" "c = chunk_new (nd_crates N) v"
    "try_serialize_record (nd_crates N) (\<lambda>c. rc_chunk_to_vec (nd_codecs N) (ch_value c)) c (DataOnly DT_Chunk) = Ok bs"
  have "try_serialize_record (nd_crates N) (rc_chunk_to_vec (nd_codecs N)) v (DataOnly DT_Chunk) = Ok bs"
    using *(2,3) by (simp add: try_serialize_record_def)
  with assms(2) have "header_from_record (nd_crates N) (plain_record k bs) = Ok \<lparr>kind = DataOnly DT_Chunk\<rparr>"
      "try_deserialize_record (rc_chunk_from_slice (nd_codecs N)) (plain_record k bs) = Ok v" for k
    by (auto simp: codec_laws_def intro: ser)
  with *(1,2) show "valid_record (nd_crates N) (nd_codecs N) (plain_record (chunk_key (nd_crates N) c) bs)"
    by (simp add: valid_record_def chunk_key_def chunk_size_def chunk_new_def)
next
  note ser = serialized_record [OF assms(1)]
  fix pad bs
  assume *: "sp_verify_signature (nd_crates N) pad" "\<not> sp_is_too_big (nd_crates N) pad"
    "try_serialize_record (nd_crates N) (rc_scratchpad_to_vec (nd_codecs N)) pad (DataOnly DT_Scratchpad) = Ok bs"
  have "codec_law (rc_scratchpad_to_vec (nd_codecs N)) (rc_scratchpad_from_slice (nd_codecs N))"
    using assms(2) by (simp add: codec_laws_def)
  from ser [OF this *(3)] *(1,2) show "valid_record (nd_crates N) (nd_codecs N) (plain_record (pad_key (nd_crates N) pad) bs)"
    by (simp add: valid_record_def)
next
  note ser = serialized_record [OF assms(1)]
  fix pt bs
  assume *: "pt_verify_signature (nd_crates N) pt"
    "try_serialize_record (nd_crates N) (rc_pointer_to_vec (nd_codecs N)) pt (DataOnly DT_Pointer) = Ok bs"
  have "codec_law (rc_pointer_to_vec (nd_codecs N)) (rc_pointer_from_slice (nd_codecs N))"
    using assms(2) by (simp add: codec_laws_def)
  from ser [OF this *(2)] *(1) show "valid_record (nd_crates N) (nd_codecs N) (plain_record (pointer_key (nd_crates N) pt) bs)"
    by (simp add: valid_record_def)
next
  note ser = serialized_record [OF assms(1)]
  fix new old k bs
  assume *: "new \<noteq> []" "\<forall>g\<in>set new. ge_verify_signature (nd_crates N) g \<and> entry_key (nd_crates N) g = k"
    "list_all (\<lambda>g. entry_key (nd_crates N) g = k \<and> ge_verify_signature (nd_crates N) g) old"
    "try_serialize_record (nd_crates N) (rc_graph_entries_to_vec (nd_codecs N)) (btree_set (new @ old)) (DataOnly DT_GraphEntry) = Ok bs"
  have "codec_law (rc_graph_entries_to_vec (nd_codecs N)) (rc_graph_entries_from_slice (nd_codecs N))"
    using assms(2) by (simp add: codec_laws_def)
  note ser [OF this *(4)]
  moreover have "btree_set (new @ old) \<noteq> []"
    using *(1) by (auto simp: btree_set_def dest: arg_cong [of _ _ set])
  moreover have "list_all (\<lambda>g. k = entry_key (nd_crates N) g \<and> ge_verify_signature (nd_crates N) g) (btree_set (new @ old))"
    using *(2,3) by (auto simp: btree_set_def list_all_iff)
  ultimately show "valid_record (nd_crates N) (nd_codecs N) (plain_record k bs)"
    by (simp add: valid_record_def btree_set_def)
next
  fix a
  show "yields (get_local_graphentries N a) (\<lambda>res cs. cs = [] \<and> (\<forall>es. res = Ok es \<longrightarrow>
     list_all (\<lambda>g. entry_key (nd_crates N) g = to_record_key (nd_crates N) (NA_GraphEntryAddress a) \<and>
       ge_verify_signature (nd_crates N) g) es))"
    using assms(3) unfolding yields_def get_local_graphentries_def local_record_at_def map_err_task_def get_local_record_def Let_def
    by (auto simp: wp_simps local_entries_valid_def decode_record_def map_err_eq_Ok split: result.split option.split
        simp del: to_record_key.simps)
qed

section \<open>Failing tasks\<close>

lemma fails_Err [simp]: "fails (ret (Err e))"
  by (simp add: fails_def is_ok_simps)

lemma fails_try_bind_left: "fails m \<Longrightarrow> fails (try_bind m f)"
  unfolding fails_def by (erule yields_try_bind) (simp_all add: is_ok_simps)

lemma fails_try_bind_right: "quiet m \<Longrightarrow> (\<And>x. fails (f x)) \<Longrightarrow> fails (try_bind m f)"
  unfolding fails_def quiet_def by (erule yields_try_bind) (simp_all add: is_ok_simps)

lemma fails_bind_right: "quiet m \<Longrightarrow> (\<And>x. fails (f x)) \<Longrightarrow> fails (State_Monad.bind m f)"
  unfolding fails_def quiet_def by (erule yields_bind) simp

lemma fails_bind: "fails m \<Longrightarrow> (\<And>e. fails (f (Err e))) \<Longrightarrow> fails (State_Monad.bind m f)"
  unfolding fails_def
  by (erule yields_bind) (auto simp: is_ok_iff, metis result.exhaust)

lemma fails_map_err_task: "fails m \<Longrightarrow> fails (map_err_task f m)"
  unfolding map_err_task_def by (rule fails_bind) simp_all

lemma fails_cases:
  "(\<And>x. r = Ok x \<Longrightarrow> fails (f x)) \<Longrightarrow> (\<And>e. r = Err e \<Longrightarrow> fails (g e)) \<Longrightarrow> fails (case r of Ok x \<Rightarrow> f x | Err e \<Rightarrow> g e)"
  "(\<And>x y. xy = (x, y) \<Longrightarrow> fails (p x y)) \<Longrightarrow> fails (case xy of (x, y) \<Rightarrow> p x y)"
  "(c \<Longrightarrow> fails a) \<Longrightarrow> (\<not> c \<Longrightarrow> fails b) \<Longrightarrow> fails (if c then a else b)"
  by (simp_all split: result.split prod.split)

lemma sum_verified_invalid: "\<exists>r\<in>set rs. \<not> pvr_is_valid r \<Longrightarrow> \<exists>e. sum_verified owned rs acc = Err e"
  by (induction rs arbitrary: acc) auto

lemma yields_retry_loop:
  assumes "yields action (\<lambda>res cs. cs = [] \<and> P res)" and "\<And>e. P (Err e)"
  shows "yields (retry_loop V i action left retries) (\<lambda>res cs. cs = [] \<and> P res)"
proof (induction left arbitrary: retries)
  case 0
  then show ?case using assms(1) by simp
next
  case (Suc left)
  have "yields (case res of Ok x \<Rightarrow> ret (Ok x) | Err _ \<Rightarrow> do { sleep_ms V n; retry_loop V i action left (Suc retries) })
      (\<lambda>res cs. cs = [] \<and> P res)" if "P res" for res n
    using that Suc.IH by (auto intro!: yields_silent_bind split: result.split)
  then show ?case
    by (auto intro!: yields_bind [OF assms(1)])
qed

lemma fails_verify_data_payment:
  assumes "nothing_paid N"
  shows "fails (verify_data_payment (nd_network N) (nd_evm N) owned payment)"
proof -
  define bad where "bad res = (\<forall>rs. res = Ok rs \<longrightarrow> (\<exists>r\<in>set rs. \<not> pvr_is_valid r))"
    for res :: "(payment_verification_result list, string) result"
  have bad: "yields (call (call_verify_payment (nd_evm N) vs)) (\<lambda>res cs. cs = [] \<and> bad res)" for vs
    using assms by (simp add: yields_def wp_simps nothing_paid_def bad_def)
  have "yields (verify_payment (nd_network N) (nd_evm N) vs)
      (\<lambda>res cs. cs = [] \<and> (\<forall>rs. res = Ok rs \<longrightarrow> (\<exists>r\<in>set rs. \<not> pvr_is_valid r)))" for vs
    unfolding verify_payment_def retry_def
    by (rule yields_bind [OF yields_retry_loop [OF bad]]) (auto simp: bad_def map_err_eq_Ok)
  then show ?thesis
    unfolding fails_def verify_data_payment_def
    by (rule yields_try_bind) (auto simp: is_ok_simps dest!: sum_verified_invalid [of _ owned 0])
qed

lemma fails_payment:
  assumes "nothing_paid N"
  shows "fails (payment_for_us_exists_and_is_still_valid N a dt payment)"
proof -
  have "fails (payment_on_chain N k owned pay)" for k owned pay
    unfolding payment_on_chain_def
    by (rule fails_bind [OF fails_verify_data_payment [OF assms]])
      (auto intro!: fails_bind_right fails_map_err_task fails_verify_data_payment [OF assms])
  moreover have "silent (payees_in_range N a k ps)" for k ps
    by (auto simp: payees_in_range_def Let_def)
  ultimately show ?thesis
    unfolding payment_for_us_exists_and_is_still_valid_def Let_def
    by (intro fails_cases fails_Err fails_try_bind_right [OF quiet_silent] fails_try_bind_left) auto
qed

lemma fails_verify_merkle_payment:
  assumes "nothing_paid N"
  shows "fails (verify_merkle_payment N proof a)"
proof -
  have "fails (get_merkle_payment_info (nd_evm N) pool)" for pool
    using assms unfolding fails_def yields_def get_merkle_payment_info_def get_payment_info_def nothing_paid_def
    by (auto simp: wp_simps is_ok_iff and_then_eq_Ok map_err_eq_Ok split: option.split)
  then have "fails (merkle_payment_info N k pool)" for k pool
    unfolding merkle_payment_info_def by (intro fails_bind) (auto intro!: fails_bind_right fails_map_err_task)
  then show ?thesis
    unfolding verify_merkle_payment_def Let_def by (auto intro!: fails_cases fails_try_bind_left)
qed

lemma yields_absent:
  assumes "never_held N k"
  shows "yields (validate_key_and_existence N a k) (\<lambda>res cs. cs = [] \<and> res \<noteq> Ok True)"
  using assms unfolding never_held_def validate_key_and_existence_def map_err_task_def is_record_key_present_locally_def Let_def
  by (auto simp: yields_def wp_simps ok_or_eq_Ok map_err_eq_Ok split: result.split simp del: to_record_key.simps)

lemma fails_absent:
  assumes "never_held N k" and "fails (f False)"
  shows "fails (try_bind (validate_key_and_existence N a k) f)"
  unfolding fails_def
  by (rule yields_try_bind [OF yields_absent [OF assms(1)]]) (use assms(2) in \<open>auto simp: fails_def is_ok_simps\<close>)

lemma fails_validate_and_store_record:
  assumes "nothing_paid N" and "never_held N (rkey r)"
  shows "fails (validate_and_store_record N r)"
proof -
  note pay = fails_payment [OF assms(1)] and merkle = fails_verify_merkle_payment [OF assms(1)] and absent = fails_absent [OF assms(2)]
  have "fails (put_paid_chunk N r)" "fails (put_paid_scratchpad N r)" "fails (put_paid_pointer N r)"
    unfolding put_paid_chunk_def put_paid_scratchpad_def put_paid_pointer_def Let_def
    by (intro fails_cases fails_Err absent fails_bind [OF pay] fails_try_bind_left [OF pay]; simp)+
  moreover have "fails (put_paid_graph_entry N r)"
    unfolding put_paid_graph_entry_def Let_def
    by (intro fails_cases fails_Err) (use assms(2) in \<open>auto intro!: fails_absent fails_bind [OF pay] simp del: to_record_key.simps\<close>)
  moreover have "fails (put_scratchpad_update N r)" "fails (put_pointer_update N r)"
    unfolding put_scratchpad_update_def put_pointer_update_def
    by (intro fails_cases(1,2) fails_Err absent; simp)+
  moreover have "fails (merkle_chunk_put N r)" "fails (merkle_scratchpad_put N r)" "fails (merkle_graph_entry_put N r)"
      "fails (merkle_pointer_put N r)"
    unfolding merkle_chunk_put_def merkle_scratchpad_put_def merkle_graph_entry_put_def merkle_pointer_put_def
    by (intro fails_cases(1,2) fails_Err absent fails_try_bind_left [OF merkle]; simp add: fails_try_bind_left [OF merkle])+
  then have "fails (validate_and_store_merkle_payment_record N r dt)" for dt
    by (cases dt) simp_all
  ultimately show ?thesis
    unfolding validate_and_store_record_def
    by (auto split: result.split record_kind.split data_types.split)
qed

section \<open>Facts on the examples\<close>

lemma sample_node_simps [simp]:
  "nd_crates (sample_node info cs) = sample_crates" "nd_codecs (sample_node info cs) = sample_codecs"
  "nd_network (sample_node info cs) = map_network" "nd_merkle (sample_node info cs) = sample_merkle_crates"
  "nd_peer_id (sample_node info cs) = PeerId [7]" "nd_payments (sample_node info cs) = sample_payment_crates"
  by (simp_all add: sample_node_def)

lemma holding_simps [simp]:
  "nd_crates (holding fixed info cs) = sample_crates" "nd_codecs (holding fixed info cs) = sample_codecs"
  by (simp_all add: holding_def)

lemma be_bytes_eq_Nil [simp]: "be_bytes n w = [] \<longleftrightarrow> n = 0"
  by (metis length_0_conv length_be_bytes)

lemma sample_codec_laws: "codec_laws sample_codecs"
proof -
  have "codec_law (rc_chunk_to_vec sample_codecs) (rc_chunk_from_slice sample_codecs)"
    by (simp add: codec_law_def sample_codecs_def)
  moreover have "codec_law (rc_scratchpad_to_vec sample_codecs) (rc_scratchpad_from_slice sample_codecs)"
    by (auto simp: codec_law_def sample_codecs_def sample_pad_from_slice_def sp_new_with_signature_def sp_owner_def of_be_bytes_be_bytes
        split: if_splits intro!: scratchpad.equality)
  moreover have "codec_law (rc_pointer_to_vec sample_codecs) (rc_pointer_from_slice sample_codecs)"
    by (auto simp: codec_law_def sample_codecs_def of_be_bytes_be_bytes
        split: pointer_target.splits chunk_address.splits intro!: pointer.equality)
  moreover have "codec_law (rc_graph_entries_to_vec sample_codecs) (rc_graph_entries_from_slice sample_codecs)"
    by (auto simp: codec_law_def sample_codecs_def of_be_bytes_be_bytes split: list.splits graph_entry.splits)
  ultimately show ?thesis by (simp add: codec_laws_def)
qed

section \<open>Accepted Merkle payments\<close>

lemma run_try_bind_OkE:
  assumes "fst (run_state (try_bind m f) s) = Ok y"
  obtains x s' where "run_state m s = (Ok x, s')" "fst (run_state (f x) s') = Ok y"
  using assms by (cases "run_state m s") (auto simp: try_bind_def split: result.splits)

lemma fst_run_try_bind:
  "fst (run_state m s) = Ok x \<Longrightarrow> fst (run_state (try_bind m f) s) = fst (run_state (f x) (snd (run_state m s)))"
  by (cases "run_state m s") (simp add: try_bind_def)

lemma run_bindE:
  assumes "fst (run_state (State_Monad.bind m f) s) = y"
  obtains x s' where "run_state m s = (x, s')" "fst (run_state (f x) s') = y"
  using assms by (cases "run_state m s") auto

lemma fst_run_call [simp]: "fst (run_state (call f) s) = fst (f (ts_world s))"
  by (simp add: call_def split: prod.splits)

lemma run_map_err_task: "fst (run_state (map_err_task f m) s) = map_err f (fst (run_state m s))"
  by (simp add: map_err_task_def split: prod.splits)

lemma get_merkle_payment_info_Ok:
  assumes "fst (run_state (get_merkle_payment_info C pool) s) = Ok info"
  shows "\<exists>vault w. merkle_payments_address C = Some vault \<and>
    fst (call_get_payment_info C vault pool w) = Ok info \<and> cpi_depth info \<noteq> 0"
  using assms unfolding get_merkle_payment_info_def get_payment_info_def
  by (auto simp: and_then_eq_Ok map_err_eq_Ok call_def split: option.splits prod.splits if_splits)
    (metis fst_conv)

lemma merkle_payment_info_Ok:
  assumes "fst (run_state (merkle_payment_info N k pool) s) = Ok info"
  shows "\<exists>s'. fst (run_state (get_merkle_payment_info (nd_evm N) pool) s') = Ok info"
proof -
  obtain x s' where x: "run_state (get_merkle_payment_info (nd_evm N) pool) s = (x, s')"
    and r: "fst (run_state (case x of Ok info \<Rightarrow> ret (Ok info) | Err _ \<Rightarrow> do {
         sleep_ms (nd_network N) (1000 * RETRY_PAYMENT_VERIFICATION_WAIT_TIME_SECS);
         map_err_task (\<lambda>e. MerklePaymentVerificationFailed k (PaymentInfoUnavailable pool e))
           (get_merkle_payment_info (nd_evm N) pool) }) s') = Ok info"
    using run_bindE [OF assms [unfolded merkle_payment_info_def]] by blast
  show ?thesis
  proof (cases x)
    case (Ok i)
    with x r show ?thesis by (intro exI [of _ s]) simp
  next
    case (Err e)
    with r show ?thesis
      by (auto simp: run_map_err_task map_err_eq_Ok split: prod.splits)
  qed
qed

lemma refetch_commitments_Ok:
  assumes "fst (run_state (refetch_commitments N pool ts n r) s) = Ok cs"
  shows "r = Ok cs \<or> (\<exists>s'. fst (run_state (get_merkle_payment_packed_commitments (nd_evm N) pool ts) s') = Ok cs)"
  using assms
proof (induction n arbitrary: r s)
  case (Suc n)
  show ?case
  proof (cases r)
    case (Err e)
    with Suc.prems obtain s' r' s'' where
      *: "run_state (get_merkle_payment_packed_commitments (nd_evm N) pool ts) s' = (r', s'')"
         "fst (run_state (refetch_commitments N pool ts n r') s'') = Ok cs"
      by (auto split: prod.splits)
    from Suc.IH [OF *(2)] *(1) show ?thesis by (metis fst_conv)
  qed (use Suc.prems in simp)
qed simp

lemma node_verify_cost_units_Ok:
  assumes "fst (run_state (node_verify_cost_units N proof ts pool k) s) = Ok ()"
  shows "\<exists>s' cs. fst (run_state (get_merkle_payment_packed_commitments (nd_evm N) pool ts) s') = Ok cs \<and>
    verify_cost_units cs pool (mpp_winner_pool proof) = Ok ()"
proof -
  obtain cs s1 where cs: "run_state (do {
       r \<leftarrow> get_merkle_payment_packed_commitments (nd_evm N) pool ts;
       r' \<leftarrow> refetch_commitments N pool ts (MAX_COST_UNIT_FETCH_RETRIES - 1) r;
       ret (map_err (\<lambda>e. MerklePaymentVerificationFailed k (CostUnitFetchFailed e)) r') }) s = (Ok cs, s1)"
    and v: "verify_cost_units cs pool (mpp_winner_pool proof) = Ok ()"
    using assms unfolding node_verify_cost_units_def by (auto elim!: run_try_bind_OkE simp: map_err_eq_Ok)
  obtain r s2 where r: "run_state (get_merkle_payment_packed_commitments (nd_evm N) pool ts) s = (r, s2)"
    by (cases "run_state (get_merkle_payment_packed_commitments (nd_evm N) pool ts) s")
  have "fst (run_state (refetch_commitments N pool ts (MAX_COST_UNIT_FETCH_RETRIES - 1) r) s2) = Ok cs"
    using cs r by (auto simp: map_err_eq_Ok split: prod.splits)
  from refetch_commitments_Ok [OF this] r v show ?thesis by (metis fst_conv)
qed

lemma verify_topology_Ok:
  assumes "fst (run_state (verify_topology N proof paid k) s) = Ok ()"
  defines "pool_address \<equiv> NA_ChunkAddress (ChunkAddr (midpoint_address (nd_crates N) (mcp_midpoint_proof (mpp_winner_pool proof))))"
  shows "\<exists>s' closest. fst (run_state (get_closest_peers_with_retries (nd_crates N) (nd_network N) pool_address (Some PEERS_TO_QUERY)) s') = Ok closest \<and>
    (length closest < PEERS_TO_QUERY \<or>
     (\<exists>ids. corresponding_peer_ids (nd_crates N) paid proof = Ok ids \<and>
        length paid div 2 < length (filter (\<lambda>p. p \<in> set (map fst closest)) ids)))"
proof -
  let ?close = "get_closest_peers_with_retries (nd_crates N) (nd_network N) pool_address (Some PEERS_TO_QUERY)"
  obtain closest s1 where *: "run_state (map_err_task (\<lambda>e. MerklePaymentVerificationFailed k (ClosestPeersUnavailable
       (midpoint_address (nd_crates N) (mcp_midpoint_proof (mpp_winner_pool proof))) e)) ?close) s = (Ok closest, s1)"
    and r: "fst (run_state (if length closest < PEERS_TO_QUERY then ret (Ok ())
        else case corresponding_peer_ids (nd_crates N) paid proof of
            Err e \<Rightarrow> ret (Err (MerklePaymentVerificationFailed k (PaidPeerIdsUnavailable e)))
          | Ok ids \<Rightarrow>
              try_bind (map_err_task (\<lambda>out. MerklePaymentVerificationFailed k (PaidNodesOutOfRange out))
                (verify_paid_nodes_distance N ids pool_address)) (\<lambda>_.
              if \<not> length paid div 2 < length (filter (\<lambda>p. p \<in> set (remdups (map fst closest))) ids)
                 then ret (Err (TopologyVerificationFailed pool_address (length (filter (\<lambda>p. p \<in> set (remdups (map fst closest))) ids))
                   (length paid) (length (remdups (map fst closest))) (remdups (map fst closest)) ids))
                 else ret (Ok ()))) s1) = Ok ()"
    using run_try_bind_OkE [OF assms(1) [unfolded verify_topology_def Let_def pool_address_def [symmetric]]] by blast
  have "fst (run_state ?close s) = Ok closest"
    using arg_cong [OF *, of fst] by (simp add: run_map_err_task map_err_eq_Ok)
  moreover have "length closest < PEERS_TO_QUERY \<or> (\<exists>ids. corresponding_peer_ids (nd_crates N) paid proof = Ok ids \<and>
        length paid div 2 < length (filter (\<lambda>p. p \<in> set (map fst closest)) ids))"
    using r by (auto split: if_splits result.splits elim!: run_try_bind_OkE)
  ultimately show ?thesis by blast
qed

section \<open>Properties\<close>

text \<open>C5: Whatever the local store, the network and the chain answer meanwhile, a put that is rejected
  hands nothing to the local store; a put that succeeds hands over at most one record, at the key it
  was sent for, marked as a client's upload or as a replicated record according to the way it came.\<close>

theorem rejected_put_stores_nothing:
  "(puts (sent_by (validate_and_store_record N r) s) = [] \<or>
    (\<exists>r'. fst (run_state (validate_and_store_record N r) s) = Ok () \<and>
       puts (sent_by (validate_and_store_record N r) s) = [(r', True)] \<and> rkey r' = rkey r)) \<and>
   (puts (sent_by (store_replicated_in_record N r) s) = [] \<or>
    (\<exists>r'. fst (run_state (store_replicated_in_record N r) s) = Ok () \<and>
       puts (sent_by (store_replicated_in_record N r) s) = [(r', False)] \<and> rkey r' = rkey r))"
  using yields_sent_by [OF any_record.client_put_outcome [of N r], of s]
    yields_sent_by [OF any_record.replicated_outcome [of N r], of s]
  by (auto simp: put_outcome_def)

text \<open>C3: Every record a node hands to its store, from a client or from replication, holds data without a
  payment that is what its key says: a chunk under the hash of its content and within the size limit, a
  scratchpad or a pointer signed by the owner it is stored under (the scratchpad within its limit), or a
  non-empty sorted set of graph entries, all signed by the owner they are stored under. Only the graph
  entries already held are relied upon.\<close>

theorem stored_records_are_valid:
  assumes "rmp_header_laws (nd_crates N)" and "codec_laws (nd_codecs N)" and "local_entries_valid N"
    and "m = validate_and_store_record N r \<or> m = store_replicated_in_record N r"
  shows "list_all (\<lambda>(r', _). valid_record (nd_crates N) (nd_codecs N) r' \<and> rkey r' = rkey r) (puts (sent_by m s))"
proof -
  note policy = valid_put_policy [OF assms(1-3)]
  have "put_outcome (valid_record (nd_crates N) (nd_codecs N)) (rkey r) True (fst (run_state m s)) (sent_by m s) \<or>
      put_outcome (valid_record (nd_crates N) (nd_codecs N)) (rkey r) False (fst (run_state m s)) (sent_by m s)"
    using assms(4) yields_sent_by [OF put_policy.client_put_outcome [OF policy]]
      yields_sent_by [OF put_policy.replicated_outcome [OF policy]] by blast
  then show ?thesis by (auto simp: put_outcome_def)
qed

lemma sample_header:
  "header_from_record sample_crates (plain_record k (145 # 0 # x # bs)) = Ok \<lparr>kind = DataOnly DT_Chunk\<rparr>"
  "header_from_record sample_crates (plain_record k (145 # 2 # x # bs)) = Ok \<lparr>kind = DataOnly DT_Pointer\<rparr>"
  "header_from_record sample_crates (plain_record k (145 # 3 # x # bs)) = Ok \<lparr>kind = DataOnly DT_Scratchpad\<rparr>"
  by (simp_all add: header_from_record_def header_try_deserialize_def HEADER_SIZE_def sample_crates_def
      record_kind_deserialize_def from_index_def kind_index_defs)

lemma sample_chunk_put:
  "puts (sent_by (store_replicated_in_record (holding [] info cs) (plain_record (xor_to_vec 5) [145, 0, 1, 5])) (empty_task w)) =
     [(plain_record (xor_to_vec 5) [145, 0, 1, 5], False)]"
proof -
  have hash: "from_content sample_crates [5] = 5"
    by (simp add: sample_crates_def of_be_bytes_def word_rcat_def)
  have dec: "decode_record (\<lambda>bs. map_option (chunk_new sample_crates) (rc_chunk_from_slice sample_codecs bs))
      (plain_record (xor_to_vec 5) [145, 0, 1, 5]) k = Ok (chunk_new sample_crates [5])" for k
    by (simp add: decode_record_def try_deserialize_record_def HEADER_SIZE_def sample_codecs_def)
  have ser: "try_serialize_record sample_crates (\<lambda>c. rc_chunk_to_vec sample_codecs (ch_value c)) (chunk_new sample_crates [5])
      (DataOnly DT_Chunk) = Ok [145, 0, 1, 5]"
    by (simp add: try_serialize_record_def header_try_serialize_def sample_crates_def sample_codecs_def)
  have addr: "ch_address (chunk_new sample_crates [5]) = ChunkAddr 5" "chunk_size (chunk_new sample_crates [5]) = 1"
    by (simp_all add: chunk_new_def hash chunk_size_def)
  show ?thesis
    by (simp add: store_replicated_in_record_def sample_header dec ser addr store_chunk_def sent_by_def empty_task_def
        validate_key_and_existence_def chunk_network_address_def map_err_task_def is_record_key_present_locally_def
        try_bind_def call_def holding_def map_network_def contains_key_def CHUNK_MAX_SIZE_def CHUNK_MAX_RAW_SIZE_def
        put_local_record_def send_local_swarm_cmd_def Let_def)
qed

lemma stored_records_are_valid_witness:
  "valid_record sample_crates sample_codecs (plain_record (xor_to_vec 5) [145, 0, 1, 5])"
proof -
  let ?N = "holding [] unpaid_info []" and ?r = "plain_record (xor_to_vec 5) [145, 0, 1, 5]"
  have "local_entries_valid ?N"
    by (simp add: local_entries_valid_def holding_def)
  then show ?thesis
    using stored_records_are_valid [of ?N "store_replicated_in_record ?N ?r" ?r "empty_task []"]
      sample_rmp_header_laws sample_codec_laws by (simp add: sample_chunk_put)
qed

text \<open>C4: New data is never stored for free. When the local store does not hold the key of an upload and the
  chain confirms no payment, the upload is refused and nothing is handed to the store, whatever kind of
  record it is and whatever proof it carries.\<close>

theorem unpaid_data_is_not_stored:
  assumes "nothing_paid N" and "never_held N (rkey r)"
  shows "puts (sent_by (validate_and_store_record N r) s) = [] \<and>
    (\<exists>e. fst (run_state (validate_and_store_record N r) s) = Err e)"
  using yields_sent_by [OF fails_validate_and_store_record [OF assms, unfolded fails_def], of s]
  by (cases "fst (run_state (validate_and_store_record N r) s)") (auto simp: is_ok_simps)

lemma unpaid_data_is_not_stored_witness:
  "\<exists>e. fst (run_state (validate_and_store_record (holding [] unpaid_info []) (plain_record [4] [145, 10, 1, 5])) (empty_task [])) = Err e"
proof -
  have "nothing_paid (holding [] unpaid_info [])"
    by (auto simp: nothing_paid_def holding_def sample_node_def sample_evm_def unpaid_info_def ex_in_conv)
  moreover have "never_held (holding [] unpaid_info []) (rkey (plain_record [4] [145, 10, 1, 5]))"
    by (simp add: never_held_def holding_def contains_key_def)
  ultimately show ?thesis
    using unpaid_data_is_not_stored [of _ "plain_record [4] [145, 10, 1, 5]" "empty_task []"] by blast
qed

text \<open>C18: Pointers, scratchpads and graph entries of one owner share a record key. A pointer sent without any
  payment is accepted when the key is held, and the record held is compared only when it is a pointer:
  an owner who has paid for a scratchpad can replace it by a pointer for free, whatever the counters are.\<close>

theorem unpaid_pointer_replaces_scratchpad:
  assumes "header_from_record (nd_crates N) r = Ok \<lparr>kind = DataOnly DT_Pointer\<rparr>"
    and "try_deserialize_record (rc_pointer_from_slice (nd_codecs N)) r = Ok p"
    and "pt_verify_signature (nd_crates N) p" and "rkey r = pointer_key (nd_crates N) p"
    and "rkey r = pad_key (nd_crates N) pad" and "header_from_record (nd_crates N) held = Ok \<lparr>kind = DataOnly DT_Scratchpad\<rparr>"
    and "\<And>w. fst (nw_record_store_has_key (nd_network N) (rkey r) w) = Some True"
    and "\<And>w. fst (nw_local_record (nd_network N) (rkey r) w) = Ok (Some held)"
    and "try_serialize_record (nd_crates N) (rc_pointer_to_vec (nd_codecs N)) p (DataOnly DT_Pointer) = Ok bs"
  shows "fst (run_state (validate_and_store_record N r) s) = Ok () \<and>
    puts (sent_by (validate_and_store_record N r) s) = [(plain_record (pad_key (nd_crates N) pad) bs, True)]"
proof -
  have key: "to_record_key (nd_crates N) (NA_PointerAddress (pt_address p)) = rkey r"
    using assms(4) by (simp add: pointer_key_def)
  have exists: "yields (validate_key_and_existence N (NA_PointerAddress (pt_address p)) (rkey r)) (\<lambda>res cs. cs = [] \<and> res = Ok True)"
    unfolding validate_key_and_existence_def map_err_task_def is_record_key_present_locally_def Let_def key
    by (simp add: yields_def wp_simps assms(7))
  have none: "yields (get_local_pointer N (pt_address p)) (\<lambda>res cs. cs = [] \<and> res = None)"
    unfolding get_local_pointer_def Let_def key get_local_record_def by (simp add: yields_def wp_simps assms(6,8))
  have "yields (validate_and_store_pointer_record N p (rkey r) True)
      (\<lambda>res cs. res = Ok () \<and> puts cs = [(plain_record (rkey r) bs, True)])"
    unfolding validate_and_store_pointer_record_def Let_def key put_local_record_def
    using assms(3,9) by (auto intro!: yields_bind [OF none] yields_bind [OF yields_send])
  then have "yields (put_pointer_update N r) (\<lambda>res cs. res = Ok () \<and> puts cs = [(plain_record (rkey r) bs, True)])"
    unfolding put_pointer_update_def decode_record_def assms(2)
    by (auto intro!: yields_try_bind [OF exists] yields_bind [OF _ yields_mono [OF yields_notify_when_ok]])
  then show ?thesis
    using yields_sent_by [of "put_pointer_update N r" _ s] assms(1,5)
    by (simp add: validate_and_store_record_def)
qed

lemma sample_pointer:
  fixes c :: u64 and x :: xor_name
  defines "p \<equiv> pt_new sample_crates (SecretKey [5]) c (PT_ChunkAddress (ChunkAddr x))"
  shows "pt_verify_signature sample_crates p"
    and "\<exists>bs. try_serialize_record sample_crates (rc_pointer_to_vec sample_codecs) p (DataOnly DT_Pointer) = Ok bs \<and>
      (\<forall>k. header_from_record sample_crates (plain_record k bs) = Ok \<lparr>kind = DataOnly DT_Pointer\<rparr> \<and>
           try_deserialize_record (rc_pointer_from_slice sample_codecs) (plain_record k bs) = Ok p)"
proof -
  show "pt_verify_signature sample_crates p"
    using sample_bls_laws by (simp add: p_def pt_new_def pt_verify_signature_def pt_bytes_for_signature_def bls_laws_def Let_def)
  have law: "codec_law (rc_pointer_to_vec sample_codecs) (rc_pointer_from_slice sample_codecs)"
    using sample_codec_laws by (simp add: codec_laws_def)
  obtain bs where bs: "try_serialize_record sample_crates (rc_pointer_to_vec sample_codecs) p (DataOnly DT_Pointer) = Ok bs"
    by (simp add: try_serialize_record_def header_try_serialize_def sample_codecs_def p_def pt_new_def Let_def sample_crates_def)
  from bs serialized_record [OF sample_rmp_header_laws law bs]
  show "\<exists>bs. try_serialize_record sample_crates (rc_pointer_to_vec sample_codecs) p (DataOnly DT_Pointer) = Ok bs \<and>
      (\<forall>k. header_from_record sample_crates (plain_record k bs) = Ok \<lparr>kind = DataOnly DT_Pointer\<rparr> \<and>
           try_deserialize_record (rc_pointer_from_slice sample_codecs) (plain_record k bs) = Ok p)"
    by blast
qed

lemma unpaid_pointer_replaces_scratchpad_witness:
  "\<exists>key held bs. header_from_record sample_crates held = Ok \<lparr>kind = DataOnly DT_Scratchpad\<rparr> \<and>
     puts (sent_by (validate_and_store_record (holding [(key, held)] unpaid_info []) (plain_record key bs)) (empty_task [])) =
       [(plain_record key bs, True)]"
proof -
  define p where "p = pt_new sample_crates (SecretKey [5]) 1 (PT_ChunkAddress (ChunkAddr 7))"
  define pad where "pad = sp_new_with_signature (pt_owner p) 0 [] 9 0"
  define key where "key = pointer_key sample_crates p"
  define held where "held = plain_record key [145, 3, 0]"
  obtain bs where bs: "try_serialize_record sample_crates (rc_pointer_to_vec sample_codecs) p (DataOnly DT_Pointer) = Ok bs"
      "\<And>k. header_from_record sample_crates (plain_record k bs) = Ok \<lparr>kind = DataOnly DT_Pointer\<rparr>"
      "\<And>k. try_deserialize_record (rc_pointer_from_slice sample_codecs) (plain_record k bs) = Ok p"
    using sample_pointer(2) [of 1 7] unfolding p_def by blast
  have pad: "key = pad_key sample_crates pad"
    by (simp add: key_def pointer_key_def pad_key_def pad_def sp_new_with_signature_def pt_address_def
        pointer_xorname_def scratchpad_xorname_def)
  have "puts (sent_by (validate_and_store_record (holding [(key, held)] unpaid_info []) (plain_record key bs)) (empty_task [])) =
      [(plain_record (pad_key sample_crates pad) bs, True)]"
    using unpaid_pointer_replaces_scratchpad [of "holding [(key, held)] unpaid_info []" "plain_record key bs" p pad held bs "empty_task []"]
      bs sample_pointer(1) [of 1 7, folded p_def] pad
    by (simp add: key_def [symmetric] held_def sample_header holding_def contains_key_def)
  with pad show ?thesis
    by (intro exI [of _ key] exI [of _ held] exI [of _ bs]) (simp add: held_def sample_header)
qed



text \<open>C6: When a node accepts a Merkle payment for an address, the proof is a proof for that address; the
  contract holds a payment for the pool of the proof; the proof verifies against the depth, the time and
  the paid nodes the contract recorded; the costs sent to the contract are those the pool's nodes signed;
  and either the node found fewer peers near the pool than it asked for, or more than half of the paid
  nodes are among the peers closest to the pool.\<close>

theorem accepted_merkle_upload:
  assumes "fst (run_state (verify_merkle_payment N proof a) s) = Ok ()"
  defines "pool \<equiv> winner_pool_hash (nd_crates N) proof"
  shows "xor_to_vec (mpp_address proof) = as_bytes (nd_crates N) a \<and>
    (\<exists>vault w info clock. merkle_payments_address (nd_evm N) = Some vault \<and>
       fst (call_get_payment_info (nd_evm N) vault pool w) = Ok info \<and> cpi_depth info \<noteq> 0 \<and>
       merkle_proof_verify (nd_crates N) (nd_merkle N) clock (cpi_depth info) (cpi_timestamp info) pool
         (map (\<lambda>(x, i). (x, unat i)) (cpi_paid_nodes info)) proof = Ok () \<and>
       (\<exists>s' cs. fst (run_state (get_merkle_payment_packed_commitments (nd_evm N) pool (cpi_timestamp info)) s') = Ok cs \<and>
          verify_cost_units cs pool (mpp_winner_pool proof) = Ok ()) \<and>
       (\<exists>s' closest. fst (run_state (get_closest_peers_with_retries (nd_crates N) (nd_network N)
            (NA_ChunkAddress (ChunkAddr (midpoint_address (nd_crates N) (mcp_midpoint_proof (mpp_winner_pool proof)))))
            (Some PEERS_TO_QUERY)) s') = Ok closest \<and>
          (length closest < PEERS_TO_QUERY \<or>
           (\<exists>ids. corresponding_peer_ids (nd_crates N) (map (\<lambda>(x, i). (x, unat i)) (cpi_paid_nodes info)) proof = Ok ids \<and>
              length (cpi_paid_nodes info) div 2 < length (filter (\<lambda>p. p \<in> set (map fst closest)) ids)))))"
proof -
  have addr: "xor_to_vec (mpp_address proof) = as_bytes (nd_crates N) a"
    using assms(1) by (auto simp: verify_merkle_payment_def Let_def split: if_splits)
  define key where "key = to_record_key (nd_crates N) a"
  obtain info s1 where i: "run_state (merkle_payment_info N key pool) s = (Ok info, s1)"
    and r1: "fst (run_state (try_bind (do {
            clock \<leftarrow> call (unix_now (nd_evm N));
            ret (map_err (\<lambda>e. MerklePaymentVerificationFailed key (ProofVerificationFailed e))
              (merkle_proof_verify (nd_crates N) (nd_merkle N) clock (cpi_depth info) (cpi_timestamp info) pool
                (map (\<lambda>(a, i). (a, unat i)) (cpi_paid_nodes info)) proof))
          }) (\<lambda>_.
          try_bind (node_verify_cost_units N proof (cpi_timestamp info) pool key) (\<lambda>_.
          verify_topology N proof (map (\<lambda>(a, i). (a, unat i)) (cpi_paid_nodes info)) key))) s1) = Ok ()"
    using assms(1) addr unfolding verify_merkle_payment_def Let_def key_def pool_def by (auto elim: run_try_bind_OkE)
  obtain x s2 where x: "run_state (do {
            clock \<leftarrow> call (unix_now (nd_evm N));
            ret (map_err (\<lambda>e. MerklePaymentVerificationFailed key (ProofVerificationFailed e))
              (merkle_proof_verify (nd_crates N) (nd_merkle N) clock (cpi_depth info) (cpi_timestamp info) pool
                (map (\<lambda>(a, i). (a, unat i)) (cpi_paid_nodes info)) proof)) }) s1 = (Ok x, s2)"
    and r2: "fst (run_state (try_bind (node_verify_cost_units N proof (cpi_timestamp info) pool key) (\<lambda>_.
          verify_topology N proof (map (\<lambda>(a, i). (a, unat i)) (cpi_paid_nodes info)) key)) s2) = Ok ()"
    using run_try_bind_OkE [OF r1] by blast
  from x obtain clock where v: "merkle_proof_verify (nd_crates N) (nd_merkle N) clock (cpi_depth info) (cpi_timestamp info) pool
        (map (\<lambda>(a, i). (a, unat i)) (cpi_paid_nodes info)) proof = Ok ()"
    by (auto simp: map_err_eq_Ok split: prod.splits)
  from r2 obtain s3 where c: "fst (run_state (node_verify_cost_units N proof (cpi_timestamp info) pool key) s2) = Ok ()"
    and t: "fst (run_state (verify_topology N proof (map (\<lambda>(a, i). (a, unat i)) (cpi_paid_nodes info)) key) s3) = Ok ()"
    by (elim run_try_bind_OkE) auto
  obtain s4 where "fst (run_state (get_merkle_payment_info (nd_evm N) pool) s4) = Ok info"
    using merkle_payment_info_Ok [of N key pool s info] i by auto
  from get_merkle_payment_info_Ok [OF this] obtain vault w where
    "merkle_payments_address (nd_evm N) = Some vault" "fst (call_get_payment_info (nd_evm N) vault pool w) = Ok info" "cpi_depth info \<noteq> 0"
    by blast
  with addr v node_verify_cost_units_Ok [OF c] verify_topology_Ok [OF t, unfolded length_map] show ?thesis
    by blast
qed

lemma sample_cost_units:
  "verify_cost_units [sample_commitment] (candidate_pool_hash sample_crates sample_pool) sample_pool = Ok ()"
proof -
  have "verify_cost_unit (i, \<lparr>cp_rewards_address = r, data_type_and_total_cost_unit = expected_packed sample_metrics\<rparr>, sample_candidate) = Ok ()" for i r
    using encode_metrics [of sample_metrics]
    by (simp add: verify_cost_unit_def sample_candidate_def sample_metrics_def Let_def)
  then show ?thesis
    by (auto simp: verify_cost_units_def sample_commitment_def try_for_each_eq_Ok sample_pool_def CANDIDATES_PER_POOL_def
        sample_candidate_def in_set_enumerate_eq)
qed

lemma sample_closest_peers:
  "fst (run_state (get_closest_peers_with_retries sample_crates (nd_network paying_node) a (Some PEERS_TO_QUERY)) s) = Ok [(PeerId [7], Addresses [])]"
  by (simp add: get_closest_peers_with_retries_def holding_def map_network_def get_closest_peers_with_majority_knowledge_def
      try_bind_def call_def PEERS_TO_QUERY_def CANDIDATES_PER_POOL_def popular_peers_def select_tier1_def select_tier2_def
      select_tier3_def select_tier4_def popular_not_in_candidates_def by_distance_def farthest_popular_distance_def)

lemma sample_merkle_upload:
  assumes "as_bytes sample_crates a = xor_to_vec 5"
  shows "fst (run_state (verify_merkle_payment paying_node sample_merkle_payment a) s) = Ok ()"
proof -
  have pool: "mpp_address sample_merkle_payment = 5" "mpp_winner_pool sample_merkle_payment = sample_pool"
    by (simp_all add: sample_merkle_payment_def merkle_payment_proof_new_def)
  have info: "run_state (merkle_payment_info paying_node k h) s = (Ok paid_info, s)" for k h s
    by (simp add: merkle_payment_info_def get_merkle_payment_info_def get_payment_info_def holding_def sample_node_def
        sample_evm_def call_def paid_info_def)
  have cost: "fst (run_state (node_verify_cost_units paying_node sample_merkle_payment 1000 (candidate_pool_hash sample_crates sample_pool) k) s) = Ok ()" for k s
    using sample_cost_units
    by (simp add: node_verify_cost_units_def get_merkle_payment_packed_commitments_def get_payment_packed_commitments_def
        holding_def sample_node_def sample_evm_def call_def try_bind_def MAX_COST_UNIT_FETCH_RETRIES_def numeral_2_eq_2 pool)
  have topology: "fst (run_state (verify_topology paying_node sample_merkle_payment paid k) s) = Ok ()" for paid k s
  proof -
    have "length [(PeerId [7], Addresses [])] < PEERS_TO_QUERY" by (simp add: PEERS_TO_QUERY_def CANDIDATES_PER_POOL_def)
    then show ?thesis
      by (simp add: verify_topology_def fst_run_try_bind run_map_err_task sample_closest_peers Let_def)
  qed
  have verified: "fst (run_state (do {
      clock \<leftarrow> call (unix_now (nd_evm paying_node));
      ret (map_err f (merkle_proof_verify sample_crates sample_merkle_crates clock 1 1000 (candidate_pool_hash sample_crates sample_pool) [(3, 0)] sample_merkle_payment))
    }) s) = Ok ()" for f :: "merkle_verification_error \<Rightarrow> put_validation_error" and s
    using sample_merkle_verified by (simp add: holding_def sample_node_def sample_evm_def call_def)
  have merkle: "nd_merkle paying_node = sample_merkle_crates" by (simp add: holding_def)
  have "cpi_depth paid_info = 1" "cpi_timestamp paid_info = 1000" "map (\<lambda>(a, i). (a, unat i)) (cpi_paid_nodes paid_info) = [(3, 0)]"
    by (simp_all add: paid_info_def)
  then show ?thesis
    using assms
    by (simp add: verify_merkle_payment_def pool winner_pool_hash_def fst_run_try_bind info verified cost topology merkle Let_def
        del: run_state_bind)
qed

lemma accepted_merkle_upload_witness:
  "xor_to_vec (mpp_address sample_merkle_payment) = as_bytes sample_crates (NA_ChunkAddress (ChunkAddr 5)) \<and>
   merkle_payments_address (nd_evm paying_node) \<noteq> None"
  using accepted_merkle_upload [of paying_node sample_merkle_payment "NA_ChunkAddress (ChunkAddr 5)" "empty_task []"]
    sample_merkle_upload [of "NA_ChunkAddress (ChunkAddr 5)"] by auto

text \<open>The check of a Merkle payment depends on the bytes of the address alone.\<close>

lemma verify_merkle_payment_cong:
  assumes "as_bytes (nd_crates N) a = as_bytes (nd_crates N) b"
    and "to_record_key (nd_crates N) a = to_record_key (nd_crates N) b"
  shows "verify_merkle_payment N proof a = verify_merkle_payment N proof b"
  unfolding verify_merkle_payment_def Let_def by (simp only: assms)

text \<open>C17: The kind of data that was paid for is never compared with the kind that is uploaded. A Merkle
  payment the node accepts for a chunk named x buys a signed scratchpad whose address has the same bytes,
  although a scratchpad costs ten times as much.\<close>

theorem chunk_payment_buys_scratchpad:
  assumes paid: "fst (run_state (verify_merkle_payment N proof (NA_ChunkAddress (ChunkAddr x))) s) = Ok ()"
    and "header_from_record (nd_crates N) r = Ok \<lparr>kind = DataWithMerklePayment DT_Scratchpad\<rparr>"
    and "try_deserialize_record (rc_merkle_scratchpad_from_slice (nd_codecs N)) r = Ok (proof, pad)"
    and "scratchpad_xorname (nd_crates N) (sp_address pad) = x" and "rkey r = pad_key (nd_crates N) pad"
    and "sp_verify_signature (nd_crates N) pad" and "\<not> sp_is_too_big (nd_crates N) pad"
    and "\<And>w. fst (nw_local_record (nd_network N) (rkey r) w) = Ok None"
    and "try_serialize_record (nd_crates N) (rc_scratchpad_to_vec (nd_codecs N)) pad (DataOnly DT_Scratchpad) = Ok bs"
  shows "fst (run_state (validate_and_store_record N r) s) = Ok () \<and>
    puts (sent_by (validate_and_store_record N r) s) = [(plain_record (rkey r) bs, True)]"
proof -
  define upload where "upload = do {
      res \<leftarrow> validate_and_store_scratchpad_record N pad (rkey r) True;
      notify_when_ok N (rkey r) (content_hash N r) res }"
  have same: "verify_merkle_payment N proof (sp_network_address pad) = verify_merkle_payment N proof (NA_ChunkAddress (ChunkAddr x))"
    by (rule verify_merkle_payment_cong) (simp_all add: sp_network_address_def assms(4))
  have none: "yields (local_record_at N (rkey r)) (\<lambda>res cs. cs = [] \<and> res = Ok None)"
    by (simp add: yields_def wp_simps local_record_at_def map_err_task_def get_local_record_def assms(8))
  have stored: "yields (validate_and_store_scratchpad_record N pad (rkey r) True)
      (\<lambda>res cs. res = Ok () \<and> puts cs = [(plain_record (rkey r) bs, True)])"
    unfolding validate_and_store_scratchpad_record_def Let_def pad_key_def [symmetric] assms(5) [symmetric] put_local_record_def
    using assms(6,7,9) by (auto intro!: yields_try_bind [OF none] yields_bind [OF yields_send])
  have upload: "yields upload (\<lambda>res cs. res = Ok () \<and> puts cs = [(plain_record (rkey r) bs, True)])"
    unfolding upload_def by (rule yields_bind [OF stored], rule yields_mono [OF yields_notify_when_ok]) auto
  have silent: "yields (verify_merkle_payment N proof (NA_ChunkAddress (ChunkAddr x))) (\<lambda>_ cs. cs = [])"
    using silent_verify_merkle_payment by (simp add: silent_def)
  have put: "validate_and_store_record N r = try_bind (verify_merkle_payment N proof (NA_ChunkAddress (ChunkAddr x))) (\<lambda>_. upload)"
    by (simp add: validate_and_store_record_def assms(2) merkle_scratchpad_put_def decode_record_def assms(3) same upload_def)
  have "fst (run_state (validate_and_store_record N r) s) = Ok ()"
    unfolding put fst_run_try_bind [OF paid] using yields_sent_by [OF upload] by blast
  moreover have "yields (validate_and_store_record N r) (\<lambda>res cs. res = Ok () \<longrightarrow> puts cs = [(plain_record (rkey r) bs, True)])"
    unfolding put by (rule yields_try_bind [OF silent]) (auto intro: yields_mono [OF upload])
  ultimately show ?thesis using yields_sent_by by blast
qed

lemma horner_sum_zeros: "horner_sum f b (x # replicate n y) = f x" if "f y = (0 :: int)"
  using that by (induction n) (simp_all add: horner_sum_simps)

lemma sample_owner: "(of_be_bytes (be_bytes 48 (5 :: public_key)) :: hash32) = 5" "(of_be_bytes [5] :: public_key) = 5"
proof -
  have five: "(of_be_bytes (replicate 47 0 @ [5]) :: 'a::len word) = 5"
    by (simp add: of_be_bytes_def word_rcat_def horner_sum_zeros del: horner_sum_simps)
  have "be_bytes 48 (5 :: public_key) = replicate 47 0 @ [5]"
    using be_bytes_of_be_bytes [where 'a = 384 and n = 48 and bs = "replicate 47 0 @ [5]"] by (simp add: five)
  then show "(of_be_bytes (be_bytes 48 (5 :: public_key)) :: hash32) = 5"
    by (simp add: five)
  show "(of_be_bytes [5] :: public_key) = 5"
    by (simp add: of_be_bytes_def word_rcat_def)
qed

lemma chunk_payment_buys_scratchpad_witness:
  "\<exists>r bs. header_from_record sample_crates r = Ok \<lparr>kind = DataWithMerklePayment DT_Scratchpad\<rparr> \<and>
     qm_data_type (mc_quoting_metrics (hd (mcp_candidate_nodes (mpp_winner_pool sample_merkle_payment)))) = get_index DT_Chunk \<and>
     puts (sent_by (validate_and_store_record paying_node r) (empty_task [])) = [(plain_record (rkey r) bs, True)]"
proof -
  define pad where "pad = sp_new sample_crates 0 (SecretKey [5]) 0 [] 1"
  define payload where "payload = be_bytes 48 (sp_owner pad) @ be_bytes 8 (sp_counter pad) @ be_bytes 96 (sp_signature pad)"
  define r where "r = plain_record (pad_key sample_crates pad) (145 # 23 # payload)"
  have fields: "sp_data_encoding pad = 0" "sp_encrypted_data pad = []" "sp_address pad = ScratchpadAddr 5"
    by (simp_all add: pad_def sp_new_def Let_def sample_crates_def sample_owner)
  have vec: "rc_scratchpad_to_vec sample_codecs pad = Some payload"
    by (simp add: sample_codecs_def fields payload_def)
  have "codec_law (rc_scratchpad_to_vec sample_codecs) (rc_scratchpad_from_slice sample_codecs)"
    using sample_codec_laws by (simp add: codec_laws_def)
  with vec have "rc_scratchpad_from_slice sample_codecs payload = Some pad"
    by (simp add: codec_law_def)
  then have "sample_pad_from_slice payload = Some pad"
    by (simp add: sample_codecs_def)
  then have dec: "try_deserialize_record (rc_merkle_scratchpad_from_slice sample_codecs) r = Ok (sample_merkle_payment, pad)"
    by (simp add: try_deserialize_record_def r_def HEADER_SIZE_def sample_codecs_def payload_def)
  have len: "length payload = 152" by (simp add: payload_def)
  have hdr: "header_from_record sample_crates r = Ok \<lparr>kind = DataWithMerklePayment DT_Scratchpad\<rparr>"
    using len by (cases payload) (simp_all add: r_def header_from_record_def header_try_deserialize_def HEADER_SIZE_def sample_crates_def
      record_kind_deserialize_def from_index_def kind_index_defs)
  have ser: "try_serialize_record sample_crates (rc_scratchpad_to_vec sample_codecs) pad (DataOnly DT_Scratchpad) = Ok (145 # 3 # payload)"
    by (simp add: try_serialize_record_def header_try_serialize_def vec sample_crates_def)
  have "sp_verify_signature sample_crates pad"
    using sample_bls_laws by (simp add: pad_def sp_new_def sp_verify_signature_def sp_owner_def bls_laws_def Let_def)
  moreover have "\<not> sp_is_too_big sample_crates pad"
    by (simp add: sp_is_too_big_def sp_size_def sp_payload_size_def fields SCRATCHPAD_MAX_SIZE_def sample_crates_def)
  moreover have "scratchpad_xorname sample_crates (sp_address pad) = 5"
    by (simp add: fields scratchpad_xorname_def sample_crates_def pk_to_bytes_def sample_owner)
  moreover have "fst (nw_local_record (nd_network paying_node) k w) = Ok None" for k w
    by (simp add: holding_def)
  ultimately have "puts (sent_by (validate_and_store_record paying_node r) (empty_task [])) = [(plain_record (rkey r) (145 # 3 # payload), True)]"
    using chunk_payment_buys_scratchpad [of paying_node sample_merkle_payment 5 "empty_task []" r pad "145 # 3 # payload"]
      hdr dec ser sample_merkle_upload by (simp add: r_def)
  moreover have "qm_data_type (mc_quoting_metrics (hd (mcp_candidate_nodes (mpp_winner_pool sample_merkle_payment)))) = get_index DT_Chunk"
    by (simp add: sample_merkle_payment_def merkle_payment_proof_new_def sample_pool_nodes sample_candidate_def sample_metrics_def)
  ultimately show ?thesis using hdr by blast
qed

end
