(* ===== verification/Version_Gate.thy ===== *)
theory Version_Gate
  imports Prelude "HOL-Library.Sublist"
begin

text \<open>
  The version gate of \<^verbatim>\<open>ant-protocol/src/version_gate.rs\<close>: the version in the agent string a peer sends
  when it identifies itself, its comparison with the least version a node must have, and the kind of
  peer the agent string stands for. The functions of the standard library on strings (\<^verbatim>\<open>split\<close>,
  \<^verbatim>\<open>contains\<close>, \<^verbatim>\<open>parse::<u16>\<close>, the decimal \<^verbatim>\<open>Display\<close> of an integer) are defined first.
\<close>

section \<open>Definitions\<close>

subsection \<open>Strings\<close>

fun split_on :: "char \<Rightarrow> string \<Rightarrow> string list" where
  "split_on c [] = [[]]"
| "split_on c (x # xs) =
    (if x = c then [] # split_on c xs
     else (case split_on c xs of y # ys \<Rightarrow> (x # y) # ys | [] \<Rightarrow> [[x]]))"

definition str_contains :: "string \<Rightarrow> string \<Rightarrow> bool" where
  "str_contains s pat = sublist pat s"

definition digit_value :: "char \<Rightarrow> nat option" where
  "digit_value c = (let n = of_char c in if 48 \<le> n \<and> n \<le> 57 then Some (n - 48) else None)"

fun parse_digits :: "nat \<Rightarrow> string \<Rightarrow> nat option" where
  "parse_digits acc [] = Some acc"
| "parse_digits acc (c # cs) =
    (case digit_value c of None \<Rightarrow> None
     | Some d \<Rightarrow> if acc * 10 + d < 65536 then parse_digits (acc * 10 + d) cs else None)"

definition parse_u16 :: "string \<Rightarrow> u16 option" where
  "parse_u16 s =
    (let ds = (case s of c # cs \<Rightarrow> if c = CHR ''+'' then cs else s | [] \<Rightarrow> [])
     in if ds = [] then None else map_option word_of_nat (parse_digits 0 ds))"

fun show_nat :: "nat \<Rightarrow> string" where
  "show_nat n = (if n < 10 then [char_of (48 + n)] else show_nat (n div 10) @ [char_of (48 + n mod 10)])"

declare show_nat.simps [simp del]

definition decimal :: "string \<Rightarrow> bool" where
  "decimal s = list_all (\<lambda>c. digit_value c \<noteq> None) s"

subsection \<open>Versions\<close>

record peer_version =
  major :: u16
  minor :: u16
  patch :: u16

definition MIN_NODE_VERSION :: "u16 \<times> u16 \<times> u16" where
  "MIN_NODE_VERSION = (0, 4, 15)"

definition peer_version_new :: "u16 \<Rightarrow> u16 \<Rightarrow> u16 \<Rightarrow> peer_version" where
  "peer_version_new a b c = \<lparr>major = a, minor = b, patch = c\<rparr>"

definition parse_semver :: "string \<Rightarrow> peer_version option" where
  "parse_semver version_str =
    (let version_core = hd (split_on CHR ''-'' version_str);
         parts = split_on CHR ''.'' version_core
     in if length parts < 3 then None
        else Option.bind (parse_u16 (parts ! 0)) (\<lambda>a. Option.bind (parse_u16 (parts ! 1)) (\<lambda>b.
             Option.bind (parse_u16 (parts ! 2)) (\<lambda>c. Some \<lparr>major = a, minor = b, patch = c\<rparr>))))"

definition parse_from_agent_string :: "string \<Rightarrow> peer_version option" where
  "parse_from_agent_string agent =
    (let parts = split_on CHR ''/'' agent
     in if length parts < 5 then None
        else if parts ! 0 \<noteq> ''ant'' then None
        else parse_semver (parts ! 3))"

text \<open>The environment variable, when it is set, is an argument.\<close>

definition get_min_node_version :: "string option \<Rightarrow> peer_version" where
  "get_min_node_version env =
    (case Option.bind env parse_semver of Some version \<Rightarrow> version
     | None \<Rightarrow> (case MIN_NODE_VERSION of (a, b, c) \<Rightarrow> peer_version_new a b c))"

definition meets_minimum :: "peer_version \<Rightarrow> peer_version \<Rightarrow> bool" where
  "meets_minimum v m \<longleftrightarrow>
    major m < major v \<or> major m = major v \<and> (minor m < minor v \<or> minor m = minor v \<and> patch m \<le> patch v)"

definition version_display :: "peer_version \<Rightarrow> string" where
  "version_display v =
     show_nat (unat (major v)) @ ''.'' @ show_nat (unat (minor v)) @ ''.'' @ show_nat (unat (patch v))"

datatype version_check_result =
    Accepted peer_version
  | Rejected peer_version peer_version
  | Legacy
  | ParseError string

fun is_allowed :: "version_check_result \<Rightarrow> bool \<Rightarrow> bool" where
  "is_allowed (Accepted _) allow_legacy = True"
| "is_allowed Legacy allow_legacy = allow_legacy"
| "is_allowed (Rejected _ _) allow_legacy = False"
| "is_allowed (ParseError _) allow_legacy = False"

datatype peer_type = Node_Peer | Client_Peer | ReachabilityCheckClient | Unknown_Peer

definition peer_type_from_agent_string :: "string \<Rightarrow> peer_type" where
  "peer_type_from_agent_string agent =
    (if str_contains agent ''/node/'' then Node_Peer
     else if str_contains agent ''reachability-check-peer'' then ReachabilityCheckClient
     else if str_contains agent ''/client/'' \<or> str_contains agent ''client'' then Client_Peer
     else Unknown_Peer)"

definition check_peer_version :: "string \<Rightarrow> peer_version option \<Rightarrow> version_check_result" where
  "check_peer_version agent_string min_version =
    (case min_version of
       None \<Rightarrow> (case parse_from_agent_string agent_string of Some version \<Rightarrow> Accepted version | None \<Rightarrow> Legacy)
     | Some min_version \<Rightarrow>
       (case parse_from_agent_string agent_string of
          Some version \<Rightarrow>
            if meets_minimum version min_version then Accepted version else Rejected version min_version
        | None \<Rightarrow> if prefix ''ant/'' agent_string then Legacy else ParseError agent_string))"

section \<open>Printing and parsing\<close>

lemma digit_value_char [simp]: "d < 10 \<Longrightarrow> digit_value (char_of (48 + d)) = Some d"
  by (simp add: digit_value_def Let_def)

lemma decimal_show_nat: "decimal (show_nat n)"
proof (induction n rule: show_nat.induct)
  case (1 n)
  then show ?case by (subst show_nat.simps) (simp add: decimal_def)
qed

lemma show_nat_not_Nil [simp]: "show_nat n \<noteq> []"
  by (subst show_nat.simps) simp

lemma parse_digits_append:
  "parse_digits acc (xs @ ys) = Option.bind (parse_digits acc xs) (\<lambda>a. parse_digits a ys)"
  by (induction xs arbitrary: acc) (auto split: option.splits)

lemma parse_digits_show_nat: "n < 65536 \<Longrightarrow> parse_digits 0 (show_nat n) = Some n"
proof (induction n rule: show_nat.induct)
  case (1 n)
  show ?case
  proof (cases "n < 10")
    case True
    then show ?thesis by (subst show_nat.simps) simp
  next
    case False
    with 1 have "parse_digits 0 (show_nat (n div 10)) = Some (n div 10)" by simp
    with False 1 show ?thesis by (subst show_nat.simps) (simp add: parse_digits_append)
  qed
qed

lemma decimal_no_sign: "decimal (c # cs) \<Longrightarrow> c \<noteq> CHR ''+'' \<and> c \<noteq> CHR ''-'' \<and> c \<noteq> CHR ''.'' \<and> c \<noteq> CHR ''/''"
  by (auto simp: decimal_def digit_value_def)

lemma parse_u16_show_nat: "parse_u16 (show_nat (unat w)) = Some w"
proof -
  obtain c cs where s: "show_nat (unat w) = c # cs" by (cases "show_nat (unat w)") auto
  moreover have "c \<noteq> CHR ''+''" using decimal_no_sign [of c cs] decimal_show_nat [of "unat w"] s by simp
  moreover have "unat w < 65536" using unsigned_less [of w] by simp
  ultimately show ?thesis using parse_digits_show_nat [of "unat w"] by (simp add: parse_u16_def)
qed

lemma split_on_not_Nil [simp]: "split_on c s \<noteq> []"
  by (cases s) (auto split: list.splits)

lemma split_on_none: "c \<notin> set s \<Longrightarrow> split_on c s = [s]"
  by (induction s) auto

lemma split_on_append: "c \<notin> set s \<Longrightarrow> split_on c (s @ c # r) = s # split_on c r"
  by (induction s) auto

lemma decimal_chars: "decimal s \<Longrightarrow> CHR ''-'' \<notin> set s \<and> CHR ''.'' \<notin> set s \<and> CHR ''/'' \<notin> set s"
  by (auto simp: decimal_def list_all_iff digit_value_def)

lemmas show_nat_chars [simp] = decimal_chars [OF decimal_show_nat, THEN conjunct1]
  decimal_chars [OF decimal_show_nat, THEN conjunct2, THEN conjunct1]
  decimal_chars [OF decimal_show_nat, THEN conjunct2, THEN conjunct2]

lemma version_display_chars: "CHR ''-'' \<notin> set (version_display v)" "CHR ''/'' \<notin> set (version_display v)"
  by (simp_all add: version_display_def)

lemma parse_semver_prefix:
  assumes "pre = [] \<or> (\<exists>r. pre = CHR ''-'' # r)"
  shows "parse_semver (version_display v @ pre) = Some v"
proof -
  have "hd (split_on CHR ''-'' (version_display v @ pre)) = version_display v"
    using assms by (auto simp: split_on_none split_on_append version_display_chars)
  moreover have "split_on CHR ''.'' (version_display v) =
      [show_nat (unat (major v)), show_nat (unat (minor v)), show_nat (unat (patch v))]"
    by (simp add: version_display_def split_on_append split_on_none)
  ultimately show ?thesis by (simp add: parse_semver_def parse_u16_show_nat)
qed

lemma parse_semver_display: "parse_semver (version_display v) = Some v"
  using parse_semver_prefix [of "[]"] by simp

text \<open>The agent string a node sends: its kind, the protocol version, its own version and the network.\<close>

lemma parse_agent_display:
  assumes "CHR ''/'' \<notin> set kind" and "CHR ''/'' \<notin> set proto"
  shows "parse_from_agent_string (''ant/'' @ kind @ ''/'' @ proto @ ''/'' @ version_display v @ ''/'' @ network) = Some v"
proof -
  have "split_on CHR ''/'' (''ant/'' @ kind @ ''/'' @ proto @ ''/'' @ version_display v @ ''/'' @ network) =
      ''ant'' # kind # proto # version_display v # split_on CHR ''/'' network"
    using assms by (simp add: split_on_append version_display_chars)
  then show ?thesis
    by (cases "split_on CHR ''/'' network") (auto simp: parse_from_agent_string_def parse_semver_display)
qed

section \<open>The order of versions\<close>

lemma meets_minimum_refl: "meets_minimum v v"
  by (simp add: meets_minimum_def)

lemma meets_minimum_trans: "meets_minimum a b \<Longrightarrow> meets_minimum b c \<Longrightarrow> meets_minimum a c"
  by (auto simp: meets_minimum_def)

lemma meets_minimum_total: "meets_minimum a b \<or> meets_minimum b a"
  by (auto simp: meets_minimum_def not_less intro: order.strict_implies_order)

lemma meets_minimum_antisym: "meets_minimum a b \<Longrightarrow> meets_minimum b a \<Longrightarrow> a = b"
  by (cases a; cases b) (auto simp: meets_minimum_def)

end
