(* ===== verification/Do_Not_Disturb.thy ===== *)
theory Do_Not_Disturb
  imports Multiaddr
begin

text \<open>
  The do-not-disturb protocol of \<^verbatim>\<open>networking/driver/behaviour/do_not_disturb.rs\<close>: a node asks a peer
  not to dial it for a while, and the peer denies its own outgoing connections to the node until then.
  The codec frames a message by its length; the serialisation inside the frame is a third-party function.
  A stream is the bytes it delivers; reading more than there are is the error of a closed stream. Every
  operation that reads the clock has its reading as an argument.

  The abstract view of the behaviour is the history of what peers asked for: a peer is denied exactly
  while its latest request has not run out, whatever has been cleaned up or polled in between.
\<close>

section \<open>Definitions\<close>

definition MAX_DO_NOT_DISTURB_DURATION :: nat where
  "MAX_DO_NOT_DISTURB_DURATION = 5 * 60"

definition DND_PROTOCOL :: string where
  "DND_PROTOCOL = ''/autonomi/dnd/1.0.0''"

datatype do_not_disturb_message = DND_Request u64 | DND_Response bool

record dnd_codec =
  rmp_dnd_to_vec :: "do_not_disturb_message \<Rightarrow> bytes option"
  rmp_dnd_from_slice :: "bytes \<Rightarrow> do_not_disturb_message option"

datatype io_error = UnexpectedEof | InvalidData

subsection \<open>The codec\<close>

definition read_exact :: "nat \<Rightarrow> bytes \<Rightarrow> (bytes \<times> bytes, io_error) result" where
  "read_exact n stream = (if length stream < n then Err UnexpectedEof else Ok (take n stream, drop n stream))"

definition read_message :: "dnd_codec \<Rightarrow> bytes \<Rightarrow> (do_not_disturb_message \<times> bytes, io_error) result" where
  "read_message K stream =
     and_then (read_exact 4 stream) (\<lambda>(len_bytes, stream).
       let len = unat (of_be_bytes len_bytes :: u32)
       in if len > 1024 then Err InvalidData
          else and_then (read_exact len stream) (\<lambda>(data, stream).
            and_then (ok_or (rmp_dnd_from_slice K data) InvalidData) (\<lambda>m. Ok (m, stream))))"

definition write_message :: "dnd_codec \<Rightarrow> do_not_disturb_message \<Rightarrow> (bytes, io_error) result" where
  "write_message K message =
     and_then (ok_or (rmp_dnd_to_vec K message) InvalidData) (\<lambda>data.
       let len = word_of_nat (length data) :: u32
       in Ok (be_bytes 4 len @ data))"

text \<open>The upgrades of the two ends of a stream: what is read, and what is written to the other end.\<close>

definition upgrade_inbound :: "dnd_codec \<Rightarrow> bytes \<Rightarrow> (do_not_disturb_message \<times> bytes, io_error) result" where
  "upgrade_inbound K stream =
     and_then (read_message K stream) (\<lambda>(request, _).
       case request of
         DND_Request duration \<Rightarrow>
           Ok (request, case write_message K (DND_Response True) of Ok out \<Rightarrow> out | Err _ \<Rightarrow> [])
       | DND_Response _ \<Rightarrow> Ok (request, []))"

definition upgrade_outbound ::
  "dnd_codec \<Rightarrow> do_not_disturb_message \<Rightarrow> (bytes \<Rightarrow> bytes) \<Rightarrow> (do_not_disturb_message, io_error) result" where
  "upgrade_outbound K message remote =
     and_then (write_message K message) (\<lambda>sent.
       and_then (read_message K (remote sent)) (\<lambda>(response, _). Ok response))"

subsection \<open>The connection handler\<close>

datatype handler_in_event = SendRequest u64

datatype handler_out_event =
    HO_RequestReceived u64
  | HO_ResponseReceived bool
  | HO_RequestFailed string

datatype handler_poll_result =
    OutboundSubstreamRequest do_not_disturb_message
  | NotifyBehaviour handler_out_event

datatype dnd_connection_event =
    FullyNegotiatedInbound do_not_disturb_message
  | FullyNegotiatedOutbound do_not_disturb_message
  | DialUpgradeError string
  | ListenUpgradeError string
  | OtherConnectionEvent

record dnd_handler =
  h_pending_events :: "handler_out_event list"
  h_pending_outbound_requests :: "do_not_disturb_message list"

definition handler_default :: dnd_handler where
  "handler_default = \<lparr>h_pending_events = [], h_pending_outbound_requests = []\<rparr>"

definition handler_poll :: "dnd_handler \<Rightarrow> dnd_handler \<times> handler_poll_result option" where
  "handler_poll h =
    (if h_pending_outbound_requests h \<noteq> [] then
       (h\<lparr>h_pending_outbound_requests := butlast (h_pending_outbound_requests h)\<rparr>,
        Some (OutboundSubstreamRequest (last (h_pending_outbound_requests h))))
     else if h_pending_events h \<noteq> [] then
       (h\<lparr>h_pending_events := butlast (h_pending_events h)\<rparr>, Some (NotifyBehaviour (last (h_pending_events h))))
     else (h, None))"

fun on_behaviour_event :: "handler_in_event \<Rightarrow> dnd_handler \<Rightarrow> dnd_handler" where
  "on_behaviour_event (SendRequest duration) h =
     h\<lparr>h_pending_outbound_requests := h_pending_outbound_requests h @ [DND_Request duration]\<rparr>"

fun on_connection_event :: "dnd_connection_event \<Rightarrow> dnd_handler \<Rightarrow> dnd_handler" where
  "on_connection_event (FullyNegotiatedInbound m) h =
    (case m of
       DND_Request duration \<Rightarrow> h\<lparr>h_pending_events := h_pending_events h @ [HO_RequestReceived duration]\<rparr>
     | DND_Response _ \<Rightarrow> h)"
| "on_connection_event (FullyNegotiatedOutbound m) h =
    (case m of
       DND_Response accepted \<Rightarrow> h\<lparr>h_pending_events := h_pending_events h @ [HO_ResponseReceived accepted]\<rparr>
     | DND_Request _ \<Rightarrow> h)"
| "on_connection_event (DialUpgradeError error) h =
     h\<lparr>h_pending_events := h_pending_events h
         @ [HO_RequestFailed (''Failed to establish outbound DND stream: '' @ error)]\<rparr>"
| "on_connection_event (ListenUpgradeError _) h = h"
| "on_connection_event OtherConnectionEvent h = h"

subsection \<open>The behaviour\<close>

datatype do_not_disturb_event =
    DND_RequestReceived peer_id u64
  | DND_ResponseReceived peer_id bool
  | DND_RequestFailed peer_id string

datatype dnd_to_swarm =
    NotifyHandler peer_id handler_in_event
  | GenerateEvent do_not_disturb_event

record do_not_disturb_error =
  dnd_peer_id :: peer_id
  remaining_duration :: int

record dnd_behaviour =
  blocked_peers :: "(peer_id, instant) hash_map"
  dnd_pending_events :: "dnd_to_swarm list"

definition dnd_default :: dnd_behaviour where
  "dnd_default = \<lparr>blocked_peers = [], dnd_pending_events = []\<rparr>"

definition dnd_block_peer :: "instant \<Rightarrow> peer_id \<Rightarrow> int \<Rightarrow> dnd_behaviour \<Rightarrow> dnd_behaviour" where
  "dnd_block_peer now peer_id duration b =
    (let capped_duration = from_secs (min (as_secs duration) MAX_DO_NOT_DISTURB_DURATION);
         unblock_time = now + capped_duration
     in b\<lparr>blocked_peers := AList.update peer_id unblock_time (blocked_peers b)\<rparr>)"

definition dnd_unblock_peer :: "peer_id \<Rightarrow> dnd_behaviour \<Rightarrow> dnd_behaviour" where
  "dnd_unblock_peer peer_id b = b\<lparr>blocked_peers := AList.delete peer_id (blocked_peers b)\<rparr>"

definition dnd_cleanup_expired :: "instant \<Rightarrow> dnd_behaviour \<Rightarrow> dnd_behaviour" where
  "dnd_cleanup_expired now b =
     b\<lparr>blocked_peers := retain (\<lambda>_ unblock_time. \<not> now \<ge> unblock_time) (blocked_peers b)\<rparr>"

definition dnd_is_blocked :: "instant \<Rightarrow> peer_id \<Rightarrow> dnd_behaviour \<Rightarrow> dnd_behaviour \<times> bool" where
  "dnd_is_blocked now peer_id b =
    (let b = dnd_cleanup_expired now b in (b, contains_key (blocked_peers b) peer_id))"

definition send_do_not_disturb_request :: "peer_id \<Rightarrow> nat \<Rightarrow> dnd_behaviour \<Rightarrow> dnd_behaviour" where
  "send_do_not_disturb_request peer duration_secs b =
    (let duration_secs = min duration_secs MAX_DO_NOT_DISTURB_DURATION
     in b\<lparr>dnd_pending_events := dnd_pending_events b @ [NotifyHandler peer (SendRequest (word_of_nat duration_secs))]\<rparr>)"

definition handle_pending_outbound_connection ::
  "instant \<Rightarrow> peer_id option \<Rightarrow> multiaddr list \<Rightarrow> dnd_behaviour \<Rightarrow>
   dnd_behaviour \<times> (multiaddr list, do_not_disturb_error) result" where
  "handle_pending_outbound_connection now maybe_peer addresses b =
    (case maybe_peer of
       Some peer_id \<Rightarrow>
         (case map_of (blocked_peers b) peer_id of
            Some unblock_time \<Rightarrow>
              if now < unblock_time
              then (b, Err \<lparr>dnd_peer_id = peer_id, remaining_duration = unblock_time - now\<rparr>)
              else (dnd_cleanup_expired now b, Ok addresses)
          | None \<Rightarrow> (b, Ok addresses))
     | None \<Rightarrow> (b, Ok addresses))"

fun on_connection_handler_event :: "instant \<Rightarrow> peer_id \<Rightarrow> handler_out_event \<Rightarrow> dnd_behaviour \<Rightarrow> dnd_behaviour" where
  "on_connection_handler_event now peer_id (HO_RequestReceived duration) b =
    (let capped_duration = from_secs (min (unat duration) MAX_DO_NOT_DISTURB_DURATION);
         b = dnd_block_peer now peer_id capped_duration b
     in b\<lparr>dnd_pending_events := dnd_pending_events b @ [GenerateEvent (DND_RequestReceived peer_id duration)]\<rparr>)"
| "on_connection_handler_event now peer_id (HO_ResponseReceived accepted) b =
     b\<lparr>dnd_pending_events := dnd_pending_events b @ [GenerateEvent (DND_ResponseReceived peer_id accepted)]\<rparr>"
| "on_connection_handler_event now peer_id (HO_RequestFailed error) b =
     b\<lparr>dnd_pending_events := dnd_pending_events b @ [GenerateEvent (DND_RequestFailed peer_id error)]\<rparr>"

definition dnd_poll :: "instant \<Rightarrow> dnd_behaviour \<Rightarrow> dnd_behaviour \<times> dnd_to_swarm option" where
  "dnd_poll now b =
    (let b = dnd_cleanup_expired now b
     in if dnd_pending_events b \<noteq> []
        then (b\<lparr>dnd_pending_events := butlast (dnd_pending_events b)\<rparr>, Some (last (dnd_pending_events b)))
        else (b, None))"

subsection \<open>Runs and their history\<close>

datatype dnd_op =
    DO_Block peer_id int
  | DO_Unblock peer_id
  | DO_IsBlocked peer_id
  | DO_Dial "peer_id option" "multiaddr list"
  | DO_HandlerEvent peer_id handler_out_event
  | DO_Send peer_id nat
  | DO_Poll

fun dnd_step :: "instant \<Rightarrow> dnd_op \<Rightarrow> dnd_behaviour \<Rightarrow> dnd_behaviour" where
  "dnd_step now (DO_Block p d) b = dnd_block_peer now p d b"
| "dnd_step now (DO_Unblock p) b = dnd_unblock_peer p b"
| "dnd_step now (DO_IsBlocked p) b = fst (dnd_is_blocked now p b)"
| "dnd_step now (DO_Dial p as) b = fst (handle_pending_outbound_connection now p as b)"
| "dnd_step now (DO_HandlerEvent p e) b = on_connection_handler_event now p e b"
| "dnd_step now (DO_Send p d) b = send_do_not_disturb_request p d b"
| "dnd_step now DO_Poll b = fst (dnd_poll now b)"

definition dnd_run :: "(instant \<times> dnd_op) list \<Rightarrow> dnd_behaviour" where
  "dnd_run ops = fold (\<lambda>(now, op). dnd_step now op) ops dnd_default"

text \<open>What the history says of a peer: until when its latest request holds.\<close>

fun asked_until :: "instant \<times> dnd_op \<Rightarrow> peer_id \<Rightarrow> instant option \<Rightarrow> instant option" where
  "asked_until (now, DO_Block q d) p t =
     (if q = p then Some (now + from_secs (min (as_secs d) MAX_DO_NOT_DISTURB_DURATION)) else t)"
| "asked_until (now, DO_HandlerEvent q (HO_RequestReceived d)) p t =
     (if q = p then Some (now + from_secs (min (unat d) MAX_DO_NOT_DISTURB_DURATION)) else t)"
| "asked_until (now, DO_Unblock q) p t = (if q = p then None else t)"
| "asked_until _ p t = t"

definition history_until :: "(instant \<times> dnd_op) list \<Rightarrow> peer_id \<Rightarrow> instant option" where
  "history_until ops p = fold (\<lambda>x. asked_until x p) ops None"

text \<open>One exchange between two nodes whose queues are empty: the request is queued by the behaviour, sent
  by the handler of the one end, read and answered by the other end, whose handler and behaviour take it
  up; the answer goes back to the handler and the behaviour of the first.\<close>

definition dnd_deliver ::
  "instant \<Rightarrow> peer_id \<Rightarrow> dnd_handler \<Rightarrow> dnd_behaviour \<Rightarrow> dnd_handler \<times> dnd_behaviour" where
  "dnd_deliver now peer h b =
    (case handler_poll h of
       (h, Some (NotifyBehaviour e)) \<Rightarrow> (h, on_connection_handler_event now peer e b)
     | (h, _) \<Rightarrow> (h, b))"

definition dnd_exchange ::
  "dnd_codec \<Rightarrow> instant \<Rightarrow> peer_id \<Rightarrow> peer_id \<Rightarrow> nat \<Rightarrow> dnd_behaviour \<Rightarrow> dnd_behaviour \<Rightarrow>
   (dnd_behaviour \<times> dnd_behaviour) option" where
  "dnd_exchange K now alice bob secs a b =
    (case dnd_poll now (send_do_not_disturb_request bob secs a) of
       (a, Some (NotifyHandler _ e)) \<Rightarrow>
         (case handler_poll (on_behaviour_event e handler_default) of
            (ha, Some (OutboundSubstreamRequest m)) \<Rightarrow>
              (case write_message K m of
                 Ok sent \<Rightarrow>
                   (case upgrade_inbound K sent of
                      Ok (request, reply) \<Rightarrow>
                        (let hb = on_connection_event (FullyNegotiatedInbound request) handler_default;
                             b = snd (dnd_deliver now alice hb b)
                         in case upgrade_outbound K m (\<lambda>_. reply) of
                              Ok response \<Rightarrow>
                                Some (snd (dnd_deliver now bob (on_connection_event (FullyNegotiatedOutbound response) ha) a), b)
                            | Err _ \<Rightarrow> None)
                    | Err _ \<Rightarrow> None)
               | Err _ \<Rightarrow> None)
          | _ \<Rightarrow> None)
     | _ \<Rightarrow> None)"

text \<open>The behaviour and the history agree on every deadline that is still to come.\<close>

definition dnd_agree :: "instant \<Rightarrow> dnd_behaviour \<Rightarrow> (peer_id \<Rightarrow> instant option) \<Rightarrow> bool" where
  "dnd_agree now b h \<longleftrightarrow>
     hm_invar (blocked_peers b) \<and> (\<forall>p t. now < t \<longrightarrow> map_of (blocked_peers b) p = Some t \<longleftrightarrow> h p = Some t)"

definition dnd_codec_laws :: "dnd_codec \<Rightarrow> bool" where
  "dnd_codec_laws K \<longleftrightarrow>
    (\<forall>m. \<exists>data. rmp_dnd_to_vec K m = Some data \<and> length data \<le> 1024 \<and> rmp_dnd_from_slice K data = Some m)"

text \<open>A codec for the witnesses: a tag and the big-endian value.\<close>

definition sample_dnd_codec :: dnd_codec where
  "sample_dnd_codec = \<lparr>
     rmp_dnd_to_vec = (\<lambda>m. Some (case m of DND_Request d \<Rightarrow> 0 # be_bytes 8 d | DND_Response a \<Rightarrow> [if a then 2 else 1])),
     rmp_dnd_from_slice = (\<lambda>bs. case bs of [] \<Rightarrow> None
       | t # r \<Rightarrow> if t = 0 then Some (DND_Request (of_be_bytes r)) else Some (DND_Response (t = 2)))\<rparr>"

section \<open>The codec\<close>

lemma read_exact_append [simp]: "length xs = n \<Longrightarrow> read_exact n (xs @ ys) = Ok (xs, ys)"
  by (simp add: read_exact_def)

lemma read_write_message:
  assumes "dnd_codec_laws K" and "write_message K m = Ok out"
  shows "read_message K (out @ rest) = Ok (m, rest)"
proof -
  obtain data where data: "rmp_dnd_to_vec K m = Some data" "length data \<le> 1024" "rmp_dnd_from_slice K data = Some m"
    using assms(1) unfolding dnd_codec_laws_def by blast
  have len: "unat (word_of_nat (length data) :: u32) = length data"
    using data(2) by (simp add: unsigned_of_nat take_bit_nat_eq_self)
  have "out = be_bytes 4 (word_of_nat (length data) :: u32) @ data"
    using assms(2) data(1) by (simp add: write_message_def Let_def)
  moreover have "of_be_bytes (be_bytes 4 (word_of_nat (length data) :: u32)) = (word_of_nat (length data) :: u32)"
    by (rule of_be_bytes_be_bytes) simp
  ultimately show ?thesis using data(2,3) len by (simp add: read_message_def)
qed

lemma write_message_total: "dnd_codec_laws K \<Longrightarrow> \<exists>out. write_message K m = Ok out"
  by (fastforce simp: dnd_codec_laws_def write_message_def Let_def)

section \<open>The behaviour implements the history\<close>

lemma dnd_agree_mono: "dnd_agree now b h \<Longrightarrow> now \<le> now' \<Longrightarrow> dnd_agree now' b h"
  by (simp add: dnd_agree_def)

lemma dnd_agree_blocked: "blocked_peers b' = blocked_peers b \<Longrightarrow> dnd_agree now b h \<Longrightarrow> dnd_agree now b' h"
  by (simp add: dnd_agree_def)

lemma dnd_agreeD:
  "dnd_agree now b h \<Longrightarrow> now < t \<Longrightarrow> map_of (blocked_peers b) p = Some t \<longleftrightarrow> h p = Some t"
  by (simp add: dnd_agree_def)

lemma dnd_agree_cleanup:
  assumes "dnd_agree now b h"
  shows "dnd_agree now (dnd_cleanup_expired now b) h"
proof -
  have invar: "hm_invar (blocked_peers b)" using assms by (simp add: dnd_agree_def)
  then have "map_of (blocked_peers (dnd_cleanup_expired now b)) p = Some t \<longleftrightarrow>
      now < t \<and> map_of (blocked_peers b) p = Some t" for p t
    by (auto simp: dnd_cleanup_expired_def map_of_retain split: option.splits)
  with assms invar show ?thesis by (auto simp: dnd_agree_def dnd_cleanup_expired_def)
qed

lemma dnd_agree_block:
  assumes "dnd_agree now b h"
  shows "dnd_agree now (dnd_block_peer now p d b)
     (h(p \<mapsto> now + from_secs (min (as_secs d) MAX_DO_NOT_DISTURB_DURATION)))"
  using assms by (auto simp: dnd_agree_def dnd_block_peer_def Let_def hm.lookup_insert hm.invar_insert)

lemma dnd_agree_unblock: "dnd_agree now b h \<Longrightarrow> dnd_agree now (dnd_unblock_peer p b) (h(p := None))"
  by (auto simp: dnd_agree_def dnd_unblock_peer_def hm.lookup_remove hm.invar_remove)

lemma as_secs_from_secs [simp]: "as_secs (from_secs n) = n"
  by (simp add: as_secs_def from_secs_def)

lemma dnd_agree_dial:
  "dnd_agree now b h \<Longrightarrow> dnd_agree now (fst (handle_pending_outbound_connection now q as b)) h"
  by (auto simp: handle_pending_outbound_connection_def dnd_agree_cleanup split: option.splits)

lemma dnd_agree_poll: "dnd_agree now b h \<Longrightarrow> dnd_agree now (fst (dnd_poll now b)) h"
  by (rule dnd_agree_blocked [OF _ dnd_agree_cleanup]) (auto simp: dnd_poll_def Let_def)

lemma dnd_agree_handler:
  assumes "dnd_agree now b h"
  shows "dnd_agree now (on_connection_handler_event now q e b) (\<lambda>p. asked_until (now, DO_HandlerEvent q e) p (h p))"
proof (cases e)
  case (HO_RequestReceived d)
  have "(\<lambda>p. asked_until (now, DO_HandlerEvent q e) p (h p)) =
      h(q \<mapsto> now + from_secs (min (as_secs (from_secs (min (unat d) MAX_DO_NOT_DISTURB_DURATION))) MAX_DO_NOT_DISTURB_DURATION))"
    by (auto simp: HO_RequestReceived)
  then show ?thesis
    by (simp only:) (rule dnd_agree_blocked [OF _ dnd_agree_block [OF assms]], simp add: HO_RequestReceived Let_def)
qed (use assms in \<open>auto intro: dnd_agree_blocked\<close>)

lemma dnd_agree_step:
  assumes "dnd_agree now b h"
  shows "dnd_agree now (dnd_step now op b) (\<lambda>p. asked_until (now, op) p (h p))"
proof (cases op)
  case (DO_Block q d)
  have "(\<lambda>p. asked_until (now, op) p (h p)) = h(q \<mapsto> now + from_secs (min (as_secs d) MAX_DO_NOT_DISTURB_DURATION))"
    by (auto simp: DO_Block)
  then show ?thesis using dnd_agree_block [OF assms] by (simp add: DO_Block)
next
  case (DO_Unblock q)
  have "(\<lambda>p. asked_until (now, op) p (h p)) = h(q := None)" by (auto simp: DO_Unblock)
  then show ?thesis using dnd_agree_unblock [OF assms] by (simp add: DO_Unblock)
next
  case (DO_IsBlocked q)
  then show ?thesis using dnd_agree_cleanup [OF assms] by (simp add: dnd_is_blocked_def Let_def)
next
  case (DO_Send q d)
  then show ?thesis using assms by (auto simp: send_do_not_disturb_request_def Let_def intro: dnd_agree_blocked)
qed (use dnd_agree_dial [OF assms] dnd_agree_handler [OF assms] dnd_agree_poll [OF assms] in simp_all)

lemma dnd_agree_run:
  assumes "sorted (map fst ops)" and "\<forall>x \<in> set ops. fst x \<le> now"
  shows "dnd_agree now (dnd_run ops) (history_until ops)"
  using assms
proof (induction ops arbitrary: now rule: rev_induct)
  case Nil
  then show ?case by (simp add: dnd_agree_def dnd_run_def history_until_def dnd_default_def)
next
  case (snoc x ops)
  obtain t op where x: "x = (t, op)" by force
  have "dnd_agree t (dnd_run ops) (history_until ops)"
    using snoc by (auto simp: sorted_append x)
  from dnd_agree_step [OF this, of op]
  have "dnd_agree t (dnd_run (ops @ [x])) (history_until (ops @ [x]))"
    by (simp add: dnd_run_def history_until_def [abs_def] x)
  then show ?case using snoc(3) by (auto simp: x intro: dnd_agree_mono)
qed

lemma dnd_denied_iff:
  assumes "dnd_agree now b h"
  shows "snd (handle_pending_outbound_connection now (Some p) as b) =
    (case h p of Some t \<Rightarrow> if now < t then Err \<lparr>dnd_peer_id = p, remaining_duration = t - now\<rparr> else Ok as | None \<Rightarrow> Ok as)"
proof (cases "\<exists>t. map_of (blocked_peers b) p = Some t \<and> now < t")
  case True
  then obtain t where "map_of (blocked_peers b) p = Some t" "now < t" by blast
  moreover from this have "h p = Some t" using dnd_agreeD [OF assms] by simp
  ultimately show ?thesis by (simp add: handle_pending_outbound_connection_def)
next
  case False
  then have "\<not> (\<exists>t. h p = Some t \<and> now < t)" using assms unfolding dnd_agree_def by blast
  with False show ?thesis by (auto simp: handle_pending_outbound_connection_def split: option.splits)
qed

text \<open>C20: Whatever a node did with its do-not-disturb list - blocking, unblocking, requests of peers, dials,
  polls and clean-ups, at times that do not decrease - it denies an outgoing connection to a peer exactly
  when the latest request of that peer, cut to five minutes, has not run out, and the error says how long
  is left. The list with its clean-ups implements the history of requests.\<close>

theorem dial_denied_until_request_expires:
  assumes "sorted (map fst ops)" and "\<forall>x \<in> set ops. fst x \<le> now"
  shows "snd (handle_pending_outbound_connection now (Some p) as (dnd_run ops)) =
    (case history_until ops p of
       Some t \<Rightarrow> if now < t then Err \<lparr>dnd_peer_id = p, remaining_duration = t - now\<rparr> else Ok as
     | None \<Rightarrow> Ok as)"
  by (rule dnd_denied_iff [OF dnd_agree_run [OF assms]])

theorem dial_denied_until_request_expires_witness:
  "snd (handle_pending_outbound_connection (from_secs 310) (Some (PeerId [1])) []
     (dnd_run [(0, DO_Block (PeerId [2]) (from_secs 1)),
               (from_secs 100, DO_HandlerEvent (PeerId [1]) (HO_RequestReceived 1000)), (from_secs 200, DO_Poll)])) =
   Err \<lparr>dnd_peer_id = PeerId [1], remaining_duration = from_secs 90\<rparr>"
proof -
  let ?ops = "[(0, DO_Block (PeerId [2]) (from_secs 1)),
     (from_secs 100, DO_HandlerEvent (PeerId [1]) (HO_RequestReceived 1000)), (from_secs 200, DO_Poll)]"
  have "sorted (map fst ?ops)" "\<forall>x \<in> set ?ops. fst x \<le> from_secs 310"
    by (simp_all add: from_secs_def)
  note dial_denied_until_request_expires [OF this, of "PeerId [1]" "[]"]
  moreover have "history_until ?ops (PeerId [1]) = Some (from_secs 400)"
    by (simp add: history_until_def MAX_DO_NOT_DISTURB_DURATION_def from_secs_def)
  ultimately show ?thesis by (simp add: from_secs_def)
qed

section \<open>One exchange\<close>

text \<open>C21: A request one node queues for another goes through: when the serialisation can be read back, the
  other node answers it, and from then on denies its own dials to the first for the whole time asked for,
  cut to five minutes; the first node is told that the request was accepted.\<close>

theorem dnd_exchange_blocks_dials:
  assumes "dnd_codec_laws K" and "dnd_exchange K now alice bob secs dnd_default b = r"
  shows "\<exists>a' b'. r = Some (a', b')
    \<and> dnd_pending_events a' = [GenerateEvent (DND_ResponseReceived bob True)]
    \<and> (\<forall>t. now \<le> t \<longrightarrow> t < now + from_secs (min secs MAX_DO_NOT_DISTURB_DURATION) \<longrightarrow>
         \<not> is_ok (snd (handle_pending_outbound_connection t (Some alice) as b')))"
proof -
  define d :: u64 where "d = word_of_nat (min secs MAX_DO_NOT_DISTURB_DURATION)"
  have d: "unat d = min secs MAX_DO_NOT_DISTURB_DURATION"
    by (simp add: d_def unsigned_of_nat take_bit_nat_eq_self MAX_DO_NOT_DISTURB_DURATION_def min_def)
  have cap: "min (unat d) MAX_DO_NOT_DISTURB_DURATION = min secs MAX_DO_NOT_DISTURB_DURATION"
    by (simp add: d)
  obtain sent reply where sent: "write_message K (DND_Request d) = Ok sent"
    and reply: "write_message K (DND_Response True) = Ok reply"
    using write_message_total [OF assms(1)] by blast
  have rd: "read_message K sent = Ok (DND_Request d, [])" "read_message K reply = Ok (DND_Response True, [])"
    using read_write_message [OF assms(1) sent, of "[]"] read_write_message [OF assms(1) reply, of "[]"] by simp_all
  have poll: "dnd_poll now (send_do_not_disturb_request bob secs dnd_default) =
      (dnd_default, Some (NotifyHandler bob (SendRequest d)))"
    by (simp add: dnd_poll_def send_do_not_disturb_request_def dnd_cleanup_expired_def dnd_default_def Let_def d_def retain_def)
  have ex: "dnd_exchange K now alice bob secs dnd_default b =
      Some (on_connection_handler_event now bob (HO_ResponseReceived True) dnd_default,
        on_connection_handler_event now alice (HO_RequestReceived d) b)"
    by (simp add: dnd_exchange_def poll handler_poll_def handler_default_def sent reply rd upgrade_inbound_def
        upgrade_outbound_def dnd_deliver_def)
  show ?thesis
    unfolding assms(2) [symmetric] ex
    by (auto simp: dnd_default_def Let_def handle_pending_outbound_connection_def dnd_block_peer_def cap AList.update_conv')
qed

lemma sample_dnd_codec_laws: "dnd_codec_laws sample_dnd_codec"
  unfolding dnd_codec_laws_def
proof
  fix m
  show "\<exists>data. rmp_dnd_to_vec sample_dnd_codec m = Some data \<and> length data \<le> 1024 \<and>
      rmp_dnd_from_slice sample_dnd_codec data = Some m"
    by (cases m) (simp_all add: sample_dnd_codec_def of_be_bytes_be_bytes)
qed

theorem dnd_exchange_blocks_dials_witness:
  "\<exists>a' b'. dnd_exchange sample_dnd_codec 0 (PeerId [1]) (PeerId [2]) 200 dnd_default dnd_default = Some (a', b')
    \<and> \<not> is_ok (snd (handle_pending_outbound_connection (from_secs 180) (Some (PeerId [1])) [] b'))"
  using dnd_exchange_blocks_dials [OF sample_dnd_codec_laws refl, of 0 "PeerId [1]" "PeerId [2]" 200 dnd_default "[]"]
  by (fastforce simp: from_secs_def MAX_DO_NOT_DISTURB_DURATION_def)

end
