(* ===== verification/Addressing.thy ===== *)
theory Addressing
  imports Multiaddr
begin

text \<open>
  The functions of the node and of the bootstrap crate that take multiaddresses apart and put
  well-formed ones together (\<^verbatim>\<open>networking/mod.rs\<close>, \<^verbatim>\<open>relay_manager.rs\<close>,
  \<^verbatim>\<open>driver/event/identify.rs\<close>, \<^verbatim>\<open>ant-bootstrap/src/lib.rs\<close>), and that what they put together is
  well formed: crafting again changes nothing, and stripping the peer id of an address the node
  crafted itself leaves it as it is.
\<close>

section \<open>Definitions\<close>

fun find_map :: "('a \<Rightarrow> 'b option) \<Rightarrow> 'a list \<Rightarrow> 'b option" where
  "find_map f [] = None"
| "find_map f (x # xs) = (case f x of Some y \<Rightarrow> Some y | None \<Rightarrow> find_map f xs)"

datatype ip_addr = V4 "32 word" | V6 "128 word"

fun is_Ip4 :: "protocol \<Rightarrow> bool" where
  "is_Ip4 (Ip4 _) = True" | "is_Ip4 _ = False"

fun is_Tcp :: "protocol \<Rightarrow> bool" where
  "is_Tcp (Tcp _) = True" | "is_Tcp _ = False"

fun is_Udp :: "protocol \<Rightarrow> bool" where
  "is_Udp (Udp _) = True" | "is_Udp _ = False"

fun is_Ws :: "protocol \<Rightarrow> bool" where
  "is_Ws (Ws _) = True" | "is_Ws _ = False"

fun is_P2p :: "protocol \<Rightarrow> bool" where
  "is_P2p (P2p _) = True" | "is_P2p _ = False"

subsection \<open>IPv4 addresses\<close>

text \<open>The predicates of the standard library on an IPv4 address.\<close>

definition ip4_is_unspecified :: "32 word \<Rightarrow> bool" where
  "ip4_is_unspecified ip = (ip = 0)"

definition ip4_is_private :: "32 word \<Rightarrow> bool" where
  "ip4_is_private ip = (drop_bit 24 ip = 10 \<or> drop_bit 20 ip = 0xAC1 \<or> drop_bit 16 ip = 0xC0A8)"

definition ip4_is_loopback :: "32 word \<Rightarrow> bool" where
  "ip4_is_loopback ip = (drop_bit 24 ip = 127)"

definition ip4_is_link_local :: "32 word \<Rightarrow> bool" where
  "ip4_is_link_local ip = (drop_bit 16 ip = 0xA9FE)"

definition ip4_is_documentation :: "32 word \<Rightarrow> bool" where
  "ip4_is_documentation ip = (drop_bit 8 ip = 0xC00002 \<or> drop_bit 8 ip = 0xC63364 \<or> drop_bit 8 ip = 0xCB0071)"

definition ip4_is_broadcast :: "32 word \<Rightarrow> bool" where
  "ip4_is_broadcast ip = (ip = 0xFFFFFFFF)"

subsection \<open>The networking module\<close>

definition multiaddr_is_global :: "multiaddr \<Rightarrow> bool" where
  "multiaddr_is_global a = (\<not> list_ex (\<lambda>p. case p of
       Ip4 ip \<Rightarrow> ip4_is_unspecified ip \<or> ip4_is_private ip \<or> ip4_is_loopback ip \<or> ip4_is_link_local ip
         \<or> ip4_is_documentation ip \<or> ip4_is_broadcast ip
     | _ \<Rightarrow> False) (components a))"

definition multiaddr_get_ip :: "multiaddr \<Rightarrow> ip_addr option" where
  "multiaddr_get_ip a =
     find_map (\<lambda>p. case p of Ip4 ip \<Rightarrow> Some (V4 ip) | Ip6 ip \<Rightarrow> Some (V6 ip) | _ \<Rightarrow> None) (components a)"

definition multiaddr_get_port :: "multiaddr \<Rightarrow> u16 option" where
  "multiaddr_get_port a = find_map (\<lambda>p. case p of Udp port \<Rightarrow> Some port | _ \<Rightarrow> None) (components a)"

subsection \<open>Relayed addresses\<close>

definition has_circuit :: "multiaddr \<Rightarrow> bool" where
  "has_circuit a = list_ex (\<lambda>p. p = P2pCircuit) (components a)"

definition is_a_relayed_peer :: "multiaddr list \<Rightarrow> bool" where
  "is_a_relayed_peer as = list_ex has_circuit as"

definition does_it_support_relay_server_protocol :: "string list \<Rightarrow> bool" where
  "does_it_support_relay_server_protocol ps = list_ex (\<lambda>p. p = ''/libp2p/circuit/relay/0.2.0/stop'') ps"

definition craft_relay_address :: "multiaddr \<Rightarrow> peer_id option \<Rightarrow> multiaddr option" where
  "craft_relay_address addr peer_id =
    (case find is_Ip4 (components addr) of None \<Rightarrow> None
     | Some ip \<Rightarrow> (case find is_Udp (components addr) of None \<Rightarrow> None
       | Some port \<Rightarrow>
         (case (case peer_id of Some p \<Rightarrow> Some (P2p p) | None \<Rightarrow> find is_P2p (components addr)) of None \<Rightarrow> None
          | Some peer \<Rightarrow> Some (Multiaddr [ip, port, QuicV1, peer, P2pCircuit]))))"

subsection \<open>Addresses of identified peers\<close>

definition craft_valid_multiaddr_without_p2p :: "multiaddr \<Rightarrow> multiaddr option" where
  "craft_valid_multiaddr_without_p2p addr =
    (case find_map (\<lambda>p. case p of Ip4 ip \<Rightarrow> Some ip | _ \<Rightarrow> None) (components addr) of None \<Rightarrow> None
     | Some ip \<Rightarrow> (case multiaddr_get_port addr of None \<Rightarrow> None
       | Some port \<Rightarrow> Some (Multiaddr [Ip4 ip, Udp port, QuicV1])))"

text \<open>The loop of the relayed case; the flag says that no circuit has been seen.\<close>

fun strip_relayed :: "bool \<Rightarrow> protocol list \<Rightarrow> protocol list" where
  "strip_relayed before [] = []"
| "strip_relayed before (p # ps) =
    (let before = (if p = P2pCircuit then False else before)
     in if is_P2p p \<and> \<not> before then strip_relayed before ps else p # strip_relayed before ps)"

definition multiaddr_strip_p2p :: "multiaddr \<Rightarrow> multiaddr" where
  "multiaddr_strip_p2p a =
    (if has_circuit a then Multiaddr (strip_relayed True (components a))
     else Multiaddr (filter (\<lambda>p. \<not> is_P2p p) (components a)))"

subsection \<open>Bootstrap addresses\<close>

definition craft_valid_multiaddr :: "multiaddr \<Rightarrow> bool \<Rightarrow> multiaddr option" where
  "craft_valid_multiaddr addr ignore_peer_id =
    (let ps = components addr; peer = find is_P2p ps
     in case find is_Ip4 ps of None \<Rightarrow> None
     | Some ip \<Rightarrow>
       (case (case find is_Udp ps of
           Some udp \<Rightarrow> Some ([ip, udp] @ (if list_ex (\<lambda>p. p = QuicV1) ps then [QuicV1] else []))
         | None \<Rightarrow> (case find is_Tcp ps of
             Some tcp \<Rightarrow> Some ([ip, tcp] @ (case find is_Ws ps of Some ws \<Rightarrow> [ws] | None \<Rightarrow> []))
           | None \<Rightarrow> None)) of None \<Rightarrow> None
        | Some out \<Rightarrow>
          (case peer of Some p \<Rightarrow> Some (Multiaddr (out @ [p]))
           | None \<Rightarrow> if \<not> ignore_peer_id then None else Some (Multiaddr out))))"

definition multiaddr_get_peer_id :: "multiaddr \<Rightarrow> peer_id option" where
  "multiaddr_get_peer_id a = (case find is_P2p (components a) of Some (P2p i) \<Rightarrow> Some i | _ \<Rightarrow> None)"

definition pop_p2p :: "multiaddr \<Rightarrow> multiaddr \<times> peer_id option" where
  "pop_p2p a = (case rev (components a) of P2p i # ps \<Rightarrow> (Multiaddr (rev ps), Some i) | _ \<Rightarrow> (a, None))"

section \<open>Crafted addresses\<close>

lemma is_protocol_iff:
  "is_Ip4 p \<longleftrightarrow> (\<exists>i. p = Ip4 i)" "is_Tcp p \<longleftrightarrow> (\<exists>i. p = Tcp i)" "is_Udp p \<longleftrightarrow> (\<exists>i. p = Udp i)"
  "is_Ws p \<longleftrightarrow> (\<exists>i. p = Ws i)" "is_P2p p \<longleftrightarrow> (\<exists>i. p = P2p i)"
  by (cases p; simp)+

lemma find_SomeD: "find P xs = Some x \<Longrightarrow> P x \<and> x \<in> set xs"
  by (auto simp: find_Some_iff)

lemma find_protocolD:
  "find is_Ip4 ps = Some p \<Longrightarrow> \<exists>i. p = Ip4 i" "find is_Tcp ps = Some p \<Longrightarrow> \<exists>i. p = Tcp i"
  "find is_Udp ps = Some p \<Longrightarrow> \<exists>i. p = Udp i" "find is_Ws ps = Some p \<Longrightarrow> \<exists>i. p = Ws i"
  "find is_P2p ps = Some p \<Longrightarrow> \<exists>i. p = P2p i"
  by (auto simp: find_Some_iff is_protocol_iff)

lemma crafted_relay_address:
  assumes "craft_relay_address addr peer = Some a"
  shows "is_a_relayed_peer [a]" "multiaddr_strip_p2p a = a"
proof -
  obtain i u p where "a = Multiaddr [Ip4 i, Udp u, QuicV1, P2p p, P2pCircuit]"
    using assms by (auto simp: craft_relay_address_def is_protocol_iff split: option.splits dest!: find_SomeD)
  then show "is_a_relayed_peer [a]" "multiaddr_strip_p2p a = a"
    by (simp_all add: is_a_relayed_peer_def has_circuit_def multiaddr_strip_p2p_def)
qed

lemma crafted_direct_address:
  assumes "craft_valid_multiaddr_without_p2p addr = Some a"
  shows "\<not> is_a_relayed_peer [a]" "multiaddr_strip_p2p a = a"
  using assms by (auto simp: craft_valid_multiaddr_without_p2p_def is_a_relayed_peer_def has_circuit_def
      multiaddr_strip_p2p_def split: option.splits)

lemma strip_relayed_False: "strip_relayed False ps = filter (\<lambda>p. \<not> is_P2p p) ps"
  by (induction ps) (auto simp: Let_def)

lemma strip_relayed_idem: "strip_relayed b (strip_relayed b ps) = strip_relayed b ps"
  by (induction ps arbitrary: b) (auto simp: Let_def strip_relayed_False)

lemma circuit_strip_relayed: "P2pCircuit \<in> set (strip_relayed b ps) \<longleftrightarrow> P2pCircuit \<in> set ps"
  by (induction ps arbitrary: b) (auto simp: Let_def)

lemma multiaddr_strip_p2p_idem: "multiaddr_strip_p2p (multiaddr_strip_p2p a) = multiaddr_strip_p2p a"
  by (auto simp: multiaddr_strip_p2p_def has_circuit_def list_ex_iff circuit_strip_relayed strip_relayed_idem)

text \<open>The shape of what the bootstrap crate crafts.\<close>

lemma crafted_shape:
  assumes "craft_valid_multiaddr addr ign = Some a"
  obtains ip out where "find is_Ip4 (components addr) = Some (Ip4 ip)"
    and "components a = Ip4 ip # out @ map P2p (case multiaddr_get_peer_id addr of Some p \<Rightarrow> [p] | None \<Rightarrow> [])"
    and "(\<exists>u. out = [Udp u] \<or> out = [Udp u, QuicV1]) \<or> (\<exists>t. out = [Tcp t] \<or> (\<exists>w. out = [Tcp t, Ws w]))"
    and "multiaddr_get_peer_id addr \<noteq> None \<or> ign"
proof -
  let ?ps = "components addr"
  have peer: "find is_P2p ?ps = map_option P2p (multiaddr_get_peer_id addr)"
    using find_protocolD(5) [of ?ps] by (cases "find is_P2p ?ps") (auto simp: multiaddr_get_peer_id_def)
  obtain ip where ip: "find is_Ip4 ?ps = Some (Ip4 ip)"
    using assms find_protocolD(1) by (cases "find is_Ip4 ?ps") (auto simp: craft_valid_multiaddr_def)
  obtain out where out: "(\<exists>u. out = [Udp u] \<or> out = [Udp u, QuicV1]) \<or> (\<exists>t. out = [Tcp t] \<or> (\<exists>w. out = [Tcp t, Ws w]))"
    and craft: "craft_valid_multiaddr addr ign = (case find is_P2p ?ps of Some p \<Rightarrow> Some (Multiaddr (Ip4 ip # out @ [p]))
        | None \<Rightarrow> if \<not> ign then None else Some (Multiaddr (Ip4 ip # out)))"
  proof (cases "find is_Udp ?ps")
    case (Some u)
    then obtain v where "u = Udp v" using find_protocolD(3) by blast
    with Some ip show ?thesis
      by (intro that [of "if list_ex (\<lambda>p. p = QuicV1) ?ps then [Udp v, QuicV1] else [Udp v]"])
        (auto simp: craft_valid_multiaddr_def Let_def split: option.split)
  next
    case None
    then obtain t where t: "find is_Tcp ?ps = Some (Tcp t)"
      using assms ip find_protocolD(2) by (cases "find is_Tcp ?ps") (auto simp: craft_valid_multiaddr_def)
    show ?thesis
    proof (cases "find is_Ws ?ps")
      case (Some w)
      then obtain v where "w = Ws v" using find_protocolD(4) by blast
      with Some None t ip show ?thesis by (intro that [of "[Tcp t, Ws v]"]) (auto simp: craft_valid_multiaddr_def Let_def split: option.split)
    qed (use None t ip in \<open>intro that [of "[Tcp t]"]; simp add: craft_valid_multiaddr_def Let_def split: option.split\<close>)
  qed
  show thesis
  proof (rule that [OF ip _ out])
    show "components a = Ip4 ip # out @ map P2p (case multiaddr_get_peer_id addr of Some p \<Rightarrow> [p] | None \<Rightarrow> [])"
      "multiaddr_get_peer_id addr \<noteq> None \<or> ign"
      using assms unfolding craft peer by (cases "multiaddr_get_peer_id addr"; cases ign; auto)+
  qed
qed

text \<open>A crafted bootstrap address is crafted to itself, and the peer it is for is the one of the address it was
  crafted from; dialling it takes that peer off its end.\<close>

lemma crafted_valid:
  assumes "craft_valid_multiaddr addr ign = Some a"
  shows "craft_valid_multiaddr a ign = Some a"
    and "multiaddr_get_peer_id a = multiaddr_get_peer_id addr"
    and "snd (pop_p2p a) = multiaddr_get_peer_id addr"
proof -
  obtain ip out where "find is_Ip4 (components addr) = Some (Ip4 ip)" and *: "components a = Ip4 ip # out @ map P2p (case multiaddr_get_peer_id addr of Some p \<Rightarrow> [p] | None \<Rightarrow> [])"
    "(\<exists>u. out = [Udp u] \<or> out = [Udp u, QuicV1]) \<or> (\<exists>t. out = [Tcp t] \<or> (\<exists>w. out = [Tcp t, Ws w]))"
    "multiaddr_get_peer_id addr \<noteq> None \<or> ign"
    by (rule crafted_shape [OF assms])
  from *(1) have a: "a = Multiaddr (Ip4 ip # out @ map P2p (case multiaddr_get_peer_id addr of Some p \<Rightarrow> [p] | None \<Rightarrow> []))"
    by (cases a) simp
  show "multiaddr_get_peer_id a = multiaddr_get_peer_id addr" "snd (pop_p2p a) = multiaddr_get_peer_id addr"
    using *(2) by (cases "multiaddr_get_peer_id addr";
        auto simp: a multiaddr_get_peer_id_def [of "Multiaddr _"] pop_p2p_def)+
  show "craft_valid_multiaddr a ign = Some a"
    using *(2,3) by (cases "multiaddr_get_peer_id addr") (auto simp: a craft_valid_multiaddr_def)
qed

end
