(* ===== verification/Swarm.thy ===== *)
theory Swarm
  imports Node_Actions Addressing "HOL-Library.Log_Nat"
begin

text \<open>
  The interface of the libp2p swarm as the node uses it. The swarm is third-party code: its state is a value
  of an arbitrary type \<open>'s\<close>, and \<open>swarm_api\<close> has one function per call the sources make, from the routing
  table of Kademlia to the listeners, the dials, the list of blocked peers and the external addresses. The
  record store and the do-not-disturb behaviour, which the node gives to the swarm, are the node's own and
  have their own theories.

  What the clients rely on of the third-party calls is stated as laws on the observations \<open>sw_blocked_peers\<close>
  and \<open>sw_external_addresses\<close>; \<open>sample_swarm_api\<close> is an instance with a concrete state that satisfies them.
\<close>

section \<open>Definitions\<close>

type_synonym listener_id = nat
type_synonym connection_id = nat
type_synonym query_id = nat
type_synonym request_id = nat
type_synonym channel_id = nat

text \<open>Issues a peer was reported for, with the time of each, and whether it counts as bad.\<close>

type_synonym bad_nodes = "(peer_id, (node_issue \<times> instant) list \<times> bool) hash_map"

text \<open>A bucket of the routing table: the least distance it is for, and its peers with their addresses.\<close>

record kbucket =
  kb_range_start :: distance
  kb_entries :: "(peer_id \<times> multiaddr list) list"

datatype transport_error = MultiaddrNotSupported multiaddr | TransportOther string

datatype dial_error =
    DE_LocalPeerId multiaddr
  | DE_NoAddresses
  | DE_DialPeerConditionFalse
  | DE_Aborted
  | DE_WrongPeerId peer_id multiaddr
  | DE_Denied string
  | DE_Transport "(multiaddr \<times> transport_error) list"

record 's swarm_api =
  sw_k_value :: nat
  sw_kbuckets :: "'s \<Rightarrow> kbucket list"
  sw_kbucket :: "'s \<Rightarrow> peer_id \<Rightarrow> kbucket option"
  sw_get_closest_local_peers :: "'s \<Rightarrow> bytes \<Rightarrow> peer_id list"
  sw_connected_peers :: "'s \<Rightarrow> peer_id list"
  sw_listeners :: "'s \<Rightarrow> multiaddr list"
  sw_blocked_peers :: "'s \<Rightarrow> peer_id list"
  sw_external_addresses :: "'s \<Rightarrow> multiaddr list"
  sw_remove_peer :: "peer_id \<Rightarrow> 's \<Rightarrow> 's \<times> (peer_id \<times> multiaddr list) option"
  sw_add_address :: "peer_id \<Rightarrow> multiaddr \<Rightarrow> 's \<Rightarrow> 's"
  sw_remove_address :: "peer_id \<Rightarrow> multiaddr \<Rightarrow> 's \<Rightarrow> 's"
  sw_get_closest_peers :: "bytes \<Rightarrow> 's \<Rightarrow> 's \<times> query_id"
  sw_get_n_closest_peers :: "bytes \<Rightarrow> nat \<Rightarrow> 's \<Rightarrow> 's \<times> query_id"
  sw_send_request :: "peer_id \<Rightarrow> request \<Rightarrow> 's \<Rightarrow> 's \<times> request_id"
  sw_send_request_with_addresses :: "peer_id \<Rightarrow> request \<Rightarrow> multiaddr list \<Rightarrow> 's \<Rightarrow> 's \<times> request_id"
  sw_send_response :: "channel_id \<Rightarrow> response \<Rightarrow> 's \<Rightarrow> 's \<times> (unit, response) result"
  sw_block_peer :: "peer_id \<Rightarrow> 's \<Rightarrow> 's"
  sw_unblock_peer :: "peer_id \<Rightarrow> 's \<Rightarrow> 's"
  sw_disconnect_peer_id :: "peer_id \<Rightarrow> 's \<Rightarrow> 's"
  sw_close_connection :: "connection_id \<Rightarrow> 's \<Rightarrow> 's"
  sw_dial :: "peer_id option \<Rightarrow> multiaddr list \<Rightarrow> 's \<Rightarrow> 's \<times> (unit, dial_error) result"
  sw_listen_on :: "multiaddr \<Rightarrow> 's \<Rightarrow> 's \<times> (listener_id, string) result"
  sw_add_external_address :: "multiaddr \<Rightarrow> 's \<Rightarrow> 's"
  sw_remove_external_address :: "multiaddr \<Rightarrow> 's \<Rightarrow> 's"
  sw_identify_push :: "peer_id list \<Rightarrow> 's \<Rightarrow> 's"

text \<open>The third-party functions on distances and multiaddresses, as they are documented: the integer part of
  the logarithm, which zero does not have; a peer appended to an address unless it ends in that peer already,
  an error when it ends in another; the elements of an iterator without repetition.\<close>

definition ilog2 :: "distance \<Rightarrow> nat option" where
  "ilog2 d = (if d = 0 then None else Some (floorlog 2 (unat d) - 1))"

definition with_p2p :: "multiaddr \<Rightarrow> peer_id \<Rightarrow> multiaddr option" where
  "with_p2p a peer =
    (case rev (components a) of
       P2p p # _ \<Rightarrow> if p = peer then Some a else None
     | _ \<Rightarrow> Some (Multiaddr (components a @ [P2p peer])))"

definition unique :: "'a list \<Rightarrow> 'a list" where
  "unique xs = rev (remdups (rev xs))"

subsection \<open>Laws\<close>

text \<open>Adding and removing external addresses changes the set of them, and nothing else does.\<close>

definition external_address_laws :: "'s swarm_api \<Rightarrow> bool" where
  "external_address_laws W \<longleftrightarrow>
    (\<forall>a s. set (sw_external_addresses W (sw_add_external_address W a s)) = insert a (set (sw_external_addresses W s))) \<and>
    (\<forall>a s. set (sw_external_addresses W (sw_remove_external_address W a s)) = set (sw_external_addresses W s) - {a})"

subsection \<open>An instance\<close>

record sample_swarm =
  ss_peers :: "(peer_id \<times> multiaddr list) list"
  ss_blocked :: "peer_id list"
  ss_external :: "multiaddr list"
  ss_next :: nat

definition sample_swarm_api :: "sample_swarm swarm_api" where
  "sample_swarm_api = \<lparr>
     sw_k_value = 20,
     sw_kbuckets = (\<lambda>s. [\<lparr>kb_range_start = 1, kb_entries = ss_peers s\<rparr>]),
     sw_kbucket = (\<lambda>s p. Some \<lparr>kb_range_start = 1, kb_entries = ss_peers s\<rparr>),
     sw_get_closest_local_peers = (\<lambda>s _. map fst (ss_peers s)),
     sw_connected_peers = (\<lambda>s. map fst (ss_peers s)),
     sw_listeners = (\<lambda>s. []),
     sw_blocked_peers = ss_blocked,
     sw_external_addresses = ss_external,
     sw_remove_peer = (\<lambda>p s. (s\<lparr>ss_peers := AList.delete p (ss_peers s)\<rparr>,
       map_option (\<lambda>as. (p, as)) (map_of (ss_peers s) p))),
     sw_add_address = (\<lambda>p a s. s\<lparr>ss_peers :=
       AList.update p (List.insert a (case map_of (ss_peers s) p of Some as \<Rightarrow> as | None \<Rightarrow> [])) (ss_peers s)\<rparr>),
     sw_remove_address = (\<lambda>p a s. s\<lparr>ss_peers :=
       map (\<lambda>(q, as). (q, if q = p then removeAll a as else as)) (ss_peers s)\<rparr>),
     sw_get_closest_peers = (\<lambda>_ s. (s\<lparr>ss_next := Suc (ss_next s)\<rparr>, ss_next s)),
     sw_get_n_closest_peers = (\<lambda>_ _ s. (s\<lparr>ss_next := Suc (ss_next s)\<rparr>, ss_next s)),
     sw_send_request = (\<lambda>_ _ s. (s\<lparr>ss_next := Suc (ss_next s)\<rparr>, ss_next s)),
     sw_send_request_with_addresses = (\<lambda>_ _ _ s. (s\<lparr>ss_next := Suc (ss_next s)\<rparr>, ss_next s)),
     sw_send_response = (\<lambda>_ _ s. (s, Ok ())),
     sw_block_peer = (\<lambda>p s. s\<lparr>ss_blocked := List.insert p (ss_blocked s)\<rparr>),
     sw_unblock_peer = (\<lambda>p s. s\<lparr>ss_blocked := removeAll p (ss_blocked s)\<rparr>),
     sw_disconnect_peer_id = (\<lambda>_ s. s),
     sw_close_connection = (\<lambda>_ s. s),
     sw_dial = (\<lambda>_ _ s. (s, Ok ())),
     sw_listen_on = (\<lambda>_ s. (s\<lparr>ss_next := Suc (ss_next s)\<rparr>, Ok (ss_next s))),
     sw_add_external_address = (\<lambda>a s. s\<lparr>ss_external := List.insert a (ss_external s)\<rparr>),
     sw_remove_external_address = (\<lambda>a s. s\<lparr>ss_external := removeAll a (ss_external s)\<rparr>),
     sw_identify_push = (\<lambda>_ s. s)\<rparr>"

definition sample_swarm0 :: sample_swarm where
  "sample_swarm0 = \<lparr>ss_peers = [], ss_blocked = [], ss_external = [], ss_next = 0\<rparr>"

section \<open>The instance satisfies the laws\<close>

lemma sample_external_address_laws: "external_address_laws sample_swarm_api"
  by (auto simp: external_address_laws_def sample_swarm_api_def)

lemma sample_swarm_simps:
  "sw_external_addresses sample_swarm_api = ss_external" "sw_blocked_peers sample_swarm_api = ss_blocked"
  "sw_add_external_address sample_swarm_api a s = s\<lparr>ss_external := List.insert a (ss_external s)\<rparr>"
  "sw_remove_external_address sample_swarm_api a s = s\<lparr>ss_external := removeAll a (ss_external s)\<rparr>"
  "sw_listen_on sample_swarm_api a s = (s\<lparr>ss_next := Suc (ss_next s)\<rparr>, Ok (ss_next s))"
  "sw_identify_push sample_swarm_api ps s = s" "sw_dial sample_swarm_api mp as s = (s, Ok ())"
  "sw_block_peer sample_swarm_api p s = s\<lparr>ss_blocked := List.insert p (ss_blocked s)\<rparr>"
  "sw_unblock_peer sample_swarm_api p s = s\<lparr>ss_blocked := removeAll p (ss_blocked s)\<rparr>"
  "sw_disconnect_peer_id sample_swarm_api p s = s" "sw_k_value sample_swarm_api = 20"
  "sw_kbuckets sample_swarm_api s = [\<lparr>kb_range_start = 1, kb_entries = ss_peers s\<rparr>]"
  "sw_kbucket sample_swarm_api s p = Some \<lparr>kb_range_start = 1, kb_entries = ss_peers s\<rparr>"
  "sw_get_closest_local_peers sample_swarm_api s bs = map fst (ss_peers s)"
  by (simp_all add: sample_swarm_api_def)

lemma set_unique [simp]: "set (unique xs) = set xs"
  by (simp add: unique_def)

lemma distinct_unique [simp]: "distinct (unique xs)"
  by (simp add: unique_def)

end
