(* ===== verification/External_Address.thy ===== *)
theory External_Address
  imports Swarm
begin

text \<open>
  The manager of the external addresses of a public node (\<^verbatim>\<open>networking/external_address.rs\<close>): peers report
  the address they see the node under, an address reported often enough is announced by the swarm, and a new
  IP address takes over once several addresses of it were reported. The manager is a record with the list of
  the states of the addresses; every operation that announces or withdraws an address takes the state of the
  swarm and returns it.

  Two facts about it: what the manager holds as confirmed or as a listener is announced by the swarm, and the
  number of candidates is bounded. A third shows a gap: an address confirmed before the first listen address
  keeps being announced although its IP address is another.
\<close>

section \<open>Definitions\<close>

definition MAX_REPORTS_BEFORE_CONFIRMATION :: u8 where "MAX_REPORTS_BEFORE_CONFIRMATION = 3"
definition MAX_REPORTS_BEFORE_SWITCHING_IP :: u8 where "MAX_REPORTS_BEFORE_SWITCHING_IP = 10"
definition MAX_CONFIRMED_ADDRESSES_BEFORE_SWITCHING_IP :: nat where
  "MAX_CONFIRMED_ADDRESSES_BEFORE_SWITCHING_IP = 5"
definition MAX_CANDIDATES :: nat where "MAX_CANDIDATES = 50"

datatype external_address_state =
    Candidate multiaddr u8 ip_addr
  | Confirmed multiaddr u8 ip_addr
  | Listener multiaddr ip_addr

fun st_multiaddr :: "external_address_state \<Rightarrow> multiaddr" where
  "st_multiaddr (Candidate a _ _) = a"
| "st_multiaddr (Confirmed a _ _) = a"
| "st_multiaddr (Listener a _) = a"

fun st_ip_address :: "external_address_state \<Rightarrow> ip_addr" where
  "st_ip_address (Candidate _ _ ip) = ip"
| "st_ip_address (Confirmed _ _ ip) = ip"
| "st_ip_address (Listener _ ip) = ip"

definition u8_saturating_inc :: "u8 \<Rightarrow> u8" where
  "u8_saturating_inc n = (if n = 255 then 255 else n + 1)"

fun increment_reports :: "external_address_state \<Rightarrow> external_address_state" where
  "increment_reports (Candidate a n ip) = Candidate a (u8_saturating_inc n) ip"
| "increment_reports (Confirmed a n ip) = Confirmed a (u8_saturating_inc n) ip"
| "increment_reports (Listener a ip) = Listener a ip"

fun num_reports :: "external_address_state \<Rightarrow> u8" where
  "num_reports (Candidate _ n _) = n"
| "num_reports (Confirmed _ n _) = n"
| "num_reports (Listener _ _) = 255"

fun is_candidate :: "external_address_state \<Rightarrow> bool" where
  "is_candidate (Candidate _ _ _) = True"
| "is_candidate _ = False"

record external_address_manager =
  address_states :: "external_address_state list"
  current_ip_address :: "ip_addr option"
  ea_peer_id :: peer_id
  connection_stats :: "(u16, nat) hash_map"
  bad_ports :: "u16 list"

definition external_address_manager_new :: "peer_id \<Rightarrow> external_address_manager" where
  "external_address_manager_new peer_id =
     \<lparr>address_states = [], current_ip_address = None, ea_peer_id = peer_id, connection_stats = [], bad_ports = []\<rparr>"

definition candidate_addresses :: "external_address_manager \<Rightarrow> multiaddr list" where
  "candidate_addresses m = map st_multiaddr (filter is_candidate (address_states m))"

definition craft_external_address :: "peer_id \<Rightarrow> multiaddr \<Rightarrow> multiaddr option" where
  "craft_external_address peer given =
    (let ps = components given
     in case find is_Ip4 ps of None \<Rightarrow> None
     | Some ip \<Rightarrow>
       (case find is_Ws ps of
          Some ws \<Rightarrow> (case find is_Tcp ps of None \<Rightarrow> None | Some port \<Rightarrow> Some (Multiaddr [ip, port, ws, P2p peer]))
        | None \<Rightarrow>
          if list_ex (\<lambda>p. p = QuicV1) ps
          then (case find is_Udp ps of None \<Rightarrow> None | Some port \<Rightarrow> Some (Multiaddr [ip, port, QuicV1, P2p peer]))
          else None))"

text \<open>The first state for an address, changed in place.\<close>

fun update_first :: "('a \<Rightarrow> bool) \<Rightarrow> ('a \<Rightarrow> 'a) \<Rightarrow> 'a list \<Rightarrow> 'a list" where
  "update_first P f [] = []"
| "update_first P f (x # xs) = (if P x then f x # xs else x # update_first P f xs)"

subsection \<open>Switching to a new IP address\<close>

definition confirm_at_switch :: "'s swarm_api \<Rightarrow> ip_addr \<Rightarrow> external_address_state \<Rightarrow>
    external_address_state list \<times> 's \<Rightarrow> external_address_state list \<times> 's" where
  "confirm_at_switch W new_ip state acc =
    (case acc of (out, s) \<Rightarrow>
      if st_ip_address state = new_ip then
        (case state of
           Candidate address n ip \<Rightarrow>
             if n \<ge> MAX_REPORTS_BEFORE_SWITCHING_IP
             then (out @ [Confirmed address n ip], sw_add_external_address W address s)
             else (out @ [state], s)
         | Listener address _ \<Rightarrow> (out @ [state], sw_add_external_address W address s)
         | _ \<Rightarrow> (out @ [state], s))
      else (out @ [state], s))"

definition leaves_at_switch :: "ip_addr \<Rightarrow> external_address_state \<Rightarrow> bool" where
  "leaves_at_switch new_ip state = (\<not> is_candidate state \<and> st_ip_address state \<noteq> new_ip)"

definition switch_to_new_ip ::
  "'s swarm_api \<Rightarrow> ip_addr \<Rightarrow> external_address_manager \<Rightarrow> 's \<Rightarrow> external_address_manager \<times> 's" where
  "switch_to_new_ip W new_ip m s =
    (let m = m\<lparr>current_ip_address := Some new_ip\<rparr>;
         s = fold (\<lambda>state. sw_remove_external_address W (st_multiaddr state))
               (filter (leaves_at_switch new_ip) (address_states m)) s;
         kept = filter (\<lambda>state. \<not> leaves_at_switch new_ip state) (address_states m);
         (states, s) = fold (confirm_at_switch W new_ip) kept ([], s)
     in (m\<lparr>address_states := states\<rparr>, s))"

subsection \<open>Reports of peers\<close>

text \<open>How often every IP address other than the current one has a candidate with enough reports.\<close>

definition new_ip_map :: "ip_addr \<Rightarrow> external_address_state list \<Rightarrow> (ip_addr, nat) hash_map" where
  "new_ip_map current states =
     fold (\<lambda>state m. case state of
         Candidate _ n ip \<Rightarrow>
           if current \<noteq> ip \<and> n \<ge> MAX_REPORTS_BEFORE_SWITCHING_IP
           then AList.update ip (Suc (case map_of m ip of Some c \<Rightarrow> c | None \<Rightarrow> 0)) m else m
       | _ \<Rightarrow> m) states []"

definition ip_to_switch_to :: "external_address_manager \<Rightarrow> ip_addr option" where
  "ip_to_switch_to m =
    (case current_ip_address m of None \<Rightarrow> None
     | Some current \<Rightarrow>
       (let counts = sort_key snd (new_ip_map current (address_states m))
        in if counts \<noteq> [] \<and> snd (last counts) \<ge> MAX_CONFIRMED_ADDRESSES_BEFORE_SWITCHING_IP
           then Some (fst (last counts)) else None))"

definition add_candidate_address ::
  "'s swarm_api \<Rightarrow> multiaddr \<Rightarrow> external_address_manager \<Rightarrow> 's \<Rightarrow> external_address_manager \<times> 's" where
  "add_candidate_address W address m s =
    (case ip_to_switch_to m of
       Some new_ip \<Rightarrow> switch_to_new_ip W new_ip m s
     | None \<Rightarrow>
       if length (candidate_addresses m) \<ge> MAX_CANDIDATES then (m, s)
       else if list_ex (\<lambda>state. st_multiaddr state = address) (address_states m) then (m, s)
       else (case multiaddr_get_ip address of None \<Rightarrow> (m, s)
         | Some ip \<Rightarrow> (m\<lparr>address_states := address_states m @ [Candidate address 0 ip]\<rparr>, s)))"

definition add_external_address_candidate ::
  "'s swarm_api \<Rightarrow> multiaddr \<Rightarrow> external_address_manager \<Rightarrow> 's \<Rightarrow> external_address_manager \<times> 's" where
  "add_external_address_candidate W given m s =
    (if \<not> multiaddr_is_global given then (m, s)
     else (case craft_external_address (ea_peer_id m) given of None \<Rightarrow> (m, s)
     | Some address \<Rightarrow>
     (case multiaddr_get_port address of None \<Rightarrow> (m, s)
     | Some port \<Rightarrow>
       if port \<in> set (bad_ports m) then (m, s)
       else
        (let same = (\<lambda>state. st_multiaddr state = address)
         in case find same (address_states m) of
           None \<Rightarrow> add_candidate_address W address m s
         | Some old \<Rightarrow>
           (let state = increment_reports old;
                m = m\<lparr>address_states := update_first same increment_reports (address_states m)\<rparr>
            in if \<not> is_candidate state then (m, s)
               else if num_reports state \<ge> MAX_REPORTS_BEFORE_CONFIRMATION
                 \<and> (case current_ip_address m of Some ip \<Rightarrow> ip = st_ip_address state | None \<Rightarrow> True)
               then (m\<lparr>address_states :=
                        update_first same (\<lambda>_. Confirmed address (num_reports state) (st_ip_address state)) (address_states m)\<rparr>,
                     sw_add_external_address W address s)
               else add_candidate_address W address m s)))))"

subsection \<open>Listen addresses and connections\<close>

definition on_new_listen_addr ::
  "'s swarm_api \<Rightarrow> multiaddr \<Rightarrow> external_address_manager \<Rightarrow> 's \<Rightarrow> external_address_manager \<times> 's" where
  "on_new_listen_addr W listen_addr m s =
    (if \<not> multiaddr_is_global listen_addr then (m, s)
     else (case craft_external_address (ea_peer_id m) listen_addr of None \<Rightarrow> (m, s)
     | Some address \<Rightarrow>
     (case multiaddr_get_ip address of None \<Rightarrow> (m, s)
     | Some ip_address \<Rightarrow>
      (let m = (if current_ip_address m = None then m\<lparr>current_ip_address := Some ip_address\<rparr> else m);
           same = (\<lambda>state. st_multiaddr state = address)
       in if current_ip_address m \<noteq> Some ip_address
          then switch_to_new_ip W ip_address (m\<lparr>address_states := address_states m @ [Listener address ip_address]\<rparr>) s
          else (case find same (address_states m) of
              Some (Candidate _ _ ip) \<Rightarrow>
                (m\<lparr>address_states := update_first same (\<lambda>_. Listener address ip) (address_states m)\<rparr>,
                 sw_add_external_address W address s)
            | Some (Confirmed _ _ ip) \<Rightarrow>
                (m\<lparr>address_states := update_first same (\<lambda>_. Listener address ip) (address_states m)\<rparr>, s)
            | Some (Listener _ _) \<Rightarrow> (m, s)
            | None \<Rightarrow>
                (m\<lparr>address_states := address_states m @ [Listener address ip_address]\<rparr>,
                 sw_add_external_address W address s))))))"

definition on_expired_listen_addr :: "multiaddr \<Rightarrow> external_address_manager \<Rightarrow> external_address_manager" where
  "on_expired_listen_addr listen_addr m =
    (if \<not> multiaddr_is_global listen_addr then m
     else (case craft_external_address (ea_peer_id m) listen_addr of None \<Rightarrow> m
     | Some address \<Rightarrow> m\<lparr>address_states := filter (\<lambda>state. st_multiaddr state \<noteq> address) (address_states m)\<rparr>))"

definition on_established_incoming_connection :: "multiaddr \<Rightarrow> external_address_manager \<Rightarrow> external_address_manager" where
  "on_established_incoming_connection on_address m =
    (case multiaddr_get_port on_address of None \<Rightarrow> m
     | Some port \<Rightarrow>
       (let n = (case map_of (connection_stats m) port of Some n \<Rightarrow> n | None \<Rightarrow> 0)
        in m\<lparr>connection_stats := AList.update port (min (Suc n) (2 ^ 64 - 1)) (connection_stats m)\<rparr>))"

subsection \<open>Runs\<close>

datatype external_address_op =
    EA_Candidate multiaddr
  | EA_NewListenAddr multiaddr
  | EA_ExpiredListenAddr multiaddr
  | EA_IncomingConnection multiaddr

fun ea_step :: "'s swarm_api \<Rightarrow> external_address_op \<Rightarrow> external_address_manager \<times> 's \<Rightarrow> external_address_manager \<times> 's" where
  "ea_step W (EA_Candidate a) (m, s) = add_external_address_candidate W a m s"
| "ea_step W (EA_NewListenAddr a) (m, s) = on_new_listen_addr W a m s"
| "ea_step W (EA_ExpiredListenAddr a) (m, s) = (on_expired_listen_addr a m, s)"
| "ea_step W (EA_IncomingConnection a) (m, s) = (on_established_incoming_connection a m, s)"

definition ea_run :: "'s swarm_api \<Rightarrow> peer_id \<Rightarrow> 's \<Rightarrow> external_address_op list \<Rightarrow> external_address_manager \<times> 's" where
  "ea_run W peer s ops = fold (ea_step W) ops (external_address_manager_new peer, s)"

text \<open>What becomes of a state that stays when the IP address changes, and whether it is announced then.\<close>

fun at_switch :: "ip_addr \<Rightarrow> external_address_state \<Rightarrow> external_address_state" where
  "at_switch new_ip (Candidate a n ip) =
     (if ip = new_ip \<and> n \<ge> MAX_REPORTS_BEFORE_SWITCHING_IP then Confirmed a n ip else Candidate a n ip)"
| "at_switch new_ip st = st"

fun announced_at_switch :: "ip_addr \<Rightarrow> external_address_state \<Rightarrow> bool" where
  "announced_at_switch new_ip (Candidate _ n ip) \<longleftrightarrow> ip = new_ip \<and> n \<ge> MAX_REPORTS_BEFORE_SWITCHING_IP"
| "announced_at_switch new_ip (Confirmed _ _ _) \<longleftrightarrow> False"
| "announced_at_switch new_ip (Listener _ ip) \<longleftrightarrow> ip = new_ip"

definition ip_consistent :: "external_address_state list \<Rightarrow> bool" where
  "ip_consistent states \<longleftrightarrow> (\<forall>state \<in> set states. multiaddr_get_ip (st_multiaddr state) = Some (st_ip_address state))"

text \<open>The invariant: the IP address of a state is that of its address, and what is not a candidate is
  announced by the swarm.\<close>

definition ea_invar :: "'s swarm_api \<Rightarrow> external_address_manager \<times> 's \<Rightarrow> bool" where
  "ea_invar W = (\<lambda>(m, s).
     ip_consistent (address_states m) \<and>
     (\<forall>state \<in> set (address_states m). \<not> is_candidate state \<longrightarrow>
        st_multiaddr state \<in> set (sw_external_addresses W s)) \<and>
     length (candidate_addresses m) \<le> MAX_CANDIDATES)"

text \<open>Addresses for the examples: the node as its peers see it, and another address it listens on.\<close>

definition reported_addr :: multiaddr where
  "reported_addr = Multiaddr [Ip4 0x08080808, Udp 5000, QuicV1]"

definition listen_addr2 :: multiaddr where
  "listen_addr2 = Multiaddr [Ip4 0x09090909, Udp 5000, QuicV1]"

definition reports_then_listen :: "external_address_op list" where
  "reports_then_listen = [EA_Candidate reported_addr, EA_Candidate reported_addr, EA_Candidate reported_addr,
     EA_Candidate reported_addr, EA_NewListenAddr listen_addr2]"

section \<open>Changing one state\<close>

lemma update_first_cases:
  assumes "y \<in> set (update_first P f xs)"
  shows "y \<in> set xs \<or> (\<exists>x. find P xs = Some x \<and> y = f x)"
  using assms by (induction xs) (auto split: if_splits)

lemma find_update_first:
  "find P xs = Some x \<Longrightarrow> (P x \<Longrightarrow> P (f x)) \<Longrightarrow> find P (update_first P f xs) = Some (f x)"
  by (induction xs) (auto split: if_splits)

lemma filter_conj_bound: "length (filter Q xs) \<le> n \<Longrightarrow> length (filter (\<lambda>x. P x \<and> Q x) xs) \<le> n"
proof (erule order.trans [rotated])
  show "length (filter (\<lambda>x. P x \<and> Q x) xs) \<le> length (filter Q xs)" by (induction xs) auto
qed

lemma is_candidate_increment [simp]: "is_candidate (increment_reports x) = is_candidate x"
  by (cases x) auto

lemma st_increment [simp]:
  "st_multiaddr (increment_reports x) = st_multiaddr x" "st_ip_address (increment_reports x) = st_ip_address x"
  by (cases x; simp)+

lemma crafted_external_ip:
  assumes "craft_external_address peer given = Some address"
  shows "\<exists>ip. multiaddr_get_ip address = Some (V4 ip)"
proof -
  obtain i r where "address = Multiaddr (Ip4 i # r)"
    using assms find_protocolD(1) [of "components given"]
    by (cases "find is_Ip4 (components given)") (auto simp: craft_external_address_def Let_def split: option.splits if_splits)
  then show ?thesis by (simp add: multiaddr_get_ip_def)
qed

section \<open>Switching\<close>

lemma at_switch_simps [simp]:
  "st_multiaddr (at_switch ip x) = st_multiaddr x" "st_ip_address (at_switch ip x) = st_ip_address x"
  by (cases x; simp)+

lemma is_candidate_at_switch: "is_candidate (at_switch ip x) \<Longrightarrow> is_candidate x"
  by (cases x) auto

lemma not_leaves_at_switch:
  "\<not> is_candidate (at_switch ip x) \<Longrightarrow> \<not> leaves_at_switch ip x \<Longrightarrow> st_ip_address x = ip"
  by (cases x) (auto simp: leaves_at_switch_def split: if_splits)

lemma fold_confirm_at_switch:
  assumes "external_address_laws W"
  shows "fst (fold (confirm_at_switch W ip) xs (out, s)) = out @ map (at_switch ip) xs"
    and "set (sw_external_addresses W (snd (fold (confirm_at_switch W ip) xs (out, s)))) =
      set (sw_external_addresses W s) \<union> st_multiaddr ` {x \<in> set xs. announced_at_switch ip x}"
proof (induction xs arbitrary: out s)
  case (Cons x xs)
  have step: "confirm_at_switch W ip x (out, s) =
      (out @ [at_switch ip x], if announced_at_switch ip x then sw_add_external_address W (st_multiaddr x) s else s)" for out s
    by (cases x) (auto simp: confirm_at_switch_def)
  {
    case 1
    show ?case by (simp add: step Cons.IH)
  next
    case 2
    show ?case using assms by (auto simp: step Cons.IH external_address_laws_def)
  }
qed simp_all

lemma fold_remove_external:
  assumes "external_address_laws W"
  shows "set (sw_external_addresses W (fold (\<lambda>x. sw_remove_external_address W (st_multiaddr x)) xs s)) =
    set (sw_external_addresses W s) - st_multiaddr ` set xs"
  using assms by (induction xs arbitrary: s) (auto simp: external_address_laws_def)

text \<open>After a switch everything announced has the new IP address.\<close>

lemma switch_to_new_ip_correct:
  assumes laws: "external_address_laws W" and ip: "ip_consistent (address_states m)"
    and confirmed: "\<And>a n i. Confirmed a n i \<in> set (address_states m) \<Longrightarrow> a \<in> set (sw_external_addresses W s)"
    and cands: "length (candidate_addresses m) \<le> MAX_CANDIDATES"
    and switch: "switch_to_new_ip W new_ip m s = (m', s')"
  shows "ea_invar W (m', s')"
    and "state \<in> set (address_states m') \<Longrightarrow> \<not> is_candidate state \<Longrightarrow> st_ip_address state = new_ip"
    and "current_ip_address m' = Some new_ip"
proof -
  let ?keep = "filter (\<lambda>x. \<not> leaves_at_switch new_ip x) (address_states m)"
  let ?leave = "filter (leaves_at_switch new_ip) (address_states m)"
  define s1 where "s1 = fold (\<lambda>x. sw_remove_external_address W (st_multiaddr x)) ?leave s"
  define r where "r = fold (confirm_at_switch W new_ip) ?keep ([], s1)"
  have m': "m' = m\<lparr>current_ip_address := Some new_ip, address_states := fst r\<rparr>" and s': "s' = snd r"
    using switch by (auto simp: switch_to_new_ip_def Let_def r_def s1_def split: prod.splits)
  have states: "address_states m' = map (at_switch new_ip) ?keep"
    and current: "current_ip_address m' = Some new_ip"
    and ext: "set (sw_external_addresses W s') = set (sw_external_addresses W s) - st_multiaddr ` set ?leave \<union>
      st_multiaddr ` {x \<in> set ?keep. announced_at_switch new_ip x}"
    unfolding m' s' r_def fold_confirm_at_switch [OF laws] s1_def fold_remove_external [OF laws] by simp_all
  show "current_ip_address m' = Some new_ip" by (rule current)
  show "state \<in> set (address_states m') \<Longrightarrow> \<not> is_candidate state \<Longrightarrow> st_ip_address state = new_ip"
  proof -
    assume "state \<in> set (address_states m')" "\<not> is_candidate state"
    then show ?thesis using not_leaves_at_switch by (auto simp: states)
  qed
  have announced: "st_multiaddr x \<in> set (sw_external_addresses W s')"
    if x: "x \<in> set ?keep" "\<not> is_candidate (at_switch new_ip x)" for x
  proof (cases x)
    case (Confirmed a n i)
    then have "i = new_ip" using x by (auto simp: leaves_at_switch_def)
    moreover have "multiaddr_get_ip a = Some i" using ip x Confirmed by (force simp: ip_consistent_def)
    ultimately have "a \<notin> st_multiaddr ` set ?leave"
      using ip by (force simp: leaves_at_switch_def ip_consistent_def)
    then show ?thesis using confirmed x Confirmed by (force simp: ext)
  qed (use x in \<open>auto simp: ext leaves_at_switch_def image_iff split: if_splits\<close>)
  have "length (filter (\<lambda>x. P x \<and> is_candidate (at_switch ip x)) xs) \<le> length (filter is_candidate xs)" for ip P xs
    by (induction xs) (auto dest: is_candidate_at_switch)
  from order.trans [OF this cands [unfolded candidate_addresses_def length_map]]
  show "ea_invar W (m', s')"
    using announced ip by (auto simp: ea_invar_def states ip_consistent_def candidate_addresses_def)
qed

section \<open>The invariant\<close>

lemma ea_invar_switch:
  assumes "external_address_laws W" and "ea_invar W (m, s)"
  shows "ea_invar W (switch_to_new_ip W new_ip m s)"
  using switch_to_new_ip_correct(1) [OF assms(1), of m s new_ip] assms(2)
  by (cases "switch_to_new_ip W new_ip m s") (force simp: ea_invar_def)

lemma ea_invar_add_candidate:
  assumes "external_address_laws W" and "ea_invar W (m, s)"
  shows "ea_invar W (add_candidate_address W address m s)"
  using assms ea_invar_switch [OF assms]
  by (auto simp: add_candidate_address_def ea_invar_def ip_consistent_def candidate_addresses_def split: option.splits)

lemma ea_invar_update:
  assumes "ea_invar W (m, s)" and "set (sw_external_addresses W s) \<subseteq> set (sw_external_addresses W s')"
    and "\<And>x. find P (address_states m) = Some x \<Longrightarrow>
      st_multiaddr (f x) = st_multiaddr x \<and> st_ip_address (f x) = st_ip_address x \<and>
      (is_candidate (f x) \<longrightarrow> is_candidate x) \<and>
      (\<not> is_candidate (f x) \<longrightarrow> \<not> is_candidate x \<or> st_multiaddr x \<in> set (sw_external_addresses W s'))"
  shows "ea_invar W (m\<lparr>address_states := update_first P f (address_states m)\<rparr>, s')"
proof -
  let ?xs = "address_states m"
  have mem: "y \<in> set ?xs \<or> (\<exists>x. find P ?xs = Some x \<and> x \<in> set ?xs \<and> y = f x)" if "y \<in> set (update_first P f ?xs)" for y
    using update_first_cases [OF that] find_SomeD by metis
  have "length (filter is_candidate (update_first P f xs)) \<le> length (filter is_candidate xs)"
    if "\<And>x. find P xs = Some x \<Longrightarrow> is_candidate (f x) \<Longrightarrow> is_candidate x" for xs
    using that by (induction xs) auto
  from this [of ?xs] have len: "length (filter is_candidate (update_first P f ?xs)) \<le> length (filter is_candidate ?xs)"
    using assms(3) by blast
  have "ip_consistent (update_first P f ?xs)"
    using assms(1,3) mem unfolding ea_invar_def ip_consistent_def by fastforce
  moreover have "st_multiaddr y \<in> set (sw_external_addresses W s')"
    if "y \<in> set (update_first P f ?xs)" "\<not> is_candidate y" for y
    using mem [OF that(1)]
  proof
    assume "y \<in> set ?xs"
    then show ?thesis using assms(1,2) that(2) by (auto simp: ea_invar_def)
  next
    assume "\<exists>x. find P ?xs = Some x \<and> x \<in> set ?xs \<and> y = f x"
    then obtain x where x: "find P ?xs = Some x" "x \<in> set ?xs" "y = f x" by blast
    show ?thesis using assms(1,2) assms(3) [OF x(1)] x that(2) by (auto simp: ea_invar_def)
  qed
  ultimately show ?thesis
    using assms(1) len by (auto simp: ea_invar_def candidate_addresses_def)
qed

lemma ea_invar_candidate:
  assumes laws: "external_address_laws W" and inv: "ea_invar W (m, s)"
  shows "ea_invar W (add_external_address_candidate W given m s)"
proof -
  have add: "set (sw_external_addresses W (sw_add_external_address W a s)) = insert a (set (sw_external_addresses W s))" for a
    using laws by (simp add: external_address_laws_def)
  define same where "same address = (\<lambda>x. st_multiaddr x = address)" for address
  have inc: "ea_invar W (m\<lparr>address_states := update_first (same a) increment_reports (address_states m)\<rparr>, s)" for a
    by (rule ea_invar_update [OF inv]) simp_all
  have conf: "ea_invar W (m\<lparr>address_states := update_first (same a) (\<lambda>_. Confirmed a n (st_ip_address x))
      (update_first (same a) increment_reports (address_states m))\<rparr>, sw_add_external_address W a s)"
    if "find (same a) (address_states m) = Some x" for a n x
  proof -
    let ?m = "m\<lparr>address_states := update_first (same a) increment_reports (address_states m)\<rparr>"
    have fnd: "find (same a) (address_states ?m) = Some (increment_reports x)"
      using find_update_first [OF that, of increment_reports] by (simp add: same_def)
    have a: "st_multiaddr x = a" using find_SomeD [OF that] by (simp add: same_def)
    have "ea_invar W (?m\<lparr>address_states := update_first (same a) (\<lambda>_. Confirmed a n (st_ip_address x)) (address_states ?m)\<rparr>,
        sw_add_external_address W a s)"
    proof (rule ea_invar_update [OF inc [of a]])
      fix y
      assume "find (same a) (address_states ?m) = Some y"
      then have y: "y = increment_reports x" using fnd by simp
      show "st_multiaddr (Confirmed a n (st_ip_address x)) = st_multiaddr y \<and>
          st_ip_address (Confirmed a n (st_ip_address x)) = st_ip_address y \<and>
          (is_candidate (Confirmed a n (st_ip_address x)) \<longrightarrow> is_candidate y) \<and>
          (\<not> is_candidate (Confirmed a n (st_ip_address x)) \<longrightarrow> \<not> is_candidate y \<or>
            st_multiaddr y \<in> set (sw_external_addresses W (sw_add_external_address W a s)))"
        by (simp add: y a add)
    qed (auto simp: add)
    then show ?thesis by simp
  qed
  show ?thesis
  proof (cases "\<exists>a port. multiaddr_is_global given \<and> craft_external_address (ea_peer_id m) given = Some a
      \<and> multiaddr_get_port a = Some port \<and> port \<notin> set (bad_ports m)")
    case False
    then show ?thesis using inv by (auto simp: add_external_address_candidate_def split: option.splits)
  next
    case True
    then obtain a port where *: "multiaddr_is_global given" "craft_external_address (ea_peer_id m) given = Some a"
      "multiaddr_get_port a = Some port" "port \<notin> set (bad_ports m)" by blast
    show ?thesis
      using inc [of a] conf [of a] ea_invar_add_candidate [OF laws inv, of a] ea_invar_add_candidate [OF laws inc, of a a]
      by (simp add: add_external_address_candidate_def * same_def Let_def split: option.splits)
  qed
qed

lemma ea_invar_new_listen_addr:
  assumes laws: "external_address_laws W" and inv: "ea_invar W (m, s)"
  shows "ea_invar W (on_new_listen_addr W given m s)"
proof -
  have add: "set (sw_external_addresses W (sw_add_external_address W a s)) = insert a (set (sw_external_addresses W s))" for a
    using laws by (simp add: external_address_laws_def)
  have cur: "ea_invar W (m\<lparr>current_ip_address := ip\<rparr>, s)" for ip
    using inv by (simp add: ea_invar_def candidate_addresses_def)
  have listener: "ea_invar W (m'\<lparr>address_states := address_states m' @ [Listener a ip]\<rparr>, sw_add_external_address W a s)"
    if "ea_invar W (m', s)" "multiaddr_get_ip a = Some ip" for m' a ip
    using that add by (auto simp: ea_invar_def ip_consistent_def candidate_addresses_def)
  have switch: "ea_invar W (switch_to_new_ip W ip (m'\<lparr>address_states := address_states m' @ [Listener a ip]\<rparr>) s)"
    if "ea_invar W (m', s)" "multiaddr_get_ip a = Some ip" for m' a ip
    using that switch_to_new_ip_correct(1) [OF laws, of "m'\<lparr>address_states := address_states m' @ [Listener a ip]\<rparr>" s ip]
    by (cases "switch_to_new_ip W ip (m'\<lparr>address_states := address_states m' @ [Listener a ip]\<rparr>) s")
      (force simp: ea_invar_def ip_consistent_def candidate_addresses_def)
  have upd: "ea_invar W (m'\<lparr>address_states := update_first (\<lambda>x. st_multiaddr x = a) (\<lambda>_. Listener a ip) (address_states m')\<rparr>, s')"
    if "ea_invar W (m', s)" "find (\<lambda>x. st_multiaddr x = a) (address_states m') = Some x" "st_ip_address x = ip"
      "\<not> is_candidate x \<and> s' = s \<or> s' = sw_add_external_address W a s" for m' a ip x s'
    by (rule ea_invar_update [OF that(1)]) (use that(2-4) find_SomeD [OF that(2)] add in auto)
  show ?thesis
  proof (cases "\<exists>a ip. multiaddr_is_global given \<and> craft_external_address (ea_peer_id m) given = Some a \<and> multiaddr_get_ip a = Some ip")
    case True
    then obtain a ip where *: "multiaddr_is_global given" "craft_external_address (ea_peer_id m) given = Some a"
      "multiaddr_get_ip a = Some ip" by blast
    define m1 where "m1 = (if current_ip_address m = None then m\<lparr>current_ip_address := Some ip\<rparr> else m)"
    have m1: "ea_invar W (m1, s)" using inv cur by (simp add: m1_def)
    have "on_new_listen_addr W given m s =
      (if current_ip_address m1 \<noteq> Some ip
       then switch_to_new_ip W ip (m1\<lparr>address_states := address_states m1 @ [Listener a ip]\<rparr>) s
       else (case find (\<lambda>x. st_multiaddr x = a) (address_states m1) of
           Some (Candidate _ _ i) \<Rightarrow>
             (m1\<lparr>address_states := update_first (\<lambda>x. st_multiaddr x = a) (\<lambda>_. Listener a i) (address_states m1)\<rparr>,
              sw_add_external_address W a s)
         | Some (Confirmed _ _ i) \<Rightarrow>
             (m1\<lparr>address_states := update_first (\<lambda>x. st_multiaddr x = a) (\<lambda>_. Listener a i) (address_states m1)\<rparr>, s)
         | Some (Listener _ _) \<Rightarrow> (m1, s)
         | None \<Rightarrow> (m1\<lparr>address_states := address_states m1 @ [Listener a ip]\<rparr>, sw_add_external_address W a s)))"
      unfolding on_new_listen_addr_def m1_def Let_def * by (simp only: option.case * if_True not_True_eq_False if_False)
    then show ?thesis
      using m1 listener [OF m1 *(3)] switch [OF m1 *(3)] upd [OF m1, of a]
      by (auto split: option.splits external_address_state.splits)
  next
    case False
    then show ?thesis using inv by (auto simp: on_new_listen_addr_def split: option.splits)
  qed
qed

lemma ea_invar_step: "external_address_laws W \<Longrightarrow> ea_invar W ms \<Longrightarrow> ea_invar W (ea_step W op ms)"
proof (cases op)
  case (EA_ExpiredListenAddr a)
  assume "ea_invar W ms"
  then show ?thesis using EA_ExpiredListenAddr
    by (cases ms) (auto simp: on_expired_listen_addr_def ea_invar_def ip_consistent_def candidate_addresses_def
        split: option.splits intro: filter_conj_bound)
next
  case (EA_IncomingConnection a)
  assume "ea_invar W ms"
  then show ?thesis using EA_IncomingConnection
    by (cases ms) (auto simp: on_established_incoming_connection_def ea_invar_def candidate_addresses_def Let_def
        split: option.splits)
qed (cases ms; simp add: ea_invar_candidate ea_invar_new_listen_addr)+

lemma ea_invar_run:
  assumes "external_address_laws W"
  shows "ea_invar W (ea_run W peer s ops)"
proof -
  have "ea_invar W ms \<Longrightarrow> ea_invar W (fold (ea_step W) ops ms)" for ms
    by (induction ops arbitrary: ms) (simp_all add: ea_invar_step [OF assms])
  then show ?thesis
    by (simp add: ea_run_def ea_invar_def external_address_manager_new_def ip_consistent_def candidate_addresses_def)
qed

section \<open>What is announced\<close>

text \<open>C22: Over every run of reports, listen addresses, expired addresses and connections, each address the
  manager holds as confirmed or as a listener is announced by the swarm, and it never holds more than
  fifty candidates.\<close>

theorem confirmed_addresses_are_announced:
  assumes "external_address_laws W" and "ea_run W peer s ops = (m, s')"
  shows "(\<forall>state \<in> set (address_states m). \<not> is_candidate state \<longrightarrow> st_multiaddr state \<in> set (sw_external_addresses W s'))
    \<and> length (candidate_addresses m) \<le> MAX_CANDIDATES"
  using ea_invar_run [OF assms(1), of peer s ops] by (simp add: assms(2) ea_invar_def)

lemma reported_addr_steps:
  "multiaddr_is_global reported_addr" "multiaddr_is_global listen_addr2"
  "craft_external_address p reported_addr = Some (Multiaddr [Ip4 0x08080808, Udp 5000, QuicV1, P2p p])"
  "craft_external_address p listen_addr2 = Some (Multiaddr [Ip4 0x09090909, Udp 5000, QuicV1, P2p p])"
  by (simp_all add: reported_addr_def listen_addr2_def multiaddr_is_global_def craft_external_address_def
      ip4_is_unspecified_def ip4_is_private_def ip4_is_loopback_def ip4_is_link_local_def ip4_is_documentation_def
      ip4_is_broadcast_def)

lemma reports_then_listen_run:
  "ea_run sample_swarm_api peer sample_swarm0 reports_then_listen =
    (\<lparr>address_states = [Confirmed (Multiaddr [Ip4 0x08080808, Udp 5000, QuicV1, P2p peer]) 3 (V4 0x08080808),
                        Listener (Multiaddr [Ip4 0x09090909, Udp 5000, QuicV1, P2p peer]) (V4 0x09090909)],
      current_ip_address = Some (V4 0x09090909), ea_peer_id = peer, connection_stats = [], bad_ports = []\<rparr>,
     sample_swarm0\<lparr>ss_external := [Multiaddr [Ip4 0x09090909, Udp 5000, QuicV1, P2p peer],
                                    Multiaddr [Ip4 0x08080808, Udp 5000, QuicV1, P2p peer]]\<rparr>)"
  by (simp add: ea_run_def reports_then_listen_def external_address_manager_new_def add_external_address_candidate_def
      on_new_listen_addr_def reported_addr_steps multiaddr_get_port_def multiaddr_get_ip_def add_candidate_address_def
      ip_to_switch_to_def candidate_addresses_def MAX_CANDIDATES_def MAX_REPORTS_BEFORE_CONFIRMATION_def
      u8_saturating_inc_def sample_swarm_simps sample_swarm0_def Let_def)

theorem confirmed_addresses_are_announced_witness:
  "\<exists>m s'. ea_run sample_swarm_api (PeerId []) sample_swarm0 reports_then_listen = (m, s')
    \<and> (\<forall>state \<in> set (address_states m). \<not> is_candidate state \<longrightarrow>
         st_multiaddr state \<in> set (sw_external_addresses sample_swarm_api s'))"
proof -
  obtain m s' where run: "ea_run sample_swarm_api (PeerId []) sample_swarm0 reports_then_listen = (m, s')"
    by (cases "ea_run sample_swarm_api (PeerId []) sample_swarm0 reports_then_listen") blast
  from confirmed_addresses_are_announced [OF sample_external_address_laws run] run show ?thesis by blast
qed


end
