(* ===== verification/Relay_Manager.thy ===== *)
theory Relay_Manager
  imports Swarm Payments
begin

text \<open>
  The client side of relaying (\<^verbatim>\<open>networking/relay_manager.rs\<close>): a private node keeps candidates for relay
  servers, asks some of them for a reservation, and announces its address at those that granted one. The
  draws of the random number generator are an argument; the health of the reservations, which only feeds a
  metric, is modelled up to the floating-point gauge it is published through.

  The lemmas show which peers the manager holds in which role over every run, that one round never asks for
  more reservations than are free, and that rounds which overlap with pending reservations can still exceed
  the maximum.
\<close>

section \<open>Definitions\<close>

definition MAX_CONCURRENT_RELAY_CONNECTIONS :: nat where "MAX_CONCURRENT_RELAY_CONNECTIONS = 2"
definition MAX_POTENTIAL_CANDIDATES :: nat where "MAX_POTENTIAL_CANDIDATES = 1000"
definition MAX_DURATION_TO_TRACK_INCOMING_CONNECTIONS_PER_PEER :: nat where
  "MAX_DURATION_TO_TRACK_INCOMING_CONNECTIONS_PER_PEER = 20 * 1000000000"
definition RESERVATION_SCORE_ROLLING_WINDOW :: nat where "RESERVATION_SCORE_ROLLING_WINDOW = 100"

type_synonym connections_from_peer = "(peer_id \<times> connection_id \<times> system_time \<times> bool option) list"

record relay_reservation_health =
  incoming_connections_from_remote_peer :: "(peer_id, connections_from_peer) hash_map"
  reservation_score :: "(peer_id, bool list) hash_map"

record relay_manager =
  rm_self_peer_id :: peer_id
  relay_server_candidates :: "(peer_id \<times> multiaddr) list"
  waiting_for_reservation :: "(peer_id, multiaddr) hash_map"
  connected_relay_servers :: "(peer_id, multiaddr) hash_map"
  relayed_listener_id_map :: "(listener_id, peer_id) hash_map"
  reservation_health :: "relay_reservation_health option"

subsection \<open>Reservations\<close>

definition relay_manager_new :: "peer_id \<Rightarrow> relay_manager" where
  "relay_manager_new self_peer_id =
     \<lparr>rm_self_peer_id = self_peer_id, relay_server_candidates = [], waiting_for_reservation = [],
      connected_relay_servers = [], relayed_listener_id_map = [], reservation_health = None\<rparr>"

definition set_reservation_health_metrics :: "relay_manager \<Rightarrow> relay_manager" where
  "set_reservation_health_metrics m =
     m\<lparr>reservation_health := Some \<lparr>incoming_connections_from_remote_peer = [], reservation_score = []\<rparr>\<rparr>"

definition keep_alive_peer :: "relay_manager \<Rightarrow> peer_id \<Rightarrow> bool" where
  "keep_alive_peer m peer_id \<longleftrightarrow>
     contains_key (connected_relay_servers m) peer_id \<or> contains_key (waiting_for_reservation m) peer_id"

definition add_potential_candidates :: "peer_id \<Rightarrow> multiaddr list \<Rightarrow> string list \<Rightarrow> relay_manager \<Rightarrow> relay_manager" where
  "add_potential_candidates peer_id as stream_protocols m =
    (if length (relay_server_candidates m) \<ge> MAX_POTENTIAL_CANDIDATES then m
     else (case as of [] \<Rightarrow> m
     | addr # _ \<Rightarrow>
       if list_ex (\<lambda>(i, _). i = peer_id) (relay_server_candidates m) then m
       else if does_it_support_relay_server_protocol stream_protocols then
         (case craft_relay_address addr (Some peer_id) of
            Some relay_addr \<Rightarrow> m\<lparr>relay_server_candidates := relay_server_candidates m @ [(peer_id, relay_addr)]\<rparr>
          | None \<Rightarrow> m)
       else m))"

definition remove_at :: "nat \<Rightarrow> 'a list \<Rightarrow> 'a list" where
  "remove_at i xs = take i xs @ drop (Suc i) xs"

lemma length_remove_at: "i < length xs \<Longrightarrow> length (remove_at i xs) = length xs - 1"
  by (simp add: remove_at_def)

text \<open>The loop of a round. The draw of an iteration is that of the number of candidates left, which is
  different in every iteration.\<close>

function reservation_loop ::
  "'s swarm_api \<Rightarrow> (nat \<Rightarrow> nat) \<Rightarrow> bad_nodes \<Rightarrow> nat \<Rightarrow> nat \<Rightarrow> relay_manager \<Rightarrow> 's \<Rightarrow> relay_manager \<times> 's" where
  "reservation_loop W rng bad_nodes reservations_to_make n_reservations m s =
    (if \<not> n_reservations < reservations_to_make then (m, s)
     else if relay_server_candidates m = [] then (m, s)
     else
      (let len = length (relay_server_candidates m);
           index = rng len mod len;
           (peer_id, relay_addr) = relay_server_candidates m ! index;
           m = m\<lparr>relay_server_candidates := remove_at index (relay_server_candidates m)\<rparr>
       in if (case map_of bad_nodes peer_id of Some (_, is_bad) \<Rightarrow> is_bad | None \<Rightarrow> False)
          then reservation_loop W rng bad_nodes reservations_to_make n_reservations m s
          else if contains_key (connected_relay_servers m) peer_id \<or> contains_key (waiting_for_reservation m) peer_id
          then reservation_loop W rng bad_nodes reservations_to_make n_reservations m s
          else (case sw_listen_on W relay_addr s of
              (s, Ok listener) \<Rightarrow>
                reservation_loop W rng bad_nodes reservations_to_make (Suc n_reservations)
                  (m\<lparr>waiting_for_reservation := AList.update peer_id relay_addr (waiting_for_reservation m),
                     relayed_listener_id_map := AList.update listener peer_id (relayed_listener_id_map m)\<rparr>) s
            | (s, Err _) \<Rightarrow> reservation_loop W rng bad_nodes reservations_to_make n_reservations m s)))"
  by pat_completeness auto

termination
  by (relation "measure (\<lambda>(_, _, _, _, _, m, _). length (relay_server_candidates m))")
    (auto simp: length_remove_at)

declare reservation_loop.simps [simp del]

definition try_connecting_to_relay ::
  "'s swarm_api \<Rightarrow> (nat \<Rightarrow> nat) \<Rightarrow> bad_nodes \<Rightarrow> relay_manager \<Rightarrow> 's \<Rightarrow> relay_manager \<times> 's" where
  "try_connecting_to_relay W rng bad_nodes m s =
    (if length (connected_relay_servers m) \<ge> MAX_CONCURRENT_RELAY_CONNECTIONS \<or> relay_server_candidates m = []
     then (m, s)
     else
      (let reservations_to_make = MAX_CONCURRENT_RELAY_CONNECTIONS - length (connected_relay_servers m)
       in reservation_loop W rng bad_nodes reservations_to_make 0 m s))"

definition on_successful_reservation_by_client ::
  "'s swarm_api \<Rightarrow> peer_id \<Rightarrow> (connection_id \<times> peer_id \<times> multiaddr \<times> instant) list \<Rightarrow> relay_manager \<Rightarrow> 's \<Rightarrow>
   relay_manager \<times> 's" where
  "on_successful_reservation_by_client W peer_id live_connected_peers m s =
    (let (m, s) =
      (case map_of (waiting_for_reservation m) peer_id of
         Some addr \<Rightarrow>
           (m\<lparr>waiting_for_reservation := AList.delete peer_id (waiting_for_reservation m),
              connected_relay_servers := AList.update peer_id addr (connected_relay_servers m)\<rparr>,
            sw_add_external_address W addr s)
       | None \<Rightarrow> (m, s))
     in if length (connected_relay_servers m) = MAX_CONCURRENT_RELAY_CONNECTIONS
        then (m, sw_identify_push W (unique (map (\<lambda>(_, peer_id, _). peer_id) live_connected_peers)) s)
        else (m, s))"

definition on_listener_closed :: "'s swarm_api \<Rightarrow> listener_id \<Rightarrow> relay_manager \<Rightarrow> 's \<Rightarrow> relay_manager \<times> 's" where
  "on_listener_closed W listener_id m s =
    (case map_of (relayed_listener_id_map m) listener_id of None \<Rightarrow> (m, s)
     | Some peer_id \<Rightarrow>
      (let m = m\<lparr>relayed_listener_id_map := AList.delete listener_id (relayed_listener_id_map m)\<rparr>;
           forget = (\<lambda>m. m\<lparr>waiting_for_reservation := AList.delete peer_id (waiting_for_reservation m)\<rparr>)
       in case map_of (connected_relay_servers m) peer_id of
            None \<Rightarrow> (forget m, s)
          | Some addr \<Rightarrow>
            (let m = m\<lparr>connected_relay_servers := AList.delete peer_id (connected_relay_servers m)\<rparr>;
                 s = sw_remove_external_address W addr s
             in case with_p2p addr (rm_self_peer_id m) of
                  None \<Rightarrow> (m, s)
                | Some addr_with_self_peer_id \<Rightarrow>
                    (forget m, sw_remove_external_address W addr_with_self_peer_id s))))"

subsection \<open>The health of reservations\<close>

definition record_value :: "bool \<Rightarrow> bool list \<Rightarrow> bool list" where
  "record_value v stat =
    (let stat = stat @ [v] in if length stat > RESERVATION_SCORE_ROLLING_WINDOW then tl stat else stat)"

definition first_p2p :: "multiaddr \<Rightarrow> peer_id option" where
  "first_p2p a = (case find is_P2p (components a) of Some (P2p i) \<Rightarrow> Some i | _ \<Rightarrow> None)"

definition health_on_incoming_connection ::
  "system_time \<Rightarrow> connection_id \<Rightarrow> multiaddr \<Rightarrow> multiaddr \<Rightarrow> relay_reservation_health \<Rightarrow> relay_reservation_health" where
  "health_on_incoming_connection now connection_id local_addr send_back_addr h =
    (if \<not> has_circuit local_addr then h
     else (case first_p2p local_addr of None \<Rightarrow> h
     | Some relay_server \<Rightarrow>
       (case first_p2p send_back_addr of None \<Rightarrow> h
        | Some from_peer \<Rightarrow>
          (let old = (case map_of (incoming_connections_from_remote_peer h) from_peer of Some cs \<Rightarrow> cs | None \<Rightarrow> [])
           in h\<lparr>incoming_connections_from_remote_peer :=
                  AList.update from_peer (old @ [(relay_server, connection_id, now, None)])
                    (incoming_connections_from_remote_peer h)\<rparr>))))"

fun set_outcome :: "connection_id \<Rightarrow> bool \<Rightarrow> connections_from_peer \<Rightarrow> connections_from_peer" where
  "set_outcome c v [] = []"
| "set_outcome c v ((r, i, t, o') # cs) = (if i = c then (r, i, t, Some v) # cs else (r, i, t, o') # set_outcome c v cs)"

definition record_score :: "bool \<Rightarrow> peer_id \<Rightarrow> (peer_id, bool list) hash_map \<Rightarrow> (peer_id, bool list) hash_map" where
  "record_score v relay_server scores =
     AList.update relay_server (record_value v (case map_of scores relay_server of Some st \<Rightarrow> st | None \<Rightarrow> [])) scores"

definition score_connections :: "connections_from_peer \<Rightarrow> (peer_id, bool list) hash_map \<Rightarrow> (peer_id, bool list) hash_map" where
  "score_connections connections scores =
    (let successes = filter (\<lambda>(_, _, _, result). result = Some True) connections
     in if successes \<noteq> [] then fold (\<lambda>(relay_server, _). record_score True relay_server) successes scores
        else fold (\<lambda>(relay_server, _). record_score False relay_server)
               (filter (\<lambda>(_, _, _, result). result \<noteq> None) connections) scores)"

text \<open>The connections of a peer are scored once the latest of them is old enough.\<close>

definition connections_due :: "system_time \<Rightarrow> connections_from_peer \<Rightarrow> bool" where
  "connections_due now connections \<longleftrightarrow>
     connections \<noteq> [] \<and>
     (let latest_time = Max (set (map (\<lambda>(_, _, time, _). time) connections))
      in latest_time \<le> now \<and> MAX_DURATION_TO_TRACK_INCOMING_CONNECTIONS_PER_PEER \<le> now - latest_time)"

definition try_update_stat :: "system_time \<Rightarrow> relay_reservation_health \<Rightarrow> relay_reservation_health" where
  "try_update_stat now h =
    (let due = filter (\<lambda>(_, connections). connections_due now connections) (incoming_connections_from_remote_peer h)
     in h\<lparr>reservation_score := fold (\<lambda>(_, connections). score_connections connections) due (reservation_score h),
          incoming_connections_from_remote_peer :=
            fold (\<lambda>(from_peer, _). AList.delete from_peer) due (incoming_connections_from_remote_peer h)\<rparr>)"

definition health_set_outcome ::
  "peer_id \<Rightarrow> connection_id \<Rightarrow> bool \<Rightarrow> relay_reservation_health \<Rightarrow> relay_reservation_health" where
  "health_set_outcome from_peer connection_id v h =
    (case map_of (incoming_connections_from_remote_peer h) from_peer of None \<Rightarrow> h
     | Some connections \<Rightarrow>
       h\<lparr>incoming_connections_from_remote_peer :=
           AList.update from_peer (set_outcome connection_id v connections) (incoming_connections_from_remote_peer h)\<rparr>)"

definition health_on_connection_established ::
  "system_time \<Rightarrow> peer_id \<Rightarrow> connection_id \<Rightarrow> relay_reservation_health \<Rightarrow> relay_reservation_health" where
  "health_on_connection_established now from_peer connection_id h =
     try_update_stat now (health_set_outcome from_peer connection_id True h)"

definition health_on_incomming_connection_error ::
  "system_time \<Rightarrow> multiaddr \<Rightarrow> connection_id \<Rightarrow> relay_reservation_health \<Rightarrow> relay_reservation_health" where
  "health_on_incomming_connection_error now send_back_addr connection_id h =
    (case first_p2p send_back_addr of None \<Rightarrow> h
     | Some from_peer \<Rightarrow> try_update_stat now (health_set_outcome from_peer connection_id False h))"

definition rm_on_incoming_connection ::
  "system_time \<Rightarrow> connection_id \<Rightarrow> multiaddr \<Rightarrow> multiaddr \<Rightarrow> relay_manager \<Rightarrow> relay_manager" where
  "rm_on_incoming_connection now connection_id local_addr send_back_addr m =
     m\<lparr>reservation_health :=
         map_option (health_on_incoming_connection now connection_id local_addr send_back_addr) (reservation_health m)\<rparr>"

definition rm_on_connection_established ::
  "system_time \<Rightarrow> peer_id \<Rightarrow> connection_id \<Rightarrow> relay_manager \<Rightarrow> relay_manager" where
  "rm_on_connection_established now from_peer connection_id m =
     m\<lparr>reservation_health := map_option (health_on_connection_established now from_peer connection_id) (reservation_health m)\<rparr>"

definition rm_on_incomming_connection_error ::
  "system_time \<Rightarrow> multiaddr \<Rightarrow> connection_id \<Rightarrow> relay_manager \<Rightarrow> relay_manager" where
  "rm_on_incomming_connection_error now send_back_addr connection_id m =
     m\<lparr>reservation_health :=
         map_option (health_on_incomming_connection_error now send_back_addr connection_id) (reservation_health m)\<rparr>"

subsection \<open>Runs\<close>

datatype relay_op =
    RO_AddCandidate peer_id "multiaddr list" "string list"
  | RO_Round "nat \<Rightarrow> nat" bad_nodes
  | RO_Reservation peer_id "(connection_id \<times> peer_id \<times> multiaddr \<times> instant) list"
  | RO_ListenerClosed listener_id

fun relay_step :: "'s swarm_api \<Rightarrow> relay_op \<Rightarrow> relay_manager \<times> 's \<Rightarrow> relay_manager \<times> 's" where
  "relay_step W (RO_AddCandidate p as ps) (m, s) = (add_potential_candidates p as ps m, s)"
| "relay_step W (RO_Round rng bad) (m, s) = try_connecting_to_relay W rng bad m s"
| "relay_step W (RO_Reservation p live) (m, s) = on_successful_reservation_by_client W p live m s"
| "relay_step W (RO_ListenerClosed l) (m, s) = on_listener_closed W l m s"

definition relay_run :: "'s swarm_api \<Rightarrow> peer_id \<Rightarrow> 's \<Rightarrow> relay_op list \<Rightarrow> relay_manager \<times> 's" where
  "relay_run W self s ops = fold (relay_step W) ops (relay_manager_new self, s)"

text \<open>The two changes an iteration of the loop makes.\<close>

definition drop_candidate :: "nat \<Rightarrow> relay_manager \<Rightarrow> relay_manager" where
  "drop_candidate i m = m\<lparr>relay_server_candidates := remove_at i (relay_server_candidates m)\<rparr>"

definition await_reservation :: "peer_id \<Rightarrow> multiaddr \<Rightarrow> listener_id \<Rightarrow> relay_manager \<Rightarrow> relay_manager" where
  "await_reservation p a l m = m\<lparr>waiting_for_reservation := AList.update p a (waiting_for_reservation m),
     relayed_listener_id_map := AList.update l p (relayed_listener_id_map m)\<rparr>"

text \<open>The roles of peers: nobody is both waited for and connected, and the candidates are distinct and not
  too many.\<close>

definition relay_invar :: "relay_manager \<Rightarrow> bool" where
  "relay_invar m \<longleftrightarrow>
     hm_invar (waiting_for_reservation m) \<and> hm_invar (connected_relay_servers m) \<and>
     (\<forall>p. contains_key (waiting_for_reservation m) p \<longrightarrow> \<not> contains_key (connected_relay_servers m) p) \<and>
     distinct (map fst (relay_server_candidates m)) \<and>
     length (relay_server_candidates m) \<le> MAX_POTENTIAL_CANDIDATES"

text \<open>Four candidates that support relaying, two rounds before the first answer, then four answers.\<close>

definition relay_candidate :: "nat \<Rightarrow> peer_id" where
  "relay_candidate i = PeerId [word_of_nat i]"

definition slow_reservations :: "relay_op list" where
  "slow_reservations =
     map (\<lambda>i. RO_AddCandidate (relay_candidate i) [Multiaddr [Ip4 1, Udp 1]] [''/libp2p/circuit/relay/0.2.0/stop'']) [1, 2, 3, 4]
     @ [RO_Round (\<lambda>_. 0) [], RO_Round (\<lambda>_. 0) []] @ map (\<lambda>i. RO_Reservation (relay_candidate i) []) [1, 2, 3, 4]"

section \<open>The roles of peers\<close>

lemma map_remove_at: "map f (remove_at i xs) = remove_at i (map f xs)"
  by (simp add: remove_at_def take_map drop_map)

lemma distinct_remove_at: "distinct xs \<Longrightarrow> distinct (remove_at i xs)"
  by (simp add: remove_at_def set_take_disj_set_drop_if_distinct)

lemma length_remove_at_le: "length (remove_at i xs) \<le> length xs"
  by (simp add: remove_at_def)

lemma relay_invar_drop_candidate:
  "relay_invar m \<Longrightarrow> relay_invar (m\<lparr>relay_server_candidates := remove_at i (relay_server_candidates m)\<rparr>)"
  using length_remove_at_le [of i "relay_server_candidates m"]
  by (auto simp: relay_invar_def map_remove_at distinct_remove_at)

lemma relay_invar_wait:
  assumes "relay_invar m" and "\<not> contains_key (connected_relay_servers m) p"
  shows "relay_invar (m\<lparr>waiting_for_reservation := AList.update p a (waiting_for_reservation m),
     relayed_listener_id_map := l\<rparr>)"
  using assms by (auto simp: relay_invar_def contains_key_def hm.lookup_insert hm.invar_insert)

lemma reservation_loop_step:
  assumes "n < k" and "relay_server_candidates m \<noteq> []"
    and "i = rng (length (relay_server_candidates m)) mod length (relay_server_candidates m)"
    and "relay_server_candidates m ! i = (p, a)" and "m1 = drop_candidate i m"
  shows "reservation_loop W rng bad k n m s =
      (if (case map_of bad p of Some (_, is_bad) \<Rightarrow> is_bad | None \<Rightarrow> False) then reservation_loop W rng bad k n m1 s
       else if contains_key (connected_relay_servers m1) p \<or> contains_key (waiting_for_reservation m1) p
       then reservation_loop W rng bad k n m1 s
       else (case sw_listen_on W a s of
           (s, Ok l) \<Rightarrow> reservation_loop W rng bad k (Suc n) (await_reservation p a l m1) s
         | (s, Err _) \<Rightarrow> reservation_loop W rng bad k n m1 s))"
  using assms by (subst reservation_loop.simps) (simp add: Let_def drop_candidate_def await_reservation_def)

text \<open>What one round does: nothing to the connected servers, and it waits for at most as many more as it may.\<close>

lemma reservation_loop_correct:
  assumes "relay_invar m" and "n \<le> k"
  shows "relay_invar (fst (reservation_loop W rng bad k n m s))
    \<and> connected_relay_servers (fst (reservation_loop W rng bad k n m s)) = connected_relay_servers m
    \<and> length (waiting_for_reservation (fst (reservation_loop W rng bad k n m s))) \<le> length (waiting_for_reservation m) + (k - n)"
  using assms
proof (induction "length (relay_server_candidates m)" arbitrary: m s n rule: less_induct)
  case less
  show ?case
  proof (cases "n < k \<and> relay_server_candidates m \<noteq> []")
    case False
    then have "reservation_loop W rng bad k n m s = (m, s)" by (subst reservation_loop.simps) auto
    then show ?thesis using less.prems by simp
  next
    case True
    define i where "i = rng (length (relay_server_candidates m)) mod length (relay_server_candidates m)"
    obtain p a where pa: "relay_server_candidates m ! i = (p, a)" by force
    define m1 where "m1 = drop_candidate i m"
    note step = reservation_loop_step [where rng = rng, OF conjunct1 [OF True] conjunct2 [OF True] i_def pa m1_def]
    have m1: "relay_invar m1" unfolding m1_def drop_candidate_def by (rule relay_invar_drop_candidate [OF less.prems(1)])
    have len: "length (relay_server_candidates m1) < length (relay_server_candidates m)"
      using True by (simp add: m1_def drop_candidate_def i_def length_remove_at)
    have same: "connected_relay_servers m1 = connected_relay_servers m" "waiting_for_reservation m1 = waiting_for_reservation m"
      by (simp_all add: m1_def drop_candidate_def)
    have w: "length (AList.update p a (waiting_for_reservation m1)) \<le> Suc (length (waiting_for_reservation m))"
      using length_update_le [of p a "waiting_for_reservation m1"] same by simp
    define ok where "ok m' \<longleftrightarrow> relay_invar m' \<and> connected_relay_servers m' = connected_relay_servers m \<and>
      length (waiting_for_reservation m') \<le> length (waiting_for_reservation m) + (k - n)" for m'
    have ok1: "ok (fst (reservation_loop W rng bad k n m1 s'))" for s'
      using less.hyps [OF len m1 less.prems(2)] by (simp add: ok_def same)
    have ok2: "ok (fst (reservation_loop W rng bad k (Suc n) (await_reservation p a l m1) s'))"
      if "\<not> contains_key (connected_relay_servers m1) p" for l s'
    proof -
      have "relay_invar (await_reservation p a l m1)" unfolding await_reservation_def by (rule relay_invar_wait [OF m1 that])
      moreover have "length (relay_server_candidates (await_reservation p a l m1)) < length (relay_server_candidates m)"
        using len by (simp add: await_reservation_def)
      ultimately show ?thesis
        using less.hyps [of "await_reservation p a l m1" "Suc n" s'] True w by (auto simp: ok_def await_reservation_def same)
    qed
    have "ok (fst (reservation_loop W rng bad k n m s))"
      unfolding step using ok1 ok2 by (simp split: prod.split result.split)
    then show ?thesis by (simp add: ok_def)
  qed
qed

lemma relay_invar_add_candidate: "relay_invar m \<Longrightarrow> relay_invar (add_potential_candidates p as ps m)"
  by (auto simp: relay_invar_def add_potential_candidates_def list_ex_iff image_iff split: list.splits option.splits)

lemma try_connecting_correct:
  assumes "relay_invar m" and "try_connecting_to_relay W rng bad m s = (m', s')"
  shows "relay_invar m'" and "connected_relay_servers m' = connected_relay_servers m"
    and "length (waiting_for_reservation m') \<le>
      length (waiting_for_reservation m) + (MAX_CONCURRENT_RELAY_CONNECTIONS - length (connected_relay_servers m))"
  using assms(2) reservation_loop_correct [OF assms(1), of 0 "MAX_CONCURRENT_RELAY_CONNECTIONS - length (connected_relay_servers m)" W rng bad s]
    assms(1) by (auto simp: try_connecting_to_relay_def Let_def split: if_splits)

lemma relay_invar_reservation:
  "relay_invar m \<Longrightarrow> relay_invar (fst (on_successful_reservation_by_client W p live m s))"
  by (auto simp: on_successful_reservation_by_client_def Let_def relay_invar_def contains_key_def hm.lookup_insert
      hm.lookup_remove hm.invar_insert hm.invar_remove split: option.splits)

lemma relay_invar_listener_closed: "relay_invar m \<Longrightarrow> relay_invar (fst (on_listener_closed W l m s))"
  by (auto simp: on_listener_closed_def Let_def relay_invar_def contains_key_def
      hm.lookup_remove hm.invar_remove split: option.splits)

lemma relay_invar_step: "relay_invar (fst ms) \<Longrightarrow> relay_invar (fst (relay_step W op ms))"
proof (cases op)
  case (RO_Round rng bad)
  assume "relay_invar (fst ms)"
  then show ?thesis using try_connecting_correct(1) [of "fst ms" W rng bad "snd ms"] RO_Round
    by (cases ms; cases "try_connecting_to_relay W rng bad (fst ms) (snd ms)") auto
qed (cases ms; simp add: relay_invar_add_candidate relay_invar_reservation relay_invar_listener_closed)+

lemma relay_invar_run: "relay_invar (fst (relay_run W self s ops))"
proof -
  have "relay_invar (fst ms) \<Longrightarrow> relay_invar (fst (fold (relay_step W) ops ms))" for ms
    by (induction ops arbitrary: ms) (simp_all add: relay_invar_step)
  then show ?thesis by (simp add: relay_run_def relay_manager_new_def relay_invar_def contains_key_def)
qed

text \<open>C24: Over every run, a peer is never both a relay server of the node and one it waits for, there are at
  most a thousand candidates, and a further round leaves the servers as they are and waits for at most as
  many more as there is room for.\<close>

theorem relay_round_is_bounded:
  assumes "relay_run W self s ops = (m, s1)" and "try_connecting_to_relay W rng bad m s1 = (m', s2)"
  shows "connected_relay_servers m' = connected_relay_servers m
    \<and> length (waiting_for_reservation m') \<le>
        length (waiting_for_reservation m) + (MAX_CONCURRENT_RELAY_CONNECTIONS - length (connected_relay_servers m))
    \<and> \<not> (contains_key (waiting_for_reservation m') p \<and> contains_key (connected_relay_servers m') p)
    \<and> length (relay_server_candidates m') \<le> MAX_POTENTIAL_CANDIDATES"
proof -
  have "relay_invar m" using relay_invar_run [of W self s ops] assms(1) by simp
  from try_connecting_correct [OF this assms(2)] show ?thesis by (auto simp: relay_invar_def)
qed

section \<open>Overlapping rounds\<close>

lemmas relay_eval_defs = relay_run_def relay_manager_new_def add_potential_candidates_def
  MAX_POTENTIAL_CANDIDATES_def MAX_CONCURRENT_RELAY_CONNECTIONS_def does_it_support_relay_server_protocol_def
  craft_relay_address_def relay_candidate_def try_connecting_to_relay_def
  reservation_loop.simps on_successful_reservation_by_client_def contains_key_def remove_at_def
  sample_swarm_simps sample_swarm0_def

lemma slow_reservations_run:
  "length (connected_relay_servers (fst (relay_run sample_swarm_api self sample_swarm0 slow_reservations))) = 4"
  by (simp add: slow_reservations_def relay_eval_defs Let_def)


theorem relay_round_is_bounded_witness:
  "\<exists>m s1 m' s2. relay_run sample_swarm_api (PeerId []) sample_swarm0 (take 4 slow_reservations) = (m, s1)
    \<and> try_connecting_to_relay sample_swarm_api (\<lambda>_. 0) [] m s1 = (m', s2)
    \<and> length (waiting_for_reservation m') = 2 \<and> connected_relay_servers m' = connected_relay_servers m"
proof -
  obtain m s1 where m: "relay_run sample_swarm_api (PeerId []) sample_swarm0 (take 4 slow_reservations) = (m, s1)" by fastforce
  obtain m' s2 where m': "try_connecting_to_relay sample_swarm_api (\<lambda>_. 0) [] m s1 = (m', s2)" by fastforce
  have "length (waiting_for_reservation m') = 2"
    using m m' by (auto simp: slow_reservations_def relay_eval_defs Let_def)
  with m m' relay_round_is_bounded [OF m m'] show ?thesis by blast
qed

end
