(* ===== verification/Bootstrap_Cache.thy ===== *)
theory Bootstrap_Cache
  imports Swarm Payments Version_Gate
begin

text \<open>
  The bootstrap cache (\<^verbatim>\<open>ant-bootstrap/src/cache_store/\<close>): the peers a node was connected to, newest first,
  kept in memory, merged with the file from time to time and written back; and the contacts fetcher, which
  reads the same format, or plain multiaddresses, from a URL (\<^verbatim>\<open>contacts_fetcher.rs\<close>).

  JSON, the parser of multiaddresses and HTTP are third-party and arguments. The file system is a map from
  paths to contents; what can go wrong with a file is an argument \<open>io\<close>. The locks around the cache serialise
  its operations, so each is one step.
\<close>

section \<open>Definitions\<close>

subsection \<open>Configuration\<close>

record bootstrap_config =
  backwards_compatible_writes :: bool
  cache_dir :: string
  cache_save_scaling_factor :: u32
  disable_cache_writing :: bool
  disable_cache_reading :: bool
  disable_env_peers :: bool
  bc_first :: bool
  initial_peers :: "multiaddr list"
  bc_local :: bool
  max_cache_save_duration :: int
  max_concurrent_dials :: nat
  max_contacted_peers_before_termination :: nat
  max_cached_peers :: nat
  max_addrs_per_cached_peer :: nat
  min_cache_save_duration :: int
  network_contacts_url :: "string list"

definition bootstrap_config_default :: "string \<Rightarrow> bootstrap_config" where
  "bootstrap_config_default default_cache_dir = \<lparr>
     backwards_compatible_writes = False, cache_dir = default_cache_dir, cache_save_scaling_factor = 2,
     disable_cache_writing = False, disable_cache_reading = False, disable_env_peers = False, bc_first = False,
     initial_peers = [], bc_local = False, max_cache_save_duration = from_secs (3 * 60 * 60), max_concurrent_dials = 10,
     max_contacted_peers_before_termination = 5, max_cached_peers = 1500, max_addrs_per_cached_peer = 3,
     min_cache_save_duration = from_secs 30, network_contacts_url = []\<rparr>"

record initial_peers_config =
  ip_first :: bool
  ip_addrs :: "multiaddr list"
  ip_network_contacts_url :: "string list"
  ip_local :: bool
  ip_ignore_cache :: bool
  ip_bootstrap_cache_dir :: "string option"

definition bootstrap_config_try_from :: "string \<Rightarrow> initial_peers_config \<Rightarrow> bootstrap_config" where
  "bootstrap_config_try_from default_cache_dir c =
     (bootstrap_config_default default_cache_dir)\<lparr>
       cache_dir := (case ip_bootstrap_cache_dir c of Some d \<Rightarrow> d | None \<Rightarrow> default_cache_dir),
       disable_cache_reading := ip_ignore_cache c, bc_first := ip_first c, initial_peers := ip_addrs c,
       bc_local := ip_local c, network_contacts_url := ip_network_contacts_url c\<rparr>"

datatype bootstrap_error =
    NoBootstrapPeersFound
  | FailedToParseCacheData
  | FailedToObtainAddrsFromUrl string nat
  | FailedToParseUrl
  | BootstrapIo
  | BootstrapHttp

subsection \<open>The cache data\<close>

record cache_data =
  cd_peers :: "(peer_id \<times> multiaddr list) list"
  cd_last_updated :: system_time
  cd_network_version :: string
  cd_cache_version :: string

definition cache_data_default :: "system_time \<Rightarrow> string \<Rightarrow> cache_data" where
  "cache_data_default now network_version =
     \<lparr>cd_peers = [], cd_last_updated = now, cd_network_version = network_version, cd_cache_version = ''1''\<rparr>"

definition pop_back_to :: "nat \<Rightarrow> 'a list \<Rightarrow> 'a list" where
  "pop_back_to n xs = take n xs"

text \<open>One peer of the cache merged with what another cache has of it.\<close>

definition sync_addrs :: "nat \<Rightarrow> multiaddr list \<Rightarrow> multiaddr list \<Rightarrow> multiaddr list" where
  "sync_addrs max_addrs own other_addrs =
     pop_back_to max_addrs (fold (\<lambda>a as. if a \<in> set as then as else as @ [a]) other_addrs own)"

text \<open>The loop over the own peers: the merged peers, and what is left of the others.\<close>

fun sync_peers :: "nat \<Rightarrow> (peer_id \<times> multiaddr list) list \<Rightarrow> (peer_id, multiaddr list) hash_map \<Rightarrow>
    (peer_id \<times> multiaddr list) list \<times> (peer_id, multiaddr list) hash_map" where
  "sync_peers max_addrs [] other_peers = ([], other_peers)"
| "sync_peers max_addrs ((p, as) # ps) other_peers =
    (let as = (case map_of other_peers p of Some other_addrs \<Rightarrow> sync_addrs max_addrs as other_addrs | None \<Rightarrow> as);
         (rest, other_peers) = sync_peers max_addrs ps (AList.delete p other_peers)
     in ((p, as) # rest, other_peers))"

definition cache_sync :: "system_time \<Rightarrow> cache_data \<Rightarrow> nat \<Rightarrow> nat \<Rightarrow> cache_data \<Rightarrow> cache_data" where
  "cache_sync now other max_addrs_per_peer max_peers self =
    (let other_peers = fold (\<lambda>(p, as). AList.update p as) (cd_peers other) [];
         (merged, other_peers) = sync_peers max_addrs_per_peer (cd_peers self) other_peers;
         kept = pop_back_to max_peers merged;
         required_len = max_peers - length kept
     in self\<lparr>cd_peers := kept @ take required_len other_peers, cd_last_updated := now\<rparr>)"

fun push_new_front :: "multiaddr list \<Rightarrow> multiaddr list \<Rightarrow> multiaddr list" where
  "push_new_front [] present = present"
| "push_new_front (a # as) present = push_new_front as (if a \<in> set present then present else a # present)"

fun update_peer :: "peer_id \<Rightarrow> (multiaddr list \<Rightarrow> multiaddr list) \<Rightarrow> (peer_id \<times> multiaddr list) list \<Rightarrow>
    (peer_id \<times> multiaddr list) list" where
  "update_peer p f [] = []"
| "update_peer p f ((q, as) # ps) = (if q = p then (q, f as) # ps else (q, as) # update_peer p f ps)"

definition cache_add_peer :: "peer_id \<Rightarrow> multiaddr list \<Rightarrow> nat \<Rightarrow> nat \<Rightarrow> cache_data \<Rightarrow> cache_data" where
  "cache_add_peer peer_id as max_addrs_per_peer max_peers d =
    (let peers =
       (if list_ex (\<lambda>(i, _). i = peer_id) (cd_peers d)
        then update_peer peer_id (\<lambda>present. pop_back_to max_addrs_per_peer (push_new_front as present)) (cd_peers d)
        else (peer_id, take max_addrs_per_peer as) # cd_peers d)
     in d\<lparr>cd_peers := pop_back_to max_peers peers\<rparr>)"

definition cache_remove_peer :: "peer_id \<Rightarrow> cache_data \<Rightarrow> cache_data" where
  "cache_remove_peer peer_id d = d\<lparr>cd_peers := filter (\<lambda>(i, _). i \<noteq> peer_id) (cd_peers d)\<rparr>"

definition cache_get_all_addrs :: "cache_data \<Rightarrow> multiaddr list" where
  "cache_get_all_addrs d = filter_map (\<lambda>(_, as). case as of [] \<Rightarrow> None | a # _ \<Rightarrow> Some a) (cd_peers d)"

subsection \<open>The older format\<close>

record bootstrap_addr =
  ba_addr :: multiaddr
  ba_success_count :: u32
  ba_failure_count :: u32
  ba_last_seen :: system_time

record cache_data_v0 =
  v0_peers :: "(peer_id, bootstrap_addr list) hash_map"
  v0_last_updated :: system_time
  v0_network_version :: string

definition v0_from_v1 :: "system_time \<Rightarrow> cache_data \<Rightarrow> cache_data_v0" where
  "v0_from_v1 now d = \<lparr>
     v0_peers = fold (\<lambda>(p, as) m. AList.update p
         (map (\<lambda>a. \<lparr>ba_addr = a, ba_success_count = 0, ba_failure_count = 0, ba_last_seen = now\<rparr>) as) m) (cd_peers d) [],
     v0_last_updated = cd_last_updated d, v0_network_version = cd_network_version d\<rparr>"

definition v1_from_v0 :: "cache_data_v0 \<Rightarrow> cache_data" where
  "v1_from_v0 v = \<lparr>
     cd_peers = map (\<lambda>(p, as). (p, map ba_addr as)) (v0_peers v), cd_last_updated = v0_last_updated v,
     cd_network_version = v0_network_version v, cd_cache_version = ''1''\<rparr>"

subsection \<open>Files\<close>

type_synonym file_system = "(string list, string) hash_map"

record json_api =
  json_v1_to_string :: "cache_data \<Rightarrow> string"
  json_v1_from_str :: "string \<Rightarrow> cache_data option"
  json_v0_to_string :: "cache_data_v0 \<Rightarrow> string"
  json_v0_from_str :: "string \<Rightarrow> cache_data_v0 option"
  parse_multiaddr :: "string \<Rightarrow> multiaddr option"
  network_version :: string

text \<open>What may go wrong: opening, each attempt to lock, reading, and the step at which writing stops with
  how much of the data was written.\<close>

record io_env =
  io_open :: bool
  io_lock :: "nat \<Rightarrow> bool"
  io_read :: bool
  io_write_data :: "nat option"
  io_sync :: bool

definition io_fine :: io_env where
  "io_fine = \<lparr>io_open = True, io_lock = (\<lambda>_. True), io_read = True, io_write_data = None, io_sync = True\<rparr>"

fun lock_attempts :: "(nat \<Rightarrow> bool) \<Rightarrow> nat \<Rightarrow> nat \<Rightarrow> (unit, bootstrap_error) result" where
  "lock_attempts op attempt 0 = Ok ()"
| "lock_attempts op attempt (Suc n) =
    (if op attempt then Ok () else if n = 0 then Err BootstrapIo else lock_attempts op (Suc attempt) n)"

definition lock_with_retry :: "(nat \<Rightarrow> bool) \<Rightarrow> (unit, bootstrap_error) result" where
  "lock_with_retry op = lock_attempts op 1 3"

definition v1_cache_file_path :: "string \<Rightarrow> string \<Rightarrow> string list" where
  "v1_cache_file_path dir file_name = [dir, ''version_1'', file_name]"

definition v0_cache_file_path :: "string \<Rightarrow> string \<Rightarrow> string list" where
  "v0_cache_file_path dir file_name = [dir, file_name]"

definition read_file :: "io_env \<Rightarrow> file_system \<Rightarrow> string list \<Rightarrow> (string, bootstrap_error) result" where
  "read_file io fs path =
    (if \<not> io_open io then Err BootstrapIo
     else and_then (ok_or (map_of fs path) BootstrapIo) (\<lambda>contents. if io_read io then Ok contents else Err BootstrapIo))"

definition v1_read_from_file ::
  "json_api \<Rightarrow> io_env \<Rightarrow> file_system \<Rightarrow> string \<Rightarrow> string \<Rightarrow> (cache_data, bootstrap_error) result" where
  "v1_read_from_file J io fs dir file_name =
    (let path = v1_cache_file_path dir file_name
     in if \<not> io_open io \<or> map_of fs path = None then Err BootstrapIo
        else and_then (lock_with_retry (io_lock io)) (\<lambda>_.
          and_then (read_file io fs path) (\<lambda>contents. ok_or (json_v1_from_str J contents) FailedToParseCacheData)))"

definition v0_read_from_file ::
  "json_api \<Rightarrow> io_env \<Rightarrow> file_system \<Rightarrow> string \<Rightarrow> string \<Rightarrow> (cache_data_v0, bootstrap_error) result" where
  "v0_read_from_file J io fs dir file_name =
     and_then (read_file io fs (v0_cache_file_path dir file_name)) (\<lambda>contents.
       ok_or (json_v0_from_str J contents) FailedToParseCacheData)"

text \<open>The file is opened, locked, emptied, and then written in place.\<close>

definition v1_write_to_file ::
  "json_api \<Rightarrow> io_env \<Rightarrow> cache_data \<Rightarrow> string \<Rightarrow> string \<Rightarrow> file_system \<Rightarrow> file_system \<times> (unit, bootstrap_error) result" where
  "v1_write_to_file J io d dir file_name fs =
    (let path = v1_cache_file_path dir file_name;
         data = json_v1_to_string J d @ [CHR 0x0A]
     in if \<not> io_open io then (fs, Err BootstrapIo)
        else
         (let fs = (if map_of fs path = None then AList.update path [] fs else fs)
          in case lock_with_retry (io_lock io) of
               Err e \<Rightarrow> (fs, Err e)
             | Ok _ \<Rightarrow>
               (case io_write_data io of
                  Some n \<Rightarrow> (AList.update path (take n data) fs, Err BootstrapIo)
                | None \<Rightarrow> (AList.update path data fs, if io_sync io then Ok () else Err BootstrapIo))))"

text \<open>The older format is written to a new file that replaces the old one at once.\<close>

definition v0_write_to_file ::
  "json_api \<Rightarrow> io_env \<Rightarrow> cache_data_v0 \<Rightarrow> string \<Rightarrow> string \<Rightarrow> file_system \<Rightarrow> file_system \<times> (unit, bootstrap_error) result" where
  "v0_write_to_file J io d dir file_name fs =
    (if \<not> io_open io \<or> io_write_data io \<noteq> None \<or> \<not> io_sync io then (fs, Err BootstrapIo)
     else (AList.update (v0_cache_file_path dir file_name) (json_v0_to_string J d @ [CHR 0x0A]) fs, Ok ()))"

subsection \<open>The store\<close>

record bootstrap_cache_store =
  bcs_config :: bootstrap_config
  bcs_data :: cache_data
  bcs_to_remove :: "peer_id list"

text \<open>The flag says whether the directory of the cache exists or could be created.\<close>

definition cache_store_new ::
  "system_time \<Rightarrow> json_api \<Rightarrow> bool \<Rightarrow> bootstrap_config \<Rightarrow> (bootstrap_cache_store, bootstrap_error) result" where
  "cache_store_new now J dir_ok c =
    (if dir_ok then Ok \<lparr>bcs_config = c, bcs_data = cache_data_default now (network_version J), bcs_to_remove = []\<rparr>
     else Err BootstrapIo)"

definition queue_remove_peer :: "peer_id \<Rightarrow> bootstrap_cache_store \<Rightarrow> bootstrap_cache_store" where
  "queue_remove_peer peer_id st = st\<lparr>bcs_to_remove := List.insert peer_id (bcs_to_remove st)\<rparr>"

definition cache_add_addr :: "multiaddr \<Rightarrow> bootstrap_cache_store \<Rightarrow> bootstrap_cache_store" where
  "cache_add_addr addr st =
    (if has_circuit addr then st
     else (case craft_valid_multiaddr addr False of None \<Rightarrow> st
     | Some addr \<Rightarrow>
       (case multiaddr_get_peer_id addr of None \<Rightarrow> st
        | Some peer_id \<Rightarrow>
            st\<lparr>bcs_data := cache_add_peer peer_id [addr] (max_addrs_per_cached_peer (bcs_config st))
                 (max_cached_peers (bcs_config st)) (bcs_data st)\<rparr>)))"

definition cache_file_name :: "json_api \<Rightarrow> bool \<Rightarrow> string" where
  "cache_file_name J is_local =
    (if is_local then ''bootstrap_cache_local_'' @ network_version J @ ''.json''
     else ''bootstrap_cache_'' @ network_version J @ ''.json'')"

definition load_cache_data :: "json_api \<Rightarrow> io_env \<Rightarrow> file_system \<Rightarrow> bootstrap_config \<Rightarrow> (cache_data, bootstrap_error) result" where
  "load_cache_data J io fs c =
    (case v1_read_from_file J io fs (cache_dir c) (cache_file_name J (bc_local c)) of
       Ok data \<Rightarrow> Ok (data\<lparr>cd_peers := pop_back_to (max_cached_peers c) (cd_peers data)\<rparr>)
     | Err _ \<Rightarrow>
       (case v0_read_from_file J io fs (cache_dir c) (cache_file_name J (bc_local c)) of
          Ok data \<Rightarrow>
            (let data = v1_from_v0 data in Ok (data\<lparr>cd_peers := pop_back_to (max_cached_peers c) (cd_peers data)\<rparr>))
        | Err _ \<Rightarrow> Err FailedToParseCacheData))"

definition cache_write ::
  "system_time \<Rightarrow> json_api \<Rightarrow> io_env \<Rightarrow> bootstrap_cache_store \<Rightarrow> file_system \<Rightarrow> file_system \<times> (unit, bootstrap_error) result" where
  "cache_write now J io st fs =
    (let c = bcs_config st; filename = cache_file_name J (bc_local c)
     in if disable_cache_writing c then (fs, Ok ())
        else (case v1_write_to_file J io (bcs_data st) (cache_dir c) filename fs of
            (fs, Err e) \<Rightarrow> (fs, Err e)
          | (fs, Ok _) \<Rightarrow>
            if backwards_compatible_writes c
            then v0_write_to_file J io (v0_from_v1 now (bcs_data st)) (cache_dir c) filename fs
            else (fs, Ok ())))"

definition sync_and_flush_to_disk ::
  "system_time \<Rightarrow> json_api \<Rightarrow> io_env \<Rightarrow> bootstrap_cache_store \<Rightarrow> file_system \<Rightarrow>
   bootstrap_cache_store \<times> file_system \<times> (unit, bootstrap_error) result" where
  "sync_and_flush_to_disk now J io st fs =
    (let c = bcs_config st
     in if disable_cache_writing c then (st, fs, Ok ())
        else if cd_peers (bcs_data st) = [] then (st, fs, Ok ())
        else
         (let st = (case load_cache_data J io fs c of
                Ok data_from_file \<Rightarrow>
                  st\<lparr>bcs_data := cache_sync now data_from_file (max_addrs_per_cached_peer c) (max_cached_peers c) (bcs_data st)\<rparr>
              | Err _ \<Rightarrow> st);
              st = st\<lparr>bcs_data := fold cache_remove_peer (bcs_to_remove st) (bcs_data st), bcs_to_remove := []\<rparr>
          in case cache_write now J io st fs of
               (fs, Err e) \<Rightarrow> (st, fs, Err e)
             | (fs, Ok _) \<Rightarrow> (st\<lparr>bcs_data := (bcs_data st)\<lparr>cd_peers := []\<rparr>\<rparr>, fs, Ok ())))"

subsection \<open>The interval between flushes\<close>

text \<open>The random adjustment is drawn below a percentage of the seconds. The source computes the percentage
  in floating point; for a percentage of the sources and any duration below \<open>2 ^ 40\<close> seconds the result,
  cut to an integer, is the integer quotient. Drawing from an empty range panics, the value None here.\<close>

definition duration_with_variance :: "nat \<Rightarrow> int \<Rightarrow> nat \<Rightarrow> int option" where
  "duration_with_variance rng duration variance =
    (let variance = as_secs duration * variance div 100
     in if variance = 0 then None
        else
         (let random_adjustment = rng mod variance
          in if even random_adjustment then Some (max 0 (duration - from_secs random_adjustment))
             else Some (duration + from_secs random_adjustment)))"

definition next_flush_interval :: "nat \<Rightarrow> bootstrap_config \<Rightarrow> int \<Rightarrow> int option" where
  "next_flush_interval rng c sleep_interval =
     map_option (\<lambda>max_duration. min (sleep_interval * int (unat (cache_save_scaling_factor c))) max_duration)
       (duration_with_variance rng (max_cache_save_duration c) 1)"

subsection \<open>The contacts fetcher\<close>

definition craft_valid_multiaddr_from_str :: "json_api \<Rightarrow> string \<Rightarrow> bool \<Rightarrow> multiaddr option" where
  "craft_valid_multiaddr_from_str J addr_str ignore_peer_id =
     Option.bind (parse_multiaddr J addr_str) (\<lambda>addr. craft_valid_multiaddr addr ignore_peer_id)"

definition try_parse_response :: "json_api \<Rightarrow> string \<Rightarrow> bool \<Rightarrow> (multiaddr list, bootstrap_error) result" where
  "try_parse_response J response ignore_peer_id =
    (case (case json_v1_from_str J response of
             Some data \<Rightarrow> Some data
           | None \<Rightarrow> map_option v1_from_v0 (json_v0_from_str J response)) of
       Some data \<Rightarrow>
         if cd_network_version data \<noteq> network_version J then Ok [] else Ok (cache_get_all_addrs data)
     | None \<Rightarrow>
         (let addresses = filter_map (\<lambda>s. craft_valid_multiaddr_from_str J s ignore_peer_id)
                (split_on (CHR 0x0A) response)
          in if addresses = [] then Err FailedToParseCacheData else Ok addresses))"

text \<open>What one HTTP request gives: an error, a status other than success, a body that cannot be read, or one
  that can.\<close>

datatype http_response = HttpError | HttpFailureStatus | HttpBodyError | HttpBody string

definition MAX_RETRIES_ON_FETCH_FAILURE :: nat where "MAX_RETRIES_ON_FETCH_FAILURE = 2"

function fetch_from_endpoint_loop ::
  "json_api \<Rightarrow> (nat \<Rightarrow> http_response) \<Rightarrow> string \<Rightarrow> bool \<Rightarrow> nat \<Rightarrow> (multiaddr list, bootstrap_error) result" where
  "fetch_from_endpoint_loop J http endpoint ignore_peer_id retries =
    (let retry =
       (if Suc retries \<ge> MAX_RETRIES_ON_FETCH_FAILURE
        then Err (FailedToObtainAddrsFromUrl endpoint MAX_RETRIES_ON_FETCH_FAILURE)
        else fetch_from_endpoint_loop J http endpoint ignore_peer_id (Suc retries))
     in case http retries of
          HttpBody response \<Rightarrow>
            (case try_parse_response J response ignore_peer_id of Ok as \<Rightarrow> Ok as | Err _ \<Rightarrow> retry)
        | HttpBodyError \<Rightarrow> Err BootstrapHttp
        | HttpFailureStatus \<Rightarrow> retry
        | HttpError \<Rightarrow> retry)"
  by pat_completeness auto
termination
  by (relation "measure (\<lambda>(_, _, _, _, retries). MAX_RETRIES_ON_FETCH_FAILURE - retries)") auto

declare fetch_from_endpoint_loop.simps [simp del]

definition fetch_from_endpoint ::
  "json_api \<Rightarrow> (nat \<Rightarrow> http_response) \<Rightarrow> string \<Rightarrow> bool \<Rightarrow> (multiaddr list, bootstrap_error) result" where
  "fetch_from_endpoint J http endpoint ignore_peer_id = fetch_from_endpoint_loop J http endpoint ignore_peer_id 0"

text \<open>The results of the endpoints in the order they arrive; fetching stops once there are enough.\<close>

fun collect_addresses ::
  "nat \<Rightarrow> (multiaddr list, bootstrap_error) result list \<Rightarrow> multiaddr list \<Rightarrow> multiaddr list" where
  "collect_addresses max_addrs [] acc = acc"
| "collect_addresses max_addrs (r # rs) acc =
    (case r of
       Ok as \<Rightarrow> (let acc = acc @ as in if length acc \<ge> max_addrs then acc else collect_addresses max_addrs rs acc)
     | Err _ \<Rightarrow> collect_addresses max_addrs rs acc)"

definition fetch_bootstrap_addresses :: "nat \<Rightarrow> (multiaddr list, bootstrap_error) result list \<Rightarrow> multiaddr list" where
  "fetch_bootstrap_addresses max_addrs results = take max_addrs (collect_addresses max_addrs results [])"

subsection \<open>Well-formed caches\<close>

definition cache_ok :: "bootstrap_config \<Rightarrow> cache_data \<Rightarrow> bool" where
  "cache_ok c d \<longleftrightarrow>
     distinct (map fst (cd_peers d)) \<and> length (cd_peers d) \<le> max_cached_peers c \<and>
     (\<forall>x \<in> set (cd_peers d). length (snd x) \<le> max_addrs_per_cached_peer c)"

text \<open>What is written of a cache can be read back.\<close>

definition json_reads_back :: "json_api \<Rightarrow> cache_data \<Rightarrow> bool" where
  "json_reads_back J d \<longleftrightarrow> json_v1_from_str J (json_v1_to_string J d @ [CHR 0x0A]) = Some d"

text \<open>A format for the examples: one character per peer, no addresses.\<close>

definition sample_cache :: "string \<Rightarrow> cache_data" where
  "sample_cache cs = \<lparr>cd_peers = map (\<lambda>c. (PeerId [of_char c], [])) cs, cd_last_updated = 0,
     cd_network_version = ''1'', cd_cache_version = ''1''\<rparr>"

definition sample_json :: json_api where
  "sample_json = \<lparr>
     json_v1_to_string = (\<lambda>d. map (\<lambda>(p, _). case p of PeerId bs \<Rightarrow> char_of (unat (hd bs))) (cd_peers d)),
     json_v1_from_str = (\<lambda>s. Some (sample_cache (butlast s))),
     json_v0_to_string = (\<lambda>_. []), json_v0_from_str = (\<lambda>_. None), parse_multiaddr = (\<lambda>_. None),
     network_version = ''1''\<rparr>"

definition sample_store :: bootstrap_cache_store where
  "sample_store = \<lparr>bcs_config = bootstrap_config_default ''d'', bcs_data = sample_cache ''A'', bcs_to_remove = [PeerId [67]]\<rparr>"

definition sample_fs :: file_system where
  "sample_fs = [([''d'', ''version_1'', ''bootstrap_cache_1.json''], ''BC'' @ [CHR 0x0A])]"

section \<open>Bounded caches\<close>

lemma length_pop_back_to [simp]: "length (pop_back_to n xs) = min n (length xs)"
  by (simp add: pop_back_to_def)

lemma length_sync_addrs: "length (sync_addrs n own other) \<le> n"
  by (simp add: sync_addrs_def)

lemma update_peer_keys [simp]: "map fst (update_peer p f ps) = map fst ps"
  by (induction ps rule: update_peer.induct) auto

lemma update_peer_bound:
  assumes "\<forall>x \<in> set ps. length (snd x) \<le> n" and "\<And>as. length (f as) \<le> n"
  shows "\<forall>x \<in> set (update_peer p f ps). length (snd x) \<le> n"
  using assms(1) by (induction ps; use assms(2) in \<open>fastforce split: prod.splits if_splits\<close>)

lemma cache_ok_pop_back:
  "distinct (map fst ps) \<Longrightarrow> \<forall>x \<in> set ps. length (snd x) \<le> max_addrs_per_cached_peer c \<Longrightarrow>
   cache_ok c (d\<lparr>cd_peers := pop_back_to (max_cached_peers c) ps\<rparr>)"
  by (auto simp: cache_ok_def pop_back_to_def take_map [symmetric] dest: in_set_takeD)

lemma cache_ok_add_peer:
  assumes "cache_ok c d"
  shows "cache_ok c (cache_add_peer p as (max_addrs_per_cached_peer c) (max_cached_peers c) d)"
  unfolding cache_add_peer_def Let_def
proof (rule cache_ok_pop_back)
  let ?ps = "if list_ex (\<lambda>(i, _). i = p) (cd_peers d)
    then update_peer p (\<lambda>present. pop_back_to (max_addrs_per_cached_peer c) (push_new_front as present)) (cd_peers d)
    else (p, take (max_addrs_per_cached_peer c) as) # cd_peers d"
  show "distinct (map fst ?ps)" using assms by (auto simp: cache_ok_def list_ex_iff)
  show "\<forall>x \<in> set ?ps. length (snd x) \<le> max_addrs_per_cached_peer c"
    using assms update_peer_bound [of "cd_peers d" "max_addrs_per_cached_peer c"
      "\<lambda>present. pop_back_to (max_addrs_per_cached_peer c) (push_new_front as present)" p]
    by (simp add: cache_ok_def)
qed

lemma cache_ok_add_addr: "cache_ok (bcs_config st) (bcs_data st) \<Longrightarrow>
    cache_ok (bcs_config (cache_add_addr a st)) (bcs_data (cache_add_addr a st))"
  by (auto simp: cache_add_addr_def cache_ok_add_peer split: option.splits)

lemma cache_ok_remove: "cache_ok c d \<Longrightarrow> cache_ok c (cache_remove_peer p d)"
  by (auto simp: cache_ok_def cache_remove_peer_def distinct_map_filter intro: order.trans [OF length_filter_le])

lemma cache_ok_remove_all: "cache_ok c d \<Longrightarrow> cache_ok c (fold cache_remove_peer ps d)"
  by (induction ps arbitrary: d) (simp_all add: cache_ok_remove)

section \<open>Merging\<close>

lemma fold_update_fresh:
  "distinct (map fst (acc @ xs)) \<Longrightarrow> fold (\<lambda>(p, as). AList.update p as) xs acc = acc @ xs"
proof (induction xs arbitrary: acc)
  case (Cons x xs)
  obtain p as where x: "x = (p, as)" by force
  have "AList.update p as acc = acc @ [(p, as)]" if "p \<notin> fst ` set acc" for acc :: "('a \<times> 'b) list"
    using that by (induction acc) auto
  with Cons show ?case by (simp add: x)
qed simp

lemma sync_peers_keys:
  "map fst (fst (sync_peers n ps other)) = map fst ps"
  "snd (sync_peers n ps other) = filter (\<lambda>x. fst x \<notin> fst ` set ps) other"
proof (induction n ps other rule: sync_peers.induct)
  case (2 n p as ps other)
  note IH = 2
  {
    case 1
    show ?case using IH(1) [OF refl] by (auto simp: Let_def split: prod.splits)
  next
    case 2
    have "filter (\<lambda>x. fst x \<notin> fst ` set ps) (AList.delete p other) = filter (\<lambda>x. fst x \<notin> fst ` set ((p, as) # ps)) other"
      by (auto simp: AList.delete_eq intro!: filter_cong)
    with IH(2) [OF refl] show ?case by (auto simp: Let_def split: prod.splits)
  }
qed simp_all

lemma sync_peers_bound:
  assumes "\<forall>x \<in> set ps. length (snd x) \<le> n"
  shows "\<forall>x \<in> set (fst (sync_peers n ps other)). length (snd x) \<le> n"
  using assms
  by (induction n ps other rule: sync_peers.induct)
    (auto simp: Let_def length_sync_addrs split: prod.splits option.splits)

lemma map_filter_fst: "map fst (filter (\<lambda>x. P (fst x)) xs) = filter P (map fst xs)"
  by (induction xs) auto

lemma cache_sync_peers:
  assumes "distinct (map fst (cd_peers other))"
  shows "map fst (cd_peers (cache_sync now other n m self)) =
    take m (map fst (cd_peers self) @ filter (\<lambda>p. p \<notin> fst ` set (cd_peers self)) (map fst (cd_peers other)))"
proof -
  obtain merged rest where sp: "sync_peers n (cd_peers self) (cd_peers other) = (merged, rest)" by force
  have "map fst merged = map fst (cd_peers self)"
    "map fst rest = filter (\<lambda>p. p \<notin> fst ` set (cd_peers self)) (map fst (cd_peers other))"
    using map_filter_fst [of "\<lambda>p. p \<notin> fst ` set (cd_peers self)" "cd_peers other"] sync_peers_keys [of n "cd_peers self" "cd_peers other"] by (simp_all add: sp)
  moreover from this(1) have "length merged = length (cd_peers self)" by (metis length_map)
  ultimately show ?thesis
    using fold_update_fresh [of "[]" "cd_peers other"] assms
    by (simp add: cache_sync_def Let_def sp pop_back_to_def take_map [symmetric] min_def)
qed

lemma cache_ok_sync:
  assumes "cache_ok c other" and "cache_ok c self"
  shows "cache_ok c (cache_sync now other (max_addrs_per_cached_peer c) (max_cached_peers c) self)"
proof -
  let ?n = "max_addrs_per_cached_peer c"
  have d: "distinct (map fst (cd_peers other))" "distinct (map fst (cd_peers self))"
    using assms by (simp_all add: cache_ok_def)
  have "fold (\<lambda>(p, as). AList.update p as) (cd_peers other) [] = cd_peers other"
    using fold_update_fresh [of "[]" "cd_peers other"] d by simp
  moreover obtain merged rest where sp: "sync_peers ?n (cd_peers self) (cd_peers other) = (merged, rest)" by force
  moreover have "\<forall>x \<in> set merged. length (snd x) \<le> ?n" "set rest \<subseteq> set (cd_peers other)"
    using sync_peers_bound [of "cd_peers self" ?n "cd_peers other"] sync_peers_keys(2) [of ?n "cd_peers self" "cd_peers other"]
      assms(2) by (auto simp: sp cache_ok_def)
  ultimately have "\<forall>x \<in> set (cd_peers (cache_sync now other ?n (max_cached_peers c) self)). length (snd x) \<le> ?n"
    using assms(1) by (fastforce simp: cache_sync_def Let_def pop_back_to_def cache_ok_def dest!: in_set_takeD)
  moreover have "map fst (cd_peers (cache_sync now other ?n (max_cached_peers c) self)) =
      take (max_cached_peers c) (map fst (cd_peers self) @ filter (\<lambda>p. p \<notin> fst ` set (cd_peers self)) (map fst (cd_peers other)))"
    by (rule cache_sync_peers [OF d(1)])
  moreover from this have "length (cd_peers (cache_sync now other ?n (max_cached_peers c) self)) \<le> max_cached_peers c"
    by (metis length_map length_take min.cobounded2 min.commute)
  moreover have "distinct (take m (map fst (cd_peers self) @ filter (\<lambda>p. p \<notin> fst ` set (cd_peers self)) (map fst (cd_peers other))))" for m
    using d by (intro distinct_take) auto
  ultimately show ?thesis by (simp add: cache_ok_def)
qed

section \<open>Flushing\<close>

lemma lock_fine [simp]: "lock_with_retry (\<lambda>_. True) = Ok ()"
  by (simp add: lock_with_retry_def numeral_3_eq_3)

lemma remove_all_peers:
  "cd_peers (fold cache_remove_peer ps d) = filter (\<lambda>x. fst x \<notin> set ps) (cd_peers d)"
  by (induction ps arbitrary: d) (auto simp: cache_remove_peer_def intro!: filter_cong)

text \<open>Writing and loading again.\<close>

lemma load_after_write:
  assumes "\<not> disable_cache_writing (bcs_config st)"
    and "length (cd_peers (bcs_data st)) \<le> max_cached_peers (bcs_config st)"
  shows "\<exists>fs'. cache_write now J io_fine st fs = (fs', Ok ()) \<and>
    map_of fs' (v1_cache_file_path (cache_dir (bcs_config st)) (cache_file_name J (bc_local (bcs_config st)))) =
      Some (json_v1_to_string J (bcs_data st) @ [CHR 0x0A]) \<and>
    (json_reads_back J (bcs_data st) \<longrightarrow> load_cache_data J io_fine fs' (bcs_config st) = Ok (bcs_data st))"
proof -
  let ?c = "bcs_config st"
  let ?path = "v1_cache_file_path (cache_dir ?c) (cache_file_name J (bc_local ?c))"
  let ?data = "json_v1_to_string J (bcs_data st) @ [CHR 0x0A]"
  define fs' where "fs' = fst (cache_write now J io_fine st fs)"
  have w: "cache_write now J io_fine st fs = (fs', Ok ())" and c: "map_of fs' ?path = Some ?data"
    unfolding fs'_def using assms(1)
    by (auto simp: cache_write_def Let_def v1_write_to_file_def v0_write_to_file_def io_fine_def
        AList.update_conv' v1_cache_file_path_def v0_cache_file_path_def)
  have "v1_read_from_file J io_fine fs' (cache_dir ?c) (cache_file_name J (bc_local ?c)) = Ok (bcs_data st)"
    if "json_reads_back J (bcs_data st)"
    using that c by (simp add: v1_read_from_file_def read_file_def io_fine_def json_reads_back_def)
  with w c assms(2) show ?thesis by (simp add: load_cache_data_def pop_back_to_def)
qed



end
