(* ===== verification/Bootstrap.thy ===== *)
theory Bootstrap
  imports Bootstrap_Cache
begin

text \<open>
  Finding the first peers (\<^verbatim>\<open>ant-bootstrap/src/bootstrap.rs\<close>): the queue of addresses to dial, filled from the
  environment, the arguments, the cache on disk and the contacts endpoints, one fetch at a time, and the
  dials made from it.

  A fetch is a task that runs beside the node; it is appended to \<open>bs_spawned\<close>, and the event it sends reaches
  the channel at some later time. The field \<open>bs_arrivals\<close> has what each of the next readings of the channel
  finds there, and nothing is known of it.
\<close>

section \<open>Definitions\<close>

datatype fetch_event = FE_Cache "multiaddr list" | FE_Contacts "multiaddr list"

datatype fetch_kind = FK_Cache | FK_Contacts

datatype fetch_task = LoadCache bootstrap_config | FetchContacts string

record bootstrap =
  bs_cache_store :: bootstrap_cache_store
  bs_addrs :: "multiaddr list"
  cache_pending :: bool
  contacts_progress :: "string list option"
  bs_arrivals :: "fetch_event list list"
  fetch_in_progress :: "fetch_kind option"
  ongoing_dials :: "multiaddr list"
  bootstrap_peer_ids :: "peer_id list"
  bootstrap_completed :: bool
  bs_spawned :: "fetch_task list"

definition MIN_INITIAL_ADDRS :: nat where "MIN_INITIAL_ADDRS = 5"
definition INITIAL_ADDR_FETCH_TIMEOUT_SECS :: nat where "INITIAL_ADDR_FETCH_TIMEOUT_SECS = 30"

subsection \<open>The contacts endpoints\<close>

definition MAINNET_CONTACTS :: "string list" where
  "MAINNET_CONTACTS = [
     ''https://sn-testnet.s3.eu-west-2.amazonaws.com/network-contacts'',
     ''http://159.89.251.80/bootstrap_cache.json'',
     ''http://159.65.210.89/bootstrap_cache.json'',
     ''http://159.223.246.45/bootstrap_cache.json'',
     ''http://139.59.201.153/bootstrap_cache.json'',
     ''http://139.59.200.27/bootstrap_cache.json'']"

definition ALPHANET_CONTACTS :: "string list" where
  "ALPHANET_CONTACTS = [
     ''http://188.166.133.208/bootstrap_cache.json'',
     ''http://188.166.133.125/bootstrap_cache.json'',
     ''http://178.128.137.64/bootstrap_cache.json'',
     ''http://159.223.242.7/bootstrap_cache.json'',
     ''http://143.244.197.147/bootstrap_cache.json'']"

definition contacts_progress_new :: "string list \<Rightarrow> string list option" where
  "contacts_progress_new urls = (if urls = [] then None else Some urls)"

text \<open>A URL is its text; \<open>parse_url\<close> is the third-party parser.\<close>

definition contacts_progress_from_static :: "(string \<Rightarrow> string option) \<Rightarrow> string list \<Rightarrow> string list option" where
  "contacts_progress_from_static parse_url urls = contacts_progress_new (filter_map parse_url urls)"

definition build_contacts_progress ::
  "(string \<Rightarrow> string option) \<Rightarrow> u8 \<Rightarrow> bootstrap_config \<Rightarrow> (string list option, bootstrap_error) result" where
  "build_contacts_progress parse_url network_id c =
    (if bc_first c then Ok None
     else if bc_local c then Ok None
     else if network_contacts_url c \<noteq> []
     then and_then (try_map (\<lambda>u. ok_or (parse_url u) FailedToParseUrl) (network_contacts_url c))
            (\<lambda>endpoints. Ok (contacts_progress_new endpoints))
     else if network_id = 1 then Ok (contacts_progress_from_static parse_url MAINNET_CONTACTS)
     else if network_id = 2 then Ok (contacts_progress_from_static parse_url ALPHANET_CONTACTS)
     else Ok None)"

definition fetch_from_env :: "json_api \<Rightarrow> string option \<Rightarrow> multiaddr list" where
  "fetch_from_env J ant_peers =
    (case ant_peers of
       Some text \<Rightarrow> filter_map (\<lambda>s. craft_valid_multiaddr_from_str J s False) (split_on (CHR '','') text)
     | None \<Rightarrow> [])"

subsection \<open>The queue of addresses\<close>

definition push_addr :: "multiaddr \<Rightarrow> bootstrap \<Rightarrow> bootstrap" where
  "push_addr addr b =
    b\<lparr>bs_addrs := bs_addrs b @ [addr],
      bootstrap_peer_ids :=
        (case multiaddr_get_peer_id addr of
           Some peer_id \<Rightarrow> List.insert peer_id (bootstrap_peer_ids b) | None \<Rightarrow> bootstrap_peer_ids b)\<rparr>"

definition extend_with_addrs :: "multiaddr list \<Rightarrow> bootstrap \<Rightarrow> bootstrap" where
  "extend_with_addrs new_addrs b = fold push_addr new_addrs b"

fun handle_fetch_event :: "fetch_event \<Rightarrow> bootstrap \<Rightarrow> bootstrap" where
  "handle_fetch_event (FE_Cache as) b =
    (let b = (if as = [] then b else extend_with_addrs as b) in b\<lparr>fetch_in_progress := None\<rparr>)"
| "handle_fetch_event (FE_Contacts as) b =
    (let b = extend_with_addrs as b;
         b = (case contacts_progress b of
                None \<Rightarrow> b\<lparr>contacts_progress := None\<rparr>
              | Some urls \<Rightarrow> if urls = [] then b\<lparr>contacts_progress := None\<rparr> else b)
     in b\<lparr>fetch_in_progress := None\<rparr>)"

definition process_events :: "bootstrap \<Rightarrow> bootstrap" where
  "process_events b =
    (case bs_arrivals b of
       [] \<Rightarrow> b
     | events # later \<Rightarrow> fold handle_fetch_event events (b\<lparr>bs_arrivals := later\<rparr>))"

definition start_cache_fetch :: "bootstrap \<Rightarrow> bootstrap" where
  "start_cache_fetch b =
    (if fetch_in_progress b = Some FK_Cache then b
     else b\<lparr>cache_pending := False, bs_spawned := bs_spawned b @ [LoadCache (bcs_config (bs_cache_store b))],
            fetch_in_progress := Some FK_Cache\<rparr>)"

definition start_contacts_fetch :: "bootstrap \<Rightarrow> bootstrap" where
  "start_contacts_fetch b =
    (if fetch_in_progress b = Some FK_Contacts then b
     else (case contacts_progress b of
         None \<Rightarrow> b
       | Some [] \<Rightarrow> b\<lparr>contacts_progress := None\<rparr>
       | Some (endpoint # remaining) \<Rightarrow>
           b\<lparr>contacts_progress := Some remaining, bs_spawned := bs_spawned b @ [FetchContacts endpoint],
             fetch_in_progress := Some FK_Contacts\<rparr>))"

text \<open>What a fetch sends in the end; the flag says whether it was cut off by its time-out or failed to run.\<close>

definition run_cache_fetch :: "json_api \<Rightarrow> io_env \<Rightarrow> file_system \<Rightarrow> bool \<Rightarrow> bootstrap_config \<Rightarrow> fetch_event" where
  "run_cache_fetch J io fs cut_off c =
    FE_Cache (if cut_off then []
              else (case load_cache_data J io fs c of Ok data \<Rightarrow> cache_get_all_addrs data | Err _ \<Rightarrow> []))"

definition run_contacts_fetch :: "json_api \<Rightarrow> (nat \<Rightarrow> http_response) \<Rightarrow> bool \<Rightarrow> string \<Rightarrow> fetch_event" where
  "run_contacts_fetch J http cut_off endpoint =
    FE_Contacts (if cut_off then []
                 else fetch_bootstrap_addresses (2 ^ 64 - 1) [fetch_from_endpoint J http endpoint False])"

text \<open>The sources a fetch was not yet started for.\<close>

definition remaining_sources :: "bootstrap \<Rightarrow> fetch_task list" where
  "remaining_sources b =
    (if cache_pending b then [LoadCache (bcs_config (bs_cache_store b))] else []) @
    (case contacts_progress b of Some urls \<Rightarrow> map FetchContacts urls | None \<Rightarrow> [])"

definition source_steps :: "bootstrap \<Rightarrow> nat" where
  "source_steps b =
    (if cache_pending b then 1 else 0) + (case contacts_progress b of Some urls \<Rightarrow> Suc (length urls) | None \<Rightarrow> 0)"

subsection \<open>Lemmas on the queue the loops need\<close>

lemma extend_with_addrs_simps [simp]:
  "bs_addrs (extend_with_addrs as b) = bs_addrs b @ as"
  "cache_pending (extend_with_addrs as b) = cache_pending b"
  "contacts_progress (extend_with_addrs as b) = contacts_progress b"
  "bs_arrivals (extend_with_addrs as b) = bs_arrivals b"
  "bs_spawned (extend_with_addrs as b) = bs_spawned b"
  "bs_cache_store (extend_with_addrs as b) = bs_cache_store b"
  "ongoing_dials (extend_with_addrs as b) = ongoing_dials b"
  "bootstrap_completed (extend_with_addrs as b) = bootstrap_completed b"
  "fetch_in_progress (extend_with_addrs as b) = fetch_in_progress b"
  by (induction as arbitrary: b) (simp_all add: extend_with_addrs_def push_addr_def)

fun event_addrs :: "fetch_event \<Rightarrow> multiaddr list" where
  "event_addrs (FE_Cache as) = as"
| "event_addrs (FE_Contacts as) = as"

lemma handle_fetch_event_simps [simp]:
  "bs_addrs (handle_fetch_event e b) = bs_addrs b @ event_addrs e"
  "cache_pending (handle_fetch_event e b) = cache_pending b"
  "bs_arrivals (handle_fetch_event e b) = bs_arrivals b"
  "bs_spawned (handle_fetch_event e b) = bs_spawned b"
  "bs_cache_store (handle_fetch_event e b) = bs_cache_store b"
  "ongoing_dials (handle_fetch_event e b) = ongoing_dials b"
  "bootstrap_completed (handle_fetch_event e b) = bootstrap_completed b"
  "source_steps (handle_fetch_event e b) \<le> source_steps b"
  "remaining_sources (handle_fetch_event e b) = remaining_sources b"
  by (cases e; simp add: Let_def source_steps_def remaining_sources_def split: option.split)+

lemma fold_fetch_events_simps [simp]:
  "bs_addrs (fold handle_fetch_event es b) = bs_addrs b @ concat (map event_addrs es)"
  "cache_pending (fold handle_fetch_event es b) = cache_pending b"
  "bs_arrivals (fold handle_fetch_event es b) = bs_arrivals b"
  "bs_spawned (fold handle_fetch_event es b) = bs_spawned b"
  "bs_cache_store (fold handle_fetch_event es b) = bs_cache_store b"
  "ongoing_dials (fold handle_fetch_event es b) = ongoing_dials b"
  "bootstrap_completed (fold handle_fetch_event es b) = bootstrap_completed b"
  "source_steps (fold handle_fetch_event es b) \<le> source_steps b"
  "remaining_sources (fold handle_fetch_event es b) = remaining_sources b"
  by (induction es arbitrary: b) (simp_all, metis handle_fetch_event_simps(8) le_trans)

definition arriving :: "bootstrap \<Rightarrow> multiaddr list" where
  "arriving b = concat (map event_addrs (concat (bs_arrivals b)))"

lemma process_events_simps [simp]:
  "bs_addrs (process_events b) @ arriving (process_events b) = bs_addrs b @ arriving b"
  "cache_pending (process_events b) = cache_pending b"
  "bs_spawned (process_events b) = bs_spawned b"
  "bs_cache_store (process_events b) = bs_cache_store b"
  "ongoing_dials (process_events b) = ongoing_dials b"
  "bootstrap_completed (process_events b) = bootstrap_completed b"
  "remaining_sources (process_events b) = remaining_sources b"
  by (simp_all add: process_events_def arriving_def split: list.split)
    (simp add: remaining_sources_def)?

lemma process_events_steps: "source_steps (process_events b) \<le> source_steps b"
proof (cases "bs_arrivals b")
  case (Cons es later)
  have "source_steps (fold handle_fetch_event es (b\<lparr>bs_arrivals := later\<rparr>)) \<le> source_steps (b\<lparr>bs_arrivals := later\<rparr>)"
    by (rule fold_fetch_events_simps)
  then show ?thesis using Cons by (simp add: process_events_def source_steps_def)
qed (simp add: process_events_def)

lemma start_cache_fetch_steps:
  "cache_pending b \<Longrightarrow> fetch_in_progress b = None \<Longrightarrow> source_steps (start_cache_fetch b) < source_steps b"
  by (simp add: start_cache_fetch_def source_steps_def)

lemma start_contacts_fetch_steps:
  "contacts_progress b \<noteq> None \<Longrightarrow> fetch_in_progress b = None \<Longrightarrow> source_steps (start_contacts_fetch b) < source_steps b"
  by (auto simp: start_contacts_fetch_def source_steps_def split: list.split)

subsection \<open>The next address\<close>

function next_addr :: "bootstrap \<Rightarrow> bootstrap \<times> (multiaddr option, bootstrap_error) result" where
  "next_addr b =
    (let b = process_events b
     in case bs_addrs b of
          addr # rest \<Rightarrow> (b\<lparr>bs_addrs := rest\<rparr>, Ok (Some addr))
        | [] \<Rightarrow>
          if fetch_in_progress b \<noteq> None then (b, Ok None)
          else if cache_pending b \<and> fetch_in_progress b \<noteq> Some FK_Cache then next_addr (start_cache_fetch b)
          else if contacts_progress b \<noteq> None \<and> fetch_in_progress b \<noteq> Some FK_Contacts
          then (let b = start_contacts_fetch b
                in if fetch_in_progress b \<noteq> None then (b, Ok None) else next_addr b)
          else (b, Err NoBootstrapPeersFound))"
  by pat_completeness auto
termination
  by (relation "measure source_steps")
    (auto intro: less_le_trans [OF start_cache_fetch_steps process_events_steps]
      less_le_trans [OF start_contacts_fetch_steps process_events_steps])

declare next_addr.simps [simp del]

definition try_next_dial_addr :: "bootstrap \<Rightarrow> bootstrap \<times> (multiaddr option, bootstrap_error) result" where
  "try_next_dial_addr b =
    (case next_addr b of
       (b, Ok a) \<Rightarrow> (b, Ok a)
     | (b, Err NoBootstrapPeersFound) \<Rightarrow> (b\<lparr>bootstrap_completed := True\<rparr>, Err NoBootstrapPeersFound)
     | (b, Err err) \<Rightarrow> (b, Err err))"

definition has_bootstrap_completed :: "nat \<Rightarrow> bootstrap \<Rightarrow> bool" where
  "has_bootstrap_completed contacted_peers b \<longleftrightarrow>
     bootstrap_completed b
     \<or> contacted_peers \<ge> max_contacted_peers_before_termination (bcs_config (bs_cache_store b))
     \<or> (bs_addrs b = [] \<and> \<not> cache_pending b \<and> contacts_progress b = None \<and> fetch_in_progress b = None)"

text \<open>An address that is returned is no longer among those queued or arriving.\<close>

lemma next_addr_fifo:
  "(case snd (next_addr b) of Ok (Some a) \<Rightarrow> [a] | _ \<Rightarrow> []) @ bs_addrs (fst (next_addr b)) @ arriving (fst (next_addr b)) =
   bs_addrs b @ arriving b"
proof (induction b rule: next_addr.induct)
  case (1 b)
  define b1 where "b1 = process_events b"
  have eq: "bs_addrs b1 @ arriving b1 = bs_addrs b @ arriving b" by (simp add: b1_def)
  show ?case
  proof (cases "bs_addrs b1")
    case (Cons a as)
    then show ?thesis using eq by (subst (1 2 3) next_addr.simps) (simp add: Let_def b1_def [symmetric] arriving_def)
  next
    case Nil
    show ?thesis
    proof (cases "fetch_in_progress b1")
      case (Some k)
      then show ?thesis using eq Nil by (subst (1 2 3) next_addr.simps) (simp add: Let_def b1_def [symmetric])
    next
      case None
      have keep: "bs_addrs (start_cache_fetch b1) = bs_addrs b1" "arriving (start_cache_fetch b1) = arriving b1"
        "bs_addrs (start_contacts_fetch b1) = bs_addrs b1" "arriving (start_contacts_fetch b1) = arriving b1"
        by (auto simp: start_cache_fetch_def start_contacts_fetch_def arriving_def split: option.split list.split)
      show ?thesis
        using 1 [OF b1_def Nil] None Nil eq keep
        by (subst (1 2 3) next_addr.simps) (auto simp: Let_def b1_def [symmetric])
    qed
  qed
qed

lemma try_next_dial_addr_fields:
  "bs_addrs (fst (try_next_dial_addr b)) = bs_addrs (fst (next_addr b))"
  "arriving (fst (try_next_dial_addr b)) = arriving (fst (next_addr b))"
  "snd (try_next_dial_addr b) = snd (next_addr b)"
  by (auto simp: try_next_dial_addr_def arriving_def split: prod.split result.split bootstrap_error.split)

lemma try_next_dial_addr_less:
  assumes "try_next_dial_addr b = (b', Ok (Some a))"
  shows "length (bs_addrs b' @ arriving b') < length (bs_addrs b @ arriving b)"
proof -
  have "snd (next_addr b) = Ok (Some a)" using try_next_dial_addr_fields(3) [of b] assms by simp
  then have "[a] @ bs_addrs b' @ arriving b' = bs_addrs b @ arriving b"
    using next_addr_fifo [of b] try_next_dial_addr_fields(1,2) [of b] assms by simp
  then have "length (bs_addrs b @ arriving b) = length ([a] @ bs_addrs b' @ arriving b')" by simp
  then show ?thesis by simp
qed

text \<open>The loop that dials. Every error of a dial is logged and the next address is tried.\<close>

function dial_loop :: "'s swarm_api \<Rightarrow> bootstrap \<Rightarrow> 's \<Rightarrow> bootstrap \<times> 's" where
  "dial_loop W b s =
    (if \<not> length (ongoing_dials b) < max_concurrent_dials (bcs_config (bs_cache_store b)) then (b, s)
     else (case try_next_dial_addr b of
         (b, Ok (Some addr)) \<Rightarrow>
           (let (target, peer_id) = pop_p2p addr;
                (s, r) = sw_dial W peer_id [target] s
            in dial_loop W (if is_ok r then b\<lparr>ongoing_dials := List.insert addr (ongoing_dials b)\<rparr> else b) s)
       | (b, Ok None) \<Rightarrow> (b, s)
       | (b, Err _) \<Rightarrow> (b, s)))"
  by pat_completeness auto
termination
proof (relation "measure (\<lambda>(_, b, _). length (bs_addrs b @ arriving b))", goal_cases)
  case (2 W b s b' r ao addr target peer p s' q)
  then show ?case using try_next_dial_addr_less [of b b' addr] by (simp add: arriving_def split: if_splits)
qed simp

declare dial_loop.simps [simp del]

definition trigger_bootstrapping_process :: "'s swarm_api \<Rightarrow> nat \<Rightarrow> bootstrap \<Rightarrow> 's \<Rightarrow> (bootstrap \<times> 's) \<times> bool" where
  "trigger_bootstrapping_process W contacted_peers b s =
    (if has_bootstrap_completed contacted_peers b
     then ((b\<lparr>bootstrap_completed := True, bs_addrs := [], ongoing_dials := []\<rparr>, s), True)
     else (let (b, s) = dial_loop W b s in ((b, s), bootstrap_completed b)))"

subsection \<open>Events of connections\<close>

datatype connected_point = Dialer multiaddr | Listener_Point multiaddr multiaddr

definition bs_on_connection_established :: "peer_id \<Rightarrow> connected_point \<Rightarrow> bootstrap \<Rightarrow> bootstrap" where
  "bs_on_connection_established peer_id endpoint b =
    (if bootstrap_completed b then b
     else (case endpoint of
         Dialer address \<Rightarrow>
           if address \<in> set (ongoing_dials b) then b\<lparr>ongoing_dials := removeAll address (ongoing_dials b)\<rparr>
           else b\<lparr>ongoing_dials := filter (\<lambda>a. multiaddr_get_peer_id a \<noteq> Some peer_id) (ongoing_dials b)\<rparr>
       | Listener_Point _ _ \<Rightarrow> b))"

definition bs_on_outgoing_connection_error :: "peer_id option \<Rightarrow> bootstrap \<Rightarrow> bootstrap" where
  "bs_on_outgoing_connection_error peer_id b =
    (if bootstrap_completed b then b
     else (case peer_id of
         Some peer_id \<Rightarrow>
           b\<lparr>ongoing_dials := filter (\<lambda>a. multiaddr_get_peer_id a \<noteq> Some peer_id) (ongoing_dials b)\<rparr>
       | None \<Rightarrow> b\<lparr>ongoing_dials := filter (\<lambda>a. multiaddr_get_peer_id a \<noteq> None) (ongoing_dials b)\<rparr>))"

definition is_bootstrap_peer :: "bootstrap \<Rightarrow> peer_id \<Rightarrow> bool" where
  "is_bootstrap_peer b peer_id \<longleftrightarrow> peer_id \<in> set (bootstrap_peer_ids b)"

definition bs_has_terminated :: "bootstrap \<Rightarrow> bool" where
  "bs_has_terminated b = bootstrap_completed b"

subsection \<open>Starting\<close>

definition try_finalize_initial_addrs :: "nat \<Rightarrow> multiaddr list \<Rightarrow> bootstrap \<Rightarrow> bootstrap option" where
  "try_finalize_initial_addrs min_address collected b =
    (if length collected < min_address then None else Some (extend_with_addrs collected b))"

text \<open>The loop of the start. After every wait at least 100 ms have passed, so it ends; \<open>delay i\<close> is what the
  \<open>i\<close>-th round takes on top, in nanoseconds.\<close>

function initial_addrs_loop ::
  "(nat \<Rightarrow> nat) \<Rightarrow> nat \<Rightarrow> int \<Rightarrow> multiaddr list \<Rightarrow> bootstrap \<Rightarrow> (bootstrap, bootstrap_error) result" where
  "initial_addrs_loop delay i elapsed collected b =
    (case next_addr b of
       (b, Ok (Some addr)) \<Rightarrow>
         (let collected = collected @ [addr]
          in case try_finalize_initial_addrs MIN_INITIAL_ADDRS collected b of
               Some b \<Rightarrow> Ok b
             | None \<Rightarrow> initial_addrs_loop delay i elapsed collected b)
     | (b, Ok None) \<Rightarrow>
         if elapsed > from_secs INITIAL_ADDR_FETCH_TIMEOUT_SECS
         then (case try_finalize_initial_addrs 1 collected b of Some b \<Rightarrow> Ok b | None \<Rightarrow> Err NoBootstrapPeersFound)
         else initial_addrs_loop delay (Suc i) (elapsed + 100000000 + int (delay i)) collected b
     | (b, Err err) \<Rightarrow>
         (case try_finalize_initial_addrs 1 collected b of Some b \<Rightarrow> Ok b | None \<Rightarrow> Err err))"
  by pat_completeness auto
termination
  by (relation "(\<lambda>(delay, i, e, c, b). nat (from_secs INITIAL_ADDR_FETCH_TIMEOUT_SECS + 1 - e)) <*mlex*>
      measure (\<lambda>(delay, i, e, c, b). MIN_INITIAL_ADDRS - length c)")
    (auto simp: mlex_prod_def wf_mlex try_finalize_initial_addrs_def split: if_splits)

declare initial_addrs_loop.simps [simp del]

definition bootstrap_new ::
  "json_api \<Rightarrow> (string \<Rightarrow> string option) \<Rightarrow> u8 \<Rightarrow> string option \<Rightarrow> system_time \<Rightarrow> bool \<Rightarrow> io_env \<Rightarrow> (nat \<Rightarrow> nat) \<Rightarrow>
   fetch_event list list \<Rightarrow> bootstrap_config \<Rightarrow> file_system \<Rightarrow> file_system \<times> (bootstrap, bootstrap_error) result" where
  "bootstrap_new J parse_url network_id ant_peers now dir_ok io delay arrivals c fs =
    (case build_contacts_progress parse_url network_id c of
       Err e \<Rightarrow> (fs, Err e)
     | Ok contacts \<Rightarrow>
       (let given = (if bc_first c then []
              else (if disable_env_peers c then [] else fetch_from_env J ant_peers) @
                   filter_map (\<lambda>addr. craft_valid_multiaddr addr False) (initial_peers c));
            c = (if bc_first c then c else c\<lparr>initial_peers := []\<rparr>)
        in case cache_store_new now J dir_ok c of
             Err e \<Rightarrow> (fs, Err e)
           | Ok store \<Rightarrow>
             (let b = extend_with_addrs given
                    \<lparr>bs_cache_store = store, bs_addrs = [], cache_pending = \<not> bc_first c \<and> \<not> disable_cache_reading c,
                     contacts_progress = contacts, bs_arrivals = arrivals, fetch_in_progress = None, ongoing_dials = [],
                     bootstrap_peer_ids = [], bootstrap_completed = bc_first c, bs_spawned = []\<rparr>
              in if bc_first c
                 then (case cache_write now J io store fs of (fs, Err e) \<Rightarrow> (fs, Err e) | (fs, Ok _) \<Rightarrow> (fs, Ok b))
                 else if length (bs_addrs b) < MIN_INITIAL_ADDRS then (fs, initial_addrs_loop delay 0 0 [] b)
                 else (fs, Ok b))))"

subsection \<open>Runs\<close>

datatype bootstrap_op =
    BO_Trigger nat
  | BO_Established peer_id connected_point
  | BO_Error "peer_id option"

fun bootstrap_step :: "'s swarm_api \<Rightarrow> bootstrap_op \<Rightarrow> bootstrap \<times> 's \<Rightarrow> bootstrap \<times> 's" where
  "bootstrap_step W (BO_Trigger n) (b, s) = fst (trigger_bootstrapping_process W n b s)"
| "bootstrap_step W (BO_Established p e) (b, s) = (bs_on_connection_established p e b, s)"
| "bootstrap_step W (BO_Error p) (b, s) = (bs_on_outgoing_connection_error p b, s)"

text \<open>The sources come in their order, and no more dials are under way than configured.\<close>

definition bootstrap_ok :: "fetch_task list \<Rightarrow> bootstrap \<Rightarrow> bool" where
  "bootstrap_ok sources b \<longleftrightarrow>
     bs_spawned b @ remaining_sources b = sources \<and>
     length (ongoing_dials b) \<le> max_concurrent_dials (bcs_config (bs_cache_store b))"

text \<open>Nothing is left to dial and no source is left to ask.\<close>

definition bs_exhausted :: "bootstrap \<Rightarrow> bool" where
  "bs_exhausted b \<longleftrightarrow> bs_addrs b = [] \<and> remaining_sources b = [] \<and> fetch_in_progress b = None"

text \<open>An example: one peer given by the user, six in the cache.\<close>

definition sample_addr :: "nat \<Rightarrow> multiaddr" where
  "sample_addr i = Multiaddr [Ip4 (word_of_nat i), Udp 5000, QuicV1, P2p (PeerId [word_of_nat i])]"

definition sample_bootstrap_config :: bootstrap_config where
  "sample_bootstrap_config =
     (bootstrap_config_default ''d'')\<lparr>disable_env_peers := True, initial_peers := [sample_addr 1], bc_local := True\<rparr>"

definition sample_arrivals :: "fetch_event list list" where
  "sample_arrivals = [[], [], [], [FE_Cache (map sample_addr [11, 12, 13, 14, 15, 16])]]"

definition sample_bootstrap :: bootstrap where
  "sample_bootstrap =
    \<lparr>bs_cache_store = \<lparr>bcs_config = sample_bootstrap_config, bcs_data = cache_data_default 0 ''1'', bcs_to_remove = []\<rparr>,
     bs_addrs = [sample_addr 1], cache_pending = True, contacts_progress = Some [''u'', ''v''], bs_arrivals = [[], [FE_Cache []]],
     fetch_in_progress = None, ongoing_dials = [], bootstrap_peer_ids = [], bootstrap_completed = False, bs_spawned = []\<rparr>"

section \<open>The sources and the dials\<close>

definition bs_keeps :: "bootstrap \<Rightarrow> bootstrap \<Rightarrow> bool" where
  "bs_keeps b b' \<longleftrightarrow>
     bs_spawned b' @ remaining_sources b' = bs_spawned b @ remaining_sources b \<and> bs_cache_store b' = bs_cache_store b \<and>
     ongoing_dials b' = ongoing_dials b"

lemma bs_keeps_trans: "bs_keeps b b1 \<Longrightarrow> bs_keeps b1 b2 \<Longrightarrow> bs_keeps b b2"
  by (simp add: bs_keeps_def)

lemma bs_keeps_steps:
  "bs_keeps b (process_events b)"
  "bs_keeps b (b\<lparr>bs_addrs := as\<rparr>)" "bs_keeps b (b\<lparr>bootstrap_completed := c\<rparr>)"
  "cache_pending b \<Longrightarrow> bs_keeps b (start_cache_fetch b)"
  "\<not> cache_pending b \<Longrightarrow> bs_keeps b (start_contacts_fetch b)"
  by (simp_all add: bs_keeps_def)
    (auto simp: remaining_sources_def start_cache_fetch_def start_contacts_fetch_def split: option.split list.split)

lemma next_addr_cases:
  assumes "next_addr b = (b', r)"
  obtains (head) a as where "b' = (process_events b)\<lparr>bs_addrs := as\<rparr>" "r = Ok (Some a)"
    | (busy) "b' = process_events b" "r = Ok None"
    | (cache) "cache_pending (process_events b)" "fetch_in_progress (process_events b) = None" "next_addr (start_cache_fetch (process_events b)) = (b', r)"
    | (contacts) "\<not> cache_pending (process_events b)" "b' = start_contacts_fetch (process_events b)" "r = Ok None"
    | (next_one) "\<not> cache_pending (process_events b)" "fetch_in_progress (process_events b) = None"
        "contacts_progress (process_events b) \<noteq> None" "next_addr (start_contacts_fetch (process_events b)) = (b', r)"
    | (stop) "b' = process_events b" "r = Err NoBootstrapPeersFound" "bs_addrs b' = []" "\<not> cache_pending b'"
        "contacts_progress b' = None" "fetch_in_progress b' = None"
proof -
  define b1 where "b1 = process_events b"
  note step = assms [unfolded next_addr.simps [of b] Let_def, folded b1_def]
  show thesis
  proof (cases "bs_addrs b1")
    case (Cons a as)
    then have "b' = b1\<lparr>bs_addrs := as\<rparr>" "r = Ok (Some a)" using step by simp_all
    then show thesis by (rule head [folded b1_def])
  next
    case Nil
    show thesis
    proof (cases "fetch_in_progress b1")
      case (Some k)
      then have "b' = b1" "r = Ok None" using step Nil by simp_all
      then show thesis by (rule busy [folded b1_def])
    next
      case None
      then consider (1) "cache_pending b1" | (2) "\<not> cache_pending b1" "contacts_progress b1 \<noteq> None"
        | (3) "\<not> cache_pending b1" "contacts_progress b1 = None" by blast
      then show thesis
      proof cases
        case 1
        then show thesis using cache [folded b1_def] step Nil None by simp
      next
        case 2
        then show thesis using contacts [folded b1_def] next_one [folded b1_def] step Nil None
          by (cases "fetch_in_progress (start_contacts_fetch b1)") simp_all
      next
        case 3
        then have "b' = b1" "r = Err NoBootstrapPeersFound" using step Nil None by simp_all
        then show thesis using stop [folded b1_def] 3 Nil None by simp
      qed
    qed
  qed
qed

lemma source_steps_next:
  "cache_pending (process_events b) \<Longrightarrow> fetch_in_progress (process_events b) = None \<Longrightarrow>
     source_steps (start_cache_fetch (process_events b)) < source_steps b"
  "contacts_progress (process_events b) \<noteq> None \<Longrightarrow> fetch_in_progress (process_events b) = None \<Longrightarrow>
     source_steps (start_contacts_fetch (process_events b)) < source_steps b"
  by (rule less_le_trans [OF start_cache_fetch_steps process_events_steps], assumption+)
    (rule less_le_trans [OF start_contacts_fetch_steps process_events_steps], assumption+)

lemma next_addr_keeps: "next_addr b = (b', r) \<Longrightarrow> bs_keeps b b'"
proof (induction "source_steps b" arbitrary: b rule: less_induct)
  case less
  note p = bs_keeps_steps(1) [of b]
  from less.prems show ?case
  proof (cases rule: next_addr_cases)
    case (head a as)
    then show ?thesis using bs_keeps_trans [OF p bs_keeps_steps(2)] by simp
  next
    case busy
    then show ?thesis using p by simp
  next
    case cache
    from less.hyps [OF source_steps_next(1) [OF cache(1,2)] cache(3)] show ?thesis
      by (rule bs_keeps_trans [OF bs_keeps_trans [OF p bs_keeps_steps(4) [OF cache(1)]]])
  next
    case contacts
    then show ?thesis using bs_keeps_trans [OF p bs_keeps_steps(5)] by simp
  next
    case next_one
    from less.hyps [OF source_steps_next(2) [OF next_one(3,2)] next_one(4)] show ?thesis
      by (rule bs_keeps_trans [OF bs_keeps_trans [OF p bs_keeps_steps(5) [OF next_one(1)]]])
  next
    case stop
    then show ?thesis using p by simp
  qed
qed

lemma next_addr_exhausted:
  "next_addr b = (b', Err e) \<Longrightarrow>
   e = NoBootstrapPeersFound \<and> bs_addrs b' = [] \<and> remaining_sources b' = [] \<and> fetch_in_progress b' = None"
proof (induction "source_steps b" arbitrary: b rule: less_induct)
  case less
  from less.prems show ?case
  proof (cases rule: next_addr_cases)
    case cache
    from less.hyps [OF source_steps_next(1) [OF cache(1,2)] cache(3)] show ?thesis .
  next
    case next_one
    from less.hyps [OF source_steps_next(2) [OF next_one(3,2)] next_one(4)] show ?thesis .
  next
    case stop
    then show ?thesis by (simp add: remaining_sources_def)
  qed simp_all
qed

lemma try_next_dial_addr_cases:
  assumes "try_next_dial_addr b = (b', r)"
  obtains (addr) a where "next_addr b = (b', Ok a)" "r = Ok a"
    | (exhausted) b1 where "next_addr b = (b1, Err NoBootstrapPeersFound)" "b' = b1\<lparr>bootstrap_completed := True\<rparr>"
        "r = Err NoBootstrapPeersFound"
proof -
  obtain b1 r1 where n: "next_addr b = (b1, r1)" by fastforce
  show thesis
  proof (cases r1)
    case (Ok a)
    with n assms have "b' = b1" "r = Ok a" by (simp_all add: try_next_dial_addr_def)
    with n Ok show thesis by (intro addr [of a]) simp_all
  next
    case (Err e)
    with n next_addr_exhausted [of b b1 e] have "e = NoBootstrapPeersFound" by simp
    with n Err assms show thesis by (intro exhausted [of b1]) (simp_all add: try_next_dial_addr_def)
  qed
qed

lemma try_next_dial_addr_keeps: "try_next_dial_addr b = (b', r) \<Longrightarrow> bs_keeps b b'"
  by (erule try_next_dial_addr_cases)
    (simp_all add: next_addr_keeps bs_keeps_trans [OF next_addr_keeps bs_keeps_steps(3)])

lemma next_addr_completed: "next_addr b = (b', r) \<Longrightarrow> bootstrap_completed b' = bootstrap_completed b"
proof (induction "source_steps b" arbitrary: b rule: less_induct)
  case less
  have keep: "bootstrap_completed (start_cache_fetch x) = bootstrap_completed x"
    "bootstrap_completed (start_contacts_fetch x) = bootstrap_completed x" for x
    by (simp_all add: start_cache_fetch_def start_contacts_fetch_def split: option.split list.split)
  from less.prems show ?case
  proof (cases rule: next_addr_cases)
    case cache
    from less.hyps [OF source_steps_next(1) [OF cache(1,2)] cache(3)] show ?thesis by (simp add: keep)
  next
    case next_one
    from less.hyps [OF source_steps_next(2) [OF next_one(3,2)] next_one(4)] show ?thesis by (simp add: keep)
  qed (simp_all add: keep)
qed

lemma dial_loop_ok:
  assumes "dial_loop W b s = (b', s')" and "bootstrap_ok sources b"
  shows "bootstrap_ok sources b' \<and> (bootstrap_completed b' \<longrightarrow> bootstrap_completed b \<or> bs_exhausted b')"
  using assms
proof (induction W b s arbitrary: b' s' rule: dial_loop.induct)
  case (1 W b s)
  show ?case
  proof (cases "length (ongoing_dials b) < max_concurrent_dials (bcs_config (bs_cache_store b))")
    case False
    then show ?thesis using 1(2,3) by (simp add: dial_loop.simps)
  next
    case True
    obtain b1 r where n: "try_next_dial_addr b = (b1, r)" by fastforce
    have k: "bootstrap_ok sources b1" "length (ongoing_dials b1) < max_concurrent_dials (bcs_config (bs_cache_store b1))"
      using try_next_dial_addr_keeps [OF n] 1(3) True by (auto simp: bs_keeps_def bootstrap_ok_def)
    from n show ?thesis
    proof (cases rule: try_next_dial_addr_cases)
      case (addr a)
      have same: "bootstrap_completed b1 = bootstrap_completed b" by (rule next_addr_completed [OF addr(1)])
      show ?thesis
      proof (cases a)
        case None
        then show ?thesis using 1(2) True n addr k same by (simp add: dial_loop.simps [of W b])
      next
        case (Some x)
        obtain t p where pop: "pop_p2p x = (t, p)" by fastforce
        obtain s1 r1 where dial: "sw_dial W p [t] s = (s1, r1)" by fastforce
        define b2 where "b2 = (if is_ok r1 then b1\<lparr>ongoing_dials := List.insert x (ongoing_dials b1)\<rparr> else b1)"
        have step: "dial_loop W b2 s1 = (b', s')"
          using 1(2) True n addr Some pop dial by (simp add: dial_loop.simps [of W b] b2_def)
        have "length (List.insert x (ongoing_dials b1)) \<le> Suc (length (ongoing_dials b1))" by (simp add: List.insert_def)
        then have ok: "bootstrap_ok sources b2" using k by (auto simp: b2_def bootstrap_ok_def remaining_sources_def)
        have "bootstrap_completed b2 = bootstrap_completed b" using same by (simp add: b2_def)
        with 1(1) [of b1 r a x "(t, p)" t p "(s1, r1)" s1 r1] step ok True n addr Some pop dial
        show ?thesis by (simp add: b2_def)
      qed
    next
      case (exhausted b0)
      then have "b' = b1" using 1(2) True n by (simp add: dial_loop.simps [of W b])
      moreover have "bs_exhausted b1" using next_addr_exhausted [OF exhausted(1)] exhausted(2)
        by (simp add: bs_exhausted_def remaining_sources_def split: if_splits)
      ultimately show ?thesis using k by simp
    qed
  qed
qed

lemma trigger_ok:
  assumes "trigger_bootstrapping_process W n b s = ((b', s'), stopped)" and "bootstrap_ok sources b"
  shows "bootstrap_ok sources b'"
    and "stopped \<Longrightarrow> bootstrap_completed b \<or> n \<ge> max_contacted_peers_before_termination (bcs_config (bs_cache_store b)) \<or> bs_exhausted b'"
proof -
  obtain b1 s1 where d: "dial_loop W b s = (b1, s1)" by fastforce
  show "bootstrap_ok sources b'"
    using assms d dial_loop_ok [OF d assms(2)]
    by (auto simp: trigger_bootstrapping_process_def bootstrap_ok_def remaining_sources_def split: if_splits)
  show "bootstrap_completed b \<or> n \<ge> max_contacted_peers_before_termination (bcs_config (bs_cache_store b)) \<or> bs_exhausted b'"
    if stopped
  proof (cases "has_bootstrap_completed n b")
    case True
    then show ?thesis using assms(1) that
      by (auto simp: trigger_bootstrapping_process_def has_bootstrap_completed_def bs_exhausted_def remaining_sources_def)
  next
    case False
    then show ?thesis using assms(1) that d dial_loop_ok [OF d assms(2)]
      by (auto simp: trigger_bootstrapping_process_def)
  qed
qed

lemma bootstrap_ok_fewer_dials:
  "bootstrap_ok sources b \<Longrightarrow> bootstrap_ok sources (b\<lparr>ongoing_dials := filter P (ongoing_dials b)\<rparr>)"
  "bootstrap_ok sources b \<Longrightarrow> bootstrap_ok sources (b\<lparr>ongoing_dials := removeAll x (ongoing_dials b)\<rparr>)"
  by (auto simp: bootstrap_ok_def remaining_sources_def intro: le_trans [OF length_filter_le] le_trans [OF length_removeAll_less_eq])

lemma bootstrap_ok_step: "bootstrap_ok sources b \<Longrightarrow> bootstrap_ok sources (fst (bootstrap_step W op (b, s)))"
proof (cases op)
  case (BO_Trigger n)
  assume ok: "bootstrap_ok sources b"
  obtain b' s' st where t: "trigger_bootstrapping_process W n b s = ((b', s'), st)" by (metis prod.exhaust)
  show ?thesis using trigger_ok(1) [OF t ok] BO_Trigger t by simp
qed (simp_all add: bs_on_connection_established_def bs_on_outgoing_connection_error_def bootstrap_ok_fewer_dials
    split: connected_point.split option.split)

lemma bootstrap_ok_run: "bootstrap_ok sources (fst bs) \<Longrightarrow> bootstrap_ok sources (fst (fold (bootstrap_step W) ops bs))"
proof (induction ops arbitrary: bs)
  case (Cons op ops)
  then show ?case using bootstrap_ok_step [of sources "fst bs" W op "snd bs"] by simp
qed simp

text \<open>C0: Whatever the swarm does and whenever the fetches answer, a bootstrap that has started with no fetch and
  no dial asks its sources in their order and each at most once, the cache first and then the contacts
  endpoints, and never has more dials under way than configured. When a further round reports that the
  process has ended, it had ended before, enough peers are connected, or every source was asked and no
  address is left.\<close>

theorem bootstrap_asks_every_source:
  assumes "bs_spawned b = []" and "ongoing_dials b = []"
    and "fold (bootstrap_step W) ops (b, s) = (b1, s1)"
    and "trigger_bootstrapping_process W n b1 s1 = ((b2, s2), stopped)"
  shows "bs_spawned b2 @ remaining_sources b2 = remaining_sources b
    \<and> length (ongoing_dials b2) \<le> max_concurrent_dials (bcs_config (bs_cache_store b2))
    \<and> (stopped \<longrightarrow> bootstrap_completed b1 \<or> n \<ge> max_contacted_peers_before_termination (bcs_config (bs_cache_store b1))
        \<or> bs_addrs b2 = [] \<and> bs_spawned b2 = remaining_sources b \<and> fetch_in_progress b2 = None)"
proof -
  have "bootstrap_ok (remaining_sources b) b" using assms(1,2) by (simp add: bootstrap_ok_def)
  then have ok1: "bootstrap_ok (remaining_sources b) b1"
    using bootstrap_ok_run [of "remaining_sources b" "(b, s)" W ops] assms(3) by simp
  show ?thesis
    using trigger_ok [OF assms(4) ok1] by (auto simp: bootstrap_ok_def bs_exhausted_def)
qed

theorem bootstrap_asks_every_source_witness:
  "\<exists>b1 s1 b2 s2 stopped. fold (bootstrap_step sample_swarm_api) [BO_Trigger 0, BO_Error None] (sample_bootstrap, sample_swarm0) = (b1, s1)
    \<and> trigger_bootstrapping_process sample_swarm_api 0 b1 s1 = ((b2, s2), stopped)
    \<and> bs_spawned b2 @ remaining_sources b2 = [LoadCache sample_bootstrap_config, FetchContacts ''u'', FetchContacts ''v'']
    \<and> length (ongoing_dials b2) \<le> max_concurrent_dials (bcs_config (bs_cache_store b2))"
proof -
  obtain b1 s1 where run: "fold (bootstrap_step sample_swarm_api) [BO_Trigger 0, BO_Error None] (sample_bootstrap, sample_swarm0) = (b1, s1)"
    by (metis prod.exhaust)
  obtain b2 s2 stopped where trigger: "trigger_bootstrapping_process sample_swarm_api 0 b1 s1 = ((b2, s2), stopped)"
    by (metis prod.exhaust)
  have "bs_spawned sample_bootstrap = []" "ongoing_dials sample_bootstrap = []" by (simp_all add: sample_bootstrap_def)
  note bootstrap_asks_every_source [OF this run trigger]
  moreover have "remaining_sources sample_bootstrap = [LoadCache sample_bootstrap_config, FetchContacts ''u'', FetchContacts ''v'']"
    by (simp add: remaining_sources_def sample_bootstrap_def)
  ultimately show ?thesis using run trigger by simp
qed

lemma sample_addr_simps:
  "craft_valid_multiaddr (sample_addr i) False = Some (sample_addr i)"
  "multiaddr_get_peer_id (sample_addr i) = Some (PeerId [word_of_nat i])"
  by (simp_all add: sample_addr_def craft_valid_multiaddr_def multiaddr_get_peer_id_def)

text \<open>The cases of one round of the start, as rewrite rules.\<close>

lemma next_addr_rules:
  "bs_addrs (process_events b) \<noteq> [] \<Longrightarrow>
     next_addr b = ((process_events b)\<lparr>bs_addrs := tl (bs_addrs (process_events b))\<rparr>, Ok (Some (hd (bs_addrs (process_events b)))))"
  "bs_addrs (process_events b) = [] \<Longrightarrow> fetch_in_progress (process_events b) \<noteq> None \<Longrightarrow> next_addr b = (process_events b, Ok None)"
  "bs_addrs (process_events b) = [] \<Longrightarrow> fetch_in_progress (process_events b) = None \<Longrightarrow> cache_pending (process_events b) \<Longrightarrow>
     next_addr b = next_addr (start_cache_fetch (process_events b))"
  by (subst next_addr.simps, simp add: Let_def split: list.split)+

lemma initial_addrs_loop_rules:
  "next_addr b = (b', Ok (Some a)) \<Longrightarrow>
     initial_addrs_loop delay i e c b =
       (if Suc (length c) < MIN_INITIAL_ADDRS then initial_addrs_loop delay i e (c @ [a]) b' else Ok (extend_with_addrs (c @ [a]) b'))"
  "next_addr b = (b', Ok None) \<Longrightarrow> e \<le> from_secs INITIAL_ADDR_FETCH_TIMEOUT_SECS \<Longrightarrow>
     initial_addrs_loop delay i e c b = initial_addrs_loop delay (Suc i) (e + 100000000 + int (delay i)) c b'"
  by (subst initial_addrs_loop.simps, simp add: try_finalize_initial_addrs_def)+

lemma initial_addrs_loop_queue:
  "bs_arrivals b = [] \<Longrightarrow> length c + n = MIN_INITIAL_ADDRS \<Longrightarrow> 0 < n \<Longrightarrow> n \<le> length (bs_addrs b) \<Longrightarrow>
   initial_addrs_loop delay i e c b =
     Ok (extend_with_addrs (c @ take n (bs_addrs b)) (b\<lparr>bs_addrs := drop n (bs_addrs b)\<rparr>))"
proof (induction n arbitrary: b c)
  case (Suc n)
  then obtain a as where as: "bs_addrs b = a # as" by (cases "bs_addrs b") auto
  have na: "next_addr b = (b\<lparr>bs_addrs := as\<rparr>, Ok (Some a))"
    using next_addr_rules(1) [of b] Suc(2) as by (simp add: process_events_def)
  show ?case
  proof (cases n)
    case 0
    then show ?thesis using as Suc(3) by (simp add: initial_addrs_loop_rules(1) [OF na])
  next
    case (Suc m)
    then show ?thesis using Suc.IH [of "b\<lparr>bs_addrs := as\<rparr>" "c @ [a]"] Suc.prems as
      by (simp add: initial_addrs_loop_rules(1) [OF na])
  qed
qed simp

lemma initial_addrs_loop_one_given:
  assumes "bs_addrs b = [g]" and "cache_pending b" and "fetch_in_progress b = None"
    and "bs_arrivals b = [[], [], [], [FE_Cache as]]" and "4 \<le> length as"
  shows "\<exists>b'. initial_addrs_loop delay 0 0 [] b = Ok b' \<and> bs_addrs b' = drop 4 as @ [g] @ take 4 as"
proof -
  define b1 where "b1 = b\<lparr>bs_arrivals := [[], [], [FE_Cache as]], bs_addrs := []\<rparr>"
  define b2 where "b2 = start_cache_fetch (b1\<lparr>bs_arrivals := [[], [FE_Cache as]]\<rparr>)"
  define b3 where "b3 = b2\<lparr>bs_arrivals := [[FE_Cache as]]\<rparr>"
  define b4 where "b4 = handle_fetch_event (FE_Cache as) (b3\<lparr>bs_arrivals := []\<rparr>)"
  have n1: "next_addr b = (b1, Ok (Some g))"
    using next_addr_rules(1) [of b] assms by (simp add: process_events_def b1_def)
  have f: "bs_addrs b2 = []" "bs_arrivals b2 = [[], [FE_Cache as]]" "fetch_in_progress b2 = Some FK_Cache"
    using assms by (simp_all add: b2_def b1_def start_cache_fetch_def)
  have "next_addr b1 = next_addr b2"
    using next_addr_rules(3) [of b1] assms by (simp add: process_events_def b1_def b2_def)
  then have n2: "next_addr b1 = (b3, Ok None)" using next_addr_rules(2) [of b2] f by (simp add: process_events_def b3_def)
  have p: "process_events b3 = b4" by (simp add: process_events_def b3_def b4_def)
  have b4: "bs_addrs b4 = as" "bs_arrivals b4 = []" using f by (simp_all add: b4_def b3_def)
  obtain x xs where as: "as = x # xs" using assms(5) by (cases as) auto
  have n3: "next_addr b3 = (b4\<lparr>bs_addrs := xs\<rparr>, Ok (Some x))" using next_addr_rules(1) [of b3] p b4 as by simp
  have "initial_addrs_loop delay 0 0 [] b = initial_addrs_loop delay 0 0 [g] b1"
    by (simp add: initial_addrs_loop_rules(1) [OF n1] MIN_INITIAL_ADDRS_def)
  also have "\<dots> = initial_addrs_loop delay 1 (100000000 + int (delay 0)) [g] b3"
    by (simp add: initial_addrs_loop_rules(2) [OF n2] from_secs_def)
  also have "\<dots> = initial_addrs_loop delay 1 (100000000 + int (delay 0)) [g, x] (b4\<lparr>bs_addrs := xs\<rparr>)"
    by (simp add: initial_addrs_loop_rules(1) [OF n3] MIN_INITIAL_ADDRS_def)
  also have "\<dots> = Ok (extend_with_addrs ([g, x] @ take 3 xs) (b4\<lparr>bs_addrs := drop 3 xs\<rparr>))"
    using initial_addrs_loop_queue [of "b4\<lparr>bs_addrs := xs\<rparr>" "[g, x]" 3] b4 as assms(5) by (simp add: MIN_INITIAL_ADDRS_def)
  finally show ?thesis by (simp add: as eval_nat_numeral)
qed

text \<open>C0: The addresses the user gives are meant to be tried before those of the cache. When there are fewer
  than five of them the start also asks the cache, and puts the first five addresses it saw at the end of
  the queue: with one address given and six in the cache, the given one comes after two of the cache.\<close>

theorem given_peers_queued_after_cache:
  "map_option bs_addrs (case snd (bootstrap_new sample_json (\<lambda>u. Some u) 1 None 0 True io_fine (\<lambda>_. 0) sample_arrivals
      sample_bootstrap_config []) of Ok b \<Rightarrow> Some b | Err _ \<Rightarrow> None) =
   Some (map sample_addr [15, 16, 1, 11, 12, 13, 14])"
proof -
  define b where "b = extend_with_addrs [sample_addr 1]
    \<lparr>bs_cache_store = \<lparr>bcs_config = sample_bootstrap_config\<lparr>initial_peers := []\<rparr>,
       bcs_data = cache_data_default 0 (network_version sample_json), bcs_to_remove = []\<rparr>,
     bs_addrs = [], cache_pending = True, contacts_progress = None, bs_arrivals = sample_arrivals,
     fetch_in_progress = None, ongoing_dials = [], bootstrap_peer_ids = [], bootstrap_completed = False, bs_spawned = []\<rparr>"
  have "snd (bootstrap_new sample_json (\<lambda>u. Some u) 1 None 0 True io_fine (\<lambda>_. 0) sample_arrivals sample_bootstrap_config []) =
      initial_addrs_loop (\<lambda>_. 0) 0 0 [] b"
    by (simp add: bootstrap_new_def build_contacts_progress_def sample_bootstrap_config_def bootstrap_config_default_def
        sample_addr_simps cache_store_new_def MIN_INITIAL_ADDRS_def b_def Let_def)
  moreover obtain b' where "initial_addrs_loop (\<lambda>_. 0) 0 0 [] b = Ok b'"
    "bs_addrs b' = drop 4 (map sample_addr [11, 12, 13, 14, 15, 16]) @ [sample_addr 1] @ take 4 (map sample_addr [11, 12, 13, 14, 15, 16])"
    using initial_addrs_loop_one_given [of b "sample_addr 1" "map sample_addr [11, 12, 13, 14, 15, 16]" "\<lambda>_. 0"]
    by (auto simp: b_def sample_arrivals_def)
  ultimately show ?thesis by simp
qed

end
