(* ===== verification/Network_Discovery.thy ===== *)
theory Network_Discovery
  imports Swarm Replication_Fetcher Record_Store_Props
begin

text \<open>
  Discovering peers (\<^verbatim>\<open>ant-node/src/networking/driver/network_discovery.rs\<close>): for every bucket of the routing
  table some addresses that fall into it, which are asked for from time to time so that the bucket fills up,
  and the interval between two rounds. The random peers are an argument, in the batches in which the
  parallel iterator collects them; the part of the interval computed in floating point is an argument too.

  The lemmas show that every address is kept under the bucket it belongs to and that no bucket has an empty
  list, so that picking one in turn never divides by zero, and which buckets a round asks for.
\<close>

section \<open>Definitions\<close>

definition MAX_PEERS_PER_BUCKET :: nat where "MAX_PEERS_PER_BUCKET = 5"
definition LAST_PEER_ADDED_TIME_LIMIT :: int where "LAST_PEER_ADDED_TIME_LIMIT = from_secs 180"
definition NO_PEER_ADDED_SLOWDOWN_INTERVAL_MAX_S :: nat where "NO_PEER_ADDED_SLOWDOWN_INTERVAL_MAX_S = 1200"

type_synonym bucket_candidates = "(nat, network_address list) btree_map"

record network_discovery_candidates =
  nd_self_peer_id :: peer_id
  nd_candidates :: bucket_candidates

record network_discovery =
  initial_bootstrap_done :: bool
  last_peer_added_instant :: instant
  last_network_discover_triggered :: "instant option"
  candidates :: network_discovery_candidates

text \<open>The bucket of an address, which the own address does not have.\<close>

definition bucket_of :: "crates \<Rightarrow> peer_id \<Rightarrow> network_address \<Rightarrow> nat option" where
  "bucket_of E self addr = ilog2 (na_distance E addr (na_from_peer E self))"

definition or_default :: "bucket_candidates \<Rightarrow> nat \<Rightarrow> network_address list" where
  "or_default m i = (case map_of m i of Some cs \<Rightarrow> cs | None \<Rightarrow> [])"

definition collect_candidates :: "(nat \<times> network_address) list \<Rightarrow> bucket_candidates" where
  "collect_candidates xs = fold (\<lambda>(i, addr) acc. bt_insert i (or_default acc i @ [addr]) acc) xs []"

definition with_bucket :: "crates \<Rightarrow> peer_id \<Rightarrow> peer_id list \<Rightarrow> (nat \<times> network_address) list" where
  "with_bucket E self peers =
     filter_map (\<lambda>p. let addr = na_from_peer E p in map_option (\<lambda>i. (i, addr)) (bucket_of E self addr)) peers"

definition merge_candidates :: "bucket_candidates \<Rightarrow> bucket_candidates \<Rightarrow> bucket_candidates" where
  "merge_candidates batch acc =
     fold (\<lambda>(i, cs) acc.
        bt_insert i (or_default acc i @ take (MAX_PEERS_PER_BUCKET - length (or_default acc i)) cs) acc) batch acc"

definition generate_candidates :: "crates \<Rightarrow> peer_id \<Rightarrow> peer_id list list \<Rightarrow> bucket_candidates" where
  "generate_candidates E self batches =
     fold (\<lambda>batch. merge_candidates (collect_candidates (with_bucket E self batch))) batches []"

definition nd_candidates_new :: "crates \<Rightarrow> peer_id list list \<Rightarrow> peer_id \<Rightarrow> network_discovery_candidates" where
  "nd_candidates_new E batches self =
     \<lparr>nd_self_peer_id = self, nd_candidates = generate_candidates E self batches\<rparr>"

definition insert_candidates :: "nat \<times> network_address list \<Rightarrow> network_discovery_candidates \<Rightarrow> network_discovery_candidates" where
  "insert_candidates ics nd =
    (case ics of (i, new_candidates) \<Rightarrow>
      (case map_of (nd_candidates nd) i of
         Some existing \<Rightarrow>
           (let existing = existing @ filter (\<lambda>c. c \<notin> set existing) new_candidates;
                excess = length existing - MAX_PEERS_PER_BUCKET
            in nd\<lparr>nd_candidates := bt_insert i (drop excess existing) (nd_candidates nd)\<rparr>)
       | None \<Rightarrow> nd\<lparr>nd_candidates := bt_insert i new_candidates (nd_candidates nd)\<rparr>))"

definition candidates_handle_get_closest_query ::
  "crates \<Rightarrow> (peer_id \<times> addresses) list \<Rightarrow> network_discovery_candidates \<Rightarrow> network_discovery_candidates" where
  "candidates_handle_get_closest_query E closest_peers nd =
     fold insert_candidates (collect_candidates (with_bucket E (nd_self_peer_id nd) (map fst closest_peers))) nd"

definition try_refresh_candidates :: "crates \<Rightarrow> peer_id list list \<Rightarrow> network_discovery_candidates \<Rightarrow> network_discovery_candidates" where
  "try_refresh_candidates E batches nd = fold insert_candidates (generate_candidates E (nd_self_peer_id nd) batches) nd"

text \<open>One candidate of a list in turn. The remainder by zero panics, the value None here.\<close>

definition pick_in_turn :: "nat \<Rightarrow> 'a list \<Rightarrow> 'a option" where
  "pick_in_turn i xs = (if xs = [] then None else Some (xs ! (i mod length xs)))"

text \<open>Candidates of buckets that have no peer yet, until there are ten.\<close>

fun fill_targets ::
  "nat \<Rightarrow> nat list \<Rightarrow> nat list \<Rightarrow> bucket_candidates \<Rightarrow> network_address list \<Rightarrow> network_address list option" where
  "fill_targets rr non_full full [] targets = Some targets"
| "fill_targets rr non_full full ((i, cs) # m) targets =
    (if length targets \<ge> 10 then Some targets
     else if i \<in> set non_full \<or> i \<in> set full then fill_targets rr non_full full m targets
     else (case pick_in_turn rr cs of
         Some c \<Rightarrow> fill_targets rr non_full full m (targets @ [c])
       | None \<Rightarrow> None))"

fun pick_targets :: "nat \<Rightarrow> bucket_candidates \<Rightarrow> nat list \<Rightarrow> network_address list option" where
  "pick_targets rr m [] = Some []"
| "pick_targets rr m (i # is) =
    (case map_of m i of
       Some cs \<Rightarrow>
         (case (pick_in_turn rr cs, pick_targets rr m is) of (Some c, Some rest) \<Rightarrow> Some (c # rest) | _ \<Rightarrow> None)
     | None \<Rightarrow> pick_targets rr m is)"

definition get_candidates ::
  "crates \<Rightarrow> peer_id list list \<Rightarrow> nat list \<Rightarrow> nat list \<Rightarrow> nat \<Rightarrow> network_discovery_candidates \<Rightarrow>
   network_discovery_candidates \<times> network_address list option" where
  "get_candidates E batches non_full full rr nd =
    (let nd = try_refresh_candidates E batches nd
     in (nd, (case pick_targets rr (nd_candidates nd) non_full of
           None \<Rightarrow> None
         | Some picked \<Rightarrow>
             fill_targets rr non_full full (nd_candidates nd) (na_from_peer E (nd_self_peer_id nd) # picked))))"

definition network_discovery_new :: "crates \<Rightarrow> instant \<Rightarrow> peer_id list list \<Rightarrow> peer_id \<Rightarrow> network_discovery" where
  "network_discovery_new E now batches self =
     \<lparr>initial_bootstrap_done = False, last_peer_added_instant = now, last_network_discover_triggered = None,
      candidates = nd_candidates_new E batches self\<rparr>"

definition initiated :: "instant \<Rightarrow> network_discovery \<Rightarrow> network_discovery" where
  "initiated now n = n\<lparr>last_network_discover_triggered := Some now\<rparr>"

definition notify_new_peer :: "instant \<Rightarrow> network_discovery \<Rightarrow> network_discovery \<times> bool" where
  "notify_new_peer now n =
    (let n = n\<lparr>last_peer_added_instant := now\<rparr>
     in if \<not> initial_bootstrap_done n then (n\<lparr>initial_bootstrap_done := True\<rparr>, True) else (n, False))"

definition scaled_duration :: "(nat \<Rightarrow> int) \<Rightarrow> nat \<Rightarrow> int" where
  "scaled_duration powered peers_in_rt = (if peers_in_rt \<ge> 450 then from_secs 1200 else powered peers_in_rt)"

definition should_we_discover :: "(nat \<Rightarrow> int) \<Rightarrow> nat \<Rightarrow> instant \<Rightarrow> nat \<Rightarrow> int \<Rightarrow> network_discovery \<Rightarrow> bool \<times> int option" where
  "should_we_discover powered rng now peers_in_rt current_interval n =
    (let should_network_discover = (peers_in_rt \<ge> 1)
     in if now - last_peer_added_instant n > LAST_PEER_ADDED_TIME_LIMIT \<and> peers_in_rt \<noteq> 0
        then (let half = NO_PEER_ADDED_SLOWDOWN_INTERVAL_MAX_S div 2
              in (should_network_discover,
                  Some (from_secs (half + rng mod (NO_PEER_ADDED_SLOWDOWN_INTERVAL_MAX_S - half)))))
        else (let d = scaled_duration powered peers_in_rt
              in (should_network_discover, if d > current_interval then Some d else None)))"

definition handle_get_closest_query :: "crates \<Rightarrow> (peer_id \<times> addresses) list \<Rightarrow> network_discovery \<Rightarrow> network_discovery" where
  "handle_get_closest_query E closest_peers n =
     n\<lparr>candidates := candidates_handle_get_closest_query E closest_peers (candidates n)\<rparr>"

text \<open>Every address is under its own bucket, and no bucket has an empty list.\<close>

definition buckets_ok :: "crates \<Rightarrow> peer_id \<Rightarrow> bucket_candidates \<Rightarrow> bool" where
  "buckets_ok E self m \<longleftrightarrow>
     bt_invar m \<and> (\<forall>(i, cs) \<in> set m. cs \<noteq> [] \<and> (\<forall>c \<in> set cs. bucket_of E self c = Some i))"

datatype discovery_op =
    ND_Query "(peer_id \<times> addresses) list"
  | ND_Round "peer_id list list" "nat list" "nat list" nat

fun discovery_step :: "crates \<Rightarrow> discovery_op \<Rightarrow> network_discovery_candidates \<Rightarrow> network_discovery_candidates" where
  "discovery_step E (ND_Query closest_peers) nd = candidates_handle_get_closest_query E closest_peers nd"
| "discovery_step E (ND_Round batches non_full full rr) nd = fst (get_candidates E batches non_full full rr nd)"

definition discovery_run :: "crates \<Rightarrow> peer_id list list \<Rightarrow> peer_id \<Rightarrow> discovery_op list \<Rightarrow> network_discovery_candidates" where
  "discovery_run E batches self ops = fold (discovery_step E) ops (nd_candidates_new E batches self)"

text \<open>A query answered with six peers of one bucket.\<close>

definition six_peers :: "(peer_id \<times> addresses) list" where
  "six_peers = map (\<lambda>i. (PeerId [i], Addresses [])) [0xF0, 0xF1, 0xF2, 0xF3, 0xF4, 0xF5]"

section \<open>The buckets\<close>

lemma buckets_ok_insert:
  "buckets_ok E self m \<Longrightarrow> cs \<noteq> [] \<Longrightarrow> (\<forall>c \<in> set cs. bucket_of E self c = Some i) \<Longrightarrow> buckets_ok E self (bt_insert i cs m)"
  by (auto simp: buckets_ok_def set_bt_insert split: prod.splits)

lemma buckets_ok_lookup: "buckets_ok E self m \<Longrightarrow> map_of m i = Some cs \<Longrightarrow> cs \<noteq> [] \<and> (\<forall>c \<in> set cs. bucket_of E self c = Some i)"
  by (auto simp: buckets_ok_def dest!: map_of_SomeD)

lemma buckets_ok_default: "buckets_ok E self m \<Longrightarrow> c \<in> set (or_default m i) \<Longrightarrow> bucket_of E self c = Some i"
  using buckets_ok_lookup [of E self m i] by (cases "map_of m i") (simp_all add: or_default_def)

lemma buckets_ok_fold:
  "(\<And>x m. x \<in> set xs \<Longrightarrow> buckets_ok E self m \<Longrightarrow> buckets_ok E self (f x m)) \<Longrightarrow> buckets_ok E self m \<Longrightarrow> buckets_ok E self (fold f xs m)"
  by (induction xs arbitrary: m) simp_all

lemma collect_candidates_ok:
  "(\<And>i addr. (i, addr) \<in> set xs \<Longrightarrow> bucket_of E self addr = Some i) \<Longrightarrow> buckets_ok E self (collect_candidates xs)"
  unfolding collect_candidates_def
  by (rule buckets_ok_fold) (auto intro!: buckets_ok_insert dest: buckets_ok_default simp: buckets_ok_def [of _ _ "[]"])

lemma with_bucket_ok: "(i, addr) \<in> set (with_bucket E self peers) \<Longrightarrow> bucket_of E self addr = Some i"
  by (auto simp: with_bucket_def set_filter_map Let_def)

lemma merge_candidates_ok:
  assumes "buckets_ok E self batch" and "buckets_ok E self acc"
  shows "buckets_ok E self (merge_candidates batch acc)"
  unfolding merge_candidates_def
proof (rule buckets_ok_fold [OF _ assms(2)])
  fix x m assume x: "x \<in> set batch" and m: "buckets_ok E self m"
  obtain i cs where [simp]: "x = (i, cs)" by (cases x)
  have "cs \<noteq> []" "\<forall>c \<in> set cs. bucket_of E self c = Some i" using assms(1) x by (auto simp: buckets_ok_def)
  moreover have "\<forall>c \<in> set (or_default m i). bucket_of E self c = Some i" using buckets_ok_default [OF m] by blast
  moreover have "set (take (MAX_PEERS_PER_BUCKET - length (or_default m i)) cs) \<subseteq> set cs" by (rule set_take_subset)
  moreover have "or_default m i @ take (MAX_PEERS_PER_BUCKET - length (or_default m i)) cs \<noteq> []"
    using \<open>cs \<noteq> []\<close> by (cases "or_default m i") (simp_all add: MAX_PEERS_PER_BUCKET_def)
  ultimately have "buckets_ok E self (bt_insert i (or_default m i @ take (MAX_PEERS_PER_BUCKET - length (or_default m i)) cs) m)"
    by (intro buckets_ok_insert [OF m]) auto
  then show "buckets_ok E self ((case x of (i, cs) \<Rightarrow> \<lambda>acc. bt_insert i (or_default acc i @ take (MAX_PEERS_PER_BUCKET - length (or_default acc i)) cs) acc) m)"
    by simp
qed

lemma generate_candidates_ok: "buckets_ok E self (generate_candidates E self batches)"
  unfolding generate_candidates_def
  by (rule buckets_ok_fold) (auto intro!: merge_candidates_ok collect_candidates_ok with_bucket_ok simp: buckets_ok_def [of _ _ "[]"])

lemma insert_candidates_ok:
  assumes "buckets_ok E self (nd_candidates nd)" and "cs \<noteq> []" and "\<forall>c \<in> set cs. bucket_of E self c = Some i"
  shows "buckets_ok E self (nd_candidates (insert_candidates (i, cs) nd)) \<and> nd_self_peer_id (insert_candidates (i, cs) nd) = nd_self_peer_id nd"
proof (cases "map_of (nd_candidates nd) i")
  case None
  then show ?thesis using assms by (simp add: insert_candidates_def buckets_ok_insert)
next
  case (Some existing)
  from buckets_ok_lookup [OF assms(1) Some] have e: "existing \<noteq> []" "\<forall>c \<in> set existing. bucket_of E self c = Some i" by simp_all
  define l where "l = existing @ filter (\<lambda>c. c \<notin> set existing) cs"
  have "l \<noteq> []" "\<forall>c \<in> set l. bucket_of E self c = Some i" using e assms(3) by (auto simp: l_def)
  moreover have "set (drop (length l - MAX_PEERS_PER_BUCKET) l) \<subseteq> set l" by (rule set_drop_subset)
  moreover have "length l - MAX_PEERS_PER_BUCKET < length l" using \<open>l \<noteq> []\<close> by (simp add: MAX_PEERS_PER_BUCKET_def)
  ultimately have "buckets_ok E self (bt_insert i (drop (length l - MAX_PEERS_PER_BUCKET) l) (nd_candidates nd))"
    by (intro buckets_ok_insert [OF assms(1)]) auto
  then show ?thesis using Some by (simp add: insert_candidates_def Let_def l_def)
qed

lemma fold_insert_candidates_ok:
  "buckets_ok E self (nd_candidates nd) \<Longrightarrow> \<forall>(i, cs) \<in> set m. cs \<noteq> [] \<and> (\<forall>c \<in> set cs. bucket_of E self c = Some i) \<Longrightarrow>
   buckets_ok E self (nd_candidates (fold insert_candidates m nd)) \<and> nd_self_peer_id (fold insert_candidates m nd) = nd_self_peer_id nd"
proof (induction m arbitrary: nd)
  case (Cons x m)
  obtain i cs where [simp]: "x = (i, cs)" by (cases x)
  from insert_candidates_ok [OF Cons(2), of cs i] Cons(3) Cons.IH [of "insert_candidates (i, cs) nd"] show ?case by simp
qed simp

lemma discovery_invariants:
  assumes "buckets_ok E self (nd_candidates nd)" and "nd_self_peer_id nd = self"
  shows "buckets_ok E self (nd_candidates (candidates_handle_get_closest_query E closest nd))"
    and "nd_self_peer_id (candidates_handle_get_closest_query E closest nd) = self"
    and "buckets_ok E self (nd_candidates (try_refresh_candidates E batches nd))"
    and "nd_self_peer_id (try_refresh_candidates E batches nd) = self"
proof -
  have "buckets_ok E self (collect_candidates (with_bucket E self (map fst closest)))"
    by (rule collect_candidates_ok) (rule with_bucket_ok)
  then have "\<forall>(i, cs) \<in> set (collect_candidates (with_bucket E self (map fst closest))). cs \<noteq> [] \<and> (\<forall>c \<in> set cs. bucket_of E self c = Some i)"
    by (auto simp: buckets_ok_def)
  from fold_insert_candidates_ok [OF assms(1) this]
  show "buckets_ok E self (nd_candidates (candidates_handle_get_closest_query E closest nd))"
    "nd_self_peer_id (candidates_handle_get_closest_query E closest nd) = self"
    using assms(2) by (simp_all add: candidates_handle_get_closest_query_def)
  have "\<forall>(i, cs) \<in> set (generate_candidates E self batches). cs \<noteq> [] \<and> (\<forall>c \<in> set cs. bucket_of E self c = Some i)"
    using generate_candidates_ok [of E self batches] by (auto simp: buckets_ok_def)
  from fold_insert_candidates_ok [OF assms(1) this]
  show "buckets_ok E self (nd_candidates (try_refresh_candidates E batches nd))"
    "nd_self_peer_id (try_refresh_candidates E batches nd) = self"
    using assms(2) by (simp_all add: try_refresh_candidates_def)
qed

lemma discovery_run_ok:
  "buckets_ok E self (nd_candidates (discovery_run E batches self ops)) \<and> nd_self_peer_id (discovery_run E batches self ops) = self"
proof -
  have "buckets_ok E self (nd_candidates nd) \<and> nd_self_peer_id nd = self \<Longrightarrow>
    buckets_ok E self (nd_candidates (discovery_step E op nd)) \<and> nd_self_peer_id (discovery_step E op nd) = self" for op nd
    by (cases op) (simp_all add: discovery_invariants get_candidates_def Let_def)
  then have "buckets_ok E self (nd_candidates nd) \<and> nd_self_peer_id nd = self \<Longrightarrow>
    buckets_ok E self (nd_candidates (fold (discovery_step E) ops nd)) \<and> nd_self_peer_id (fold (discovery_step E) ops nd) = self" for nd
    by (induction ops arbitrary: nd) simp_all
  then show ?thesis by (simp add: discovery_run_def nd_candidates_new_def generate_candidates_ok)
qed

section \<open>The targets of a round\<close>

lemma pick_in_turn_Some: "xs \<noteq> [] \<Longrightarrow> \<exists>c \<in> set xs. pick_in_turn rr xs = Some c"
  by (auto simp: pick_in_turn_def)

lemma pick_targets_ok:
  assumes "buckets_ok E self m"
  shows "\<exists>ts. pick_targets rr m is = Some ts \<and> length ts \<le> length is
    \<and> (\<forall>t \<in> set ts. \<exists>i \<in> set is. bucket_of E self t = Some i)
    \<and> (\<forall>i \<in> set is. contains_key m i \<longrightarrow> (\<exists>t \<in> set ts. bucket_of E self t = Some i))"
proof (induction "is")
  case (Cons i "is")
  then obtain ts where IH: "pick_targets rr m is = Some ts" "length ts \<le> length is"
    "\<forall>t \<in> set ts. \<exists>i \<in> set is. bucket_of E self t = Some i"
    "\<forall>i \<in> set is. contains_key m i \<longrightarrow> (\<exists>t \<in> set ts. bucket_of E self t = Some i)" by blast
  show ?case
  proof (cases "map_of m i")
    case None
    then show ?thesis using IH by (auto simp: contains_key_def)
  next
    case (Some cs)
    from buckets_ok_lookup [OF assms Some] obtain c where "c \<in> set cs" "pick_in_turn rr cs = Some c" "bucket_of E self c = Some i"
      using pick_in_turn_Some by blast
    then show ?thesis using IH Some by auto
  qed
qed simp

lemma fill_targets_ok:
  assumes "\<forall>(i, cs) \<in> set m. cs \<noteq> [] \<and> (\<forall>c \<in> set cs. bucket_of E self c = Some i)"
  shows "\<exists>ts. fill_targets rr non_full full m targets = Some (targets @ ts) \<and> length (targets @ ts) \<le> max 10 (length targets)
    \<and> (\<forall>t \<in> set ts. \<exists>i. bucket_of E self t = Some i \<and> i \<notin> set full)"
  using assms
proof (induction rr non_full full m targets rule: fill_targets.induct)
  case (2 rr non_full full i cs m targets)
  show ?case
  proof (cases "length targets \<ge> 10 \<or> i \<in> set non_full \<or> i \<in> set full")
    case True
    then show ?thesis using 2(1) 2(3) by auto
  next
    case False
    have "cs \<noteq> []" "\<forall>c \<in> set cs. bucket_of E self c = Some i" using 2(3) by auto
    then obtain c where c: "pick_in_turn rr cs = Some c" "bucket_of E self c = Some i" using pick_in_turn_Some by blast
    from 2(2) [OF _ _ c(1)] False 2(3) obtain ts where "fill_targets rr non_full full m (targets @ [c]) = Some ((targets @ [c]) @ ts)"
      "length ((targets @ [c]) @ ts) \<le> max 10 (length (targets @ [c]))" "\<forall>t \<in> set ts. \<exists>i. bucket_of E self t = Some i \<and> i \<notin> set full"
      by auto
    then show ?thesis using False c by (intro exI [of _ "c # ts"]) auto
  qed
qed simp

text \<open>C0: After every run of queries and rounds, a round of the discovery asks for the own address and then for
  addresses of which none lies in a bucket that is full, one for every bucket with room it has a candidate
  for, and no more than ten unless there are more such buckets; picking a candidate never fails.\<close>

theorem discovery_asks_open_buckets:
  assumes "get_candidates E batches non_full full rr (discovery_run E batches0 self ops) = (nd, r)"
    and "set non_full \<inter> set full = {}"
  shows "\<exists>targets. r = Some (na_from_peer E self # targets) \<and> length targets \<le> max 9 (length non_full)
    \<and> (\<forall>t \<in> set targets. \<exists>i. bucket_of E self t = Some i \<and> i \<notin> set full)
    \<and> (\<forall>i \<in> set non_full. contains_key (nd_candidates nd) i \<longrightarrow> (\<exists>t \<in> set targets. bucket_of E self t = Some i))"
proof -
  have nd: "nd = try_refresh_candidates E batches (discovery_run E batches0 self ops)"
    using assms(1) by (simp add: get_candidates_def Let_def)
  have ok: "buckets_ok E self (nd_candidates nd)" "nd_self_peer_id nd = self"
    using discovery_invariants(3,4) discovery_run_ok by (auto simp: nd)
  obtain picked where p: "pick_targets rr (nd_candidates nd) non_full = Some picked" "length picked \<le> length non_full"
    "\<forall>t \<in> set picked. \<exists>i \<in> set non_full. bucket_of E self t = Some i"
    "\<forall>i \<in> set non_full. contains_key (nd_candidates nd) i \<longrightarrow> (\<exists>t \<in> set picked. bucket_of E self t = Some i)"
    using pick_targets_ok [OF ok(1)] by blast
  have "\<forall>(i, cs) \<in> set (nd_candidates nd). cs \<noteq> [] \<and> (\<forall>c \<in> set cs. bucket_of E self c = Some i)"
    using ok(1) by (auto simp: buckets_ok_def)
  from fill_targets_ok [OF this, of rr non_full full "na_from_peer E self # picked"] obtain ts where
    ts: "fill_targets rr non_full full (nd_candidates nd) (na_from_peer E self # picked) = Some ((na_from_peer E self # picked) @ ts)"
      "length (na_from_peer E self # picked @ ts) \<le> max 10 (length (na_from_peer E self # picked))"
      "\<forall>t \<in> set ts. \<exists>i. bucket_of E self t = Some i \<and> i \<notin> set full" by auto
  have "r = Some (na_from_peer E self # picked @ ts)"
    using assms(1) p(1) ts(1) ok(2) by (simp add: get_candidates_def Let_def nd [symmetric])
  moreover have "\<forall>t \<in> set picked. \<exists>i. bucket_of E self t = Some i \<and> i \<notin> set full" using p(3) assms(2) by blast
  ultimately show ?thesis using p ts by (intro exI [of _ "picked @ ts"]) auto
qed

theorem discovery_asks_open_buckets_witness:
  "\<exists>nd targets. get_candidates sample_crates [[PeerId [3]]] [1] [2] 7 (discovery_run sample_crates [[PeerId [2]]] (PeerId [0]) [ND_Query six_peers])
      = (nd, Some (na_from_peer sample_crates (PeerId [0]) # targets))
    \<and> length targets \<le> 9 \<and> (\<forall>t \<in> set targets. \<exists>i. bucket_of sample_crates (PeerId [0]) t = Some i \<and> i \<noteq> 2)"
proof -
  obtain nd r where g: "get_candidates sample_crates [[PeerId [3]]] [1] [2] 7
      (discovery_run sample_crates [[PeerId [2]]] (PeerId [0]) [ND_Query six_peers]) = (nd, r)" by fastforce
  have "set [1::nat] \<inter> set [2] = {}" by simp
  from discovery_asks_open_buckets [OF g this] g show ?thesis by auto
qed

lemma six_peers_bucket:
  "with_bucket sample_crates (PeerId [0]) (map fst six_peers) = map (\<lambda>b. (7, NA_PeerId [b])) [0xF0, 0xF1, 0xF2, 0xF3, 0xF4, 0xF5]"
proof -
  have d: "bucket_of sample_crates (PeerId [0]) (NA_PeerId [b]) = ilog2 (ucast b)" for b
    by (simp add: bucket_of_def na_distance_def na_from_peer_def sample_crates_def of_be_bytes_single)
  have n: "na_from_peer sample_crates (PeerId [b]) = NA_PeerId [b]" for b by (simp add: na_from_peer_def sample_crates_def)
  have l: "ilog2 0xF0 = Some 7" "ilog2 0xF1 = Some 7" "ilog2 0xF2 = Some 7" "ilog2 0xF3 = Some 7" "ilog2 0xF4 = Some 7" "ilog2 0xF5 = Some 7"
    by code_simp+
  show ?thesis by (simp add: with_bucket_def six_peers_def d n l)
qed

text \<open>C0: A bucket that has no candidates yet takes all those of a query, also when they are more than the
  maximum for a bucket.\<close>

theorem empty_bucket_exceeds_maximum:
  "map (\<lambda>(i, cs). (i, length cs)) (nd_candidates (candidates_handle_get_closest_query sample_crates six_peers
      (nd_candidates_new sample_crates [] (PeerId [0])))) = [(7, 6)] \<and> MAX_PEERS_PER_BUCKET = 5"
  by (simp add: candidates_handle_get_closest_query_def nd_candidates_new_def generate_candidates_def six_peers_bucket
      collect_candidates_def or_default_def insert_candidates_def MAX_PEERS_PER_BUCKET_def)

end
