(* ===== verification/Swarm_Driver.thy ===== *)
theory Swarm_Driver
  imports Record_Store_Props Replication_Fetcher_Props Network_Wide_Replication External_Address Relay_Manager
    Do_Not_Disturb Version_Gate Bootstrap Network_Discovery
begin

text \<open>
  The swarm driver (\<^verbatim>\<open>ant-node/src/networking/driver/\<close>): the one task that owns the swarm, the record store, the
  replication fetcher and the other parts of the networking layer, and handles the commands of the node
  (\<^verbatim>\<open>cmd.rs\<close>) and its own timers (\<^verbatim>\<open>mod.rs\<close>). The events of the swarm are in the theory \<open>Driver_Events\<close>.

  The state is the record \<open>swarm_driver\<close>, over the state \<open>'s\<close> of the third-party swarm. What the driver sends
  is appended to lists: events for the node, commands it queues for itself, answers on the channels of
  commands, and tasks on the shared bootstrap cache. A handler that reads the clock several times gets the
  \<open>i\<close>-th reading as \<open>now i\<close>. Metrics and logs are left out.
\<close>

section \<open>Definitions\<close>

subsection \<open>Circular buffers\<close>

text \<open>The buffers of the driver have positive capacities; only one of capacity zero would grow when it is
  pushed to.\<close>

record 'a circular_vec =
  cv_inner :: "'a list"
  cv_capacity :: nat

definition circular_vec_new :: "nat \<Rightarrow> 'a circular_vec" where
  "circular_vec_new n = \<lparr>cv_inner = [], cv_capacity = n\<rparr>"

definition cv_push_with_eviction :: "'a \<Rightarrow> 'a circular_vec \<Rightarrow> 'a circular_vec \<times> 'a option" where
  "cv_push_with_eviction x v =
    (if length (cv_inner v) = cv_capacity v
     then (case cv_inner v of
         [] \<Rightarrow> (v\<lparr>cv_inner := [x]\<rparr>, None)
       | y # ys \<Rightarrow> (v\<lparr>cv_inner := ys @ [x]\<rparr>, Some y))
     else (v\<lparr>cv_inner := cv_inner v @ [x]\<rparr>, None))"

definition cv_push :: "'a \<Rightarrow> 'a circular_vec \<Rightarrow> 'a circular_vec" where
  "cv_push x v = fst (cv_push_with_eviction x v)"

definition cv_contains :: "'a circular_vec \<Rightarrow> 'a \<Rightarrow> bool" where
  "cv_contains v x \<longleftrightarrow> x \<in> set (cv_inner v)"

subsection \<open>Messages of the driver\<close>

text \<open>Where a response goes: a channel someone waits on, or the task that blocks a peer once it was told
  that it is considered bad.\<close>

datatype response_sender = SenderTo channel_id | BlockAfterResponse peer_id

datatype msg_responder = FromSelf "response_sender option" | FromPeer channel_id

datatype network_swarm_cmd =
    NC_GetClosestPeersToAddressFromNetwork network_address channel_id "nat option"
  | NC_SendRequest request peer_id addresses "response_sender option"
  | NC_SendResponse response msg_responder

datatype terminate_node_reason = HardDiskWriteError | UpnpGatewayNotFound

datatype network_event =
    NE_QueryRequestReceived query msg_responder
  | NE_ResponseReceived response
  | NE_PeerAdded peer_id nat
  | NE_PeerRemoved peer_id nat
  | NE_PeerWithUnsupportedProtocol string string
  | NE_KeysToFetchForReplication "(peer_id \<times> record_key) list"
  | NE_NewListenAddr multiaddr
  | NE_TerminateNode terminate_node_reason
  | NE_FreshReplicateToFetch network_address
      "(network_address \<times> data_types \<times> validation_type \<times> proof_of_payment option) list"
  | NE_PeersForVersionQuery "(peer_id \<times> addresses) list"
  | NE_NetworkWideReplication "(network_address \<times> validation_type) list"
  | NE_PeerVersionChecked peer_id peer_type version_check_result
  | NE_PeerVersionRejected peer_id peer_type version_check_result string

datatype driver_error =
    InCorrectRecordHeader
  | KademliaStoreError store_error
  | MsgChannelDropped
  | OutgoingResponseDropped response
  | ReceivedResponseDropped request_id
  | ReceivedKademliaEventDropped query_id string

text \<open>The answers to local commands.\<close>

datatype local_reply =
    LR_PeersWithMultiaddr "(peer_id \<times> multiaddr list) list"
  | LR_KBuckets "(nat, peer_id list) btree_map" u64
  | LR_KCloseLocalPeers "(peer_id \<times> addresses) list"
  | LR_SwarmLocalState "peer_id list" nat "multiaddr list"
  | LR_RecordStoreHasKey bool
  | LR_AllLocalRecordAddresses "(network_address, validation_type) hash_map"
  | LR_LocalRecord "kad_record option"
  | LR_QuotingMetrics quoting_metrics bool
  | LR_PeerShunned bool
  | LR_NetworkDensity "distance option"

datatype channel_msg =
    CM_Response "(response \<times> connection_info option, string) result"
  | CM_ClosestPeers "(peer_id \<times> addresses) list"

datatype pending_get_closest = PG_NetworkDiscovery | PG_FunctionCall channel_id

text \<open>Tasks on the bootstrap cache, which the driver shares with them.\<close>

datatype cache_task =
    CT_AddAddrs "multiaddr list"
  | CT_QueueRemove peer_id
  | CT_AddAndFlush bootstrap_cache_store multiaddr

record initial_bootstrap_trigger =
  bt_upnp :: bool
  upnp_gateway_result_obtained :: bool
  listen_addr_obtained :: bool

definition initial_bootstrap_trigger_new :: "bool \<Rightarrow> initial_bootstrap_trigger" where
  "initial_bootstrap_trigger_new upnp =
     \<lparr>bt_upnp = upnp, upnp_gateway_result_obtained = False, listen_addr_obtained = False\<rparr>"

definition should_trigger_initial_bootstrap :: "initial_bootstrap_trigger \<Rightarrow> bool" where
  "should_trigger_initial_bootstrap t = (if bt_upnp t then upnp_gateway_result_obtained t else listen_addr_obtained t)"

subsection \<open>The state\<close>

record 's swarm_driver =
  sd_swarm :: 's
  sd_store :: node_record_store
  sd_dnd :: dnd_behaviour
  sd_self_peer_id :: peer_id
  sd_local :: bool
  is_relay_client :: bool
  peers_in_rt :: nat
  sd_trigger :: initial_bootstrap_trigger
  sd_network_discovery :: network_discovery
  sd_bootstrap :: bootstrap
  sd_nwr :: network_wide_replication
  sd_external_address_manager :: "external_address_manager option"
  sd_relay_manager :: "relay_manager option"
  connected_relay_clients :: "peer_id list"
  sd_fetcher :: replication_fetcher
  pending_get_closest_peers :: "(query_id, pending_get_closest \<times> (peer_id \<times> addresses) list) hash_map"
  pending_requests :: "(request_id, response_sender option) hash_map"
  dialed_peers :: "peer_id circular_vec"
  dial_queue :: "(peer_id, multiaddr list \<times> instant \<times> nat) hash_map"
  live_connected_peers :: "(connection_id, peer_id \<times> multiaddr \<times> instant) btree_map"
  latest_established_connection_ids :: "(connection_id, multiaddr \<times> instant) hash_map"
  hard_disk_write_error :: nat
  sd_bad_nodes :: bad_nodes
  quotes_history :: "(peer_id, payment_quote) hash_map"
  replication_targets :: "(peer_id, instant) hash_map"
  sd_last_replication :: "instant option"
  last_connection_pruning_time :: instant
  peers_version :: "(peer_id, string) hash_map"
  blocklist_cache :: "peer_id circular_vec"
  sd_events :: "network_event list"
  sd_network_cmds :: "network_swarm_cmd list"
  sd_local_cmds :: "local_swarm_cmd list"
  sd_replies :: "local_reply list"
  sd_channel_msgs :: "(channel_id \<times> channel_msg) list"
  sd_cache_tasks :: "cache_task list"

definition MAX_CONTINUOUS_HDD_WRITE_ERROR :: nat where "MAX_CONTINUOUS_HDD_WRITE_ERROR = 5"
definition REPLICATION_TIMEOUT :: int where "REPLICATION_TIMEOUT = from_secs 45"
definition MIN_REPLICATION_INTERVAL_S :: int where "MIN_REPLICATION_INTERVAL_S = from_secs 30"
definition BLOCKLIST_CACHE_SIZE :: nat where "BLOCKLIST_CACHE_SIZE = 1000"

definition send_event :: "network_event \<Rightarrow> 's swarm_driver \<Rightarrow> 's swarm_driver" where
  "send_event e d = d\<lparr>sd_events := sd_events d @ [e]\<rparr>"

definition queue_network_swarm_cmd :: "network_swarm_cmd \<Rightarrow> 's swarm_driver \<Rightarrow> 's swarm_driver" where
  "queue_network_swarm_cmd c d = d\<lparr>sd_network_cmds := sd_network_cmds d @ [c]\<rparr>"

definition reply :: "local_reply \<Rightarrow> 's swarm_driver \<Rightarrow> 's swarm_driver" where
  "reply r d = d\<lparr>sd_replies := sd_replies d @ [r]\<rparr>"

definition send_response_to :: "response_sender \<Rightarrow> (response \<times> connection_info option, string) result \<Rightarrow> 's swarm_driver \<Rightarrow> 's swarm_driver" where
  "send_response_to sender r d =
    (case sender of
       SenderTo channel \<Rightarrow> d\<lparr>sd_channel_msgs := sd_channel_msgs d @ [(channel, CM_Response r)]\<rparr>
     | BlockAfterResponse peer_id \<Rightarrow> d\<lparr>sd_local_cmds := sd_local_cmds d @ [LC_AddPeerToBlockList peer_id]\<rparr>)"

text \<open>Whether the other end of a channel still waits; the task that blocks a peer always does.\<close>

fun sender_open :: "(channel_id \<Rightarrow> bool) \<Rightarrow> response_sender \<Rightarrow> bool" where
  "sender_open is_open (SenderTo channel) = is_open channel"
| "sender_open is_open (BlockAfterResponse _) = True"

subsection \<open>The routing table\<close>

record kbucket_status =
  total_buckets :: nat
  total_peers :: nat
  total_relay_peers :: nat
  peers_in_non_full_buckets :: nat
  relay_peers_in_non_full_buckets :: nat
  num_of_full_buckets :: nat
  kbucket_table_stats :: "(nat \<times> nat \<times> nat) list"
  estimated_network_size :: u64

text \<open>The multiplication and the power wrap around at 64 bits.\<close>

definition estimate_network_size :: "nat \<Rightarrow> nat \<Rightarrow> u64" where
  "estimate_network_size non_full_peers full_buckets = word_of_nat (non_full_peers + 1) * 2 ^ full_buckets"

definition full_bucket :: "'s swarm_api \<Rightarrow> kbucket \<Rightarrow> bool" where
  "full_bucket W kb \<longleftrightarrow> length (kb_entries kb) \<ge> sw_k_value W"

definition relay_entries :: "kbucket \<Rightarrow> (peer_id \<times> multiaddr list) list" where
  "relay_entries kb = filter (\<lambda>(_, as). is_a_relayed_peer as) (kb_entries kb)"

definition get_kbuckets_status :: "'s swarm_api \<Rightarrow> 's swarm_driver \<Rightarrow> kbucket_status" where
  "get_kbuckets_status W d =
    (let kbs = sw_kbuckets W (sd_swarm d);
         non_full = filter (\<lambda>kb. \<not> full_bucket W kb) kbs;
         peers_non_full = sum_list (map (length \<circ> kb_entries) non_full);
         full = length (filter (full_bucket W) kbs)
     in \<lparr>total_buckets = length kbs,
         total_peers = sum_list (map (length \<circ> kb_entries) kbs),
         total_relay_peers = sum_list (map (length \<circ> relay_entries) kbs),
         peers_in_non_full_buckets = peers_non_full,
         relay_peers_in_non_full_buckets = sum_list (map (length \<circ> relay_entries) non_full),
         num_of_full_buckets = full,
         kbucket_table_stats = filter_map (\<lambda>(i, kb). map_option (\<lambda>l. (i, length (kb_entries kb), l)) (ilog2 (kb_range_start kb)))
           (enumerate 0 kbs),
         estimated_network_size = estimate_network_size peers_non_full full\<rparr>)"

definition update_on_kbucket_status :: "kbucket_status \<Rightarrow> 's swarm_driver \<Rightarrow> 's swarm_driver" where
  "update_on_kbucket_status status d = d\<lparr>peers_in_rt := total_peers status\<rparr>"

definition update_on_peer_addition :: "'s swarm_api \<Rightarrow> peer_id \<Rightarrow> addresses \<Rightarrow> 's swarm_driver \<Rightarrow> 's swarm_driver" where
  "update_on_peer_addition W added_peer as d =
    (let d = update_on_kbucket_status (get_kbuckets_status W d) d;
         d = d\<lparr>sd_cache_tasks := sd_cache_tasks d @ [CT_AddAddrs (addrs as)]\<rparr>
     in send_event (NE_PeerAdded added_peer (peers_in_rt d)) d)"

definition update_on_peer_removal :: "'s swarm_api \<Rightarrow> peer_id \<Rightarrow> 's swarm_driver \<Rightarrow> 's swarm_driver" where
  "update_on_peer_removal W removed_peer d =
    (let d = update_on_kbucket_status (get_kbuckets_status W d) d;
         d = d\<lparr>sd_swarm := sw_disconnect_peer_id W removed_peer (sd_swarm d)\<rparr>;
         d = send_event (NE_PeerRemoved removed_peer (peers_in_rt d)) d
     in d\<lparr>sd_cache_tasks := sd_cache_tasks d @ [CT_QueueRemove removed_peer]\<rparr>)"

definition remove_peer_from_rt :: "'s swarm_api \<Rightarrow> peer_id \<Rightarrow> 's swarm_driver \<Rightarrow> 's swarm_driver \<times> multiaddr list option" where
  "remove_peer_from_rt W peer d =
    (case sw_remove_peer W peer (sd_swarm d) of
       (s, Some (dead_peer, as)) \<Rightarrow> (update_on_peer_removal W dead_peer (d\<lparr>sd_swarm := s\<rparr>), Some as)
     | (s, None) \<Rightarrow> (d\<lparr>sd_swarm := s\<rparr>, None))"

definition collect_peers_info :: "'s swarm_api \<Rightarrow> 's swarm_driver \<Rightarrow> peer_id list \<Rightarrow> (peer_id \<times> addresses) list" where
  "collect_peers_info W d peers =
     filter_map (\<lambda>peer_id.
        case sw_kbucket W (sd_swarm d) peer_id of
          None \<Rightarrow> None
        | Some kb \<Rightarrow> map_option (\<lambda>(_, as). (peer_id, Addresses as)) (find (\<lambda>(p, _). p = peer_id) (kb_entries kb))) peers"

definition get_closest_local_peers_to_target ::
  "crates \<Rightarrow> 's swarm_api \<Rightarrow> network_address \<Rightarrow> bool \<Rightarrow> nat \<Rightarrow> 's swarm_driver \<Rightarrow> (peer_id \<times> addresses) list" where
  "get_closest_local_peers_to_target E W target include_self num_peers d =
    (let num_peers = (if include_self then num_peers - 1 else num_peers);
         peer_ids = take num_peers (sw_get_closest_local_peers W (sd_swarm d) (as_bytes E target))
     in if include_self then (sd_self_peer_id d, Addresses []) # collect_peers_info W d peer_ids
        else collect_peers_info W d peer_ids)"

definition get_closest_local_peers_to_self :: "crates \<Rightarrow> 's swarm_api \<Rightarrow> nat \<Rightarrow> 's swarm_driver \<Rightarrow> (peer_id \<times> addresses) list" where
  "get_closest_local_peers_to_self E W num_peers d =
     get_closest_local_peers_to_target E W (na_from_peer E (sd_self_peer_id d)) True num_peers d"

definition get_closest_k_local_peers_to_self :: "crates \<Rightarrow> 's swarm_api \<Rightarrow> 's swarm_driver \<Rightarrow> (peer_id \<times> addresses) list" where
  "get_closest_k_local_peers_to_self E W d =
     get_closest_local_peers_to_target E W (na_from_peer E (sd_self_peer_id d)) True (sw_k_value W) d"

fun fetch_peer_addresses :: "peer_id \<Rightarrow> kbucket list \<Rightarrow> multiaddr list" where
  "fetch_peer_addresses peer [] = []"
| "fetch_peer_addresses peer (kb # kbs) =
    (case find (\<lambda>(p, _). p = peer) (kb_entries kb) of
       Some (_, as) \<Rightarrow> as
     | None \<Rightarrow> fetch_peer_addresses peer kbs)"

definition fetch_peer_addresses_from_local :: "'s swarm_api \<Rightarrow> 's swarm_driver \<Rightarrow> peer_id \<Rightarrow> multiaddr list" where
  "fetch_peer_addresses_from_local W d peer = fetch_peer_addresses peer (sw_kbuckets W (sd_swarm d))"

definition get_peers_in_range :: "crates \<Rightarrow> (peer_id \<times> addresses) list \<Rightarrow> network_address \<Rightarrow> distance \<Rightarrow> (peer_id \<times> addresses) list" where
  "get_peers_in_range E peers address rng =
     filter (\<lambda>(peer_id, _). na_distance E address (na_from_peer E peer_id) \<le> rng) peers"

definition get_replicate_candidates :: "crates \<Rightarrow> 's swarm_api \<Rightarrow> network_address \<Rightarrow> 's swarm_driver \<Rightarrow> (peer_id \<times> addresses) list" where
  "get_replicate_candidates E W target d =
    (let expected_candidates = (if as_peer_id E target \<noteq> None then CLOSE_GROUP_SIZE * 2 else CLOSE_GROUP_SIZE);
         closest_k_peers = get_closest_local_peers_to_target E W target False (sw_k_value W) d;
         fallback = take expected_candidates closest_k_peers
     in case responsible_distance_range (sd_store d) of
          Some rng \<Rightarrow>
            (let peers_in_range = get_peers_in_range E closest_k_peers target rng
             in if length peers_in_range \<ge> expected_candidates then peers_in_range else fallback)
        | None \<Rightarrow> fallback)"

subsection \<open>Replication\<close>

definition replicate_to :: "request \<Rightarrow> instant \<Rightarrow> peer_id \<times> addresses \<Rightarrow> 's swarm_driver \<Rightarrow> 's swarm_driver" where
  "replicate_to request deadline target d =
    (case target of (peer_id, as) \<Rightarrow>
      (queue_network_swarm_cmd (NC_SendRequest request peer_id as None) d)
        \<lparr>replication_targets := AList.update peer_id deadline (replication_targets d)\<rparr>)"

definition try_interval_replication :: "crates \<Rightarrow> 's swarm_api \<Rightarrow> (nat \<Rightarrow> instant) \<Rightarrow> 's swarm_driver \<Rightarrow> 's swarm_driver" where
  "try_interval_replication E W now d =
    (if (case sd_last_replication d of Some t \<Rightarrow> now 0 - t < MIN_REPLICATION_INTERVAL_S | None \<Rightarrow> False) then d
     else
      (let d = d\<lparr>sd_last_replication := Some (now 1)\<rparr>;
           self_addr = na_from_peer E (sd_self_peer_id d);
           targets = get_replicate_candidates E W self_addr d;
           d = d\<lparr>replication_targets := retain (\<lambda>_ t. t > now 2) (replication_targets d)\<rparr>;
           targets = filter (\<lambda>(peer_id, _). \<not> contains_key (replication_targets d) peer_id) targets
       in if targets = [] then d
          else if records (sd_store d) = [] then d
          else
           (let request = Request_Cmd (Replicate self_addr (map (\<lambda>(_, addr, vt, _). (addr, vt)) (records (sd_store d))))
            in fold (replicate_to request (now 2 + REPLICATION_TIMEOUT)) targets d)))"

text \<open>What a handler reads of its surroundings: the clocks, the disk, a random peer, and which of the other ends
  of channels still wait. After a put the clock is read again, at \<open>en_after\<close>.\<close>

record driver_env =
  en_now :: "nat \<Rightarrow> instant"
  en_after :: instant
  en_system :: "nat \<Rightarrow> system_time"
  en_disk :: disk
  en_random_peer :: peer_id
  en_receiver_open :: bool
  en_channel_open :: "channel_id \<Rightarrow> bool"

definition REPLICATION_SENDER_CLOSE_GROUP_THRESHOLD :: nat where "REPLICATION_SENDER_CLOSE_GROUP_THRESHOLD = 40"
definition REPLICATION_SENDER_EXTENDED_DISTANCE_MULTIPLIER :: u256 where
  "REPLICATION_SENDER_EXTENDED_DISTANCE_MULTIPLIER = 10"

text \<open>Whether the sender of a replication list is one of the closest peers, or, while the network is under
  load, within ten times the distance of the farthest of them.\<close>

definition replication_sender_accepted ::
  "crates \<Rightarrow> peer_id \<Rightarrow> (peer_id \<times> addresses) list \<Rightarrow> 's swarm_driver \<Rightarrow> bool" where
  "replication_sender_accepted E holder closest_40_peers d =
    (let self_addr = na_from_peer E (sd_self_peer_id d)
     in if holder \<notin> fst ` set closest_40_peers \<or> holder = sd_self_peer_id d
        then is_network_under_load (sd_nwr d) \<and>
          (let farthest_distance = (if closest_40_peers = [] then - 1
                 else na_distance E (na_from_peer E (fst (last closest_40_peers))) self_addr);
               holder_distance = na_distance E (na_from_peer E holder) self_addr
           in \<not> holder_distance > saturating_mul farthest_distance REPLICATION_SENDER_EXTENDED_DISTANCE_MULTIPLIER)
        else True)"

definition add_keys_to_replication_fetcher ::
  "crates \<Rightarrow> 's swarm_api \<Rightarrow> instant \<Rightarrow> network_address \<Rightarrow> (network_address \<times> validation_type) list \<Rightarrow> bool \<Rightarrow>
   's swarm_driver \<Rightarrow> 's swarm_driver" where
  "add_keys_to_replication_fetcher E W now sender incoming_keys is_fresh_replicate d =
    (case as_peer_id E sender of
       None \<Rightarrow> d
     | Some holder \<Rightarrow>
       (let closest_40_peers = get_closest_local_peers_to_self E W REPLICATION_SENDER_CLOSE_GROUP_THRESHOLD d
        in if \<not> replication_sender_accepted E holder closest_40_peers d then d
           else
            (let (f, keys_to_fetch) = add_keys E now holder incoming_keys (records (sd_store d)) is_fresh_replicate
                   (map (\<lambda>(p, _). na_from_peer E p) closest_40_peers) (sd_fetcher d);
                 d = d\<lparr>sd_fetcher := f\<rparr>
             in if keys_to_fetch = [] then d else send_event (NE_KeysToFetchForReplication keys_to_fetch) d)))"

subsection \<open>Issues of peers and quotes\<close>

fun node_issue_display :: "node_issue \<Rightarrow> string" where
  "node_issue_display ConnectionIssue = ''CriticalConnectionIssue''"
| "node_issue_display WrongPeerId = ''WrongPeerId''"
| "node_issue_display ReplicationFailure = ''ReplicationFailure''"
| "node_issue_display CloseNodesShunning = ''CloseNodesShunning''"
| "node_issue_display BadQuoting = ''BadQuoting''"
| "node_issue_display FailedChunkProofCheck = ''FailedChunkProofCheck''"

definition issue_threshold :: "node_issue \<Rightarrow> nat" where
  "issue_threshold issue = (if issue = WrongPeerId then 1 else 3)"

text \<open>The issue to evict the peer for, and the bad behaviour, of the first issue that occurs often enough.\<close>

definition issue_verdict :: "(node_issue \<times> instant) list \<Rightarrow> node_issue option \<times> node_issue option" where
  "issue_verdict issues =
    (case find (\<lambda>(issue, _). length (filter (\<lambda>(i, _). i = issue) issues) \<ge> issue_threshold issue) issues of
       None \<Rightarrow> (None, None)
     | Some (issue, _) \<Rightarrow>
         if issue = ConnectionIssue \<or> issue = WrongPeerId then (Some issue, None) else (None, Some issue))"

text \<open>The entry of a peer after an issue is reported: while the peer is not bad, old issues are dropped and the new
  one is added unless the last is recent, and the issues are judged.\<close>

definition track_issue :: "(nat \<Rightarrow> instant) \<Rightarrow> node_issue \<Rightarrow> (node_issue \<times> instant) list \<Rightarrow> (node_issue \<times> instant) list \<times> bool" where
  "track_issue now issue issue_vec =
    (let recent = filter (\<lambda>(_, t). as_secs (now 0 - t) < 300) issue_vec;
         recent = (if length recent = 10 then drop 1 recent else recent)
     in if recent = [] \<or> as_secs (now 1 - snd (last recent)) > 10 then (recent @ [(issue, now 2)], True)
        else (recent, False))"

definition issue_update ::
  "(nat \<Rightarrow> instant) \<Rightarrow> node_issue \<Rightarrow> (node_issue \<times> instant) list \<times> bool \<Rightarrow>
   ((node_issue \<times> instant) list \<times> bool) \<times> node_issue option \<times> node_issue option" where
  "issue_update now issue entry =
    (case entry of
       (issue_vec, True) \<Rightarrow> ((issue_vec, True), None, None)
     | (issue_vec, False) \<Rightarrow>
       (case track_issue now issue issue_vec of
          (issue_vec, False) \<Rightarrow> ((issue_vec, False), None, None)
        | (issue_vec, True) \<Rightarrow>
          (case issue_verdict issue_vec of
             (Some eviction_issue, bad_behaviour) \<Rightarrow>
               ((filter (\<lambda>(i, _). i \<noteq> eviction_issue) issue_vec, False), Some eviction_issue, bad_behaviour)
           | (None, bad_behaviour) \<Rightarrow> ((issue_vec, False), None, bad_behaviour))))"

definition evict_bad_peer ::
  "crates \<Rightarrow> 's swarm_api \<Rightarrow> peer_id \<Rightarrow> node_issue option \<Rightarrow> 's swarm_driver \<Rightarrow> 's swarm_driver" where
  "evict_bad_peer E W peer_id new_bad_behaviour d =
    (case remove_peer_from_rt W peer_id d of
       (d, removed) \<Rightarrow>
         (case new_bad_behaviour of
            Some bad_behaviour \<Rightarrow>
              queue_network_swarm_cmd
                (NC_SendRequest (Request_Cmd (PeerConsideredAsBad (na_from_peer E (sd_self_peer_id d))
                   (na_from_peer E peer_id) (node_issue_display bad_behaviour))) peer_id
                   (Addresses (case removed of Some as \<Rightarrow> as | None \<Rightarrow> [])) (Some (BlockAfterResponse peer_id))) d
          | None \<Rightarrow> d))"

definition record_node_issue ::
  "crates \<Rightarrow> 's swarm_api \<Rightarrow> (nat \<Rightarrow> instant) \<Rightarrow> peer_id \<Rightarrow> node_issue \<Rightarrow> 's swarm_driver \<Rightarrow> 's swarm_driver" where
  "record_node_issue E W now peer_id issue d =
    (case issue_update now issue (case map_of (sd_bad_nodes d) peer_id of Some entry \<Rightarrow> entry | None \<Rightarrow> ([], False)) of
       (entry, eviction_issue, new_bad_behaviour) \<Rightarrow>
         (let d = d\<lparr>sd_bad_nodes := AList.update peer_id entry (sd_bad_nodes d)\<rparr>
          in if eviction_issue \<noteq> None then fst (remove_peer_from_rt W peer_id d)
             else if snd entry then evict_bad_peer E W peer_id new_bad_behaviour d
             else d))"

definition peer_is_bad :: "'s swarm_driver \<Rightarrow> peer_id \<Rightarrow> bool" where
  "peer_is_bad d peer_id = (case map_of (sd_bad_nodes d) peer_id of Some (_, is_bad) \<Rightarrow> is_bad | None \<Rightarrow> False)"

definition verify_peer_quote ::
  "crates \<Rightarrow> 's swarm_api \<Rightarrow> driver_env \<Rightarrow> peer_id \<Rightarrow> payment_quote \<Rightarrow> 's swarm_driver \<Rightarrow> 's swarm_driver" where
  "verify_peer_quote E W en peer_id quote d =
    (let keep = d\<lparr>quotes_history := AList.update peer_id quote (quotes_history d)\<rparr>
     in case map_of (quotes_history d) peer_id of
          Some history_quote \<Rightarrow>
            if \<not> historical_verify (en_system en 0) (en_system en 1) history_quote quote
            then record_node_issue E W (en_now en) peer_id BadQuoting d
            else if is_newer_than history_quote quote then d
            else keep
        | None \<Rightarrow> keep)"

definition verify_quote_unless_bad ::
  "crates \<Rightarrow> 's swarm_api \<Rightarrow> driver_env \<Rightarrow> peer_id \<times> payment_quote \<Rightarrow> 's swarm_driver \<Rightarrow> 's swarm_driver" where
  "verify_quote_unless_bad E W en q d =
    (case q of (peer_id, quote) \<Rightarrow> if peer_is_bad d peer_id then d else verify_peer_quote E W en peer_id quote d)"

subsection \<open>Local commands\<close>

definition validation_type_of_record :: "crates \<Rightarrow> kad_record \<Rightarrow> validation_type option" where
  "validation_type_of_record E r =
    (case header_from_record E r of
       Ok h \<Rightarrow>
         (case kind h of
            DataOnly dt \<Rightarrow> Some (if dt = DT_Chunk then VT_Chunk else VT_NonChunk (from_content E (rvalue r)))
          | DataWithPayment _ \<Rightarrow> None
          | DataWithMerklePayment _ \<Rightarrow> None)
     | Err _ \<Rightarrow> None)"

definition send_keys_to_fetch :: "(peer_id \<times> record_key) list \<Rightarrow> 's swarm_driver \<Rightarrow> 's swarm_driver" where
  "send_keys_to_fetch keys d = (if keys = [] then d else send_event (NE_KeysToFetchForReplication keys) d)"

definition put_local_record_cmd ::
  "crates \<Rightarrow> driver_env \<Rightarrow> kad_record \<Rightarrow> bool \<Rightarrow> 's swarm_driver \<Rightarrow> ('s swarm_driver \<times> (unit, driver_error) result) option" where
  "put_local_record_cmd E en r is_client_put d =
    (case validation_type_of_record E r of
       None \<Rightarrow> Some (d, Err InCorrectRecordHeader)
     | Some record_type \<Rightarrow>
       (case put_verified E (en_now en) r record_type is_client_put (sd_store d) of
          None \<Rightarrow> None
        | Some (st, result) \<Rightarrow>
          (let d = d\<lparr>sd_store := st\<rparr>;
               d = (if result = Err MaxRecords
                    then d\<lparr>sd_fetcher := set_farthest_on_full E (get_farthest st) (sd_fetcher d)\<rparr> else d);
               (f, new_keys) = notify_about_new_put E (en_after en) (rkey r) record_type (sd_fetcher d);
               d = send_keys_to_fetch new_keys (d\<lparr>sd_fetcher := f\<rparr>);
               d = (case responsible_distance_range (sd_store d) of
                      Some distance \<Rightarrow> d\<lparr>sd_fetcher := set_replication_distance_range distance (sd_fetcher d)\<rparr>
                    | None \<Rightarrow> d)
           in Some (d, map_err KademliaStoreError result))))"

definition add_peer_to_block_list :: "'s swarm_api \<Rightarrow> peer_id \<Rightarrow> 's swarm_driver \<Rightarrow> 's swarm_driver" where
  "add_peer_to_block_list W peer_id d =
    (if cv_contains (blocklist_cache d) peer_id then d
     else
      (let (cache, evicted) = cv_push_with_eviction peer_id (blocklist_cache d);
           s = (case evicted of Some evicted_peer \<Rightarrow> sw_unblock_peer W evicted_peer (sd_swarm d) | None \<Rightarrow> sd_swarm d)
       in d\<lparr>blocklist_cache := cache, sd_swarm := sw_block_peer W peer_id s\<rparr>))"

definition remove_failed_local_record :: "crates \<Rightarrow> record_key \<Rightarrow> 's swarm_driver \<Rightarrow> 's swarm_driver" where
  "remove_failed_local_record E key d =
    (let d = d\<lparr>sd_store := store_remove E key (sd_store d), hard_disk_write_error := min (2 ^ 64 - 1) (Suc (hard_disk_write_error d))\<rparr>
     in if hard_disk_write_error d > MAX_CONTINUOUS_HDD_WRITE_ERROR
        then send_event (NE_TerminateNode HardDiskWriteError) d else d)"

definition kbuckets_by_ilog2 :: "kbucket list \<Rightarrow> (nat, peer_id list) btree_map" where
  "kbuckets_by_ilog2 kbs =
     fold (\<lambda>kb m. case ilog2 (kb_range_start kb) of
         Some distance \<Rightarrow> bt_insert distance (map fst (kb_entries kb)) m
       | None \<Rightarrow> m) kbs []"

definition with_store :: "(node_record_store \<Rightarrow> node_record_store) \<Rightarrow> 's swarm_driver \<Rightarrow> 's swarm_driver" where
  "with_store f d = d\<lparr>sd_store := f (sd_store d)\<rparr>"

fun handle_local_cmd ::
  "crates \<Rightarrow> disk_crates \<Rightarrow> 's swarm_api \<Rightarrow> driver_env \<Rightarrow> local_swarm_cmd \<Rightarrow> 's swarm_driver \<Rightarrow>
   ('s swarm_driver \<times> (unit, driver_error) result) option" where
  "handle_local_cmd E A W en LC_TriggerIntervalReplication d =
     Some (try_interval_replication E W (en_now en) d, Ok ())"
| "handle_local_cmd E A W en (LC_GetLocalQuotingMetrics key data_type data_size) d =
    (let status = get_kbuckets_status W d;
         d = update_on_kbucket_status status d;
         (metrics, is_already_stored) =
           store_quoting_metrics (en_now en 0) key data_type data_size (Some (estimated_network_size status)) (sd_store d)
     in Some (reply (LR_QuotingMetrics metrics is_already_stored) d, Ok ()))"
| "handle_local_cmd E A W en LC_PaymentReceived d = Some (with_store payment_received d, Ok ())"
| "handle_local_cmd E A W en LC_RecordNotAtTargetLocation d =
     Some (d\<lparr>sd_nwr := set_network_under_load (en_now en 0) (sd_nwr d)\<rparr>, Ok ())"
| "handle_local_cmd E A W en (LC_GetLocalRecord key) d =
    (let (st, r) = store_get E A (en_disk en) key (sd_store d)
     in Some (reply (LR_LocalRecord r) (d\<lparr>sd_store := st\<rparr>), Ok ()))"
| "handle_local_cmd E A W en (LC_PutLocalRecord r is_client_put) d = put_local_record_cmd E en r is_client_put d"
| "handle_local_cmd E A W en (LC_AddLocalRecordAsStored key record_type data_type) d =
     Some ((with_store (mark_as_stored E key record_type data_type) d)\<lparr>hard_disk_write_error := 0\<rparr>, Ok ())"
| "handle_local_cmd E A W en (LC_RemoveFailedLocalRecord key) d = Some (remove_failed_local_record E key d, Ok ())"
| "handle_local_cmd E A W en (LC_RemoveOutOfSyncEntry key) d = Some (with_store (pruning_indexing_cache E key) d, Ok ())"
| "handle_local_cmd E A W en (LC_RecordStoreHasKey key) d =
     Some (reply (LR_RecordStoreHasKey (store_contains (sd_store d) key)) d, Ok ())"
| "handle_local_cmd E A W en LC_GetAllLocalRecordAddresses d =
     Some (reply (LR_AllLocalRecordAddresses (record_addresses (sd_store d))) d, Ok ())"
| "handle_local_cmd E A W en LC_GetKBuckets d =
     Some (reply (LR_KBuckets (kbuckets_by_ilog2 (sw_kbuckets W (sd_swarm d))) (estimated_network_size (get_kbuckets_status W d))) d, Ok ())"
| "handle_local_cmd E A W en LC_GetPeersWithMultiaddr d =
     Some (reply (LR_PeersWithMultiaddr (concat (map kb_entries (sw_kbuckets W (sd_swarm d))))) d, Ok ())"
| "handle_local_cmd E A W en (LC_GetKCloseLocalPeersToTarget key) d =
     Some (reply (LR_KCloseLocalPeers (get_closest_local_peers_to_target E W key True (sw_k_value W) d)) d, Ok ())"
| "handle_local_cmd E A W en LC_GetSwarmLocalState d =
    (if en_receiver_open en
     then Some (reply (LR_SwarmLocalState (sw_connected_peers W (sd_swarm d)) (peers_in_rt d) (sw_listeners W (sd_swarm d))) d, Ok ())
     else Some (d, Err MsgChannelDropped))"
| "handle_local_cmd E A W en (LC_AddPeerToBlockList peer_id) d = Some (add_peer_to_block_list W peer_id d, Ok ())"
| "handle_local_cmd E A W en (LC_RecordNodeIssue peer_id issue) d =
     Some (record_node_issue E W (en_now en) peer_id issue d, Ok ())"
| "handle_local_cmd E A W en (LC_IsPeerShunned target) d =
     Some (reply (LR_PeerShunned (case as_peer_id E target of Some peer_id \<Rightarrow> peer_is_bad d peer_id | None \<Rightarrow> False)) d, Ok ())"
| "handle_local_cmd E A W en (LC_QuoteVerification quotes) d =
     Some (fold (verify_quote_unless_bad E W en) quotes d, Ok ())"
| "handle_local_cmd E A W en (LC_FetchCompleted key record_type) d =
    (let (f, new_keys) = notify_fetch_early_completed E (en_now en 0) key record_type (sd_fetcher d)
     in Some (send_keys_to_fetch new_keys (d\<lparr>sd_fetcher := f\<rparr>), Ok ()))"
| "handle_local_cmd E A W en LC_TriggerIrrelevantRecordCleanup d = Some (with_store (cleanup_irrelevant_records E) d, Ok ())"
| "handle_local_cmd E A W en (LC_NotifyPeerScores peer_scores) d =
     Some (d\<lparr>sd_fetcher := add_peer_scores (en_now en) (en_random_peer en) peer_scores (sd_fetcher d)\<rparr>, Ok ())"
| "handle_local_cmd E A W en (LC_AddFreshReplicateRecords holder keys) d =
     Some (add_keys_to_replication_fetcher E W (en_now en 0) holder keys True d, Ok ())"
| "handle_local_cmd E A W en (LC_NotifyPeerVersion peer version) d =
     Some (d\<lparr>peers_version := AList.update peer version (peers_version d)\<rparr>, Ok ())"
| "handle_local_cmd E A W en LC_GetNetworkDensity d =
     Some (reply (LR_NetworkDensity (responsible_distance_range (sd_store d))) d, Ok ())"
| "handle_local_cmd E A W en (LC_RemovePeer peer) d = Some (fst (remove_peer_from_rt W peer d), Ok ())"

subsection \<open>Network commands\<close>

fun handle_network_cmd ::
  "'s swarm_api \<Rightarrow> crates \<Rightarrow> driver_env \<Rightarrow> network_swarm_cmd \<Rightarrow> 's swarm_driver \<Rightarrow> 's swarm_driver \<times> (unit, driver_error) result" where
  "handle_network_cmd W E en (NC_GetClosestPeersToAddressFromNetwork key sender n) d =
    (let (s, query) = (case n of
           Some n \<Rightarrow> sw_get_n_closest_peers W (as_bytes E key) n (sd_swarm d)
         | None \<Rightarrow> sw_get_closest_peers W (as_bytes E key) (sd_swarm d))
     in (d\<lparr>sd_swarm := s, pending_get_closest_peers :=
            AList.update query (PG_FunctionCall sender, []) (pending_get_closest_peers d)\<rparr>, Ok ()))"
| "handle_network_cmd W E en (NC_SendRequest req peer as sender) d =
    (if peer = sd_self_peer_id d
     then (case req of
         Request_Query query \<Rightarrow> (send_event (NE_QueryRequestReceived query (FromSelf sender)) d, Ok ())
       | Request_Cmd _ \<Rightarrow> (d, Ok ()))
     else
      (let targets = (if addrs as = [] then fetch_peer_addresses_from_local W d peer else addrs as);
           (s, request) = (if targets = [] then sw_send_request W peer req (sd_swarm d)
                           else sw_send_request_with_addresses W peer req targets (sd_swarm d))
       in (d\<lparr>sd_swarm := s, pending_requests := AList.update request sender (pending_requests d)\<rparr>, Ok ())))"
| "handle_network_cmd W E en (NC_SendResponse resp (FromSelf (Some sender))) d =
    (if sender_open (en_channel_open en) sender then (send_response_to sender (Ok (resp, None)) d, Ok ())
     else (d, Err MsgChannelDropped))"
| "handle_network_cmd W E en (NC_SendResponse resp (FromSelf None)) d =
     (send_event (NE_ResponseReceived resp) d, Ok ())"
| "handle_network_cmd W E en (NC_SendResponse resp (FromPeer channel)) d =
    (case sw_send_response W channel resp (sd_swarm d) of
       (s, r) \<Rightarrow> (d\<lparr>sd_swarm := s\<rparr>, map_err OutgoingResponseDropped r))"

subsection \<open>Network discovery\<close>

text \<open>The candidates to ask for, the peers of one bucket with room and those of one full bucket. The random
  peers are an argument; None is the panic of an empty list of candidates.\<close>

definition bucket_peers :: "kbucket \<Rightarrow> (peer_id \<times> addresses) list" where
  "bucket_peers kb = map (\<lambda>(p, as). (p, Addresses as)) (kb_entries kb)"

definition get_refresh_targets ::
  "crates \<Rightarrow> 's swarm_api \<Rightarrow> peer_id list list \<Rightarrow> nat \<Rightarrow> 's swarm_driver \<Rightarrow>
   ('s swarm_driver \<times> network_address list \<times> (peer_id \<times> addresses) list \<times> (peer_id \<times> addresses) list) option" where
  "get_refresh_targets E W batches rr d =
    (let kbs = sw_kbuckets W (sd_swarm d);
         full = filter (full_bucket W) kbs;
         non_full = filter (\<lambda>kb. \<not> full_bucket W kb) kbs;
         (nd, targets) = get_candidates E batches (filter_map (ilog2 \<circ> kb_range_start) non_full)
            (filter_map (ilog2 \<circ> kb_range_start) full) rr (candidates (sd_network_discovery d));
         d = d\<lparr>sd_network_discovery := (sd_network_discovery d)\<lparr>candidates := nd\<rparr>\<rparr>
     in case targets of
          None \<Rightarrow> None
        | Some targets \<Rightarrow>
          if length full < 2 then Some (d, targets, [], [])
          else
           (let picked_full = bucket_peers (full ! (rr mod length full))
            in if non_full = [] then Some (d, targets, [], picked_full)
               else Some (d, targets, bucket_peers (non_full ! (rr mod length non_full)), picked_full)))"

definition start_discovery_query :: "crates \<Rightarrow> 's swarm_api \<Rightarrow> network_address \<Rightarrow> 's swarm_driver \<Rightarrow> 's swarm_driver" where
  "start_discovery_query E W addr d =
    (let (s, query) = sw_get_closest_peers W (as_bytes E addr) (sd_swarm d)
     in d\<lparr>sd_swarm := s, pending_get_closest_peers :=
           AList.update query (PG_NetworkDiscovery, []) (pending_get_closest_peers d)\<rparr>)"

definition trigger_network_discovery ::
  "crates \<Rightarrow> 's swarm_api \<Rightarrow> peer_id list list \<Rightarrow> instant \<Rightarrow> nat \<Rightarrow> 's swarm_driver \<Rightarrow> 's swarm_driver option" where
  "trigger_network_discovery E W batches now rr d =
    (case get_refresh_targets E W batches rr d of
       None \<Rightarrow> None
     | Some (d, targets, non_full_peers, full_peers) \<Rightarrow>
       (let d = fold (start_discovery_query E W) targets d;
            d = (if full_peers = [] then d else send_event (NE_PeersForVersionQuery full_peers) d);
            d = (if non_full_peers = [] then d else send_event (NE_PeersForVersionQuery non_full_peers) d)
        in Some (d\<lparr>sd_network_discovery := initiated now (sd_network_discovery d)\<rparr>)))"

definition run_network_discover_continuously ::
  "crates \<Rightarrow> 's swarm_api \<Rightarrow> (nat \<Rightarrow> int) \<Rightarrow> nat \<Rightarrow> peer_id list list \<Rightarrow> (nat \<Rightarrow> instant) \<Rightarrow> int \<Rightarrow> nat \<Rightarrow> 's swarm_driver \<Rightarrow>
   ('s swarm_driver \<times> int option) option" where
  "run_network_discover_continuously E W powered rng batches now current_interval rr d =
    (let (should_discover, new_interval) =
       should_we_discover powered rng (now 0) (peers_in_rt d) current_interval (sd_network_discovery d)
     in if should_discover
        then map_option (\<lambda>d. (d, new_interval)) (trigger_network_discovery E W batches (now 1) rr d)
        else Some (d, new_interval))"

subsection \<open>Timers\<close>

definition tick_dial_queue :: "'s swarm_api \<Rightarrow> instant \<Rightarrow> 's swarm_driver \<Rightarrow> 's swarm_driver" where
  "tick_dial_queue W now d =
    (let due = filter (\<lambda>(_, (_, wait_time, _)). now > wait_time) (dial_queue d);
         s = fold (\<lambda>(peer_id, (as, _)) s. fst (sw_dial W (Some peer_id) as s)) due (sd_swarm d)
     in d\<lparr>sd_swarm := s, dial_queue := fold (\<lambda>(peer_id, _). AList.delete peer_id) due (dial_queue d)\<rparr>)"

text \<open>The timer of the bootstrap is dropped once it reports that it has ended; the flag says so.\<close>

definition tick_bootstrap :: "'s swarm_api \<Rightarrow> 's swarm_driver \<Rightarrow> 's swarm_driver \<times> bool" where
  "tick_bootstrap W d =
    (if should_trigger_initial_bootstrap (sd_trigger d)
     then (case trigger_bootstrapping_process W (peers_in_rt d) (sd_bootstrap d) (sd_swarm d) of
         ((b, s), completed) \<Rightarrow> (d\<lparr>sd_bootstrap := b, sd_swarm := s\<rparr>, completed))
     else (d, False))"

definition tick_network_wide_replication :: "instant \<Rightarrow> bool \<Rightarrow> 's swarm_driver \<Rightarrow> 's swarm_driver" where
  "tick_network_wide_replication now channel_open d =
    (case execute now channel_open (sd_store d) (sd_nwr d) of
       (w, Some keys) \<Rightarrow> send_event (NE_NetworkWideReplication keys) (d\<lparr>sd_nwr := w\<rparr>)
     | (w, None) \<Rightarrow> d\<lparr>sd_nwr := w\<rparr>)"

definition next_round_robin :: "nat \<Rightarrow> nat" where
  "next_round_robin rr = (if Suc rr > 255 then 0 else Suc rr)"

definition tick_network_discovery ::
  "crates \<Rightarrow> 's swarm_api \<Rightarrow> (nat \<Rightarrow> int) \<Rightarrow> nat \<Rightarrow> peer_id list list \<Rightarrow> (nat \<Rightarrow> instant) \<Rightarrow> int \<Rightarrow> nat \<Rightarrow> 's swarm_driver \<Rightarrow>
   ('s swarm_driver \<times> int \<times> nat) option" where
  "tick_network_discovery E W powered rng batches now period rr d =
    (let rr = next_round_robin rr
     in case run_network_discover_continuously E W powered rng batches now period rr d of
          None \<Rightarrow> None
        | Some (d, new_interval) \<Rightarrow>
          (let kept = concat (map (map fst \<circ> kb_entries) (filter (\<lambda>kb. \<not> full_bucket W kb) (sw_kbuckets W (sd_swarm d))))
           in Some (d\<lparr>peers_version := retain (\<lambda>peer_id _. peer_id \<in> set kept) (peers_version d)\<rparr>,
                    (case new_interval of Some i \<Rightarrow> i | None \<Rightarrow> period), rr)))"

definition tick_set_farthest_record :: "crates \<Rightarrow> 's swarm_api \<Rightarrow> 's swarm_driver \<Rightarrow> 's swarm_driver" where
  "tick_set_farthest_record E W d =
    (let status = get_kbuckets_status W d;
         d = update_on_kbucket_status status d
     in if unat (estimated_network_size status) \<le> CLOSE_GROUP_SIZE then d
        else
         (let density = (- 1 :: u256) div ucast (estimated_network_size status);
              density_distance = density * word_of_nat CLOSE_GROUP_SIZE;
              closest_k_peers = get_closest_k_local_peers_to_self E W d
          in if length closest_k_peers \<le> CLOSE_GROUP_SIZE + 2 then d
             else
              (let close_peers_distance = na_distance E (na_from_peer E (sd_self_peer_id d))
                     (na_from_peer E (fst (closest_k_peers ! (CLOSE_GROUP_SIZE + 1))));
                   distance = max density_distance close_peers_distance
               in d\<lparr>sd_store := set_responsible_distance_range distance (sd_store d),
                    sd_fetcher := set_replication_distance_range distance (sd_fetcher d)\<rparr>)))"

definition tick_relay_manager :: "'s swarm_api \<Rightarrow> (nat \<Rightarrow> nat) \<Rightarrow> 's swarm_driver \<Rightarrow> 's swarm_driver" where
  "tick_relay_manager W rng d =
    (case sd_relay_manager d of
       Some m \<Rightarrow>
         (case try_connecting_to_relay W rng (sd_bad_nodes d) m (sd_swarm d) of
            (m, s) \<Rightarrow> d\<lparr>sd_relay_manager := Some m, sd_swarm := s\<rparr>)
     | None \<Rightarrow> d)"

end
