(* ===== verification/Driver_Events.thy ===== *)
theory Driver_Events
  imports Swarm_Driver
begin

text \<open>
  The events of the swarm, as the driver handles them (\<^verbatim>\<open>ant-node/src/networking/driver/event/\<close>): requests and
  responses (\<^verbatim>\<open>request_response.rs\<close>), progress of Kademlia queries and changes of the routing table
  (\<^verbatim>\<open>kad.rs\<close>), what peers say of themselves (\<^verbatim>\<open>identify.rs\<close>), and connections, listeners and addresses
  (\<^verbatim>\<open>swarm.rs\<close>). The events come from the third-party swarm; their datatypes have the constructors and the
  fields the handlers match on.

  A handler that may panic or never return has an optional result.
\<close>

section \<open>Definitions\<close>

definition CONNECTION_PRUNE_AFTER_SECS :: nat where "CONNECTION_PRUNE_AFTER_SECS = 120"
definition DIAL_BACK_DELAY :: nat where "DIAL_BACK_DELAY = 180"

subsection \<open>Requests and responses\<close>

datatype req_resp_event =
    RR_Request peer_id connection_id request channel_id
  | RR_Response peer_id connection_id request_id response
  | RR_OutboundFailure peer_id connection_id request_id string
  | RR_InboundFailure
  | RR_ResponseSent

definition refresh_connection :: "instant \<Rightarrow> connection_id \<Rightarrow> 's swarm_driver \<Rightarrow> 's swarm_driver" where
  "refresh_connection now connection_id d =
    (case map_of (live_connected_peers d) connection_id of
       Some (peer_id, addr, _) \<Rightarrow>
         d\<lparr>live_connected_peers := bt_insert connection_id (peer_id, addr, now + from_secs CONNECTION_PRUNE_AFTER_SECS)
             (live_connected_peers d)\<rparr>
     | None \<Rightarrow> d)"

definition respond_cmd :: "cmd_response \<Rightarrow> channel_id \<Rightarrow> 's swarm_driver \<Rightarrow> 's swarm_driver" where
  "respond_cmd response channel d = queue_network_swarm_cmd (NC_SendResponse (Response_Cmd response) (FromPeer channel)) d"

fun handle_request ::
  "crates \<Rightarrow> 's swarm_api \<Rightarrow> instant \<Rightarrow> request \<Rightarrow> channel_id \<Rightarrow> 's swarm_driver \<Rightarrow> 's swarm_driver" where
  "handle_request E W now (Request_Cmd (Replicate holder keys)) channel d =
     add_keys_to_replication_fetcher E W now holder keys False (respond_cmd (CR_Replicate (Ok ())) channel d)"
| "handle_request E W now (Request_Cmd (FreshReplicate holder keys)) channel d =
     send_event (NE_FreshReplicateToFetch holder keys) (respond_cmd (CR_FreshReplicate (Ok ())) channel d)"
| "handle_request E W now (Request_Cmd (PeerConsideredAsBad _ _ _)) channel d =
     respond_cmd (CR_PeerConsideredAsBad (Ok ())) channel d"
| "handle_request E W now (Request_Query query) channel d =
     send_event (NE_QueryRequestReceived query (FromPeer channel)) d"

fun handle_req_resp_events ::
  "crates \<Rightarrow> 's swarm_api \<Rightarrow> driver_env \<Rightarrow> req_resp_event \<Rightarrow> 's swarm_driver \<Rightarrow> 's swarm_driver \<times> (unit, driver_error) result" where
  "handle_req_resp_events E W en (RR_Request peer connection_id request channel) d =
     (handle_request E W (en_now en 1) request channel (refresh_connection (en_now en 0) connection_id d), Ok ())"
| "handle_req_resp_events E W en (RR_Response peer connection_id request_id response) d =
    (case map_of (pending_requests d) request_id of
       Some sender \<Rightarrow>
         (let d = d\<lparr>pending_requests := AList.delete request_id (pending_requests d)\<rparr>;
              connection_info = map_option (\<lambda>(peer_id, multiaddr, _). \<lparr>ci_peer_id = peer_id, ci_response_origin = multiaddr\<rparr>)
                (map_of (live_connected_peers d) connection_id)
          in case sender of
               Some sender \<Rightarrow>
                 if sender_open (en_channel_open en) sender
                 then (send_response_to sender (Ok (response, connection_info)) d, Ok ())
                 else (d, Err MsgChannelDropped)
             | None \<Rightarrow>
                 if response = Response_Cmd (CR_Replicate (Ok ())) then (d, Ok ())
                 else (send_event (NE_ResponseReceived response) d, Ok ()))
     | None \<Rightarrow> (d, Ok ()))"
| "handle_req_resp_events E W en (RR_OutboundFailure peer connection_id request_id error) d =
    (case map_of (pending_requests d) request_id of
       Some sender \<Rightarrow>
         (let d = d\<lparr>pending_requests := AList.delete request_id (pending_requests d)\<rparr>
          in case sender of
               Some sender \<Rightarrow>
                 if sender_open (en_channel_open en) sender then (send_response_to sender (Err error) d, Ok ())
                 else (d, Err MsgChannelDropped)
             | None \<Rightarrow> (d, Err (ReceivedResponseDropped request_id)))
     | None \<Rightarrow> (d, Err (ReceivedResponseDropped request_id)))"
| "handle_req_resp_events E W en RR_InboundFailure d = (d, Ok ())"
| "handle_req_resp_events E W en RR_ResponseSent d = (d, Ok ())"

subsection \<open>Kademlia\<close>

datatype kad_event =
    KE_GetClosestPeersOk query_id "(peer_id \<times> multiaddr list) list" bool
  | KE_GetClosestPeersTimeout query_id "(peer_id \<times> multiaddr list) list"
  | KE_RoutingUpdated peer_id bool "peer_id option" "multiaddr list"
  | KE_Ignored

definition peers_info :: "(peer_id \<times> multiaddr list) list \<Rightarrow> (peer_id \<times> addresses) list" where
  "peers_info peers = map (\<lambda>(p, as). (p, Addresses as)) peers"

definition send_closest_peers ::
  "(channel_id \<Rightarrow> bool) \<Rightarrow> channel_id \<Rightarrow> (peer_id \<times> addresses) list \<Rightarrow> 's swarm_driver \<Rightarrow> 's swarm_driver" where
  "send_closest_peers is_open sender peers d =
    (if is_open sender then d\<lparr>sd_channel_msgs := sd_channel_msgs d @ [(sender, CM_ClosestPeers peers)]\<rparr> else d)"

definition remove_pending_closest :: "query_id \<Rightarrow> 's swarm_driver \<Rightarrow> 's swarm_driver" where
  "remove_pending_closest qid d = d\<lparr>pending_get_closest_peers := AList.delete qid (pending_get_closest_peers d)\<rparr>"

definition discovered :: "crates \<Rightarrow> (peer_id \<times> addresses) list \<Rightarrow> 's swarm_driver \<Rightarrow> 's swarm_driver" where
  "discovered E peers d = d\<lparr>sd_network_discovery := handle_get_closest_query E peers (sd_network_discovery d)\<rparr>"

text \<open>The first peer of the routing table starts the network discovery.\<close>

definition routing_updated ::
  "crates \<Rightarrow> 's swarm_api \<Rightarrow> peer_id list list \<Rightarrow> (nat \<Rightarrow> instant) \<Rightarrow> peer_id \<Rightarrow> bool \<Rightarrow> peer_id option \<Rightarrow> multiaddr list \<Rightarrow>
   's swarm_driver \<Rightarrow> 's swarm_driver option" where
  "routing_updated E W batches now peer is_new_peer old_peer as d =
    (case (if is_new_peer
           then (let d = update_on_peer_addition W peer (Addresses as) d;
                     (n, first) = notify_new_peer (now 0) (sd_network_discovery d);
                     d = d\<lparr>sd_network_discovery := n\<rparr>
                 in if first then trigger_network_discovery E W batches (now 1) 0 d else Some d)
           else Some d) of
       None \<Rightarrow> None
     | Some d \<Rightarrow> Some (case old_peer of Some old_peer \<Rightarrow> update_on_peer_removal W old_peer d | None \<Rightarrow> d))"

fun handle_kad_event ::
  "crates \<Rightarrow> 's swarm_api \<Rightarrow> peer_id list list \<Rightarrow> driver_env \<Rightarrow> kad_event \<Rightarrow> 's swarm_driver \<Rightarrow>
   ('s swarm_driver \<times> (unit, driver_error) result) option" where
  "handle_kad_event E W batches en (KE_GetClosestPeersOk qid peers is_last) d =
    (case map_of (pending_get_closest_peers d) qid of
       Some (get_closest_type, current_closest) \<Rightarrow>
         (let current_closest = current_closest @ peers_info peers
          in if length current_closest \<ge> sw_k_value W \<or> is_last
             then (let d = remove_pending_closest qid d
                   in case get_closest_type of
                        PG_NetworkDiscovery \<Rightarrow> Some (discovered E current_closest d, Ok ())
                      | PG_FunctionCall sender \<Rightarrow>
                          Some (send_closest_peers (en_channel_open en) sender current_closest d, Ok ()))
             else Some (d\<lparr>pending_get_closest_peers :=
               AList.update qid (get_closest_type, current_closest) (pending_get_closest_peers d)\<rparr>, Ok ()))
     | None \<Rightarrow> Some (d, Err (ReceivedKademliaEventDropped qid ''GetClosestPeers Ok'')))"
| "handle_kad_event E W batches en (KE_GetClosestPeersTimeout qid peers) d =
    (case map_of (pending_get_closest_peers d) qid of
       Some (get_closest_type, current_closest) \<Rightarrow>
         (let d = remove_pending_closest qid d;
              current_closest = current_closest @ peers_info peers
          in case get_closest_type of
               PG_NetworkDiscovery \<Rightarrow> Some (discovered E current_closest d, Ok ())
             | PG_FunctionCall sender \<Rightarrow> Some (send_closest_peers (en_channel_open en) sender [] d, Ok ()))
     | None \<Rightarrow> Some (d, Err (ReceivedKademliaEventDropped qid ''Get ClosestPeers error'')))"
| "handle_kad_event E W batches en (KE_RoutingUpdated peer is_new_peer old_peer as) d =
     map_option (\<lambda>d. (d, Ok ())) (routing_updated E W batches (en_now en) peer is_new_peer old_peer as d)"
| "handle_kad_event E W batches en KE_Ignored d = Some (d, Ok ())"

subsection \<open>Identify\<close>

record identify_info =
  id_protocol_version :: string
  id_agent_version :: string
  id_listen_addrs :: "multiaddr list"
  id_protocols :: "string list"

definition does_the_peer_support_dnd :: "identify_info \<Rightarrow> bool" where
  "does_the_peer_support_dnd info = list_ex (\<lambda>protocol. str_contains protocol ''autonomi/dnd'') (id_protocols info)"

definition update_pre_existing_peer ::
  "'s swarm_api \<Rightarrow> peer_id \<Rightarrow> multiaddr list \<Rightarrow> bool \<Rightarrow> 's swarm_driver \<Rightarrow> 's swarm_driver" where
  "update_pre_existing_peer W peer_id new_addrs is_relayed_peer d =
    (case sw_kbucket W (sd_swarm d) peer_id of
       None \<Rightarrow> d
     | Some kb \<Rightarrow>
       (case find (\<lambda>(p, _). p = peer_id) (kb_entries kb) of
          None \<Rightarrow> d
        | Some (_, stored) \<Rightarrow>
          (let existing_addrs = map multiaddr_strip_p2p stored;
               addresses_to_add = filter (\<lambda>a. a \<notin> set existing_addrs) (unique new_addrs);
               addresses_to_remove = (if is_relayed_peer then filter (\<lambda>a. a \<notin> set new_addrs) (unique existing_addrs) else []);
               s = fold (sw_remove_address W peer_id) addresses_to_remove (sd_swarm d);
               s = fold (sw_add_address W peer_id) addresses_to_add s
           in d\<lparr>sd_swarm := s\<rparr>)))"

text \<open>The entry of the dial queue for a peer that was identified again, and whether the peer has been put off
  three times.\<close>

definition requeue_dial ::
  "(nat \<Rightarrow> instant) \<Rightarrow> multiaddr list \<Rightarrow> bool \<Rightarrow> bool \<Rightarrow> multiaddr list \<times> instant \<times> nat \<Rightarrow>
   (multiaddr list \<times> instant \<times> nat) \<times> bool" where
  "requeue_dial now as is_relayed_peer support_dnd entry =
    (case entry of (old_addrs, _, resets) \<Rightarrow>
      (let resets = Suc resets;
           time = (if resets \<ge> 3 \<and> \<not> support_dnd then now 1 else now 0 + from_secs DIAL_BACK_DELAY);
           old_addrs = fold (\<lambda>a acc. if a \<notin> set acc then acc @ [a] else acc) as old_addrs;
           old_addrs = (if is_relayed_peer then filter has_circuit old_addrs else old_addrs)
       in ((old_addrs, time, resets), resets \<ge> 3)))"

definition queue_dial_back ::
  "(nat \<Rightarrow> instant) \<Rightarrow> peer_id \<Rightarrow> identify_info \<Rightarrow> multiaddr list \<Rightarrow> bool \<Rightarrow> 's swarm_driver \<Rightarrow> 's swarm_driver" where
  "queue_dial_back now peer_id info as is_relayed_peer d =
    (let support_dnd = does_the_peer_support_dnd info;
         (entry, send_dnd) = (case map_of (dial_queue d) peer_id of
             Some entry \<Rightarrow> requeue_dial now as is_relayed_peer support_dnd entry
           | None \<Rightarrow> ((as, now 0 + from_secs DIAL_BACK_DELAY, 1), False));
         d = d\<lparr>dial_queue := AList.update peer_id entry (dial_queue d)\<rparr>
     in if send_dnd \<and> support_dnd
        then d\<lparr>sd_dnd := send_do_not_disturb_request peer_id (DIAL_BACK_DELAY + 20) (sd_dnd d)\<rparr> else d)"

text \<open>The addresses to reach an identified peer at; None when the address of the connection has no IPv4
  address or port.\<close>

definition identified_addrs :: "multiaddr \<Rightarrow> identify_info \<Rightarrow> multiaddr list option" where
  "identified_addrs addr_from_connection info =
    (if \<not> is_a_relayed_peer (id_listen_addrs info)
     then map_option (\<lambda>a. [a]) (craft_valid_multiaddr_without_p2p addr_from_connection)
     else Some (unique (filter_map (\<lambda>a. craft_relay_address a None) (id_listen_addrs info))))"

text \<open>What follows once the protocol and the version of a peer are accepted.\<close>

definition handle_identified_peer ::
  "'s swarm_api \<Rightarrow> (nat \<Rightarrow> instant) \<Rightarrow> peer_id \<Rightarrow> identify_info \<Rightarrow> multiaddr \<Rightarrow> 's swarm_driver \<Rightarrow> 's swarm_driver" where
  "handle_identified_peer W now peer_id info addr_from_connection d =
    (let has_dialed = cv_contains (dialed_peers d) peer_id;
         is_relayed_peer = is_a_relayed_peer (id_listen_addrs info)
     in case identified_addrs addr_from_connection info of
          None \<Rightarrow> d
        | Some as \<Rightarrow>
          if str_contains (id_agent_version info) ''reachability-check-peer''
          then d\<lparr>dial_queue := AList.update peer_id (as, now 0 + from_secs DIAL_BACK_DELAY, 1) (dial_queue d)\<rparr>
          else if str_contains (id_agent_version info) ''client'' then d
          else
           (let d = (if \<not> is_relayed_peer \<and> \<not> is_bootstrap_peer (sd_bootstrap d) peer_id
                     then d\<lparr>sd_relay_manager :=
                       map_option (add_potential_candidates peer_id as (id_protocols info)) (sd_relay_manager d)\<rparr>
                     else d)
            in case sw_kbucket W (sd_swarm d) peer_id of
                 None \<Rightarrow> d
               | Some kb \<Rightarrow>
                 if list_ex (\<lambda>(p, _). p = peer_id) (kb_entries kb) then update_pre_existing_peer W peer_id as is_relayed_peer d
                 else if \<not> sd_local d \<and> \<not> has_dialed
                 then (if full_bucket W kb \<and> \<not> contains_key (dial_queue d) peer_id then d
                       else queue_dial_back now peer_id info as is_relayed_peer d)
                 else d\<lparr>sd_swarm := fold (sw_add_address W peer_id) as (sd_swarm d)\<rparr>))"

text \<open>The arguments are our identify protocol and the environment variable with the least version of nodes.\<close>

definition handle_identify_received ::
  "'s swarm_api \<Rightarrow> string \<Rightarrow> string option \<Rightarrow> (nat \<Rightarrow> instant) \<Rightarrow> peer_id \<Rightarrow> identify_info \<Rightarrow> connection_id \<Rightarrow>
   's swarm_driver \<Rightarrow> 's swarm_driver" where
  "handle_identify_received W our_protocol min_version_env now peer_id info connection_id d =
    (if peer_id \<in> set (sw_blocked_peers W (sd_swarm d))
     then d\<lparr>sd_swarm := sw_disconnect_peer_id W peer_id (sd_swarm d)\<rparr>
     else case map_of (live_connected_peers d) connection_id of
       None \<Rightarrow> d
     | Some (_, addr_from_connection, _) \<Rightarrow>
       if id_protocol_version info \<noteq> our_protocol
       then (let d = send_event (NE_PeerWithUnsupportedProtocol our_protocol (id_protocol_version info)) d;
                 d = d\<lparr>sd_swarm := sw_block_peer W peer_id (sd_swarm d)\<rparr>
             in fst (remove_peer_from_rt W peer_id d))
       else
        (let peer_type = peer_type_from_agent_string (id_agent_version info);
             min_node_version = get_min_node_version min_version_env;
             version_result = check_peer_version (id_agent_version info)
               (if peer_type = Node_Peer then Some min_node_version else None);
             d = send_event (NE_PeerVersionChecked peer_id peer_type version_result) d
         in if peer_type = Node_Peer \<and> \<not> (case version_result of Accepted _ \<Rightarrow> True | _ \<Rightarrow> False)
            then (let d = send_event (NE_PeerVersionRejected peer_id peer_type version_result (version_display min_node_version)) d
                  in d\<lparr>sd_swarm := sw_disconnect_peer_id W peer_id (sd_swarm d)\<rparr>)
            else handle_identified_peer W now peer_id info addr_from_connection d))"

subsection \<open>Connections\<close>

fun remote_address :: "connected_point \<Rightarrow> multiaddr" where
  "remote_address (Dialer address) = address"
| "remote_address (Listener_Point _ send_back_addr) = send_back_addr"

definition in_routing_table :: "'s swarm_api \<Rightarrow> 's \<Rightarrow> peer_id \<Rightarrow> bool" where
  "in_routing_table W s peer_id =
    (case sw_kbucket W s peer_id of Some kb \<Rightarrow> list_ex (\<lambda>(p, _). p = peer_id) (kb_entries kb) | None \<Rightarrow> False)"

text \<open>A connection is kept before its deadline, and after it while the peer is in the routing table, relays for
  us or is relayed by us.\<close>

definition retain_connection :: "'s swarm_api \<Rightarrow> instant \<Rightarrow> 's swarm_driver \<Rightarrow> peer_id \<times> multiaddr \<times> instant \<Rightarrow> bool" where
  "retain_connection W now d c \<longleftrightarrow>
    (case c of (peer_id, _, timeout_time) \<Rightarrow>
       now < timeout_time \<or> in_routing_table W (sd_swarm d) peer_id \<or>
       (case sd_relay_manager d of Some m \<Rightarrow> keep_alive_peer m peer_id | None \<Rightarrow> False) \<or>
       peer_id \<in> set (connected_relay_clients d))"

text \<open>The deadline of each connection is checked with a reading of the clock of its own.\<close>

definition remove_outdated_connections :: "'s swarm_api \<Rightarrow> (nat \<Rightarrow> instant) \<Rightarrow> 's swarm_driver \<Rightarrow> 's swarm_driver" where
  "remove_outdated_connections W now d =
    (if now 0 < last_connection_pruning_time d + from_secs 30 then d
     else
      (let d = d\<lparr>last_connection_pruning_time := now 1\<rparr>;
           (kept, s) = fold (\<lambda>(i, c, v) (kept, s).
               if retain_connection W (now i) (d\<lparr>sd_swarm := s\<rparr>) v then (kept @ [(c, v)], s)
               else (kept, sw_close_connection W c s))
             (enumerate 2 (live_connected_peers d)) ([], sd_swarm d)
       in d\<lparr>live_connected_peers := kept, sd_swarm := s\<rparr>))"

definition oldest_connection :: "(connection_id, multiaddr \<times> instant) hash_map \<Rightarrow> connection_id option" where
  "oldest_connection m =
    (case m of
       [] \<Rightarrow> None
     | e # es \<Rightarrow> Some (fst (fold (\<lambda>x best. if snd (snd x) < snd (snd best) then x else best) es e)))"

function drop_oldest_connections :: "(connection_id, multiaddr \<times> instant) hash_map \<Rightarrow> (connection_id, multiaddr \<times> instant) hash_map" where
  "drop_oldest_connections m =
    (if length m \<ge> 50
     then (case oldest_connection m of None \<Rightarrow> m | Some k \<Rightarrow> drop_oldest_connections (AList.delete k m))
     else m)"
  by pat_completeness auto
termination
proof (relation "measure length")
  fix m :: "(connection_id, multiaddr \<times> instant) hash_map" and k
  assume *: "oldest_connection m = Some k"
  have best: "fold (\<lambda>x best. if snd (snd x) < snd (snd best) then x else best) es e \<in> insert e (set es)"
    for es and e :: "connection_id \<times> multiaddr \<times> instant"
    by (induction es arbitrary: e) auto
  from * obtain e es where m: "m = e # es"
    "k = fst (fold (\<lambda>x best. if snd (snd x) < snd (snd best) then x else best) es e)"
    by (auto simp: oldest_connection_def split: list.splits)
  have "k \<in> fst ` set m" unfolding m(2) using best [where es = es and e = e] m(1) by force
  then show "(AList.delete k m, m) \<in> measure length"
    by (auto simp: AList.delete_eq intro!: length_filter_less)
qed simp

declare drop_oldest_connections.simps [simp del]

definition insert_latest_established_connection_ids ::
  "instant \<Rightarrow> connection_id \<Rightarrow> multiaddr \<Rightarrow> 's swarm_driver \<Rightarrow> 's swarm_driver" where
  "insert_latest_established_connection_ids now c addr d =
     d\<lparr>latest_established_connection_ids :=
       drop_oldest_connections (AList.update c (addr, now) (latest_established_connection_ids d))\<rparr>"

text \<open>Whether errors of the transport count as an issue of the peer; \<open>bootstrapping\<close> says that the peer is one
  of the bootstrap, which still runs. The flags are for a serious issue and for no supported address.\<close>

fun transport_issue :: "bool \<Rightarrow> (multiaddr \<times> transport_error) list \<Rightarrow> bool \<Rightarrow> bool \<Rightarrow> bool" where
  "transport_issue bootstrapping [] serious all_not_supported = (all_not_supported \<or> serious)"
| "transport_issue bootstrapping ((_, MultiaddrNotSupported _) # errors) serious all_not_supported =
     transport_issue bootstrapping errors serious all_not_supported"
| "transport_issue bootstrapping ((_, TransportOther error_msg) # errors) serious all_not_supported =
     transport_issue bootstrapping errors
       (if bootstrapping then False
        else if list_ex (str_contains error_msg) [''ConnectionRefused'', ''HostUnreachable'', ''HandshakeTimedOut'']
        then True else serious) False"

fun issue_of_dial_error :: "bool \<Rightarrow> dial_error \<Rightarrow> node_issue option" where
  "issue_of_dial_error bootstrapping (DE_Transport errors) =
     (if transport_issue bootstrapping errors False True then Some ConnectionIssue else None)"
| "issue_of_dial_error bootstrapping DE_NoAddresses = Some ConnectionIssue"
| "issue_of_dial_error bootstrapping DE_Aborted = None"
| "issue_of_dial_error bootstrapping DE_DialPeerConditionFalse = None"
| "issue_of_dial_error bootstrapping (DE_LocalPeerId _) = Some ConnectionIssue"
| "issue_of_dial_error bootstrapping (DE_WrongPeerId _ _) = Some WrongPeerId"
| "issue_of_dial_error bootstrapping (DE_Denied _) = Some ConnectionIssue"

text \<open>The address to dial again when another peer answered at it.\<close>

fun redial_of_dial_error :: "dial_error \<Rightarrow> (multiaddr \<times> peer_id) option" where
  "redial_of_dial_error (DE_WrongPeerId obtained address) =
    (if components address \<noteq> [] \<and> is_P2p (last (components address))
     then Some (Multiaddr (butlast (components address) @ [P2p obtained]), obtained) else None)"
| "redial_of_dial_error _ = None"

definition on_outgoing_connection_error ::
  "crates \<Rightarrow> 's swarm_api \<Rightarrow> (nat \<Rightarrow> instant) \<Rightarrow> connection_id \<Rightarrow> peer_id \<Rightarrow> dial_error \<Rightarrow> 's swarm_driver \<Rightarrow> 's swarm_driver" where
  "on_outgoing_connection_error E W now connection_id failed_peer_id error d =
    (let d = d\<lparr>live_connected_peers := AList.delete connection_id (live_connected_peers d)\<rparr>;
         d = d\<lparr>sd_bootstrap := bs_on_outgoing_connection_error (Some failed_peer_id) (sd_bootstrap d)\<rparr>;
         bootstrapping = (is_bootstrap_peer (sd_bootstrap d) failed_peer_id \<and> \<not> bs_has_terminated (sd_bootstrap d));
         d = (case issue_of_dial_error bootstrapping error of
                Some issue \<Rightarrow> record_node_issue E W now failed_peer_id issue d
              | None \<Rightarrow> d)
     in case redial_of_dial_error error of
          Some (addr, remote_peer_id) \<Rightarrow> d\<lparr>sd_swarm := fst (sw_dial W (Some remote_peer_id) [addr] (sd_swarm d))\<rparr>
        | None \<Rightarrow> d)"

definition on_connection_established_event ::
  "driver_env \<Rightarrow> peer_id \<Rightarrow> connected_point \<Rightarrow> connection_id \<Rightarrow> 's swarm_driver \<Rightarrow> 's swarm_driver" where
  "on_connection_established_event en peer_id endpoint connection_id d =
    (let d = d\<lparr>sd_bootstrap := bs_on_connection_established peer_id endpoint (sd_bootstrap d)\<rparr>;
         d = (case endpoint of
                Listener_Point local_addr _ \<Rightarrow> d\<lparr>sd_external_address_manager :=
                  map_option (on_established_incoming_connection local_addr) (sd_external_address_manager d)\<rparr>
              | Dialer _ \<Rightarrow> d);
         d = d\<lparr>sd_relay_manager :=
           map_option (rm_on_connection_established (en_system en 0) peer_id connection_id) (sd_relay_manager d)\<rparr>;
         d = d\<lparr>live_connected_peers := bt_insert connection_id
           (peer_id, remote_address endpoint, en_now en 0 + from_secs CONNECTION_PRUNE_AFTER_SECS) (live_connected_peers d)\<rparr>;
         d = insert_latest_established_connection_ids (en_now en 1) connection_id (remote_address endpoint) d
     in case endpoint of
          Dialer _ \<Rightarrow> d\<lparr>dialed_peers := cv_push peer_id (dialed_peers d)\<rparr>
        | Listener_Point _ _ \<Rightarrow> d)"

subsection \<open>Listen addresses\<close>

definition add_sync_and_flush_cache :: "system_time \<Rightarrow> json_api \<Rightarrow> bool \<Rightarrow> multiaddr \<Rightarrow> 's swarm_driver \<Rightarrow> 's swarm_driver" where
  "add_sync_and_flush_cache now J dir_ok addr d =
    (let old_cache = bs_cache_store (sd_bootstrap d)
     in case cache_store_new now J dir_ok (bcs_config old_cache) of
          Ok cache \<Rightarrow> d\<lparr>sd_bootstrap := (sd_bootstrap d)\<lparr>bs_cache_store := cache\<rparr>,
                        sd_cache_tasks := sd_cache_tasks d @ [CT_AddAndFlush old_cache addr]\<rparr>
        | Err _ \<Rightarrow> d)"

definition with_address_manager ::
  "(external_address_manager \<Rightarrow> 's \<Rightarrow> external_address_manager \<times> 's) \<Rightarrow> 's swarm_driver \<Rightarrow> 's swarm_driver" where
  "with_address_manager f d =
    (case sd_external_address_manager d of
       Some m \<Rightarrow> (case f m (sd_swarm d) of (m, s) \<Rightarrow> d\<lparr>sd_external_address_manager := Some m, sd_swarm := s\<rparr>)
     | None \<Rightarrow> d)"

definition with_relay_manager :: "(relay_manager \<Rightarrow> 's \<Rightarrow> relay_manager \<times> 's) \<Rightarrow> 's swarm_driver \<Rightarrow> 's swarm_driver" where
  "with_relay_manager f d =
    (case sd_relay_manager d of
       Some m \<Rightarrow> (case f m (sd_swarm d) of (m, s) \<Rightarrow> d\<lparr>sd_relay_manager := Some m, sd_swarm := s\<rparr>)
     | None \<Rightarrow> d)"

definition on_new_listen_addr_event ::
  "'s swarm_api \<Rightarrow> system_time \<Rightarrow> json_api \<Rightarrow> bool \<Rightarrow> multiaddr \<Rightarrow> 's swarm_driver \<Rightarrow> 's swarm_driver" where
  "on_new_listen_addr_event W now J dir_ok address d =
    (let ours = P2p (sd_self_peer_id d);
         address = (if components address \<noteq> [] \<and> last (components address) = ours then address
                    else Multiaddr (components address @ [ours]));
         d = (if is_relay_client d then d
              else if sd_local d
              then add_sync_and_flush_cache now J dir_ok address (d\<lparr>sd_swarm := sw_add_external_address W address (sd_swarm d)\<rparr>)
              else with_address_manager (on_new_listen_addr W address) d);
         d = d\<lparr>sd_trigger := (sd_trigger d)\<lparr>listen_addr_obtained := True\<rparr>\<rparr>
     in send_event (NE_NewListenAddr address) d)"

subsection \<open>Swarm events\<close>

datatype swarm_event =
    SE_MsgReceived req_resp_event
  | SE_Kademlia kad_event
  | SE_RelayReservationAccepted peer_id bool
  | SE_UpnpGatewayNotFound
  | SE_UpnpNewExternalAddr
  | SE_UpnpNonRoutableGateway
  | SE_RelayServerReservationAccepted peer_id
  | SE_RelayServerReservationTimedOut peer_id
  | SE_IdentifyReceived peer_id identify_info connection_id
  | SE_NewListenAddr multiaddr
  | SE_ListenerClosed listener_id
  | SE_IncomingConnection connection_id multiaddr multiaddr
  | SE_ConnectionEstablished peer_id connected_point connection_id
  | SE_ConnectionClosed peer_id connection_id nat
  | SE_OutgoingConnectionError connection_id "peer_id option" dial_error
  | SE_IncomingConnectionError connection_id multiaddr
  | SE_NewExternalAddrCandidate multiaddr
  | SE_ExpiredListenAddr multiaddr
  | SE_Logged

text \<open>What the handlers of events read besides \<open>driver_env\<close>: the random peers of a discovery, the formats and
  directory of the bootstrap cache, the identify protocol and the environment variable of the least version,
  and the clock of the connection pruning that ends every event.\<close>

record event_env =
  ev_driver :: driver_env
  ev_batches :: "peer_id list list"
  ev_json :: json_api
  ev_dir_ok :: bool
  ev_protocol :: string
  ev_min_version :: "string option"
  ev_prune_clock :: "nat \<Rightarrow> instant"

fun on_swarm_event ::
  "crates \<Rightarrow> 's swarm_api \<Rightarrow> event_env \<Rightarrow> swarm_event \<Rightarrow> 's swarm_driver \<Rightarrow>
   ('s swarm_driver \<times> (unit, driver_error) result) option" where
  "on_swarm_event E W ev (SE_MsgReceived e) d = Some (fst (handle_req_resp_events E W (ev_driver ev) e d), Ok ())"
| "on_swarm_event E W ev (SE_Kademlia e) d = handle_kad_event E W (ev_batches ev) (ev_driver ev) e d"
| "on_swarm_event E W ev (SE_RelayReservationAccepted relay_peer_id renewal) d =
    Some (if renewal then d
          else with_relay_manager (on_successful_reservation_by_client W relay_peer_id (live_connected_peers d)) d, Ok ())"
| "on_swarm_event E W ev SE_UpnpGatewayNotFound d = Some (send_event (NE_TerminateNode UpnpGatewayNotFound) d, Ok ())"
| "on_swarm_event E W ev SE_UpnpNewExternalAddr d =
    Some (d\<lparr>sd_trigger := (sd_trigger d)\<lparr>upnp_gateway_result_obtained := True\<rparr>\<rparr>, Ok ())"
| "on_swarm_event E W ev SE_UpnpNonRoutableGateway d =
    Some (d\<lparr>sd_trigger := (sd_trigger d)\<lparr>upnp_gateway_result_obtained := True\<rparr>\<rparr>, Ok ())"
| "on_swarm_event E W ev (SE_RelayServerReservationAccepted src_peer_id) d =
    Some (d\<lparr>connected_relay_clients := List.insert src_peer_id (connected_relay_clients d)\<rparr>, Ok ())"
| "on_swarm_event E W ev (SE_RelayServerReservationTimedOut src_peer_id) d =
    Some (d\<lparr>connected_relay_clients := removeAll src_peer_id (connected_relay_clients d)\<rparr>, Ok ())"
| "on_swarm_event E W ev (SE_IdentifyReceived peer_id info connection_id) d =
    Some (handle_identify_received W (ev_protocol ev) (ev_min_version ev) (en_now (ev_driver ev)) peer_id info connection_id d, Ok ())"
| "on_swarm_event E W ev (SE_NewListenAddr address) d =
    Some (on_new_listen_addr_event W (en_system (ev_driver ev) 0) (ev_json ev) (ev_dir_ok ev) address d, Ok ())"
| "on_swarm_event E W ev (SE_ListenerClosed listener_id) d =
    Some (with_relay_manager (on_listener_closed W listener_id) d, Ok ())"
| "on_swarm_event E W ev (SE_IncomingConnection connection_id local_addr send_back_addr) d =
    Some (d\<lparr>sd_relay_manager := map_option
      (rm_on_incoming_connection (en_system (ev_driver ev) 0) connection_id local_addr send_back_addr) (sd_relay_manager d)\<rparr>, Ok ())"
| "on_swarm_event E W ev (SE_ConnectionEstablished peer_id endpoint connection_id) d =
    Some (on_connection_established_event (ev_driver ev) peer_id endpoint connection_id d, Ok ())"
| "on_swarm_event E W ev (SE_ConnectionClosed peer_id connection_id num_established) d =
    (let d = d\<lparr>live_connected_peers := AList.delete connection_id (live_connected_peers d)\<rparr>
     in Some (if num_established = 0 then d\<lparr>connected_relay_clients := removeAll peer_id (connected_relay_clients d)\<rparr> else d, Ok ()))"
| "on_swarm_event E W ev (SE_OutgoingConnectionError connection_id None error) d =
    Some (d\<lparr>sd_bootstrap := bs_on_outgoing_connection_error None (sd_bootstrap d)\<rparr>, Ok ())"
| "on_swarm_event E W ev (SE_OutgoingConnectionError connection_id (Some failed_peer_id) error) d =
    Some (on_outgoing_connection_error E W (en_now (ev_driver ev)) connection_id failed_peer_id error d, Ok ())"
| "on_swarm_event E W ev (SE_IncomingConnectionError connection_id send_back_addr) d =
    (let d = d\<lparr>sd_relay_manager := map_option
           (rm_on_incomming_connection_error (en_system (ev_driver ev) 0) send_back_addr connection_id) (sd_relay_manager d)\<rparr>
     in Some (d\<lparr>live_connected_peers := AList.delete connection_id (live_connected_peers d)\<rparr>, Ok ()))"
| "on_swarm_event E W ev (SE_NewExternalAddrCandidate address) d =
    Some (with_address_manager (add_external_address_candidate W address) d, Ok ())"
| "on_swarm_event E W ev (SE_ExpiredListenAddr address) d =
    Some (d\<lparr>sd_external_address_manager := map_option (on_expired_listen_addr address) (sd_external_address_manager d)\<rparr>, Ok ())"
| "on_swarm_event E W ev SE_Logged d = Some (d, Ok ())"

text \<open>An error of the Kademlia handler returns before the pruning of connections.\<close>

definition handle_swarm_events ::
  "crates \<Rightarrow> 's swarm_api \<Rightarrow> event_env \<Rightarrow> swarm_event \<Rightarrow> 's swarm_driver \<Rightarrow>
   ('s swarm_driver \<times> (unit, driver_error) result) option" where
  "handle_swarm_events E W ev e d =
    (case on_swarm_event E W ev e d of
       None \<Rightarrow> None
     | Some (d, Err err) \<Rightarrow> Some (d, Err err)
     | Some (d, Ok _) \<Rightarrow> Some (remove_outdated_connections W (ev_prune_clock ev) d, Ok ()))"

subsection \<open>The start\<close>

text \<open>The driver as it is built. The store, the swarm and the bootstrap are built before it; a client of relays
  keeps the health of its reservations when metrics are on.\<close>

definition swarm_driver_new ::
  "crates \<Rightarrow> (nat \<Rightarrow> instant) \<Rightarrow> peer_id list list \<Rightarrow> peer_id \<Rightarrow> bool \<Rightarrow> bool \<Rightarrow> bool \<Rightarrow> bool \<Rightarrow> bootstrap \<Rightarrow> node_record_store \<Rightarrow> 's \<Rightarrow>
   's swarm_driver" where
  "swarm_driver_new E now batches self_id is_local relay_client upnp_enabled metrics b st s =
    \<lparr>sd_swarm = s, sd_store = st, sd_dnd = dnd_default, sd_self_peer_id = self_id, sd_local = is_local,
     is_relay_client = relay_client, peers_in_rt = 0, sd_trigger = initial_bootstrap_trigger_new upnp_enabled,
     sd_network_discovery = network_discovery_new E (now 0) batches self_id, sd_bootstrap = b, sd_nwr = nwr_new (now 1),
     sd_external_address_manager =
       (if \<not> is_local \<and> \<not> relay_client then Some (external_address_manager_new self_id) else None),
     sd_relay_manager =
       (if relay_client then Some ((if metrics then set_reservation_health_metrics else id) (relay_manager_new self_id)) else None),
     connected_relay_clients = [], sd_fetcher = fetcher_new self_id, pending_get_closest_peers = [], pending_requests = [],
     dialed_peers = circular_vec_new 255, dial_queue = [], live_connected_peers = [],
     latest_established_connection_ids = [], hard_disk_write_error = 0, sd_bad_nodes = [], quotes_history = [],
     replication_targets = [], sd_last_replication = None, last_connection_pruning_time = now 2, peers_version = [],
     blocklist_cache = circular_vec_new BLOCKLIST_CACHE_SIZE, sd_events = [], sd_network_cmds = [], sd_local_cmds = [],
     sd_replies = [], sd_channel_msgs = [], sd_cache_tasks = []\<rparr>"

subsection \<open>The loop\<close>

text \<open>One turn of the loop takes a command, an event or a timer. The timer of the bootstrap is there until the
  bootstrap has ended; the period of the network discovery and the index of its round robin are kept between
  turns. Errors of handlers are logged. The powers of the number of peers, which set the period of the network
  discovery, and random numbers are arguments.\<close>

record 's driver_loop =
  lp_driver :: "'s swarm_driver"
  lp_bootstrap_interval :: bool
  lp_network_discover_period :: int
  lp_round_robin_index :: nat

datatype driver_turn =
    T_LocalCmd driver_env local_swarm_cmd
  | T_NetworkCmd driver_env network_swarm_cmd
  | T_SwarmEvent event_env swarm_event
  | T_DialQueue instant
  | T_Bootstrap
  | T_NetworkWideReplication instant bool
  | T_NetworkDiscovery "nat \<Rightarrow> int" nat "peer_id list list" "nat \<Rightarrow> instant"
  | T_SetFarthestRecord
  | T_RelayManager "nat \<Rightarrow> nat"

definition with_driver :: "('s swarm_driver \<Rightarrow> 's swarm_driver option) \<Rightarrow> 's driver_loop \<Rightarrow> 's driver_loop option" where
  "with_driver f l = map_option (\<lambda>d. l\<lparr>lp_driver := d\<rparr>) (f (lp_driver l))"

fun driver_turn_step ::
  "crates \<Rightarrow> disk_crates \<Rightarrow> 's swarm_api \<Rightarrow> driver_turn \<Rightarrow> 's driver_loop \<Rightarrow> 's driver_loop option" where
  "driver_turn_step E A W (T_LocalCmd en c) l = with_driver (\<lambda>d. map_option fst (handle_local_cmd E A W en c d)) l"
| "driver_turn_step E A W (T_NetworkCmd en c) l = with_driver (\<lambda>d. Some (fst (handle_network_cmd W E en c d))) l"
| "driver_turn_step E A W (T_SwarmEvent ev e) l = with_driver (\<lambda>d. map_option fst (handle_swarm_events E W ev e d)) l"
| "driver_turn_step E A W (T_DialQueue now) l = with_driver (\<lambda>d. Some (tick_dial_queue W now d)) l"
| "driver_turn_step E A W T_Bootstrap l =
    (if lp_bootstrap_interval l
     then (case tick_bootstrap W (lp_driver l) of
         (d, completed) \<Rightarrow> Some (l\<lparr>lp_driver := d, lp_bootstrap_interval := \<not> completed\<rparr>))
     else Some l)"
| "driver_turn_step E A W (T_NetworkWideReplication now channel_open) l =
     with_driver (\<lambda>d. Some (tick_network_wide_replication now channel_open d)) l"
| "driver_turn_step E A W (T_NetworkDiscovery powered rng batches now) l =
    map_option (\<lambda>(d, period, rr). l\<lparr>lp_driver := d, lp_network_discover_period := period, lp_round_robin_index := rr\<rparr>)
      (tick_network_discovery E W powered rng batches now (lp_network_discover_period l) (lp_round_robin_index l) (lp_driver l))"
| "driver_turn_step E A W T_SetFarthestRecord l = with_driver (\<lambda>d. Some (tick_set_farthest_record E W d)) l"
| "driver_turn_step E A W (T_RelayManager rng) l = with_driver (\<lambda>d. Some (tick_relay_manager W rng d)) l"

fun driver_loop_run ::
  "crates \<Rightarrow> disk_crates \<Rightarrow> 's swarm_api \<Rightarrow> driver_turn list \<Rightarrow> 's driver_loop \<Rightarrow> 's driver_loop option" where
  "driver_loop_run E A W [] l = Some l"
| "driver_loop_run E A W (t # ts) l = Option.bind (driver_turn_step E A W t l) (driver_loop_run E A W ts)"

end
