(* ===== verification/Spec2Isabelle.thy ===== *)
theory Spec2Isabelle
  imports Storage_Types Record_Store_Props Replication_Fetcher_Props Network_Wide_Replication Put_Validation_Props Closest_Peers
    Vault_Calls Version_Gate Do_Not_Disturb External_Address Relay_Manager Driver_Events
begin

text \<open>
  \<^bold>\<open>A verification of the Autonomi node.\<close> The program is a peer-to-peer storage network. A node keeps the
  records whose keys are close to its own address, takes uploads from clients after checking data and
  payment, exchanges records with its neighbours, and maintains its connections. The theories model the node
  (crates \<open>ant-node\<close>, \<open>ant-protocol\<close>, \<open>ant-evm\<close>, \<open>evmlib\<close> and \<open>ant-bootstrap\<close> under \<open>src/\<close>) as functions on
  explicit states.

  \<^bold>\<open>The parts and their theories\<close>

  \<^item> \<open>Prelude\<close>: results, byte strings, hash maps and ordered maps as association lists, durations.
  \<^item> \<open>Protocol\<close> (\<open>ant-protocol/src/lib.rs\<close>, \<open>storage/header.rs\<close>): addresses, distances, record kinds and headers.
  \<^item> \<open>Storage_Types\<close> (\<open>ant-protocol/src/storage/\<close>): chunks, scratchpads, pointers, graph entries.
  \<^item> \<open>Quoting\<close>, \<open>Payments\<close> (\<open>evmlib/src/quoting_metrics.rs\<close>, \<open>ant-evm/src/\<close>): metrics, token amounts, payment quotes and
    proofs of payment.
  \<^item> \<open>Merkle_Payment\<close>, \<open>Merkle_Payment_Props\<close> (\<open>evmlib/src/merkle_batch_payment.rs\<close>, \<open>ant-evm/src/merkle_payments/\<close>): the
    Merkle tree of addresses, reward pools, proofs and their verification, packed commitments.
  \<^item> \<open>Record_Store\<close>, \<open>Record_Store_Props\<close> (\<open>ant-node/src/networking/record_store.rs\<close>): the store of records with its
    index by distance, cache, pruning, files and quoting metrics.
  \<^item> \<open>Replication_Fetcher\<close>, \<open>Replication_Fetcher_Props\<close> (\<open>networking/replication_fetcher.rs\<close>): which records to fetch from
    which holders.
  \<^item> \<open>Network_Wide_Replication\<close> (\<open>networking/driver/network_wide_replication.rs\<close>): the slow cycle over all records.
  \<^item> \<open>Multiaddr\<close>, \<open>Addressing\<close>: addresses of peers and the functions that inspect and rebuild them.
  \<^item> \<open>Messages\<close>, \<open>Node_Actions\<close>, \<open>Vault_Calls\<close>, \<open>Closest_Peers\<close>: the queries and commands between nodes, the commands
    of a node to its own driver, the tasks that send them, the calls to the payment contract.
  \<^item> \<open>Put_Validation\<close>, \<open>Put_Validation_Props\<close> (\<open>ant-node/src/put_validation.rs\<close>): what a node does with an upload or a
    replicated record.
  \<^item> \<open>Version_Gate\<close> (\<open>ant-protocol/src/version_gate.rs\<close>): versions in agent strings.
  \<^item> \<open>Do_Not_Disturb\<close> (\<open>networking/driver/behaviour/do_not_disturb.rs\<close>): the protocol that asks a peer not to dial.
  \<^item> \<open>Swarm\<close>: the interface of the networking library the driver calls.
  \<^item> \<open>External_Address\<close>, \<open>Relay_Manager\<close> (\<open>networking/external_address.rs\<close>, \<open>relay_manager.rs\<close>).
  \<^item> \<open>Bootstrap_Cache\<close> (\<open>ant-bootstrap/src/\<close>): the cache of peers in memory and on disk, the contacts fetcher.
\<close>

text \<open>The number a record kind is written as is read back as the same kind, and every number
  that is read as a kind is the number that kind is written as: the two directions of
  \<open>RecordKind\<close>'s serde code are inverse to each other.\<close>

theorem record_kind_codec:
  "record_kind_deserialize n = Some k \<longleftrightarrow> record_kind_serialize k = n"
  using record_kind_deserialize_serialize record_kind_serialize_deserialize by blast

end
